(* ===== verification/Kzr_Prelude.thy ===== *)
theory Kzr_Prelude
  imports Main "HOL-Library.Word"
begin

text \<open>
  The ground the other theories stand on.

  \<^item> \<open>byte\<close> is the unit of every stream, \<open>std_string\<close> a \<^verbatim>\<open>std::string\<close> or
    \<^verbatim>\<open>std::vector<uint8_t>\<close> seen as the list of its elements (a \<^verbatim>\<open>char\<close> is its byte).
  \<^item> \<open>le_bytes\<close> and \<open>le_val\<close> are the reference little-endian representation of
    numbers: the specification side of every integer on the wire.
  \<^item> \<open>overlay\<close> is what a string of fixed size holds after bytes were copied to its start.
  \<^item> The collections \<open>stream_simps\<close> (what a stream operation does) and
    \<open>codec_simps\<close> (encoding and decoding equations) carry the proofs of the components.
\<close>

named_theorems stream_simps \<open>effect of the stream primitives\<close>
named_theorems codec_simps \<open>encoding and decoding equations\<close>

type_synonym byte = "8 word"
type_synonym std_string = "byte list"

section \<open>Little-endian numbers\<close>

primrec le_bytes :: "nat \<Rightarrow> nat \<Rightarrow> byte list" where
  "le_bytes 0 x = []"
| "le_bytes (Suc n) x = word_of_nat (x mod 256) # le_bytes n (x div 256)"

primrec le_val :: "byte list \<Rightarrow> nat" where
  "le_val [] = 0"
| "le_val (b # bs) = unat b + 256 * le_val bs"

section \<open>Copying into a string of fixed size\<close>

definition overlay :: "'a list \<Rightarrow> 'a list \<Rightarrow> 'a list" where
  "overlay bs old = take (length old) bs @ drop (length bs) old"

section \<open>Lemmas\<close>

lemma length_le_bytes [simp]: "length (le_bytes n x) = n"
  by (induction n arbitrary: x) simp_all

lemma unat_byte_of_nat [simp]: "unat (word_of_nat (x mod 256) :: byte) = x mod 256"
  by (simp add: unat_of_nat)

lemma unat_byte_less [simp]: "unat (b :: byte) < 256"
proof -
  have "unat b < 2 ^ LENGTH(8)" by (rule unsigned_less)
  then show ?thesis by simp
qed

lemma le_val_le_bytes: "le_val (le_bytes n x) = x mod 256 ^ n"
proof (induction n arbitrary: x)
  case 0
  show ?case by simp
next
  case (Suc n)
  then show ?case by (simp add: mod_mult2_eq)
qed

lemma le_bytes_le_val: "le_bytes (length bs) (le_val bs) = bs"
proof (induction bs)
  case Nil
  show ?case by simp
next
  case (Cons b bs)
  have "(unat b + 256 * le_val bs) mod 256 = unat b"
    by simp
  moreover have "(unat b + 256 * le_val bs) div 256 = le_val bs"
    by simp
  ultimately show ?case using Cons by simp
qed

lemma le_val_bound: "le_val bs < 256 ^ length bs"
proof (induction bs)
  case Nil
  show ?case by simp
next
  case (Cons b bs)
  have "unat b + 256 * le_val bs < 256 * Suc (le_val bs)"
    using unat_byte_less [of b] by simp
  also have "\<dots> \<le> 256 * 256 ^ length bs"
    using Cons by (intro mult_le_mono2) simp
  finally show ?case by simp
qed

lemma length_overlay [simp]: "length (overlay bs old) = length old"
  by (auto simp: overlay_def)

lemma overlay_Nil2 [simp]: "overlay bs [] = []"
  by (simp add: overlay_def)

lemma overlay_Nil1 [simp]: "overlay [] old = old"
  by (simp add: overlay_def)

lemma overlay_same_length: "length bs = length old \<Longrightarrow> overlay bs old = bs"
  by (simp add: overlay_def)

lemma overlay_nth:
  "i < length old \<Longrightarrow> overlay bs old ! i = (if i < length bs then bs ! i else old ! i)"
  by (auto simp: overlay_def nth_append)

lemma unat_word_of_nat_eq_iff:
  "unat (word_of_nat n :: 'a::len word) = n \<longleftrightarrow> n < 2 ^ LENGTH('a)"
  by (metis unat_of_nat unsigned_less mod_less)

end
