(* ===== verification/Core_Bits.thy ===== *)
theory Core_Bits
  imports Kzr_Prelude
begin

text \<open>
  \<^verbatim>\<open>Core.h\<close>: reading and replacing a field of a bit vector. The templates are
  instantiated with unsigned integer types \<open>T\<close> (here \<open>'a word\<close>) and \<open>R\<close> (here
  \<open>'b word\<close>); the versions with \<open>mask\<close> and \<open>shift\<close> as template arguments and the
  versions with them as function arguments have the same body, so one definition stands for
  both. A shift by the width of the type or more is undefined in C++: the lemmas that depend
  on the shift ask for the field to lie inside the word.
\<close>

unbundle bit_operations_syntax

definition decodeBits :: "'a::len word \<Rightarrow> 'a word \<Rightarrow> 'a word \<Rightarrow> 'b::len word" where
  "decodeBits value msk shift = ucast (drop_bit (unat shift) (value AND msk))"

definition encodeBits :: "'a::len word \<Rightarrow> 'b::len word \<Rightarrow> 'a word \<Rightarrow> 'a word \<Rightarrow> 'a word" where
  "encodeBits value ins msk shift =
     (value AND NOT msk) OR (push_bit (unat shift) (ucast ins) AND msk)"

text \<open>The mask of a field of \<open>n\<close> bits that starts at bit \<open>s\<close>.\<close>

definition field_mask :: "nat \<Rightarrow> nat \<Rightarrow> 'a::len word" where
  "field_mask n s = push_bit s (mask n)"

section \<open>Lemmas\<close>

lemma bit_encodeBits:
  "bit (encodeBits v x m s :: 'a::len word) i \<longleftrightarrow>
     (if bit m i then unat s \<le> i \<and> i < LENGTH('a) \<and> bit x (i - unat s) else bit v i)"
  by (auto simp: encodeBits_def bit_simps dest: bit_imp_le_length)

lemma bit_decodeBits:
  "bit (decodeBits v m s :: 'b::len word) i \<longleftrightarrow>
     i < LENGTH('b) \<and> bit v (unat s + i) \<and> bit m (unat s + i)"
  by (auto simp: decodeBits_def bit_simps)

lemma bit_field_mask:
  "bit (field_mask n s :: 'a::len word) i \<longleftrightarrow> s \<le> i \<and> i < s + n \<and> i < LENGTH('a)"
  by (auto simp: field_mask_def bit_simps)

text \<open>
  C37. A field of a bit vector. After a value has been stored in a field of \<open>n\<close> bits
  (inside the word, no wider than the value's type), reading the field gives the low
  \<open>n\<close> bits of that value: all of it when it fits, whatever the word held before. Storing
  leaves every bit outside the field alone, and only the last of two stores to it counts.
\<close>

theorem decodeBits_encodeBits:
  fixes v :: "'a::len word" and x y :: "'b::len word"
  assumes "unat s + n \<le> LENGTH('a)" and "n \<le> LENGTH('b)"
  defines "m \<equiv> field_mask n (unat s)"
  shows "decodeBits (encodeBits v x m s) m s = take_bit n x \<and>
    encodeBits v x m s AND NOT m = v AND NOT m \<and>
    encodeBits (encodeBits v x m s) y m s = encodeBits v y m s"
proof (intro conjI)
  show "decodeBits (encodeBits v x m s) m s = take_bit n x"
    using assms(1,2) unfolding m_def
    by (intro bit_word_eqI) (auto simp: bit_decodeBits bit_encodeBits bit_field_mask bit_simps)
qed (auto intro!: bit_word_eqI simp: bit_encodeBits bit_simps)

theorem decodeBits_encodeBits_witness:
  "decodeBits (encodeBits (0xFFFF :: 16 word) (0xA5 :: 8 word) (field_mask 4 (unat (8 :: 16 word))) 8)
      (field_mask 4 (unat (8 :: 16 word))) 8 = (take_bit 4 0xA5 :: 8 word)"
  using decodeBits_encodeBits [of "8 :: 16 word" 4 "0xFFFF :: 16 word" "0xA5 :: 8 word" 0] by simp

end
