(* ===== verification/Outcome.thy ===== *)
theory Outcome
  imports Kzr_Prelude
begin

text \<open>
  How an operation of the library ends.

  \<^item> \<^verbatim>\<open>Exception.h\<close> and \<^verbatim>\<open>Exception.cc\<close>: an exception is the message its constructor
    concatenated from its arguments (\<open>Exception_ctor\<close>); the arguments are string literals and
    unsigned integers, printed in decimal as \<^verbatim>\<open>operator<<\<close> prints them.
  \<^item> \<open>result\<close>: an operation returns a value, throws, or has undefined behaviour (it uses
    a local variable that was never written).
  \<^item> \<open>action\<close>: an operation on an object reached by reference takes the object's state
    and gives back the result and the new state. The state is given back on every way out:
    what was written before an exception stays written.
  \<^item> The sequencing operators \<open>bindM\<close>, \<open>thenM\<close> and \<open>seqM\<close> stop at the first
    operation that does not return; \<open>seqM\<close> is a chain such as
    \<^verbatim>\<open>msg << a << b << c\<close> or the statements of a function body.
\<close>

section \<open>Exceptions\<close>

record Exception =
  exn_message :: string

datatype exn_arg = Lit string | Num nat

fun show_nat :: "nat \<Rightarrow> string" where
  "show_nat n = (if n < 10 then [char_of (48 + n)]
     else show_nat (n div 10) @ [char_of (48 + n mod 10)])"

declare show_nat.simps [simp del]

primrec show_arg :: "exn_arg \<Rightarrow> string" where
  "show_arg (Lit s) = s"
| "show_arg (Num n) = show_nat n"

definition Exception_ctor :: "exn_arg list \<Rightarrow> Exception" where
  "Exception_ctor args = \<lparr>exn_message = concat (map show_arg args)\<rparr>"

definition message :: "Exception \<Rightarrow> string" where
  "message e = exn_message e"

definition takeWhile_nul :: "string \<Rightarrow> string" where
  "takeWhile_nul = takeWhile (\<lambda>c. c \<noteq> char_of (0 :: nat))"

text \<open>\<^verbatim>\<open>what()\<close> gives \<^verbatim>\<open>c_str()\<close>: a C reader sees the message up to the first NUL.\<close>

definition what :: "Exception \<Rightarrow> string" where
  "what e = takeWhile_nul (exn_message e)"

section \<open>Results and actions\<close>

datatype 'a result = Ok 'a | Throw Exception | Undef

type_synonym ('s, 'a) action = "'s \<Rightarrow> 'a result \<times> 's"

definition retM :: "'a \<Rightarrow> ('s, 'a) action" where
  "retM a s = (Ok a, s)"

definition throwM :: "exn_arg list \<Rightarrow> ('s, 'a) action" where
  "throwM args s = (Throw (Exception_ctor args), s)"

definition bindM :: "('s, 'a) action \<Rightarrow> ('a \<Rightarrow> ('s, 'b) action) \<Rightarrow> ('s, 'b) action" where
  "bindM m f s =
     (case m s of (r, s') \<Rightarrow>
        (case r of Ok a \<Rightarrow> f a s' | Throw e \<Rightarrow> (Throw e, s') | Undef \<Rightarrow> (Undef, s')))"

definition thenM :: "('s, unit) action \<Rightarrow> ('s, 'b) action \<Rightarrow> ('s, 'b) action" where
  "thenM m k = bindM m (\<lambda>_. k)"

primrec seqM :: "('s, unit) action list \<Rightarrow> ('s, unit) action" where
  "seqM [] = retM ()"
| "seqM (m # ms) = thenM m (seqM ms)"

text \<open>A state change that cannot fail, as an action.\<close>

definition modM :: "('s \<Rightarrow> 's) \<Rightarrow> ('s, unit) action" where
  "modM f s = (Ok (), f s)"

primrec is_Throw :: "'a result \<Rightarrow> bool" where
  "is_Throw (Ok a) = False"
| "is_Throw (Throw e) = True"
| "is_Throw Undef = False"

primrec is_Ok :: "'a result \<Rightarrow> bool" where
  "is_Ok (Ok a) = True"
| "is_Ok (Throw e) = False"
| "is_Ok Undef = False"

section \<open>Lemmas\<close>

lemma retM_apply [simp]: "retM a s = (Ok a, s)"
  by (simp add: retM_def)

lemma throwM_apply [simp]: "throwM args s = (Throw (Exception_ctor args), s)"
  by (simp add: throwM_def)

lemma modM_apply [simp]: "modM f s = (Ok (), f s)"
  by (simp add: modM_def)

lemma bindM_Ok [simp]: "m s = (Ok a, s') \<Longrightarrow> bindM m f s = f a s'"
  by (simp add: bindM_def)

lemma bindM_Throw [simp]: "m s = (Throw e, s') \<Longrightarrow> bindM m f s = (Throw e, s')"
  by (simp add: bindM_def)

lemma bindM_Undef [simp]: "m s = (Undef, s') \<Longrightarrow> bindM m f s = (Undef, s')"
  by (simp add: bindM_def)

lemma thenM_Ok [simp]: "m s = (Ok u, s') \<Longrightarrow> thenM m k s = k s'"
  by (simp add: thenM_def)

lemma thenM_Throw [simp]: "m s = (Throw e, s') \<Longrightarrow> thenM m k s = (Throw e, s')"
  by (simp add: thenM_def)

lemma thenM_Undef [simp]: "m s = (Undef, s') \<Longrightarrow> thenM m k s = (Undef, s')"
  by (simp add: thenM_def)

lemma bindM_split:
  "P (bindM m f s) \<longleftrightarrow>
     (\<forall>a s'. m s = (Ok a, s') \<longrightarrow> P (f a s')) \<and>
     (\<forall>e s'. m s = (Throw e, s') \<longrightarrow> P (Throw e, s')) \<and>
     (\<forall>s'. m s = (Undef, s') \<longrightarrow> P (Undef, s'))"
  by (simp add: bindM_def split: prod.split result.split)

lemma bindM_Ok_iff:
  "bindM m f s = (Ok b, s') \<longleftrightarrow> (\<exists>a s1. m s = (Ok a, s1) \<and> f a s1 = (Ok b, s'))"
  by (simp add: bindM_def split: prod.split result.split)

lemma seqM_append: "seqM (ms @ ns) = thenM (seqM ms) (seqM ns)"
proof (induction ms)
  case Nil
  show ?case by (rule ext) (simp add: thenM_def bindM_def)
next
  case (Cons m ms)
  then show ?case
    by (simp add: thenM_def bindM_def fun_eq_iff split: prod.split result.split)
qed

lemma is_Throw_iff: "is_Throw r \<longleftrightarrow> (\<exists>e. r = Throw e)"
  by (cases r) auto

lemma is_Ok_iff: "is_Ok r \<longleftrightarrow> (\<exists>a. r = Ok a)"
  by (cases r) auto

lemma exn_message_ctor [simp]: "exn_message (Exception_ctor args) = concat (map show_arg args)"
  by (simp add: Exception_ctor_def)

end
