(* ===== verification/Operations.thy ===== *)
theory Operations
  imports Kzr_Prelude
begin

text \<open>
  \<^verbatim>\<open>Operations.h\<close>: the operation codes of 9P2000.

  \<^item> \<open>Operation\<close> is an enumeration over \<^verbatim>\<open>uint8_t\<close>; a cast from a byte
    (\<^verbatim>\<open>static_cast<Operation>(temp)\<close>) may give a value that is no enumerator, so an
    operation is a byte and the enumerators are names of bytes.
  \<^item> \<open>ConceptualOperation\<close> is only made by naming an enumerator or by \<open>convert\<close>: it is
    a datatype.
  \<^item> The functions generated from the table \<^verbatim>\<open>KZR_PROTOCOL_KINDS\<close> are written out, in the
    order of the table.
\<close>

unbundle bit_operations_syntax

type_synonym Operation = byte

abbreviation TVersion :: Operation where "TVersion \<equiv> 100"
abbreviation RVersion :: Operation where "RVersion \<equiv> 101"
abbreviation TAuth :: Operation where "TAuth \<equiv> 102"
abbreviation RAuth :: Operation where "RAuth \<equiv> 103"
abbreviation TAttach :: Operation where "TAttach \<equiv> 104"
abbreviation RAttach :: Operation where "RAttach \<equiv> 105"
abbreviation TError :: Operation where "TError \<equiv> 106"
abbreviation RError :: Operation where "RError \<equiv> 107"
abbreviation TFlush :: Operation where "TFlush \<equiv> 108"
abbreviation RFlush :: Operation where "RFlush \<equiv> 109"
abbreviation TWalk :: Operation where "TWalk \<equiv> 110"
abbreviation RWalk :: Operation where "RWalk \<equiv> 111"
abbreviation TOpen :: Operation where "TOpen \<equiv> 112"
abbreviation ROpen :: Operation where "ROpen \<equiv> 113"
abbreviation TCreate :: Operation where "TCreate \<equiv> 114"
abbreviation RCreate :: Operation where "RCreate \<equiv> 115"
abbreviation TRead :: Operation where "TRead \<equiv> 116"
abbreviation RRead :: Operation where "RRead \<equiv> 117"
abbreviation TWrite :: Operation where "TWrite \<equiv> 118"
abbreviation RWrite :: Operation where "RWrite \<equiv> 119"
abbreviation TClunk :: Operation where "TClunk \<equiv> 120"
abbreviation RClunk :: Operation where "RClunk \<equiv> 121"
abbreviation TRemove :: Operation where "TRemove \<equiv> 122"
abbreviation RRemove :: Operation where "RRemove \<equiv> 123"
abbreviation TStat :: Operation where "TStat \<equiv> 124"
abbreviation RStat :: Operation where "RStat \<equiv> 125"
abbreviation TWStat :: Operation where "TWStat \<equiv> 126"
abbreviation RWStat :: Operation where "RWStat \<equiv> 127"
abbreviation TBad :: Operation where "TBad \<equiv> 0xFE"
abbreviation RBad :: Operation where "RBad \<equiv> 0xFF"

datatype ConceptualOperation =
    Undefined | Version | Auth | Attach | Error | Flush | Walk | Open | Create
  | Read | Write | Clunk | Remove | Stat | WStat

definition convert :: "Operation \<Rightarrow> ConceptualOperation" where
  "convert op =
    (if op = TVersion \<or> op = RVersion then Version
     else if op = TAuth \<or> op = RAuth then Auth
     else if op = TAttach \<or> op = RAttach then Attach
     else if op = TError \<or> op = RError then Error
     else if op = TFlush \<or> op = RFlush then Flush
     else if op = TWalk \<or> op = RWalk then Walk
     else if op = TOpen \<or> op = ROpen then Open
     else if op = TCreate \<or> op = RCreate then Create
     else if op = TRead \<or> op = RRead then Read
     else if op = TWrite \<or> op = RWrite then Write
     else if op = TClunk \<or> op = RClunk then Clunk
     else if op = TRemove \<or> op = RRemove then Remove
     else if op = TStat \<or> op = RStat then Stat
     else if op = TWStat \<or> op = RWStat then WStat
     else Undefined)"

fun getTMessageForm :: "ConceptualOperation \<Rightarrow> Operation" where
  "getTMessageForm Version = TVersion"
| "getTMessageForm Auth = TAuth"
| "getTMessageForm Attach = TAttach"
| "getTMessageForm Error = TError"
| "getTMessageForm Flush = TFlush"
| "getTMessageForm Walk = TWalk"
| "getTMessageForm Open = TOpen"
| "getTMessageForm Create = TCreate"
| "getTMessageForm Read = TRead"
| "getTMessageForm Write = TWrite"
| "getTMessageForm Clunk = TClunk"
| "getTMessageForm Remove = TRemove"
| "getTMessageForm Stat = TStat"
| "getTMessageForm WStat = TWStat"
| "getTMessageForm Undefined = TBad"

fun getRMessageForm :: "ConceptualOperation \<Rightarrow> Operation" where
  "getRMessageForm Version = RVersion"
| "getRMessageForm Auth = RAuth"
| "getRMessageForm Attach = RAttach"
| "getRMessageForm Error = RError"
| "getRMessageForm Flush = RFlush"
| "getRMessageForm Walk = RWalk"
| "getRMessageForm Open = ROpen"
| "getRMessageForm Create = RCreate"
| "getRMessageForm Read = RRead"
| "getRMessageForm Write = RWrite"
| "getRMessageForm Clunk = RClunk"
| "getRMessageForm Remove = RRemove"
| "getRMessageForm Stat = RStat"
| "getRMessageForm WStat = RWStat"
| "getRMessageForm Undefined = RBad"

definition isEven :: "'a::len word \<Rightarrow> bool" where
  "isEven value \<longleftrightarrow> value AND 1 = 0"

definition isOdd :: "'a::len word \<Rightarrow> bool" where
  "isOdd value \<longleftrightarrow> value AND 1 \<noteq> 0"

definition isRequest :: "Operation \<Rightarrow> bool" where
  "isRequest op \<longleftrightarrow> isEven op"

definition isResponse :: "Operation \<Rightarrow> bool" where
  "isResponse op \<longleftrightarrow> isOdd op"

fun isSessionClass :: "ConceptualOperation \<Rightarrow> bool" where
  "isSessionClass Version = True"
| "isSessionClass Auth = True"
| "isSessionClass Attach = True"
| "isSessionClass Flush = True"
| "isSessionClass Error = True"
| "isSessionClass _ = False"

definition isSessionClass_op :: "Operation \<Rightarrow> bool" where
  "isSessionClass_op op = isSessionClass (convert op)"

fun isFileClass :: "ConceptualOperation \<Rightarrow> bool" where
  "isFileClass Walk = True"
| "isFileClass Open = True"
| "isFileClass Create = True"
| "isFileClass Read = True"
| "isFileClass Write = True"
| "isFileClass Clunk = True"
| "isFileClass _ = False"

definition isFileClass_op :: "Operation \<Rightarrow> bool" where
  "isFileClass_op op = isFileClass (convert op)"

fun isMetadataClass :: "ConceptualOperation \<Rightarrow> bool" where
  "isMetadataClass Stat = True"
| "isMetadataClass WStat = True"
| "isMetadataClass _ = False"

definition isMetadataClass_op :: "Operation \<Rightarrow> bool" where
  "isMetadataClass_op op = isMetadataClass (convert op)"

definition expectedResponseKind :: "Operation \<Rightarrow> Operation" where
  "expectedResponseKind op =
    (if isResponse op then RBad
     else if op = TVersion then RVersion
     else if op = TAuth then RAuth
     else if op = TAttach then RAttach
     else if op = TError then RError
     else if op = TFlush then RFlush
     else if op = TWalk then RWalk
     else if op = TOpen then ROpen
     else if op = TCreate then RCreate
     else if op = TRead then RRead
     else if op = TWrite then RWrite
     else if op = TClunk then RClunk
     else if op = TRemove then RRemove
     else if op = TStat then RStat
     else if op = TWStat then RWStat
     else RBad)"

section \<open>Lemmas\<close>

lemma convert_forms [simp]:
  "convert (getTMessageForm c) = c" "convert (getRMessageForm c) = c"
  by (cases c; simp add: convert_def)+

lemma isRequest_forms [simp]:
  "isRequest (getTMessageForm c)" "\<not> isRequest (getRMessageForm c)"
  by (cases c; simp add: isRequest_def isEven_def)+

lemma isResponse_iff: "isResponse op \<longleftrightarrow> \<not> isRequest op"
  by (simp add: isRequest_def isResponse_def isEven_def isOdd_def)

lemma convert_cases:
  "convert op = Undefined \<or> op = getTMessageForm (convert op) \<or> op = getRMessageForm (convert op)"
  by (simp add: convert_def)

lemma form_unique:
  "convert op \<noteq> Undefined \<Longrightarrow>
     op = (if isRequest op then getTMessageForm (convert op) else getRMessageForm (convert op))"
  using convert_cases [of op] by (metis isRequest_forms)

lemma expectedResponseKind_form:
  "expectedResponseKind op = (if isRequest op then getRMessageForm (convert op) else RBad)"
  by (simp add: expectedResponseKind_def isResponse_iff convert_def)
    (auto simp: isRequest_def isEven_def)

text \<open>
  C35. Operation codes, concepts and responses. The two message forms of a concept are a request
  and a response that both convert back to it; an operation code is one of the two forms of
  its concept, chosen by its parity, unless it is not an operation of the protocol. For every one
  of the 256 codes, the expected response is the response form of a request's concept, and the bad
  response for a response or an unknown code.
\<close>

theorem operation_codes:
  "convert (getTMessageForm c) = c \<and> convert (getRMessageForm c) = c \<and>
   isRequest (getTMessageForm c) \<and> isResponse (getRMessageForm c) \<and>
   (convert op = Undefined \<or>
    op = (if isRequest op then getTMessageForm (convert op) else getRMessageForm (convert op))) \<and>
   expectedResponseKind op = (if isRequest op then getRMessageForm (convert op) else RBad)"
  unfolding expectedResponseKind_form by (simp add: isResponse_iff) (metis form_unique)

text \<open>
  C36. The classes. Every operation of the protocol belongs to exactly one of the session, file
  and metadata classes, except \<open>Remove\<close>, which belongs to none.
\<close>

theorem operation_classes:
  "length (filter id [isSessionClass_op op, isFileClass_op op, isMetadataClass_op op]) =
     (if convert op \<in> {Undefined, Remove} then 0 else 1)"
  by (cases "convert op") (simp_all add: isSessionClass_op_def isFileClass_op_def isMetadataClass_op_def)

end
