(* ===== verification/Message_Stream.thy ===== *)
theory Message_Stream
  imports Outcome Operations
begin

text \<open>
  \<^verbatim>\<open>MessageStream.h\<close> and \<^verbatim>\<open>MessageStream.cc\<close>: the memory stream messages are encoded
  to and decoded from.

  The class has one member, a \<^verbatim>\<open>std::stringstream\<close>, modelled by the record
  \<open>MessageStream\<close>: the characters, the get and the put position, the three state bits and
  the size at which the buffer can grow no more (\<^verbatim>\<open>max_size\<close> or the memory at hand: the
  stream then sets \<^verbatim>\<open>badbit\<close>). The functions \<open>ss_\<dots>\<close> are the stringstream's own, with
  their sentries: on a stream that is not good they only set \<^verbatim>\<open>failbit\<close>.

  Decoders are actions. A decoder of an integer reads into an uninitialised local array; when the
  stream is short the array keeps indeterminate bytes and using them is undefined behaviour,
  which is the result \<open>Undef\<close>. \<^verbatim>\<open>decode(std::string&)\<close> calls \<^verbatim>\<open>reserve\<close>, which
  changes the capacity of the string and not its size: the bytes read beyond the size go to
  reserved storage that is no part of the string's value.

  \<^verbatim>\<open>decode(uint64_t&)\<close> has two calls that read the stream as the arguments of one function
  call, and C++ leaves their order open: \<open>arg_order\<close> is a parameter of every decoder that
  comes to it.
\<close>

unbundle bit_operations_syntax

section \<open>Constants and building of integers\<close>

definition notag :: "16 word" where
  "notag = ucast (NOT (0 :: 32 word))"

definition version9pString :: string where
  "version9pString = ''9P''"

definition version9p2000String :: string where
  "version9p2000String = ''9P2000''"

definition build_u8 :: "byte \<Rightarrow> byte \<Rightarrow> 16 word" where
  "build_u8 lower upper = push_bit 8 (ucast upper) OR ucast lower"

definition build_u16 :: "16 word \<Rightarrow> 16 word \<Rightarrow> 32 word" where
  "build_u16 lower upper = push_bit 16 (ucast upper) OR ucast lower"

definition build_u8x4 :: "byte \<Rightarrow> byte \<Rightarrow> byte \<Rightarrow> byte \<Rightarrow> 32 word" where
  "build_u8x4 lowest lower high highest = build_u16 (build_u8 lowest lower) (build_u8 high highest)"

definition build_u32 :: "32 word \<Rightarrow> 32 word \<Rightarrow> 64 word" where
  "build_u32 lower upper = push_bit 32 (ucast upper) OR ucast lower"

section \<open>The stringstream\<close>

record MessageStream =
  ss_buf :: "byte list"
  ss_get :: nat
  ss_put :: nat
  ss_eof :: bool
  ss_fail :: bool
  ss_bad :: bool
  ss_max :: nat

definition ss_good :: "MessageStream \<Rightarrow> bool" where
  "ss_good s \<longleftrightarrow> \<not> ss_eof s \<and> \<not> ss_fail s \<and> \<not> ss_bad s"

definition ss_new :: "nat \<Rightarrow> MessageStream" where
  "ss_new m = \<lparr>ss_buf = [], ss_get = 0, ss_put = 0,
     ss_eof = False, ss_fail = False, ss_bad = False, ss_max = m\<rparr>"

definition ss_sputc :: "byte \<Rightarrow> MessageStream \<Rightarrow> MessageStream option" where
  "ss_sputc b s =
     (if ss_put s < length (ss_buf s)
      then Some (s\<lparr>ss_buf := (ss_buf s)[ss_put s := b], ss_put := Suc (ss_put s)\<rparr>)
      else if ss_put s < ss_max s
      then Some (s\<lparr>ss_buf := ss_buf s @ [b], ss_put := Suc (ss_put s)\<rparr>)
      else None)"

definition ss_put_char :: "byte \<Rightarrow> MessageStream \<Rightarrow> MessageStream" where
  "ss_put_char b s =
     (if ss_good s then
        (case ss_sputc b s of Some s' \<Rightarrow> s' | None \<Rightarrow> s\<lparr>ss_bad := True\<rparr>)
      else s\<lparr>ss_fail := True\<rparr>)"

primrec ss_sputn :: "byte list \<Rightarrow> MessageStream \<Rightarrow> MessageStream" where
  "ss_sputn [] s = s"
| "ss_sputn (b # bs) s =
     (case ss_sputc b s of Some s' \<Rightarrow> ss_sputn bs s' | None \<Rightarrow> s\<lparr>ss_bad := True\<rparr>)"

definition ss_write :: "byte list \<Rightarrow> MessageStream \<Rightarrow> MessageStream" where
  "ss_write bs s = (if ss_good s then ss_sputn bs s else s\<lparr>ss_fail := True\<rparr>)"

definition ss_read :: "nat \<Rightarrow> MessageStream \<Rightarrow> byte list \<times> MessageStream" where
  "ss_read n s =
     (if ss_good s then
        let bs = take n (drop (ss_get s) (ss_buf s));
            s' = s\<lparr>ss_get := ss_get s + length bs\<rparr>
        in (bs, if length bs < n then s'\<lparr>ss_eof := True, ss_fail := True\<rparr> else s')
      else ([], s\<lparr>ss_fail := True\<rparr>))"

definition ss_get_char :: "MessageStream \<Rightarrow> byte option \<times> MessageStream" where
  "ss_get_char s =
     (if ss_good s then
        (if ss_get s < length (ss_buf s)
         then (Some (ss_buf s ! ss_get s), s\<lparr>ss_get := Suc (ss_get s)\<rparr>)
         else (None, s\<lparr>ss_eof := True, ss_fail := True\<rparr>))
      else (None, s\<lparr>ss_fail := True\<rparr>))"

text \<open>\<^verbatim>\<open>std::stringstream::peek\<close> gives an \<^verbatim>\<open>int\<close>: the next byte, or \<open>-1\<close>.\<close>

definition ss_peek :: "MessageStream \<Rightarrow> int \<times> MessageStream" where
  "ss_peek s =
     (if ss_good s then
        (if ss_get s < length (ss_buf s)
         then (uint (ss_buf s ! ss_get s), s)
         else (-1, s\<lparr>ss_eof := True\<rparr>))
      else (-1, s\<lparr>ss_fail := True\<rparr>))"

definition ss_set_str :: "byte list \<Rightarrow> MessageStream \<Rightarrow> MessageStream" where
  "ss_set_str bs s = s\<lparr>ss_buf := bs, ss_get := 0, ss_put := 0\<rparr>"

definition ss_clear :: "MessageStream \<Rightarrow> MessageStream" where
  "ss_clear s = s\<lparr>ss_eof := False, ss_fail := False, ss_bad := False\<rparr>"

section \<open>Integers\<close>

datatype arg_order = LeftFirst | RightFirst

definition decode_u8 :: "(MessageStream, byte) action" where
  "decode_u8 s =
     (case ss_get_char s of (Some c, s') \<Rightarrow> (Ok c, s') | (None, s') \<Rightarrow> (Undef, s'))"

definition encode_u8 :: "byte \<Rightarrow> (MessageStream, unit) action" where
  "encode_u8 v = modM (ss_put_char v)"

definition decode_u16 :: "(MessageStream, 16 word) action" where
  "decode_u16 s =
     (case ss_read 2 s of (bs, s') \<Rightarrow>
        if length bs = 2 then (Ok (build_u8 (bs ! 0) (bs ! 1)), s') else (Undef, s'))"

definition encode_u16 :: "16 word \<Rightarrow> (MessageStream, unit) action" where
  "encode_u16 v = seqM [modM (ss_put_char (ucast v)), modM (ss_put_char (ucast (drop_bit 8 v)))]"

definition decode_u32 :: "(MessageStream, 32 word) action" where
  "decode_u32 s =
     (case ss_read 4 s of (bs, s') \<Rightarrow>
        if length bs = 4 then (Ok (build_u8x4 (bs ! 0) (bs ! 1) (bs ! 2) (bs ! 3)), s')
        else (Undef, s'))"

definition encode_u32 :: "32 word \<Rightarrow> (MessageStream, unit) action" where
  "encode_u32 v = seqM [encode_u16 (ucast v), encode_u16 (ucast (drop_bit 16 v))]"

definition decode_u64 :: "arg_order \<Rightarrow> (MessageStream, 64 word) action" where
  "decode_u64 ord =
     bindM decode_u32 (\<lambda>first. bindM decode_u32 (\<lambda>second.
       retM (case ord of LeftFirst \<Rightarrow> build_u32 first second
                       | RightFirst \<Rightarrow> build_u32 second first)))"

definition encode_u64 :: "64 word \<Rightarrow> (MessageStream, unit) action" where
  "encode_u64 v = seqM [encode_u32 (ucast v), encode_u32 (ucast (drop_bit 32 v))]"

section \<open>Strings and vectors\<close>

definition decode_string :: "std_string \<Rightarrow> (MessageStream, std_string) action" where
  "decode_string data =
     bindM decode_u16 (\<lambda>len s.
       (case ss_read (unat len) s of (bs, s') \<Rightarrow> (Ok (overlay bs data), s')))"

definition encode_string :: "std_string \<Rightarrow> (MessageStream, unit) action" where
  "encode_string value =
     (let len = word_of_nat (length value) :: 16 word in
      if unat len \<noteq> length value
      then throwM [Lit ''Attempted to encode a string of '', Num (length value),
                   Lit '' characters when '', Num (unat (- 1 :: 16 word)),
                   Lit '' is the maximum allowed!'']
      else thenM (encode_u16 len) (seqM (map encode_u8 value)))"

definition encode_vector ::
  "('a \<Rightarrow> (MessageStream, unit) action) \<Rightarrow> 'a list \<Rightarrow> (MessageStream, unit) action" where
  "encode_vector enc collec =
     (let len = word_of_nat (length collec) :: 16 word in
      if unat len \<noteq> length collec
      then throwM [Lit ''Attempted to encode a std::vector<T> of '', Num (length collec),
                   Lit '' elements when '', Num (unat (- 1 :: 16 word)),
                   Lit '' is the maximum allowed!'']
      else thenM (encode_u16 len) (seqM (map enc collec)))"

text \<open>
  The loop of \<^verbatim>\<open>operator>>(MessageStream&, std::vector<T>&)\<close>: each turn appends a
  value-initialised element and decodes into it.
\<close>

primrec decode_elements ::
  "('a \<Rightarrow> (MessageStream, 'a) action) \<Rightarrow> 'a \<Rightarrow> nat \<Rightarrow> 'a list \<Rightarrow> (MessageStream, 'a list) action" where
  "decode_elements dec fresh 0 collec = retM collec"
| "decode_elements dec fresh (Suc n) collec =
     bindM (dec fresh) (\<lambda>x. decode_elements dec fresh n (collec @ [x]))"

definition decode_vector ::
  "('a \<Rightarrow> (MessageStream, 'a) action) \<Rightarrow> 'a \<Rightarrow> 'a list \<Rightarrow> (MessageStream, 'a list) action" where
  "decode_vector dec fresh collec =
     bindM decode_u16 (\<lambda>len. decode_elements dec fresh (unat len) collec)"

section \<open>The rest of the class\<close>

definition MessageStream_str :: "MessageStream \<Rightarrow> std_string" where
  "MessageStream_str s = ss_buf s"

definition MessageStream_set_str :: "std_string \<Rightarrow> MessageStream \<Rightarrow> MessageStream" where
  "MessageStream_set_str bs s = ss_set_str bs s"

definition MessageStream_reset :: "MessageStream \<Rightarrow> MessageStream" where
  "MessageStream_reset s = ss_set_str [] s"

definition MessageStream_length :: "MessageStream \<Rightarrow> nat" where
  "MessageStream_length s = length (ss_buf s)"

definition MessageStream_write :: "byte list \<Rightarrow> (MessageStream, unit) action" where
  "MessageStream_write bs s =
     (let s' = ss_write bs s in
      if ss_bad s' then throwM [Lit ''bad bit set during write!''] s' else (Ok (), s'))"

text \<open>
  \<^verbatim>\<open>read(char*, count)\<close> gives the number of bytes it read and, here, the bytes themselves
  (what the call stored at its pointer); \<^verbatim>\<open>read(std::string&)\<close> fills a string up to its size.
\<close>

definition MessageStream_read :: "nat \<Rightarrow> MessageStream \<Rightarrow> (nat \<times> byte list) \<times> MessageStream" where
  "MessageStream_read n s =
     (case ss_read n s of (bs, s') \<Rightarrow>
        if ss_fail s' \<or> ss_bad s' \<or> ss_eof s' then ((length bs, bs), ss_clear s')
        else ((n, bs), s'))"

definition MessageStream_read_string ::
  "std_string \<Rightarrow> MessageStream \<Rightarrow> (nat \<times> std_string) \<times> MessageStream" where
  "MessageStream_read_string str s =
     (case MessageStream_read (length str) s of ((n, bs), s') \<Rightarrow> ((n, overlay bs str), s'))"

text \<open>
  \<^verbatim>\<open>peek\<close> compares the character it got with \<^verbatim>\<open>_storage.eof()\<close>, the state bit of the
  stream (0 or 1 as a number), and not with \<^verbatim>\<open>traits_type::eof()\<close> (\<open>-1\<close>).
\<close>

definition MessageStream_peek :: "MessageStream \<Rightarrow> byte option \<times> MessageStream" where
  "MessageStream_peek s =
     (case ss_peek s of (result, s') \<Rightarrow>
        (if result \<noteq> of_bool (ss_eof s') then Some (word_of_int result) else None, s'))"

text \<open>
  The operators \<^verbatim>\<open><<\<close> and \<^verbatim>\<open>>>\<close> at the end of \<^verbatim>\<open>MessageStream.cc\<close> call the
  member and give back the stream they were given; \<^verbatim>\<open>>>\<close> also gives its right operand a value,
  which is the value of the action here. For a string that value depends on the one it had.
\<close>

definition insert_u8 :: "byte \<Rightarrow> (MessageStream, unit) action" where
  "insert_u8 data = thenM (encode_u8 data) (retM ())"

definition extract_u8 :: "(MessageStream, byte) action" where
  "extract_u8 = bindM decode_u8 retM"

definition insert_u16 :: "16 word \<Rightarrow> (MessageStream, unit) action" where
  "insert_u16 data = thenM (encode_u16 data) (retM ())"

definition extract_u16 :: "(MessageStream, 16 word) action" where
  "extract_u16 = bindM decode_u16 retM"

definition insert_u32 :: "32 word \<Rightarrow> (MessageStream, unit) action" where
  "insert_u32 data = thenM (encode_u32 data) (retM ())"

definition extract_u32 :: "(MessageStream, 32 word) action" where
  "extract_u32 = bindM decode_u32 retM"

definition insert_u64 :: "64 word \<Rightarrow> (MessageStream, unit) action" where
  "insert_u64 data = thenM (encode_u64 data) (retM ())"

definition extract_u64 :: "arg_order \<Rightarrow> (MessageStream, 64 word) action" where
  "extract_u64 ord = bindM (decode_u64 ord) retM"

definition insert_string :: "std_string \<Rightarrow> (MessageStream, unit) action" where
  "insert_string value = thenM (encode_string value) (retM ())"

definition extract_string :: "std_string \<Rightarrow> (MessageStream, std_string) action" where
  "extract_string value = bindM (decode_string value) retM"

text \<open>\<^verbatim>\<open>Operations.cc\<close>: an operation goes over the stream as its byte.\<close>

definition decode_Operation :: "(MessageStream, Operation) action" where
  "decode_Operation = bindM decode_u8 (\<lambda>temp. retM temp)"

definition encode_Operation :: "Operation \<Rightarrow> (MessageStream, unit) action" where
  "encode_Operation op = encode_u8 op"

end
