(* ===== verification/Codec.thy ===== *)
theory Codec
  imports Message_Stream
begin

text \<open>
  What encoding and decoding mean on a stream, and the interface every encoded type offers.

  \<^item> \<open>put_bytes\<close> is a run of \<^verbatim>\<open>put\<close> calls; on a good, well-formed stream with room it
    replaces the bytes at the put position (\<open>put_bytes_room\<close>).
  \<^item> \<open>reading s pre post\<close> is a stream that has consumed \<open>pre\<close> and has \<open>post\<close> ahead.
  \<^item> \<open>reads_only\<close> says of an action that it takes bytes from the stream and does nothing
    else: the buffer and the put position stay, the get position does not go back, nothing is
    thrown.
  \<^item> The locale \<open>encoder\<close> is the contract of a type that can be encoded: its wire format
    \<open>wire\<close> and the values that can be encoded, \<open>fits\<close>. The locale \<open>codec\<close> adds what a
    target object \<open>t\<close> holds after a value \<open>a\<close> was decoded into it, \<open>seen t a\<close>. The
    locale \<open>member_codec\<close> adds what every \<^verbatim>\<open>decode\<close> member promises, that it only
    reads. The locale \<open>vector_codec\<close> adds the element a vector is grown with, and a vector
    of such elements is again a codec.
  \<^item> The integers, strings and vectors of the stream are interpretations of these locales.
\<close>

unbundle bit_operations_syntax

section \<open>Specification of streams and wire formats\<close>

definition ss_wf :: "MessageStream \<Rightarrow> bool" where
  "ss_wf s \<longleftrightarrow> ss_get s \<le> length (ss_buf s) \<and> ss_put s \<le> length (ss_buf s) \<and>
     length (ss_buf s) \<le> ss_max s"

definition room :: "nat \<Rightarrow> MessageStream \<Rightarrow> bool" where
  "room n s \<longleftrightarrow> ss_good s \<and> ss_wf s \<and> ss_put s + n \<le> ss_max s"

text \<open>
  A stream that can hold a mebibyte: more than the largest inner message a \<^verbatim>\<open>Stat\<close> is
  encoded through.
\<close>

definition ample :: "MessageStream \<Rightarrow> bool" where
  "ample s \<longleftrightarrow> 2 ^ 20 \<le> ss_max s"

definition put_bytes :: "byte list \<Rightarrow> MessageStream \<Rightarrow> MessageStream" where
  "put_bytes bs s = fold ss_put_char bs s"

text \<open>
  An action that writes \<open>w\<close> if \<open>ok\<close>, and otherwise throws after writing some bytes.
\<close>

definition emits :: "(MessageStream, unit) action \<Rightarrow> bool \<Rightarrow> byte list \<Rightarrow> bool" where
  "emits m ok w \<longleftrightarrow> (\<forall>s. ample s \<longrightarrow>
     (if ok then m s = (Ok (), put_bytes w s) else \<exists>e p. m s = (Throw e, put_bytes p s)))"

definition reading :: "MessageStream \<Rightarrow> byte list \<Rightarrow> byte list \<Rightarrow> MessageStream" where
  "reading s pre post = s\<lparr>ss_buf := pre @ post, ss_get := length pre\<rparr>"

definition reads_only :: "(MessageStream, 'a) action \<Rightarrow> bool" where
  "reads_only m \<longleftrightarrow> (\<forall>s. case m s of (r, s') \<Rightarrow>
     \<not> is_Throw r \<and> ss_buf s' = ss_buf s \<and> ss_put s' = ss_put s \<and> ss_max s' = ss_max s \<and>
     ss_get s \<le> ss_get s' \<and> (ss_get s \<le> length (ss_buf s) \<longrightarrow> ss_get s' \<le> length (ss_buf s)))"

definition wire_u8 :: "byte \<Rightarrow> byte list" where
  "wire_u8 v = [v]"

definition wire_u16 :: "16 word \<Rightarrow> byte list" where
  "wire_u16 v = le_bytes 2 (unat v)"

definition wire_u32 :: "32 word \<Rightarrow> byte list" where
  "wire_u32 v = le_bytes 4 (unat v)"

definition wire_u64 :: "64 word \<Rightarrow> byte list" where
  "wire_u64 v = le_bytes 8 (unat v)"

definition wire_string :: "std_string \<Rightarrow> byte list" where
  "wire_string v = le_bytes 2 (length v) @ v"

definition wire_vector :: "('a \<Rightarrow> byte list) \<Rightarrow> 'a list \<Rightarrow> byte list" where
  "wire_vector wire xs = le_bytes 2 (length xs) @ concat (map wire xs)"

definition fits_u16 :: "'a list \<Rightarrow> bool" where
  "fits_u16 xs \<longleftrightarrow> length xs < 2 ^ 16"

text \<open>What \<^verbatim>\<open>decode(uint64_t&)\<close> makes of an encoded number, by argument order.\<close>

definition seen_u64 :: "arg_order \<Rightarrow> 64 word \<Rightarrow> 64 word" where
  "seen_u64 ord v =
     (case ord of LeftFirst \<Rightarrow> v | RightFirst \<Rightarrow> word_of_nat
        ((unat v mod 2 ^ 32) * 2 ^ 32 + unat v div 2 ^ 32))"

section \<open>Streams\<close>

lemma put_bytes_simps [simp]:
  "put_bytes [] s = s"
  "put_bytes (b # bs) s = put_bytes bs (ss_put_char b s)"
  by (simp_all add: put_bytes_def)

lemma put_bytes_put_bytes [simp]: "put_bytes ys (put_bytes xs s) = put_bytes (xs @ ys) s"
  by (simp add: put_bytes_def)

lemma ss_max_put_char [simp]: "ss_max (ss_put_char b s) = ss_max s"
  by (simp add: ss_put_char_def ss_sputc_def)

lemma ss_max_put_bytes [simp]: "ss_max (put_bytes bs s) = ss_max s"
  by (induction bs arbitrary: s) simp_all

lemma ample_put_bytes [simp]: "ample (put_bytes bs s) = ample s"
  by (simp add: ample_def)

lemma ample_new: "ample (ss_new m) \<longleftrightarrow> 2 ^ 20 \<le> m"
  by (simp add: ample_def ss_new_def)

lemma put_char_room:
  "room (Suc n) s \<Longrightarrow> ss_put_char b s =
     s\<lparr>ss_buf := take (ss_put s) (ss_buf s) @ b # drop (Suc (ss_put s)) (ss_buf s),
       ss_put := Suc (ss_put s)\<rparr>"
  by (auto simp: room_def ss_good_def ss_wf_def ss_put_char_def ss_sputc_def upd_conv_take_nth_drop)

lemma room_put_char: "room (Suc n) s \<Longrightarrow> room n (ss_put_char b s)"
  by (auto simp: put_char_room) (auto simp: room_def ss_good_def ss_wf_def)

lemma put_bytes_room:
  "room (length bs) s \<Longrightarrow>
     put_bytes bs s = s\<lparr>ss_buf := take (ss_put s) (ss_buf s) @ bs @
         drop (ss_put s + length bs) (ss_buf s), ss_put := ss_put s + length bs\<rparr>"
proof (induction bs arbitrary: s)
  case Nil
  then show ?case by simp
next
  case (Cons b bs)
  from Cons.prems have r: "room (Suc (length bs)) s" by simp
  have le: "ss_put s \<le> length (ss_buf s)"
    using r by (simp add: room_def ss_wf_def)
  let ?s = "ss_put_char b s"
  have "put_bytes bs ?s = ?s\<lparr>ss_buf := take (ss_put ?s) (ss_buf ?s) @ bs @
         drop (ss_put ?s + length bs) (ss_buf ?s), ss_put := ss_put ?s + length bs\<rparr>"
    by (intro Cons.IH room_put_char r)
  then show ?case
    using le by (simp add: put_char_room [OF r] min_def add.commute)
qed

lemma put_bytes_new:
  "length bs \<le> m \<Longrightarrow> put_bytes bs (ss_new m) = (ss_new m)\<lparr>ss_buf := bs, ss_put := length bs\<rparr>"
  by (subst put_bytes_room) (simp_all add: room_def ss_good_def ss_wf_def ss_new_def)

lemma put_bytes_new_reading:
  assumes "length bs \<le> m"
  shows "put_bytes bs (ss_new m) = reading ((ss_new m)\<lparr>ss_put := length bs\<rparr>) [] (bs @ [])"
  unfolding put_bytes_new [OF assms] by (simp add: reading_def ss_new_def)

lemma ss_good_new [simp]: "ss_good (ss_new m)" "ss_good (s\<lparr>ss_put := n\<rparr>) = ss_good s"
  by (simp_all add: ss_good_def ss_new_def)

lemma put_char_not_good: "\<not> ss_good s \<Longrightarrow> ss_put_char b s = s\<lparr>ss_fail := True\<rparr>"
  by (simp add: ss_put_char_def)

lemma not_good_fail [simp]: "\<not> ss_good (s\<lparr>ss_fail := True\<rparr>)"
  by (simp add: ss_good_def)

lemma put_bytes_not_good:
  "\<not> ss_good s \<Longrightarrow> put_bytes bs s = (if bs = [] then s else s\<lparr>ss_fail := True\<rparr>)"
  by (induction bs arbitrary: s) (simp_all add: put_char_not_good)

lemma sputn_room: "room (length bs) s \<Longrightarrow> ss_sputn bs s = put_bytes bs s"
proof (induction bs arbitrary: s)
  case Nil
  then show ?case by simp
next
  case (Cons b bs)
  from Cons.prems have r: "room (Suc (length bs)) s" by simp
  have "ss_sputc b s = Some (ss_put_char b s)"
    using r by (auto simp: room_def ss_wf_def ss_put_char_def ss_sputc_def split: option.split)
  then show ?case
    using Cons.IH [OF room_put_char [OF r]] by simp
qed

lemma reading_fields [simp]:
  "ss_buf (reading s pre post) = pre @ post" "ss_get (reading s pre post) = length pre"
  "ss_put (reading s pre post) = ss_put s" "ss_max (reading s pre post) = ss_max s"
  "ss_eof (reading s pre post) = ss_eof s" "ss_fail (reading s pre post) = ss_fail s"
  "ss_bad (reading s pre post) = ss_bad s" "ss_good (reading s pre post) = ss_good s"
  by (simp_all add: reading_def ss_good_def)

lemma ss_read_reading [stream_simps]:
  "ss_good s \<Longrightarrow> length bs = n \<Longrightarrow>
     ss_read n (reading s pre (bs @ post)) = (bs, reading s (pre @ bs) post)"
  by (simp add: ss_read_def reading_def ss_good_def)

lemma ss_get_char_reading [stream_simps]:
  "ss_good s \<Longrightarrow>
     ss_get_char (reading s pre (b # post)) = (Some b, reading s (pre @ [b]) post)"
  by (simp add: ss_get_char_def reading_def ss_good_def)

lemma peek_reading [stream_simps]:
  "ss_good s \<Longrightarrow> MessageStream_peek (reading s pre (b # post)) =
     (if b = 0 then None else Some b, reading s pre (b # post))"
  by (simp add: MessageStream_peek_def ss_peek_def reading_def ss_good_def uint_0_iff)

section \<open>Actions that only read\<close>

lemma reads_onlyI:
  assumes "\<And>s r s'. m s = (r, s') \<Longrightarrow> \<not> is_Throw r \<and> ss_buf s' = ss_buf s \<and> ss_put s' = ss_put s \<and>
     ss_max s' = ss_max s \<and> ss_get s \<le> ss_get s' \<and>
     (ss_get s \<le> length (ss_buf s) \<longrightarrow> ss_get s' \<le> length (ss_buf s))"
  shows "reads_only m"
  using assms by (auto simp: reads_only_def)

lemma reads_onlyD:
  assumes "reads_only m" and "m s = (r, s')"
  shows "\<not> is_Throw r" "ss_buf s' = ss_buf s" "ss_put s' = ss_put s" "ss_max s' = ss_max s"
    "ss_get s \<le> ss_get s'" "ss_get s \<le> length (ss_buf s) \<Longrightarrow> ss_get s' \<le> length (ss_buf s)"
  using assms unfolding reads_only_def by (auto dest!: spec [of _ s])

lemma reads_only_wf: "reads_only m \<Longrightarrow> m s = (r, s') \<Longrightarrow> ss_wf s \<Longrightarrow> ss_wf s'"
  using reads_onlyD [of m s r s'] by (simp add: ss_wf_def)

named_theorems reads_only_intros \<open>actions that only read the stream\<close>

lemma reads_only_retM [reads_only_intros]: "reads_only (retM a)"
  by (rule reads_onlyI) auto

lemma reads_only_bindM [reads_only_intros]:
  assumes m: "reads_only m" and f: "\<And>a. reads_only (f a)"
  shows "reads_only (bindM m f)"
proof (rule reads_onlyI)
  fix s r s'
  assume run: "bindM m f s = (r, s')"
  obtain r1 s1 where m1: "m s = (r1, s1)" by (cases "m s")
  note D = reads_onlyD [OF m m1]
  show "\<not> is_Throw r \<and> ss_buf s' = ss_buf s \<and> ss_put s' = ss_put s \<and> ss_max s' = ss_max s \<and>
     ss_get s \<le> ss_get s' \<and> (ss_get s \<le> length (ss_buf s) \<longrightarrow> ss_get s' \<le> length (ss_buf s))"
  proof (cases r1)
    case (Ok a)
    with run m1 have "f a s1 = (r, s')" by simp
    from reads_onlyD [OF f this] D show ?thesis by auto
  next
    case (Throw e)
    with D show ?thesis by simp
  next
    case Undef
    with run m1 D show ?thesis by simp
  qed
qed

lemma ss_read_reads:
  "ss_read n s = (bs, s') \<Longrightarrow> ss_buf s' = ss_buf s \<and> ss_put s' = ss_put s \<and> ss_max s' = ss_max s \<and>
     ss_get s \<le> ss_get s' \<and> (ss_get s \<le> length (ss_buf s) \<longrightarrow> ss_get s' \<le> length (ss_buf s))"
  by (auto simp: ss_read_def Let_def split: if_splits)

lemma reads_only_u8 [reads_only_intros]: "reads_only decode_u8"
  by (rule reads_onlyI) (auto simp: decode_u8_def ss_get_char_def split: if_splits)

lemma reads_only_u16 [reads_only_intros]: "reads_only decode_u16"
  by (rule reads_onlyI) (auto simp: decode_u16_def split: prod.splits if_splits dest: ss_read_reads)

lemma reads_only_u32 [reads_only_intros]: "reads_only decode_u32"
  by (rule reads_onlyI) (auto simp: decode_u32_def split: prod.splits if_splits dest: ss_read_reads)

lemma reads_only_u64 [reads_only_intros]: "reads_only (decode_u64 ord)"
  unfolding decode_u64_def by (intro reads_only_intros)

lemma reads_only_string [reads_only_intros]: "reads_only (decode_string t)"
  unfolding decode_string_def
  by (intro reads_only_intros) (rule reads_onlyI, auto split: prod.splits dest: ss_read_reads)

lemma reads_only_elements [reads_only_intros]:
  "reads_only (dec fresh) \<Longrightarrow> reads_only (decode_elements dec fresh n collec)"
  by (induction n arbitrary: collec) (simp_all add: reads_only_intros)

lemma reads_only_vector [reads_only_intros]:
  "reads_only (dec fresh) \<Longrightarrow> reads_only (decode_vector dec fresh collec)"
  unfolding decode_vector_def by (intro reads_only_intros)

section \<open>Actions that write\<close>

named_theorems emits_intros \<open>actions that write a known sequence of bytes\<close>

lemma emitsI: "(\<And>s. ample s \<Longrightarrow> m s = (Ok (), put_bytes w s)) \<Longrightarrow> emits m True w"
  by (simp add: emits_def)

lemma emits_eqI: "emits m ok w \<Longrightarrow> ok = ok' \<Longrightarrow> w = w' \<Longrightarrow> emits m ok' w'"
  by simp

lemma emits_Ok: "emits m ok w \<Longrightarrow> ok \<Longrightarrow> ample s \<Longrightarrow> m s = (Ok (), put_bytes w s)"
  by (auto simp: emits_def)

lemma emits_Throw: "emits m ok w \<Longrightarrow> \<not> ok \<Longrightarrow> ample s \<Longrightarrow> \<exists>e p. m s = (Throw e, put_bytes p s)"
  by (auto simp: emits_def)

lemma emits_Nil [emits_intros]: "emits (seqM []) True []"
  by (simp add: emits_def)

lemma emits_thenM:
  assumes m: "emits m ok w" and k: "emits k oks ws"
  shows "emits (thenM m k) (ok \<and> oks) (w @ ws)"
  unfolding emits_def
proof (intro allI impI)
  fix s assume a: "ample s"
  show "if ok \<and> oks then thenM m k s = (Ok (), put_bytes (w @ ws) s)
    else \<exists>e p. thenM m k s = (Throw e, put_bytes p s)"
  proof (cases ok)
    case False
    with emits_Throw [OF m _ a] show ?thesis by auto
  next
    case True
    note m1 = emits_Ok [OF m True a]
    show ?thesis
      using m1 emits_Ok [OF k, of "put_bytes w s"] emits_Throw [OF k, of "put_bytes w s"] a True
      by (cases oks) auto
  qed
qed

lemma emits_Cons [emits_intros]:
  "emits m ok w \<Longrightarrow> emits (seqM ms) oks ws \<Longrightarrow> emits (seqM (m # ms)) (ok \<and> oks) (w @ ws)"
  by (simp add: emits_thenM)

lemma emits_list:
  "(\<And>a. emits (enc a) (fits a) (wire a)) \<Longrightarrow>
     emits (seqM (map enc as)) (\<forall>a \<in> set as. fits a) (concat (map wire as))"
proof (induction as)
  case (Cons a as)
  then show ?case using emits_thenM [of "enc a" "fits a" "wire a"] by simp
qed (simp add: emits_def)

text \<open>
  The length check before a sequence: strings, vectors and data are sent as a count of fixed
  width and the elements, or not at all.
\<close>

lemma emits_counted:
  assumes count: "emits count True c" and body: "emits body ok w"
  shows "emits (if \<not> fit then throwM args else thenM count body) (fit \<and> ok) (c @ w)"
proof (cases fit)
  case True
  with emits_thenM [OF count body] show ?thesis by simp
next
  case False
  then show ?thesis by (auto simp: emits_def intro: exI [of _ "[]"])
qed

section \<open>Bytes of integers\<close>

lemma le_bytes_append: "le_bytes (m + n) x = le_bytes m x @ le_bytes n (x div 256 ^ m)"
  by (induction m arbitrary: x) (simp_all add: div_mult2_eq)

lemma le_bytes_mod: "le_bytes n (x mod 256 ^ n) = le_bytes n x"
  using le_bytes_le_val [of "le_bytes n x"] by (simp add: le_val_le_bytes)

lemma byte_of_nat_unat: "(word_of_nat (unat v mod 256) :: byte) = ucast v"
  by (rule word_unat_eq_iff [THEN iffD2]) (simp add: unat_of_nat unsigned_ucast_eq take_bit_eq_mod)

lemma le_bytes_2: "le_bytes 2 x = [word_of_nat (x mod 256), word_of_nat (x div 256 mod 256)]"
  by (simp add: numeral_2_eq_2)

lemma wire_u16_bytes: "wire_u16 v = [ucast v, ucast (drop_bit 8 v)]"
  using byte_of_nat_unat [of v] byte_of_nat_unat [of "drop_bit 8 v"]
  by (simp add: wire_u16_def le_bytes_2 drop_bit_eq_div unat_div_distrib)

lemma wire_u32_halves: "wire_u32 v = wire_u16 (ucast v) @ wire_u16 (ucast (drop_bit 16 v))"
  using le_bytes_append [of 2 2 "unat v"] le_bytes_mod [of 2 "unat v"]
    le_bytes_mod [of 2 "unat v div 256 ^ 2"]
  by (simp add: wire_u32_def wire_u16_def unsigned_ucast_eq take_bit_eq_mod
      drop_bit_eq_div unat_div_distrib)

lemma wire_u64_halves: "wire_u64 v = wire_u32 (ucast v) @ wire_u32 (ucast (drop_bit 32 v))"
  using le_bytes_append [of 4 4 "unat v"] le_bytes_mod [of 4 "unat v"]
    le_bytes_mod [of 4 "unat v div 256 ^ 4"]
  by (simp add: wire_u64_def wire_u32_def unsigned_ucast_eq take_bit_eq_mod
      drop_bit_eq_div unat_div_distrib)

lemma build_u8_bytes: "build_u8 (ucast v) (ucast (drop_bit 8 v)) = v"
  by (rule bit_word_eqI) (auto simp: build_u8_def bit_simps)

lemma build_u16_halves: "build_u16 (ucast v) (ucast (drop_bit 16 v)) = v"
  by (rule bit_word_eqI) (auto simp: build_u16_def bit_simps)

lemma build_u32_halves: "build_u32 (ucast v) (ucast (drop_bit 32 v)) = v"
  by (rule bit_word_eqI) (auto simp: build_u32_def bit_simps)

lemma build_u32_val: "build_u32 l u = word_of_nat (unat u * 2 ^ 32 + unat l)"
proof -
  have "push_bit 32 (ucast u :: 64 word) AND ucast l = 0"
    by (rule bit_word_eqI) (auto simp: bit_simps dest: bit_imp_le_length)
  then have "build_u32 l u = push_bit 32 (ucast u) + ucast l"
    by (simp add: build_u32_def disjunctive_add_eq_or)
  also have "\<dots> = word_of_nat (unat u * 2 ^ 32 + unat l)"
    by (simp add: push_bit_eq_mult)
  finally show ?thesis .
qed

lemma build_u32_swapped:
  "build_u32 (ucast (drop_bit 32 v)) (ucast v) = seen_u64 RightFirst v"
proof -
  have "unat v < 2 ^ LENGTH(64)"
    by (rule unsigned_less)
  then have "unat v div 2 ^ 32 < 2 ^ 32"
    by (simp add: less_mult_imp_div_less)
  then show ?thesis
    by (simp add: build_u32_val seen_u64_def unsigned_ucast_eq take_bit_eq_mod
        drop_bit_eq_div unat_div_distrib)
qed

section \<open>The interface of an encoded type\<close>

locale encoder =
  fixes enc :: "'a \<Rightarrow> (MessageStream, unit) action"
    and wire :: "'a \<Rightarrow> byte list"
    and fits :: "'a \<Rightarrow> bool"
  assumes enc_emits: "emits (enc a) (fits a) (wire a)"
begin

lemmas enc_fits = emits_Ok [OF enc_emits]
  and enc_unfit = emits_Throw [OF enc_emits]
  and enc_all = emits_Ok [OF emits_list, OF enc_emits]

lemma enc_Ok_iff: "ample s \<Longrightarrow> fst (enc a s) = Ok () \<longleftrightarrow> fits a"
  using enc_fits [of a s] enc_unfit [of a s] by (cases "fits a") auto

lemma enc_Throw_iff: "ample s \<Longrightarrow> is_Throw (fst (enc a s)) \<longleftrightarrow> \<not> fits a"
  using enc_fits [of a s] enc_unfit [of a s] by (cases "fits a") auto

text \<open>What a list of values encoded to a new stream leaves to be read.\<close>

lemma enc_all_new:
  assumes "\<forall>a \<in> set as. fits a" and "length (concat (map wire as)) \<le> m" and "2 ^ 20 \<le> m"
  shows "seqM (map enc as) (ss_new m) =
    (Ok (), reading ((ss_new m)\<lparr>ss_put := length (concat (map wire as))\<rparr>) []
      (concat (map wire as) @ []))"
  unfolding put_bytes_new_reading [OF assms(2), symmetric]
  using assms(1,3) by (intro enc_all) (simp_all add: ample_new)

end

locale codec = encoder enc wire fits
  for enc :: "'a \<Rightarrow> (MessageStream, unit) action" and wire fits +
  fixes dec :: "'a \<Rightarrow> (MessageStream, 'a) action"
    and seen :: "'a \<Rightarrow> 'a \<Rightarrow> 'a"
  assumes dec_wire: "fits a \<Longrightarrow> ss_good s \<Longrightarrow>
      dec t (reading s pre (wire a @ post)) = (Ok (seen t a), reading s (pre @ wire a) post)"
begin

lemma dec_elements:
  assumes "\<forall>a \<in> set as. fits a" and "ss_good s"
  shows "decode_elements dec fresh (length as) collec (reading s pre (concat (map wire as) @ post)) =
    (Ok (collec @ map (seen fresh) as), reading s (pre @ concat (map wire as)) post)"
  using assms by (induction as arbitrary: collec pre) (simp_all add: dec_wire)

text \<open>A value encoded to a new stream is decoded from that stream, which is then used up.\<close>

lemma roundtrip:
  assumes "fits a" and "length (wire a) \<le> m" and "2 ^ 20 \<le> m"
  shows "\<exists>s s'. enc a (ss_new m) = (Ok (), s) \<and> ss_buf s = wire a \<and>
    dec t s = (Ok (seen t a), s') \<and> ss_good s' \<and> ss_get s' = length (ss_buf s')"
proof -
  let ?s = "put_bytes (wire a) (ss_new m)"
  let ?n = "(ss_new m)\<lparr>ss_put := length (wire a)\<rparr>"
  have s: "?s = reading ?n [] (wire a @ [])"
    by (rule put_bytes_new_reading [OF assms(2)])
  have good: "ss_good ?n" by simp
  have "dec t ?s = (Ok (seen t a), reading ?n ([] @ wire a) [])"
    unfolding s by (rule dec_wire [OF assms(1) good])
  then show ?thesis
    using s good enc_fits [OF assms(1)] assms(3) by (auto simp: ample_new)
qed

text \<open>Values encoded one after the other are decoded in the same order.\<close>

lemma roundtrip_sequence:
  assumes "\<forall>a \<in> set as. fits a" and "length (concat (map wire as)) \<le> m" and "2 ^ 20 \<le> m"
  shows "\<exists>s s'. seqM (map enc as) (ss_new m) = (Ok (), s) \<and> ss_buf s = concat (map wire as) \<and>
    decode_elements dec t (length as) [] s = (Ok (map (seen t) as), s') \<and>
    ss_get s' = length (ss_buf s')"
  using enc_all_new [OF assms]
    dec_elements [OF assms(1), of "(ss_new m)\<lparr>ss_put := length (concat (map wire as))\<rparr>" t "[]" "[]" "[]"]
  by auto

end

locale member_codec = codec enc wire fits dec seen
  for enc :: "'a \<Rightarrow> (MessageStream, unit) action" and wire fits dec seen +
  assumes dec_reads: "reads_only (dec t)"
begin

lemma dec_wf: "dec t s = (r, s') \<Longrightarrow> ss_wf s \<Longrightarrow> ss_wf s'"
  using reads_only_wf [OF dec_reads] .

lemma dec_no_throw: "dec t s \<noteq> (Throw e, s')"
  using reads_onlyD(1) [OF dec_reads, of t s "Throw e" s'] by auto

end

section \<open>Integers and strings are codecs\<close>

lemma encode_u16_put: "encode_u16 v s = (Ok (), put_bytes (wire_u16 v) s)"
  by (simp add: encode_u16_def wire_u16_bytes)

lemma encode_u32_put: "encode_u32 v s = (Ok (), put_bytes (wire_u32 v) s)"
  by (simp add: encode_u32_def wire_u32_halves encode_u16_put)

lemma emits_u8 [emits_intros]: "emits (encode_u8 v) True (wire_u8 v)"
  by (rule emitsI) (simp add: encode_u8_def wire_u8_def)

lemma emits_u16 [emits_intros]: "emits (encode_u16 v) True (wire_u16 v)"
  by (rule emitsI) (rule encode_u16_put)

lemma emits_u32 [emits_intros]: "emits (encode_u32 v) True (wire_u32 v)"
  by (rule emitsI) (rule encode_u32_put)

lemma emits_u64 [emits_intros]: "emits (encode_u64 v) True (wire_u64 v)"
  by (rule emitsI) (simp add: encode_u64_def wire_u64_halves encode_u32_put)

lemma decode_u16_reading [codec_simps]:
  "ss_good s \<Longrightarrow> decode_u16 (reading s pre (wire_u16 v @ post)) =
     (Ok v, reading s (pre @ wire_u16 v) post)"
  using ss_read_reading [of s "wire_u16 v" 2 pre post]
  by (simp add: decode_u16_def wire_u16_bytes build_u8_bytes)

lemma bytes_of_halves:
  fixes v :: "32 word"
  shows "ucast (ucast v :: 16 word) = (ucast v :: byte)"
    "ucast (drop_bit 8 (ucast v :: 16 word)) = (ucast (drop_bit 8 v) :: byte)"
    "ucast (ucast (drop_bit 16 v) :: 16 word) = (ucast (drop_bit 16 v) :: byte)"
    "ucast (drop_bit 8 (ucast (drop_bit 16 v) :: 16 word)) = (ucast (drop_bit 24 v) :: byte)"
  by (rule bit_word_eqI; auto simp: bit_simps)+

lemma wire_u32_bytes:
  "wire_u32 v = [ucast v, ucast (drop_bit 8 v), ucast (drop_bit 16 v), ucast (drop_bit 24 v)]"
  by (simp add: wire_u32_halves wire_u16_bytes bytes_of_halves)

lemma build_u8x4_bytes:
  "build_u8x4 (ucast v) (ucast (drop_bit 8 v)) (ucast (drop_bit 16 v)) (ucast (drop_bit 24 v)) = v"
  using build_u8_bytes [of "ucast v"] build_u8_bytes [of "ucast (drop_bit 16 v)"]
    build_u16_halves [of v]
  by (simp add: build_u8x4_def bytes_of_halves)

lemma decode_u32_reading [codec_simps]:
  "ss_good s \<Longrightarrow> decode_u32 (reading s pre (wire_u32 v @ post)) =
     (Ok v, reading s (pre @ wire_u32 v) post)"
  using ss_read_reading [of s "wire_u32 v" 4 pre post]
  by (simp add: decode_u32_def wire_u32_bytes build_u8x4_bytes)

interpretation u8: member_codec encode_u8 wire_u8 "\<lambda>_. True" "\<lambda>_. decode_u8" "\<lambda>_ a. a"
  by unfold_locales
    (simp_all add: decode_u8_def wire_u8_def stream_simps reads_only_intros
      emits_u8 [unfolded wire_u8_def])

interpretation u16: member_codec encode_u16 wire_u16 "\<lambda>_. True" "\<lambda>_. decode_u16" "\<lambda>_ a. a"
  by unfold_locales (simp_all add: codec_simps reads_only_intros emits_intros)

interpretation u32: member_codec encode_u32 wire_u32 "\<lambda>_. True" "\<lambda>_. decode_u32" "\<lambda>_ a. a"
  by unfold_locales (simp_all add: codec_simps reads_only_intros emits_intros)

interpretation u64: member_codec encode_u64 wire_u64 "\<lambda>_. True" "\<lambda>_. decode_u64 ord" "\<lambda>_. seen_u64 ord"
  for ord
proof unfold_locales
  fix a s pre post
  assume "ss_good s"
  then show "decode_u64 ord (reading s pre (wire_u64 a @ post)) =
      (Ok (seen_u64 ord a), reading s (pre @ wire_u64 a) post)"
    using build_u32_swapped [of a] build_u32_halves [of a]
    by (cases ord) (simp_all add: decode_u64_def wire_u64_halves codec_simps seen_u64_def)
qed (simp_all add: reads_only_intros emits_intros)

lemma le_bytes_2_length:
  "fits_u16 xs \<Longrightarrow> le_bytes 2 (length xs) = wire_u16 (word_of_nat (length xs))"
  by (simp add: fits_u16_def wire_u16_def unat_of_nat)

lemma wire_u16_length: "wire_u16 (word_of_nat (length xs)) = le_bytes 2 (length xs)"
  using le_bytes_mod [of 2 "length xs"] by (simp add: wire_u16_def unat_of_nat)

lemma fits_u16_unat: "unat (word_of_nat (length xs) :: 16 word) = length xs \<longleftrightarrow> fits_u16 xs"
  by (simp add: fits_u16_def unat_word_of_nat_eq_iff)

lemma concat_wire_u8 [simp]: "concat (map wire_u8 bs) = bs"
  by (induction bs) (simp_all add: wire_u8_def)

lemma emits_string [emits_intros]: "emits (encode_string v) (fits_u16 v) (wire_string v)"
proof -
  have "emits (seqM (map encode_u8 v)) True v"
    using emits_list [where enc = encode_u8 and fits = "\<lambda>_. True" and wire = wire_u8, OF emits_u8]
    by simp
  from emits_counted [OF emits_u16 this] show ?thesis
    unfolding encode_string_def Let_def wire_string_def wire_u16_length [symmetric] fits_u16_unat
    by simp
qed

interpretation string: member_codec encode_string wire_string fits_u16 decode_string "\<lambda>t a. overlay a t"
proof unfold_locales
  fix a t :: std_string and s pre post
  assume "fits_u16 a" "ss_good s"
  then show "decode_string t (reading s pre (wire_string a @ post)) =
      (Ok (overlay a t), reading s (pre @ wire_string a) post)"
    using fits_u16_unat [of a]
    by (simp add: decode_string_def wire_string_def le_bytes_2_length codec_simps stream_simps)
qed (rule emits_intros reads_only_intros)+

section \<open>Vectors of a codec are a codec\<close>

locale vector_codec = member_codec enc wire fits dec seen
  for enc :: "'a \<Rightarrow> (MessageStream, unit) action" and wire fits dec seen +
  fixes fresh :: 'a

sublocale vector_codec \<subseteq> vec: member_codec "encode_vector enc"
  "wire_vector wire" "\<lambda>xs. fits_u16 xs \<and> (\<forall>x \<in> set xs. fits x)" "decode_vector dec fresh"
  "\<lambda>collec xs. collec @ map (seen fresh) xs"
proof unfold_locales
  fix a t :: "'a list" and s pre post
  show "emits (encode_vector enc a) (fits_u16 a \<and> (\<forall>x \<in> set a. fits x)) (wire_vector wire a)"
    unfolding encode_vector_def Let_def wire_vector_def wire_u16_length [symmetric] fits_u16_unat
    by (intro emits_counted emits_u16 emits_list enc_emits)
  show "decode_vector dec fresh t (reading s pre (wire_vector wire a @ post)) =
      (Ok (t @ map (seen fresh) a), reading s (pre @ wire_vector wire a) post)"
    if "fits_u16 a \<and> (\<forall>x \<in> set a. fits x)" "ss_good s"
    using that fits_u16_unat [of a]
    by (simp add: decode_vector_def wire_vector_def le_bytes_2_length codec_simps dec_elements)
qed (intro reads_only_intros dec_reads)

interpretation strings: vector_codec encode_string wire_string fits_u16 decode_string
  "\<lambda>t a. overlay a t" "[]"
  by unfold_locales

lemmas emits_strings [emits_intros] = strings.vec.enc_emits

lemmas stream_dec [codec_simps] =
  u8.dec_wire [OF TrueI] u64.dec_wire [OF TrueI] string.dec_wire strings.vec.dec_wire

end
