(* ===== verification/Messages.thy ===== *)
theory Messages
  imports Codec
begin

text \<open>
  \<^verbatim>\<open>Message.h\<close> and \<^verbatim>\<open>Message.cc\<close>: the objects of the protocol and their
  \<^verbatim>\<open>encode\<close> and \<^verbatim>\<open>decode\<close> members, in the order of the sources.

  A class is a record. A message class extends the record of the class it derives from, so that
  \<^verbatim>\<open>Parent::encode(msg)\<close> is the parent's function applied to the object itself; a mixin
  (\<open>HasQid\<close>, \<open>HasFid\<close>, \dots) is a field that holds the mixin's record. \<^verbatim>\<open>encode\<close> is an
  action on the stream; \<^verbatim>\<open>decode\<close> takes the object it is called on and gives the object as
  it is left.
\<close>

section \<open>Qid\<close>

record Qid =
  qid_type :: byte
  qid_version :: "32 word"
  qid_path :: "64 word"

definition Qid_ctor :: "byte \<Rightarrow> 64 word \<Rightarrow> 32 word \<Rightarrow> Qid" where
  "Qid_ctor t path version = \<lparr>qid_type = t, qid_version = version, qid_path = path\<rparr>"

definition Qid_setType :: "byte \<Rightarrow> Qid \<Rightarrow> Qid" where
  "Qid_setType v q = q\<lparr>qid_type := v\<rparr>"

definition Qid_setVersion :: "32 word \<Rightarrow> Qid \<Rightarrow> Qid" where
  "Qid_setVersion v q = q\<lparr>qid_version := v\<rparr>"

definition Qid_setPath :: "64 word \<Rightarrow> Qid \<Rightarrow> Qid" where
  "Qid_setPath v q = q\<lparr>qid_path := v\<rparr>"

definition Qid_encode :: "Qid \<Rightarrow> (MessageStream, unit) action" where
  "Qid_encode q = seqM [encode_u8 (qid_type q), encode_u32 (qid_version q), encode_u64 (qid_path q)]"

definition Qid_decode :: "arg_order \<Rightarrow> Qid \<Rightarrow> (MessageStream, Qid) action" where
  "Qid_decode ord q =
     bindM decode_u8 (\<lambda>t. bindM decode_u32 (\<lambda>v. bindM (decode_u64 ord) (\<lambda>p.
       retM (q\<lparr>qid_type := t, qid_version := v, qid_path := p\<rparr>))))"

section \<open>The mixins\<close>

record HasQid =
  hq_qid :: Qid

definition HasQid_setQid :: "Qid \<Rightarrow> HasQid \<Rightarrow> HasQid" where
  "HasQid_setQid q h = h\<lparr>hq_qid := q\<rparr>"

definition HasQid_encode :: "HasQid \<Rightarrow> (MessageStream, unit) action" where
  "HasQid_encode h = Qid_encode (hq_qid h)"

definition HasQid_decode :: "arg_order \<Rightarrow> HasQid \<Rightarrow> (MessageStream, HasQid) action" where
  "HasQid_decode ord h = bindM (Qid_decode ord (hq_qid h)) (\<lambda>q. retM (h\<lparr>hq_qid := q\<rparr>))"

record HasName =
  hn_name :: std_string

definition HasName_setName :: "std_string \<Rightarrow> HasName \<Rightarrow> HasName" where
  "HasName_setName v h = h\<lparr>hn_name := v\<rparr>"

definition HasName_encode :: "HasName \<Rightarrow> (MessageStream, unit) action" where
  "HasName_encode h = encode_string (hn_name h)"

definition HasName_decode :: "HasName \<Rightarrow> (MessageStream, HasName) action" where
  "HasName_decode h = bindM (decode_string (hn_name h)) (\<lambda>n. retM (h\<lparr>hn_name := n\<rparr>))"

record HasFid =
  hf_fid :: "32 word"

definition HasFid_setFid :: "32 word \<Rightarrow> HasFid \<Rightarrow> HasFid" where
  "HasFid_setFid v h = h\<lparr>hf_fid := v\<rparr>"

definition HasFid_encode :: "HasFid \<Rightarrow> (MessageStream, unit) action" where
  "HasFid_encode h = encode_u32 (hf_fid h)"

definition HasFid_decode :: "HasFid \<Rightarrow> (MessageStream, HasFid) action" where
  "HasFid_decode h = bindM decode_u32 (\<lambda>f. retM (h\<lparr>hf_fid := f\<rparr>))"

record HasCount =
  hc_count :: "32 word"

definition HasCount_setCount :: "32 word \<Rightarrow> HasCount \<Rightarrow> HasCount" where
  "HasCount_setCount v h = h\<lparr>hc_count := v\<rparr>"

definition HasCount_encode :: "HasCount \<Rightarrow> (MessageStream, unit) action" where
  "HasCount_encode h = encode_u32 (hc_count h)"

definition HasCount_decode :: "HasCount \<Rightarrow> (MessageStream, HasCount) action" where
  "HasCount_decode h = bindM decode_u32 (\<lambda>c. retM (h\<lparr>hc_count := c\<rparr>))"

record HasOffset =
  ho_offset :: "64 word"

definition HasOffset_setOffset :: "64 word \<Rightarrow> HasOffset \<Rightarrow> HasOffset" where
  "HasOffset_setOffset v h = h\<lparr>ho_offset := v\<rparr>"

definition HasOffset_encode :: "HasOffset \<Rightarrow> (MessageStream, unit) action" where
  "HasOffset_encode h = encode_u64 (ho_offset h)"

definition HasOffset_decode :: "arg_order \<Rightarrow> HasOffset \<Rightarrow> (MessageStream, HasOffset) action" where
  "HasOffset_decode ord h = bindM (decode_u64 ord) (\<lambda>v. retM (h\<lparr>ho_offset := v\<rparr>))"

record HasDataStorage =
  hd_data :: "byte list"

definition HasDataStorage_size :: "HasDataStorage \<Rightarrow> nat" where
  "HasDataStorage_size h = length (hd_data h)"

definition HasDataStorage_encode :: "HasDataStorage \<Rightarrow> (MessageStream, unit) action" where
  "HasDataStorage_encode h =
     (let len = word_of_nat (HasDataStorage_size h) :: 32 word in
      if unat len \<noteq> HasDataStorage_size h
      then throwM [Lit ''data storage too large for transmission'']
      else thenM (encode_u32 len) (seqM (map encode_u8 (hd_data h))))"

text \<open>Each turn of the loop decodes a byte and then appends it, whatever it was made with.\<close>

definition HasDataStorage_decode :: "HasDataStorage \<Rightarrow> (MessageStream, HasDataStorage) action" where
  "HasDataStorage_decode h =
     bindM decode_u32 (\<lambda>size.
       bindM (decode_elements (\<lambda>_. decode_u8) 0 (unat size) (hd_data h)) (\<lambda>d.
         retM (h\<lparr>hd_data := d\<rparr>)))"

section \<open>Stat\<close>

record Stat =
  st_HasQid :: HasQid
  st_HasName :: HasName
  st_type :: "16 word"
  st_dev :: "32 word"
  st_mode :: "32 word"
  st_atime :: "32 word"
  st_mtime :: "32 word"
  st_length :: "64 word"
  st_uid :: std_string
  st_gid :: std_string
  st_muid :: std_string

definition Stat_setGroup :: "std_string \<Rightarrow> Stat \<Rightarrow> Stat" where
  "Stat_setGroup v st = st\<lparr>st_gid := v\<rparr>"

definition Stat_setOwner :: "std_string \<Rightarrow> Stat \<Rightarrow> Stat" where
  "Stat_setOwner v st = st\<lparr>st_uid := v\<rparr>"

definition Stat_setUserThatLastModified :: "std_string \<Rightarrow> Stat \<Rightarrow> Stat" where
  "Stat_setUserThatLastModified v st = st\<lparr>st_muid := v\<rparr>"

definition Stat_setType :: "16 word \<Rightarrow> Stat \<Rightarrow> Stat" where
  "Stat_setType v st = st\<lparr>st_type := v\<rparr>"

definition Stat_setDevice :: "32 word \<Rightarrow> Stat \<Rightarrow> Stat" where
  "Stat_setDevice v st = st\<lparr>st_dev := v\<rparr>"

definition Stat_setPermissions :: "32 word \<Rightarrow> Stat \<Rightarrow> Stat" where
  "Stat_setPermissions v st = st\<lparr>st_mode := v\<rparr>"

definition Stat_setLastAccessTime :: "32 word \<Rightarrow> Stat \<Rightarrow> Stat" where
  "Stat_setLastAccessTime v st = st\<lparr>st_atime := v\<rparr>"

definition Stat_setLastModificationTime :: "32 word \<Rightarrow> Stat \<Rightarrow> Stat" where
  "Stat_setLastModificationTime v st = st\<lparr>st_mtime := v\<rparr>"

definition Stat_setLength :: "64 word \<Rightarrow> Stat \<Rightarrow> Stat" where
  "Stat_setLength v st = st\<lparr>st_length := v\<rparr>"

text \<open>
  \<^verbatim>\<open>Stat::encode\<close> writes the fields to a stream of its own and sends that stream's
  contents as a string. The inner stream has the same memory at hand as the outer one. An
  exception while the inner stream is written leaves the outer one untouched.
\<close>

definition Stat_inner :: "Stat \<Rightarrow> (MessageStream, unit) action" where
  "Stat_inner st = seqM
     [encode_u16 (st_type st), encode_u32 (st_dev st),
      HasQid_encode (st_HasQid st),
      encode_u32 (st_mode st), encode_u32 (st_atime st), encode_u32 (st_mtime st),
      encode_u64 (st_length st),
      HasName_encode (st_HasName st),
      encode_string (st_uid st), encode_string (st_gid st), encode_string (st_muid st)]"

definition Stat_encode :: "Stat \<Rightarrow> (MessageStream, unit) action" where
  "Stat_encode st s =
     (case Stat_inner st (ss_new (ss_max s)) of (r, innerMessage) \<Rightarrow>
        (case r of
           Ok _ \<Rightarrow> encode_string (MessageStream_str innerMessage) s
         | Throw e \<Rightarrow> (Throw e, s)
         | Undef \<Rightarrow> (Undef, s)))"

definition Stat_decode :: "arg_order \<Rightarrow> Stat \<Rightarrow> (MessageStream, Stat) action" where
  "Stat_decode ord st =
     bindM decode_u16 (\<lambda>len. bindM decode_u16 (\<lambda>type. bindM decode_u32 (\<lambda>dev.
     bindM (HasQid_decode ord (st_HasQid st)) (\<lambda>q.
     bindM decode_u32 (\<lambda>mode. bindM decode_u32 (\<lambda>atime. bindM decode_u32 (\<lambda>mtime.
     bindM (decode_u64 ord) (\<lambda>length.
     bindM (HasName_decode (st_HasName st)) (\<lambda>name.
     bindM (decode_string (st_uid st)) (\<lambda>uid. bindM (decode_string (st_gid st)) (\<lambda>gid.
     bindM (decode_string (st_muid st)) (\<lambda>muid.
       retM (st\<lparr>st_type := type, st_dev := dev, st_HasQid := q, st_mode := mode,
         st_atime := atime, st_mtime := mtime, st_length := length, st_HasName := name,
         st_uid := uid, st_gid := gid, st_muid := muid\<rparr>)))))))))))))"

section \<open>The message header\<close>

record MessageHeader =
  hdr_op :: Operation
  hdr_tag :: "16 word"

definition MessageHeader_ctor :: "Operation \<Rightarrow> 16 word \<Rightarrow> MessageHeader" where
  "MessageHeader_ctor op tag = \<lparr>hdr_op = op, hdr_tag = tag\<rparr>"

definition MessageHeader_ctor_op :: "Operation \<Rightarrow> MessageHeader" where
  "MessageHeader_ctor_op op = MessageHeader_ctor op (- 1)"

definition MessageHeader_setTag :: "16 word \<Rightarrow> 'a MessageHeader_scheme \<Rightarrow> 'a MessageHeader_scheme" where
  "MessageHeader_setTag v m = m\<lparr>hdr_tag := v\<rparr>"

definition MessageHeader_encode :: "'a MessageHeader_scheme \<Rightarrow> (MessageStream, unit) action" where
  "MessageHeader_encode m = seqM [encode_Operation (hdr_op m), encode_u16 (hdr_tag m)]"

definition MessageHeader_decode ::
  "'a MessageHeader_scheme \<Rightarrow> (MessageStream, 'a MessageHeader_scheme) action" where
  "MessageHeader_decode m =
     bindM decode_Operation (\<lambda>op. bindM decode_u16 (\<lambda>tag. retM (m\<lparr>hdr_op := op, hdr_tag := tag\<rparr>)))"

definition MessageHeader_isRequest :: "'a MessageHeader_scheme \<Rightarrow> bool" where
  "MessageHeader_isRequest m = isRequest (hdr_op m)"

definition MessageHeader_isResponse :: "'a MessageHeader_scheme \<Rightarrow> bool" where
  "MessageHeader_isResponse m = isResponse (hdr_op m)"

definition MessageHeader_getConceptualOperation :: "'a MessageHeader_scheme \<Rightarrow> ConceptualOperation" where
  "MessageHeader_getConceptualOperation m = convert (hdr_op m)"

definition MessageHeader_isError :: "'a MessageHeader_scheme \<Rightarrow> bool" where
  "MessageHeader_isError m \<longleftrightarrow> MessageHeader_getConceptualOperation m = Error"

datatype MessageDirection = Request | Response

definition translateConcept :: "ConceptualOperation \<Rightarrow> MessageDirection \<Rightarrow> Operation" where
  "translateConcept op dir =
     (if op = Undefined then (if dir = Request then TBad else RBad)
      else if dir = Request then getTMessageForm op else getRMessageForm op)"

definition Message_ctor :: "ConceptualOperation \<Rightarrow> MessageDirection \<Rightarrow> 16 word \<Rightarrow> MessageHeader" where
  "Message_ctor op dir tag = MessageHeader_ctor (translateConcept op dir) tag"

text \<open>
  The template arguments of a message class fix the operation its constructor stores and change
  nothing else of the class: an instance of a template has the type of the template.
\<close>

type_synonym RequestMessage = MessageHeader

type_synonym ResponseMessage = MessageHeader

type_synonym UndefinedMessage = MessageHeader

definition UndefinedMessage_encode ::
  "MessageDirection \<Rightarrow> UndefinedMessage \<Rightarrow> (MessageStream, unit) action" where
  "UndefinedMessage_encode dir m =
     (if dir = Request then throwM [Lit ''Undefined request!'']
      else throwM [Lit ''Undefined response!''])"

definition UndefinedMessage_decode ::
  "MessageDirection \<Rightarrow> UndefinedMessage \<Rightarrow> (MessageStream, UndefinedMessage) action" where
  "UndefinedMessage_decode dir m =
     (if dir = Request then throwM [Lit ''Undefined request!'']
      else throwM [Lit ''Undefined response!''])"

type_synonym UndefinedResponse = UndefinedMessage

type_synonym UndefinedRequest = UndefinedMessage

section \<open>The messages\<close>

subsection \<open>Error\<close>

record ErrorResponse = MessageHeader +
  er_ename :: std_string

definition ErrorResponse_setErrorName :: "std_string \<Rightarrow> ErrorResponse \<Rightarrow> ErrorResponse" where
  "ErrorResponse_setErrorName v m = m\<lparr>er_ename := v\<rparr>"

definition ErrorResponse_encode :: "ErrorResponse \<Rightarrow> (MessageStream, unit) action" where
  "ErrorResponse_encode m = seqM [MessageHeader_encode m, encode_string (er_ename m)]"

definition ErrorResponse_decode :: "ErrorResponse \<Rightarrow> (MessageStream, ErrorResponse) action" where
  "ErrorResponse_decode m =
     bindM (MessageHeader_decode m) (\<lambda>m. bindM (decode_string (er_ename m)) (\<lambda>v.
       retM (m\<lparr>er_ename := v\<rparr>)))"

type_synonym ErrorRequest = RequestMessage

subsection \<open>Version\<close>

text \<open>One template for both directions; its \<^verbatim>\<open>setTag\<close> does nothing.\<close>

record VersionMessage = MessageHeader +
  vm_version :: std_string
  vm_msize :: "16 word"

definition VersionMessage_setTag :: "16 word \<Rightarrow> VersionMessage \<Rightarrow> VersionMessage" where
  "VersionMessage_setTag v m = m"

definition VersionMessage_setMsize :: "16 word \<Rightarrow> VersionMessage \<Rightarrow> VersionMessage" where
  "VersionMessage_setMsize v m = m\<lparr>vm_msize := v\<rparr>"

definition VersionMessage_setVersion :: "std_string \<Rightarrow> VersionMessage \<Rightarrow> VersionMessage" where
  "VersionMessage_setVersion v m = m\<lparr>vm_version := v\<rparr>"

definition VersionMessage_encode :: "VersionMessage \<Rightarrow> (MessageStream, unit) action" where
  "VersionMessage_encode m =
     seqM [MessageHeader_encode m, encode_u16 (vm_msize m), encode_string (vm_version m)]"

definition VersionMessage_decode :: "VersionMessage \<Rightarrow> (MessageStream, VersionMessage) action" where
  "VersionMessage_decode m =
     bindM (MessageHeader_decode m) (\<lambda>m. bindM decode_u16 (\<lambda>msize.
     bindM (decode_string (vm_version m)) (\<lambda>v.
       retM (m\<lparr>vm_msize := msize, vm_version := v\<rparr>))))"

type_synonym VersionRequest = VersionMessage

type_synonym VersionResponse = VersionMessage

subsection \<open>Auth\<close>

record AuthenticationRequest = MessageHeader +
  au_afid :: "32 word"
  au_uname :: std_string
  au_aname :: std_string

definition AuthenticationRequest_setAuthenticationHandle ::
  "32 word \<Rightarrow> AuthenticationRequest \<Rightarrow> AuthenticationRequest" where
  "AuthenticationRequest_setAuthenticationHandle v m = m\<lparr>au_afid := v\<rparr>"

definition AuthenticationRequest_setUserName ::
  "std_string \<Rightarrow> AuthenticationRequest \<Rightarrow> AuthenticationRequest" where
  "AuthenticationRequest_setUserName v m = m\<lparr>au_uname := v\<rparr>"

definition AuthenticationRequest_setAttachName ::
  "std_string \<Rightarrow> AuthenticationRequest \<Rightarrow> AuthenticationRequest" where
  "AuthenticationRequest_setAttachName v m = m\<lparr>au_aname := v\<rparr>"

definition AuthenticationRequest_encode :: "AuthenticationRequest \<Rightarrow> (MessageStream, unit) action" where
  "AuthenticationRequest_encode m =
     seqM [MessageHeader_encode m,
       encode_u32 (au_afid m), encode_string (au_uname m), encode_string (au_aname m)]"

definition AuthenticationRequest_decode ::
  "AuthenticationRequest \<Rightarrow> (MessageStream, AuthenticationRequest) action" where
  "AuthenticationRequest_decode m =
     bindM (MessageHeader_decode m) (\<lambda>m. bindM decode_u32 (\<lambda>afid.
     bindM (decode_string (au_uname m)) (\<lambda>uname. bindM (decode_string (au_aname m)) (\<lambda>aname.
       retM (m\<lparr>au_afid := afid, au_uname := uname, au_aname := aname\<rparr>)))))"

record AuthenticationResponse = MessageHeader +
  aur_HasQid :: HasQid

definition AuthenticationResponse_encode :: "AuthenticationResponse \<Rightarrow> (MessageStream, unit) action" where
  "AuthenticationResponse_encode m = seqM [MessageHeader_encode m, HasQid_encode (aur_HasQid m)]"

definition AuthenticationResponse_decode ::
  "arg_order \<Rightarrow> AuthenticationResponse \<Rightarrow> (MessageStream, AuthenticationResponse) action" where
  "AuthenticationResponse_decode ord m =
     bindM (MessageHeader_decode m) (\<lambda>m. bindM (HasQid_decode ord (aur_HasQid m)) (\<lambda>q.
       retM (m\<lparr>aur_HasQid := q\<rparr>)))"

subsection \<open>Flush\<close>

record FlushRequest = MessageHeader +
  fl_oldtag :: "16 word"

definition FlushRequest_setOldTag :: "16 word \<Rightarrow> FlushRequest \<Rightarrow> FlushRequest" where
  "FlushRequest_setOldTag v m = m\<lparr>fl_oldtag := v\<rparr>"

definition FlushRequest_encode :: "FlushRequest \<Rightarrow> (MessageStream, unit) action" where
  "FlushRequest_encode m = seqM [MessageHeader_encode m, encode_u16 (fl_oldtag m)]"

definition FlushRequest_decode :: "FlushRequest \<Rightarrow> (MessageStream, FlushRequest) action" where
  "FlushRequest_decode m =
     bindM (MessageHeader_decode m) (\<lambda>m. bindM decode_u16 (\<lambda>v. retM (m\<lparr>fl_oldtag := v\<rparr>)))"

type_synonym FlushResponse = ResponseMessage

subsection \<open>Attach\<close>

record AttachRequest = MessageHeader +
  at_HasFid :: HasFid
  at_afid :: "32 word"
  at_uname :: std_string
  at_aname :: std_string

definition AttachRequest_setAuthenticationHandle :: "32 word \<Rightarrow> AttachRequest \<Rightarrow> AttachRequest" where
  "AttachRequest_setAuthenticationHandle v m = m\<lparr>at_afid := v\<rparr>"

definition AttachRequest_setUserName :: "std_string \<Rightarrow> AttachRequest \<Rightarrow> AttachRequest" where
  "AttachRequest_setUserName v m = m\<lparr>at_uname := v\<rparr>"

definition AttachRequest_setAttachName :: "std_string \<Rightarrow> AttachRequest \<Rightarrow> AttachRequest" where
  "AttachRequest_setAttachName v m = m\<lparr>at_aname := v\<rparr>"

definition AttachRequest_encode :: "AttachRequest \<Rightarrow> (MessageStream, unit) action" where
  "AttachRequest_encode m =
     seqM [MessageHeader_encode m, HasFid_encode (at_HasFid m),
       encode_u32 (at_afid m), encode_string (at_uname m), encode_string (at_aname m)]"

definition AttachRequest_decode :: "AttachRequest \<Rightarrow> (MessageStream, AttachRequest) action" where
  "AttachRequest_decode m =
     bindM (MessageHeader_decode m) (\<lambda>m. bindM (HasFid_decode (at_HasFid m)) (\<lambda>f.
     bindM decode_u32 (\<lambda>afid. bindM (decode_string (at_uname m)) (\<lambda>uname.
     bindM (decode_string (at_aname m)) (\<lambda>aname.
       retM (m\<lparr>at_HasFid := f, at_afid := afid, at_uname := uname, at_aname := aname\<rparr>))))))"

record AttachResponse = MessageHeader +
  atr_HasQid :: HasQid

definition AttachResponse_encode :: "AttachResponse \<Rightarrow> (MessageStream, unit) action" where
  "AttachResponse_encode m = seqM [MessageHeader_encode m, HasQid_encode (atr_HasQid m)]"

definition AttachResponse_decode :: "arg_order \<Rightarrow> AttachResponse \<Rightarrow> (MessageStream, AttachResponse) action" where
  "AttachResponse_decode ord m =
     bindM (MessageHeader_decode m) (\<lambda>m. bindM (HasQid_decode ord (atr_HasQid m)) (\<lambda>q.
       retM (m\<lparr>atr_HasQid := q\<rparr>)))"

subsection \<open>Walk\<close>

record WalkRequest = MessageHeader +
  wk_HasFid :: HasFid
  wk_newfid :: "32 word"
  wk_wname :: "std_string list"

definition WalkRequest_setNewFid :: "32 word \<Rightarrow> WalkRequest \<Rightarrow> WalkRequest" where
  "WalkRequest_setNewFid v m = m\<lparr>wk_newfid := v\<rparr>"

definition WalkRequest_isDirectoryTraversal :: "WalkRequest \<Rightarrow> bool" where
  "WalkRequest_isDirectoryTraversal m \<longleftrightarrow> length (wk_wname m) \<noteq> 0"

definition WalkRequest_isFidClone :: "WalkRequest \<Rightarrow> bool" where
  "WalkRequest_isFidClone m \<longleftrightarrow> \<not> WalkRequest_isDirectoryTraversal m"

definition WalkRequest_encode :: "WalkRequest \<Rightarrow> (MessageStream, unit) action" where
  "WalkRequest_encode m =
     seqM [MessageHeader_encode m, HasFid_encode (wk_HasFid m),
       encode_u32 (wk_newfid m), encode_vector encode_string (wk_wname m)]"

definition WalkRequest_decode :: "WalkRequest \<Rightarrow> (MessageStream, WalkRequest) action" where
  "WalkRequest_decode m =
     bindM (MessageHeader_decode m) (\<lambda>m. bindM (HasFid_decode (wk_HasFid m)) (\<lambda>f.
     bindM decode_u32 (\<lambda>newfid. bindM (decode_vector decode_string [] (wk_wname m)) (\<lambda>wname.
       retM (m\<lparr>wk_HasFid := f, wk_newfid := newfid, wk_wname := wname\<rparr>)))))"

record WalkResponse = MessageHeader +
  wkr_wqid :: "Qid list"

definition WalkResponse_encode :: "WalkResponse \<Rightarrow> (MessageStream, unit) action" where
  "WalkResponse_encode m = seqM [MessageHeader_encode m, encode_vector Qid_encode (wkr_wqid m)]"

text \<open>\<^verbatim>\<open>emplace_back()\<close> value-initialises the \<open>Qid\<close>: all its members are zero.\<close>

definition WalkResponse_decode :: "arg_order \<Rightarrow> WalkResponse \<Rightarrow> (MessageStream, WalkResponse) action" where
  "WalkResponse_decode ord m =
     bindM (MessageHeader_decode m) (\<lambda>m.
     bindM (decode_vector (Qid_decode ord) (Qid_ctor 0 0 0) (wkr_wqid m)) (\<lambda>wqid.
       retM (m\<lparr>wkr_wqid := wqid\<rparr>)))"

subsection \<open>Open and Create\<close>

record OpenRequest = MessageHeader +
  op_HasFid :: HasFid
  op_mode :: byte

definition OpenRequest_setMode :: "byte \<Rightarrow> OpenRequest \<Rightarrow> OpenRequest" where
  "OpenRequest_setMode v m = m\<lparr>op_mode := v\<rparr>"

definition OpenRequest_encode :: "OpenRequest \<Rightarrow> (MessageStream, unit) action" where
  "OpenRequest_encode m =
     seqM [MessageHeader_encode m, HasFid_encode (op_HasFid m), encode_u8 (op_mode m)]"

definition OpenRequest_decode :: "OpenRequest \<Rightarrow> (MessageStream, OpenRequest) action" where
  "OpenRequest_decode m =
     bindM (MessageHeader_decode m) (\<lambda>m. bindM (HasFid_decode (op_HasFid m)) (\<lambda>f.
     bindM decode_u8 (\<lambda>mode. retM (m\<lparr>op_HasFid := f, op_mode := mode\<rparr>))))"

record OpenOrCreateResponse = MessageHeader +
  oc_HasQid :: HasQid
  oc_iounit :: "32 word"

definition OpenOrCreateResponse_setIounit ::
  "32 word \<Rightarrow> OpenOrCreateResponse \<Rightarrow> OpenOrCreateResponse" where
  "OpenOrCreateResponse_setIounit v m = m\<lparr>oc_iounit := v\<rparr>"

definition OpenOrCreateResponse_encode :: "OpenOrCreateResponse \<Rightarrow> (MessageStream, unit) action" where
  "OpenOrCreateResponse_encode m =
     seqM [MessageHeader_encode m, HasQid_encode (oc_HasQid m), encode_u32 (oc_iounit m)]"

definition OpenOrCreateResponse_decode ::
  "arg_order \<Rightarrow> OpenOrCreateResponse \<Rightarrow> (MessageStream, OpenOrCreateResponse) action" where
  "OpenOrCreateResponse_decode ord m =
     bindM (MessageHeader_decode m) (\<lambda>m. bindM (HasQid_decode ord (oc_HasQid m)) (\<lambda>q.
     bindM decode_u32 (\<lambda>v. retM (m\<lparr>oc_HasQid := q, oc_iounit := v\<rparr>))))"

type_synonym OpenResponse = OpenOrCreateResponse

record CreateRequest = MessageHeader +
  cr_HasFid :: HasFid
  cr_HasName :: HasName
  cr_perm :: "32 word"
  cr_mode :: byte

definition CreateRequest_setPermissions :: "32 word \<Rightarrow> CreateRequest \<Rightarrow> CreateRequest" where
  "CreateRequest_setPermissions v m = m\<lparr>cr_perm := v\<rparr>"

definition CreateRequest_setMode :: "byte \<Rightarrow> CreateRequest \<Rightarrow> CreateRequest" where
  "CreateRequest_setMode v m = m\<lparr>cr_mode := v\<rparr>"

definition CreateRequest_encode :: "CreateRequest \<Rightarrow> (MessageStream, unit) action" where
  "CreateRequest_encode m =
     seqM [MessageHeader_encode m, HasFid_encode (cr_HasFid m), HasName_encode (cr_HasName m),
       encode_u32 (cr_perm m), encode_u8 (cr_mode m)]"

definition CreateRequest_decode :: "CreateRequest \<Rightarrow> (MessageStream, CreateRequest) action" where
  "CreateRequest_decode m =
     bindM (MessageHeader_decode m) (\<lambda>m. bindM (HasFid_decode (cr_HasFid m)) (\<lambda>f.
     bindM (HasName_decode (cr_HasName m)) (\<lambda>n.
     bindM decode_u32 (\<lambda>perm. bindM decode_u8 (\<lambda>mode.
       retM (m\<lparr>cr_HasFid := f, cr_HasName := n, cr_perm := perm, cr_mode := mode\<rparr>))))))"

type_synonym CreateResponse = OpenOrCreateResponse

subsection \<open>Requests on a fid\<close>

record FidRequest = MessageHeader +
  fr_HasFid :: HasFid

definition FidRequest_encode :: "'a FidRequest_scheme \<Rightarrow> (MessageStream, unit) action" where
  "FidRequest_encode m = seqM [MessageHeader_encode m, HasFid_encode (fr_HasFid m)]"

definition FidRequest_decode ::
  "'a FidRequest_scheme \<Rightarrow> (MessageStream, 'a FidRequest_scheme) action" where
  "FidRequest_decode m =
     bindM (MessageHeader_decode m) (\<lambda>m. bindM (HasFid_decode (fr_HasFid m)) (\<lambda>f.
       retM (m\<lparr>fr_HasFid := f\<rparr>)))"

record ReadWriteRequest = FidRequest +
  rw_HasOffset :: HasOffset

definition ReadWriteRequest_encode :: "'a ReadWriteRequest_scheme \<Rightarrow> (MessageStream, unit) action" where
  "ReadWriteRequest_encode m = seqM [FidRequest_encode m, HasOffset_encode (rw_HasOffset m)]"

definition ReadWriteRequest_decode ::
  "arg_order \<Rightarrow> 'a ReadWriteRequest_scheme \<Rightarrow> (MessageStream, 'a ReadWriteRequest_scheme) action" where
  "ReadWriteRequest_decode ord m =
     bindM (FidRequest_decode m) (\<lambda>m. bindM (HasOffset_decode ord (rw_HasOffset m)) (\<lambda>v.
       retM (m\<lparr>rw_HasOffset := v\<rparr>)))"

record ReadRequest = ReadWriteRequest +
  rd_HasCount :: HasCount

definition ReadRequest_encode :: "ReadRequest \<Rightarrow> (MessageStream, unit) action" where
  "ReadRequest_encode m = seqM [ReadWriteRequest_encode m, HasCount_encode (rd_HasCount m)]"

definition ReadRequest_decode :: "arg_order \<Rightarrow> ReadRequest \<Rightarrow> (MessageStream, ReadRequest) action" where
  "ReadRequest_decode ord m =
     bindM (ReadWriteRequest_decode ord m) (\<lambda>m. bindM (HasCount_decode (rd_HasCount m)) (\<lambda>c.
       retM (m\<lparr>rd_HasCount := c\<rparr>)))"

record ReadResponse = MessageHeader +
  rdr_HasDataStorage :: HasDataStorage

definition ReadResponse_encode :: "ReadResponse \<Rightarrow> (MessageStream, unit) action" where
  "ReadResponse_encode m = seqM [MessageHeader_encode m, HasDataStorage_encode (rdr_HasDataStorage m)]"

definition ReadResponse_decode :: "ReadResponse \<Rightarrow> (MessageStream, ReadResponse) action" where
  "ReadResponse_decode m =
     bindM (MessageHeader_decode m) (\<lambda>m. bindM (HasDataStorage_decode (rdr_HasDataStorage m)) (\<lambda>d.
       retM (m\<lparr>rdr_HasDataStorage := d\<rparr>)))"

record WriteRequest = ReadWriteRequest +
  wr_HasDataStorage :: HasDataStorage

definition WriteRequest_encode :: "WriteRequest \<Rightarrow> (MessageStream, unit) action" where
  "WriteRequest_encode m = seqM [ReadWriteRequest_encode m, HasDataStorage_encode (wr_HasDataStorage m)]"

definition WriteRequest_decode :: "arg_order \<Rightarrow> WriteRequest \<Rightarrow> (MessageStream, WriteRequest) action" where
  "WriteRequest_decode ord m =
     bindM (ReadWriteRequest_decode ord m) (\<lambda>m.
     bindM (HasDataStorage_decode (wr_HasDataStorage m)) (\<lambda>d.
       retM (m\<lparr>wr_HasDataStorage := d\<rparr>)))"

record WriteResponse = MessageHeader +
  wrr_HasCount :: HasCount

definition WriteResponse_encode :: "WriteResponse \<Rightarrow> (MessageStream, unit) action" where
  "WriteResponse_encode m = seqM [MessageHeader_encode m, HasCount_encode (wrr_HasCount m)]"

definition WriteResponse_decode :: "WriteResponse \<Rightarrow> (MessageStream, WriteResponse) action" where
  "WriteResponse_decode m =
     bindM (MessageHeader_decode m) (\<lambda>m. bindM (HasCount_decode (wrr_HasCount m)) (\<lambda>c.
       retM (m\<lparr>wrr_HasCount := c\<rparr>)))"

type_synonym ClunkRequest = FidRequest

type_synonym ClunkResponse = ResponseMessage

type_synonym RemoveRequest = FidRequest

type_synonym RemoveResponse = ResponseMessage

type_synonym StatRequest = FidRequest

subsection \<open>Stat and WStat\<close>

record StatResponse = MessageHeader +
  sr_data :: std_string

definition StatResponse_setData :: "std_string \<Rightarrow> StatResponse \<Rightarrow> StatResponse" where
  "StatResponse_setData v m = m\<lparr>sr_data := v\<rparr>"

definition StatResponse_encode :: "StatResponse \<Rightarrow> (MessageStream, unit) action" where
  "StatResponse_encode m = seqM [MessageHeader_encode m, encode_string (sr_data m)]"

definition StatResponse_decode :: "StatResponse \<Rightarrow> (MessageStream, StatResponse) action" where
  "StatResponse_decode m =
     bindM (MessageHeader_decode m) (\<lambda>m. bindM (decode_string (sr_data m)) (\<lambda>v.
       retM (m\<lparr>sr_data := v\<rparr>)))"

record WStatRequest = MessageHeader +
  ws_HasFid :: HasFid
  ws_stat :: Stat

definition WStatRequest_setStat :: "Stat \<Rightarrow> WStatRequest \<Rightarrow> WStatRequest" where
  "WStatRequest_setStat v m = m\<lparr>ws_stat := v\<rparr>"

definition WStatRequest_encode :: "WStatRequest \<Rightarrow> (MessageStream, unit) action" where
  "WStatRequest_encode m =
     seqM [MessageHeader_encode m, HasFid_encode (ws_HasFid m), Stat_encode (ws_stat m)]"

definition WStatRequest_decode :: "arg_order \<Rightarrow> WStatRequest \<Rightarrow> (MessageStream, WStatRequest) action" where
  "WStatRequest_decode ord m =
     bindM (MessageHeader_decode m) (\<lambda>m. bindM (HasFid_decode (ws_HasFid m)) (\<lambda>f.
     bindM (Stat_decode ord (ws_stat m)) (\<lambda>st.
       retM (m\<lparr>ws_HasFid := f, ws_stat := st\<rparr>))))"

type_synonym WStatResponse = ResponseMessage

end
