(* ===== verification/Message_Codecs.thy ===== *)
theory Message_Codecs
  imports Messages
begin

text \<open>
  The wire format of every object of \<^verbatim>\<open>Message.h\<close>, and the proof that its
  \<^verbatim>\<open>encode\<close> and \<^verbatim>\<open>decode\<close> implement it.

  For each class \<open>X\<close>: \<open>wire_X\<close> is the sequence of bytes of an object, \<open>fits_X\<close> the
  objects that can be sent (strings, vectors and data within their count field), and
  \<open>seen_X\<close> what a target object holds after the bytes of another were decoded into it. An
  integer is replaced, a string keeps the size of the target (\<open>overlay\<close>), a vector is
  appended to. Each class is an interpretation of the locale \<open>member_codec\<close>, from which
  the properties at the end follow.
\<close>

section \<open>Wire formats\<close>

definition wire_Qid :: "Qid \<Rightarrow> byte list" where
  "wire_Qid q = wire_u8 (qid_type q) @ wire_u32 (qid_version q) @ wire_u64 (qid_path q)"

definition seen_Qid :: "arg_order \<Rightarrow> Qid \<Rightarrow> Qid" where
  "seen_Qid ord q = q\<lparr>qid_path := seen_u64 ord (qid_path q)\<rparr>"

definition wire_data :: "HasDataStorage \<Rightarrow> byte list" where
  "wire_data h = le_bytes 4 (length (hd_data h)) @ hd_data h"

definition fits_data :: "HasDataStorage \<Rightarrow> bool" where
  "fits_data h \<longleftrightarrow> length (hd_data h) < 2 ^ 32"

definition wire_Stat_inner :: "Stat \<Rightarrow> byte list" where
  "wire_Stat_inner st =
     wire_u16 (st_type st) @ wire_u32 (st_dev st) @ wire_Qid (hq_qid (st_HasQid st)) @
     wire_u32 (st_mode st) @ wire_u32 (st_atime st) @ wire_u32 (st_mtime st) @
     wire_u64 (st_length st) @ wire_string (hn_name (st_HasName st)) @
     wire_string (st_uid st) @ wire_string (st_gid st) @ wire_string (st_muid st)"

definition wire_Stat :: "Stat \<Rightarrow> byte list" where
  "wire_Stat st = wire_string (wire_Stat_inner st)"

definition fits_Stat :: "Stat \<Rightarrow> bool" where
  "fits_Stat st \<longleftrightarrow> fits_u16 (wire_Stat_inner st)"

definition seen_Stat :: "arg_order \<Rightarrow> Stat \<Rightarrow> Stat \<Rightarrow> Stat" where
  "seen_Stat ord t st = st\<lparr>
     st_HasQid := \<lparr>hq_qid = seen_Qid ord (hq_qid (st_HasQid st))\<rparr>,
     st_HasName := \<lparr>hn_name = overlay (hn_name (st_HasName st)) (hn_name (st_HasName t))\<rparr>,
     st_length := seen_u64 ord (st_length st),
     st_uid := overlay (st_uid st) (st_uid t),
     st_gid := overlay (st_gid st) (st_gid t),
     st_muid := overlay (st_muid st) (st_muid t)\<rparr>"

definition wire_header :: "'a MessageHeader_scheme \<Rightarrow> byte list" where
  "wire_header m = wire_u8 (hdr_op m) @ wire_u16 (hdr_tag m)"

definition wire_ErrorResponse :: "ErrorResponse \<Rightarrow> byte list" where
  "wire_ErrorResponse m =
     wire_header m @ wire_string (er_ename m)"

definition fits_ErrorResponse :: "ErrorResponse \<Rightarrow> bool" where
  "fits_ErrorResponse m \<longleftrightarrow>
     fits_u16 (er_ename m)"

definition seen_ErrorResponse :: "ErrorResponse \<Rightarrow> ErrorResponse \<Rightarrow> ErrorResponse" where
  "seen_ErrorResponse t m = m\<lparr>er_ename := overlay (er_ename m) (er_ename t)\<rparr>"

definition wire_VersionMessage :: "VersionMessage \<Rightarrow> byte list" where
  "wire_VersionMessage m =
     wire_header m @ wire_u16 (vm_msize m) @ wire_string (vm_version m)"

definition fits_VersionMessage :: "VersionMessage \<Rightarrow> bool" where
  "fits_VersionMessage m \<longleftrightarrow>
     fits_u16 (vm_version m)"

definition seen_VersionMessage :: "VersionMessage \<Rightarrow> VersionMessage \<Rightarrow> VersionMessage" where
  "seen_VersionMessage t m = m\<lparr>vm_version := overlay (vm_version m) (vm_version t)\<rparr>"

definition wire_AuthenticationRequest :: "AuthenticationRequest \<Rightarrow> byte list" where
  "wire_AuthenticationRequest m =
     wire_header m @ wire_u32 (au_afid m) @ wire_string (au_uname m) @ wire_string (au_aname m)"

definition fits_AuthenticationRequest :: "AuthenticationRequest \<Rightarrow> bool" where
  "fits_AuthenticationRequest m \<longleftrightarrow>
     fits_u16 (au_uname m) \<and> fits_u16 (au_aname m)"

definition seen_AuthenticationRequest :: "AuthenticationRequest \<Rightarrow> AuthenticationRequest \<Rightarrow> AuthenticationRequest" where
  "seen_AuthenticationRequest t m = m\<lparr>au_uname := overlay (au_uname m) (au_uname t), au_aname := overlay (au_aname m) (au_aname t)\<rparr>"

definition wire_AuthenticationResponse :: "AuthenticationResponse \<Rightarrow> byte list" where
  "wire_AuthenticationResponse m =
     wire_header m @ wire_Qid (hq_qid (aur_HasQid m))"

definition seen_AuthenticationResponse :: "arg_order \<Rightarrow> AuthenticationResponse \<Rightarrow> AuthenticationResponse \<Rightarrow> AuthenticationResponse" where
  "seen_AuthenticationResponse ord t m = m\<lparr>aur_HasQid := \<lparr>hq_qid = seen_Qid ord (hq_qid (aur_HasQid m))\<rparr>\<rparr>"

definition wire_FlushRequest :: "FlushRequest \<Rightarrow> byte list" where
  "wire_FlushRequest m =
     wire_header m @ wire_u16 (fl_oldtag m)"

definition wire_AttachRequest :: "AttachRequest \<Rightarrow> byte list" where
  "wire_AttachRequest m =
     wire_header m @ wire_u32 (hf_fid (at_HasFid m)) @ wire_u32 (at_afid m) @
     wire_string (at_uname m) @ wire_string (at_aname m)"

definition fits_AttachRequest :: "AttachRequest \<Rightarrow> bool" where
  "fits_AttachRequest m \<longleftrightarrow>
     fits_u16 (at_uname m) \<and> fits_u16 (at_aname m)"

definition seen_AttachRequest :: "AttachRequest \<Rightarrow> AttachRequest \<Rightarrow> AttachRequest" where
  "seen_AttachRequest t m = m\<lparr>at_uname := overlay (at_uname m) (at_uname t), at_aname := overlay (at_aname m) (at_aname t)\<rparr>"

definition wire_AttachResponse :: "AttachResponse \<Rightarrow> byte list" where
  "wire_AttachResponse m =
     wire_header m @ wire_Qid (hq_qid (atr_HasQid m))"

definition seen_AttachResponse :: "arg_order \<Rightarrow> AttachResponse \<Rightarrow> AttachResponse \<Rightarrow> AttachResponse" where
  "seen_AttachResponse ord t m = m\<lparr>atr_HasQid := \<lparr>hq_qid = seen_Qid ord (hq_qid (atr_HasQid m))\<rparr>\<rparr>"

definition wire_WalkRequest :: "WalkRequest \<Rightarrow> byte list" where
  "wire_WalkRequest m =
     wire_header m @ wire_u32 (hf_fid (wk_HasFid m)) @ wire_u32 (wk_newfid m) @
     wire_vector wire_string (wk_wname m)"

definition fits_WalkRequest :: "WalkRequest \<Rightarrow> bool" where
  "fits_WalkRequest m \<longleftrightarrow>
     fits_u16 (wk_wname m) \<and> (\<forall>v \<in> set (wk_wname m). fits_u16 v)"

definition seen_WalkRequest :: "WalkRequest \<Rightarrow> WalkRequest \<Rightarrow> WalkRequest" where
  "seen_WalkRequest t m = m\<lparr>wk_wname := wk_wname t @ map (\<lambda>_. []) (wk_wname m)\<rparr>"

definition wire_WalkResponse :: "WalkResponse \<Rightarrow> byte list" where
  "wire_WalkResponse m =
     wire_header m @ wire_vector wire_Qid (wkr_wqid m)"

definition fits_WalkResponse :: "WalkResponse \<Rightarrow> bool" where
  "fits_WalkResponse m \<longleftrightarrow>
     fits_u16 (wkr_wqid m)"

definition seen_WalkResponse :: "arg_order \<Rightarrow> WalkResponse \<Rightarrow> WalkResponse \<Rightarrow> WalkResponse" where
  "seen_WalkResponse ord t m = m\<lparr>wkr_wqid := wkr_wqid t @ map (seen_Qid ord) (wkr_wqid m)\<rparr>"

definition wire_OpenRequest :: "OpenRequest \<Rightarrow> byte list" where
  "wire_OpenRequest m =
     wire_header m @ wire_u32 (hf_fid (op_HasFid m)) @ wire_u8 (op_mode m)"

definition wire_OpenOrCreateResponse :: "OpenOrCreateResponse \<Rightarrow> byte list" where
  "wire_OpenOrCreateResponse m =
     wire_header m @ wire_Qid (hq_qid (oc_HasQid m)) @ wire_u32 (oc_iounit m)"

definition seen_OpenOrCreateResponse :: "arg_order \<Rightarrow> OpenOrCreateResponse \<Rightarrow> OpenOrCreateResponse \<Rightarrow> OpenOrCreateResponse" where
  "seen_OpenOrCreateResponse ord t m = m\<lparr>oc_HasQid := \<lparr>hq_qid = seen_Qid ord (hq_qid (oc_HasQid m))\<rparr>\<rparr>"

definition wire_CreateRequest :: "CreateRequest \<Rightarrow> byte list" where
  "wire_CreateRequest m =
     wire_header m @ wire_u32 (hf_fid (cr_HasFid m)) @ wire_string (hn_name (cr_HasName m)) @
     wire_u32 (cr_perm m) @ wire_u8 (cr_mode m)"

definition fits_CreateRequest :: "CreateRequest \<Rightarrow> bool" where
  "fits_CreateRequest m \<longleftrightarrow>
     fits_u16 (hn_name (cr_HasName m))"

definition seen_CreateRequest :: "CreateRequest \<Rightarrow> CreateRequest \<Rightarrow> CreateRequest" where
  "seen_CreateRequest t m = m\<lparr>cr_HasName := \<lparr>hn_name = overlay (hn_name (cr_HasName m)) (hn_name (cr_HasName t))\<rparr>\<rparr>"

definition wire_FidRequest :: "FidRequest \<Rightarrow> byte list" where
  "wire_FidRequest m =
     wire_header m @ wire_u32 (hf_fid (fr_HasFid m))"

definition wire_ReadRequest :: "ReadRequest \<Rightarrow> byte list" where
  "wire_ReadRequest m =
     wire_header m @ wire_u32 (hf_fid (fr_HasFid m)) @ wire_u64 (ho_offset (rw_HasOffset m)) @
     wire_u32 (hc_count (rd_HasCount m))"

definition seen_ReadRequest :: "arg_order \<Rightarrow> ReadRequest \<Rightarrow> ReadRequest \<Rightarrow> ReadRequest" where
  "seen_ReadRequest ord t m = m\<lparr>rw_HasOffset := \<lparr>ho_offset = seen_u64 ord (ho_offset (rw_HasOffset m))\<rparr>\<rparr>"

definition wire_ReadResponse :: "ReadResponse \<Rightarrow> byte list" where
  "wire_ReadResponse m =
     wire_header m @ wire_data (rdr_HasDataStorage m)"

definition fits_ReadResponse :: "ReadResponse \<Rightarrow> bool" where
  "fits_ReadResponse m \<longleftrightarrow>
     fits_data (rdr_HasDataStorage m)"

definition seen_ReadResponse :: "ReadResponse \<Rightarrow> ReadResponse \<Rightarrow> ReadResponse" where
  "seen_ReadResponse t m = m\<lparr>rdr_HasDataStorage := \<lparr>hd_data = hd_data (rdr_HasDataStorage t) @ hd_data (rdr_HasDataStorage m)\<rparr>\<rparr>"

definition wire_WriteRequest :: "WriteRequest \<Rightarrow> byte list" where
  "wire_WriteRequest m =
     wire_header m @ wire_u32 (hf_fid (fr_HasFid m)) @ wire_u64 (ho_offset (rw_HasOffset m)) @
     wire_data (wr_HasDataStorage m)"

definition fits_WriteRequest :: "WriteRequest \<Rightarrow> bool" where
  "fits_WriteRequest m \<longleftrightarrow>
     fits_data (wr_HasDataStorage m)"

definition seen_WriteRequest :: "arg_order \<Rightarrow> WriteRequest \<Rightarrow> WriteRequest \<Rightarrow> WriteRequest" where
  "seen_WriteRequest ord t m = m\<lparr>rw_HasOffset := \<lparr>ho_offset = seen_u64 ord (ho_offset (rw_HasOffset m))\<rparr>,
     wr_HasDataStorage := \<lparr>hd_data = hd_data (wr_HasDataStorage t) @ hd_data (wr_HasDataStorage m)\<rparr>\<rparr>"

definition wire_WriteResponse :: "WriteResponse \<Rightarrow> byte list" where
  "wire_WriteResponse m =
     wire_header m @ wire_u32 (hc_count (wrr_HasCount m))"

definition wire_StatResponse :: "StatResponse \<Rightarrow> byte list" where
  "wire_StatResponse m =
     wire_header m @ wire_string (sr_data m)"

definition fits_StatResponse :: "StatResponse \<Rightarrow> bool" where
  "fits_StatResponse m \<longleftrightarrow>
     fits_u16 (sr_data m)"

definition seen_StatResponse :: "StatResponse \<Rightarrow> StatResponse \<Rightarrow> StatResponse" where
  "seen_StatResponse t m = m\<lparr>sr_data := overlay (sr_data m) (sr_data t)\<rparr>"

definition wire_WStatRequest :: "WStatRequest \<Rightarrow> byte list" where
  "wire_WStatRequest m =
     wire_header m @ wire_u32 (hf_fid (ws_HasFid m)) @ wire_Stat (ws_stat m)"

definition fits_WStatRequest :: "WStatRequest \<Rightarrow> bool" where
  "fits_WStatRequest m \<longleftrightarrow>
     fits_Stat (ws_stat m)"

definition seen_WStatRequest :: "arg_order \<Rightarrow> WStatRequest \<Rightarrow> WStatRequest \<Rightarrow> WStatRequest" where
  "seen_WStatRequest ord t m = m\<lparr>ws_stat := seen_Stat ord (ws_stat t) (ws_stat m)\<rparr>"

section \<open>Header and mixins\<close>

lemma mixin_eta [codec_simps]:
  "(h :: HasQid)\<lparr>hq_qid := q\<rparr> = \<lparr>hq_qid = q\<rparr>" "(n :: HasName)\<lparr>hn_name := v\<rparr> = \<lparr>hn_name = v\<rparr>"
  "(f :: HasFid)\<lparr>hf_fid := i\<rparr> = \<lparr>hf_fid = i\<rparr>" "(c :: HasCount)\<lparr>hc_count := i\<rparr> = \<lparr>hc_count = i\<rparr>"
  "(p :: HasOffset)\<lparr>ho_offset := l\<rparr> = \<lparr>ho_offset = l\<rparr>"
  "(d :: HasDataStorage)\<lparr>hd_data := v\<rparr> = \<lparr>hd_data = v\<rparr>"
  "\<lparr>hf_fid = hf_fid f\<rparr> = (f :: HasFid)" "\<lparr>hc_count = hc_count c\<rparr> = (c :: HasCount)"
  by simp_all

lemma emits_header [emits_intros]: "emits (MessageHeader_encode m) True (wire_header m)"
  unfolding MessageHeader_encode_def encode_Operation_def
  by (rule emits_eqI, (rule emits_intros)+) (simp_all add: wire_header_def)

lemma decode_header [codec_simps]:
  "ss_good s \<Longrightarrow> MessageHeader_decode t (reading s pre (wire_header m @ post)) =
     (Ok (t\<lparr>hdr_op := hdr_op m, hdr_tag := hdr_tag m\<rparr>), reading s (pre @ wire_header m) post)"
  by (simp add: MessageHeader_decode_def wire_header_def decode_Operation_def codec_simps)

lemma reads_only_header [reads_only_intros]: "reads_only (MessageHeader_decode m)"
  unfolding MessageHeader_decode_def decode_Operation_def by (intro reads_only_intros)

interpretation header: member_codec MessageHeader_encode wire_header "\<lambda>_. True" MessageHeader_decode
  "\<lambda>_ m. m :: MessageHeader"
  by unfold_locales (simp_all add: codec_simps emits_intros reads_only_intros)

lemma emits_Qid [emits_intros]: "emits (Qid_encode q) True (wire_Qid q)"
  unfolding Qid_encode_def by (rule emits_eqI, (rule emits_intros)+) (simp_all add: wire_Qid_def)

lemma reads_only_Qid [reads_only_intros]: "reads_only (Qid_decode ord q)"
  unfolding Qid_decode_def by (intro reads_only_intros)

interpretation qids: vector_codec Qid_encode wire_Qid "\<lambda>_. True" "Qid_decode ord"
  "\<lambda>_. seen_Qid ord" "Qid_ctor 0 0 0"
  for ord
  by unfold_locales
    (simp_all add: Qid_decode_def wire_Qid_def seen_Qid_def codec_simps emits_intros reads_only_intros
      emits_Qid [unfolded wire_Qid_def])

lemmas qid_dec [codec_simps] = qids.dec_wire [OF TrueI] qids.vec.dec_wire

lemma emits_qids [emits_intros]:
  "emits (encode_vector Qid_encode qs) (fits_u16 qs) (wire_vector wire_Qid qs)"
  using qids.vec.enc_emits [of qs] by simp

lemma emits_mixins [emits_intros]:
  "emits (HasQid_encode h) True (wire_Qid (hq_qid h))"
  "emits (HasName_encode n) (fits_u16 (hn_name n)) (wire_string (hn_name n))"
  "emits (HasFid_encode f) True (wire_u32 (hf_fid f))"
  "emits (HasCount_encode c) True (wire_u32 (hc_count c))"
  "emits (HasOffset_encode p) True (wire_u64 (ho_offset p))"
  by (simp_all add: HasQid_encode_def HasName_encode_def HasFid_encode_def HasCount_encode_def
      HasOffset_encode_def emits_intros)

lemma reads_only_mixins [reads_only_intros]:
  "reads_only (HasQid_decode ord h)" "reads_only (HasName_decode n)" "reads_only (HasFid_decode f)"
  "reads_only (HasCount_decode c)" "reads_only (HasOffset_decode ord p)"
  "reads_only (HasDataStorage_decode d)"
  unfolding HasQid_decode_def HasName_decode_def HasFid_decode_def HasCount_decode_def
    HasOffset_decode_def HasDataStorage_decode_def
  by (intro reads_only_intros)+

lemma fits_data_unat:
  "unat (word_of_nat (HasDataStorage_size h) :: 32 word) = HasDataStorage_size h \<longleftrightarrow> fits_data h"
  by (simp add: HasDataStorage_size_def fits_data_def unat_word_of_nat_eq_iff)

lemma wire_u32_size: "wire_u32 (word_of_nat (HasDataStorage_size h)) = le_bytes 4 (length (hd_data h))"
  using le_bytes_mod [of 4 "length (hd_data h)"]
  by (simp add: wire_u32_def unat_of_nat HasDataStorage_size_def)

lemma emits_bytes: "emits (seqM (map encode_u8 v)) True v"
  using emits_list [where enc = encode_u8 and fits = "\<lambda>_. True" and wire = wire_u8, OF emits_u8]
  by simp

lemma emits_data [emits_intros]: "emits (HasDataStorage_encode h) (fits_data h) (wire_data h)"
  using emits_counted [OF emits_u32 emits_bytes]
  unfolding HasDataStorage_encode_def Let_def wire_data_def wire_u32_size [symmetric] fits_data_unat
  by simp

lemma decode_mixins [codec_simps]:
  assumes "ss_good s"
  shows
  "HasQid_decode ord h (reading s pre (wire_Qid q @ post)) =
     (Ok \<lparr>hq_qid = seen_Qid ord q\<rparr>, reading s (pre @ wire_Qid q) post)"
  "fits_u16 v \<Longrightarrow> HasName_decode n (reading s pre (wire_string v @ post)) =
     (Ok \<lparr>hn_name = overlay v (hn_name n)\<rparr>, reading s (pre @ wire_string v) post)"
  "HasFid_decode f (reading s pre (wire_u32 i @ post)) =
     (Ok \<lparr>hf_fid = i\<rparr>, reading s (pre @ wire_u32 i) post)"
  "HasCount_decode c (reading s pre (wire_u32 i @ post)) =
     (Ok \<lparr>hc_count = i\<rparr>, reading s (pre @ wire_u32 i) post)"
  "HasOffset_decode ord p (reading s pre (wire_u64 l @ post)) =
     (Ok \<lparr>ho_offset = seen_u64 ord l\<rparr>, reading s (pre @ wire_u64 l) post)"
  using assms
  by (simp_all add: HasQid_decode_def HasName_decode_def HasFid_decode_def HasCount_decode_def
      HasOffset_decode_def codec_simps)

lemma decode_data [codec_simps]:
  assumes "fits_data m" and "ss_good s"
  shows "HasDataStorage_decode h (reading s pre (wire_data m @ post)) =
    (Ok \<lparr>hd_data = hd_data h @ hd_data m\<rparr>, reading s (pre @ wire_data m) post)"
  using assms u8.dec_elements [of "hd_data m" s 0 "hd_data h"] fits_data_unat [of m]
  by (simp add: HasDataStorage_decode_def wire_data_def wire_u32_size [symmetric] codec_simps
      HasDataStorage_size_def)

section \<open>Stat\<close>

lemma emits_Stat_inner:
  "emits (Stat_inner st)
     (fits_u16 (hn_name (st_HasName st)) \<and> fits_u16 (st_uid st) \<and> fits_u16 (st_gid st) \<and>
      fits_u16 (st_muid st)) (wire_Stat_inner st)"
  unfolding Stat_inner_def
  by (rule emits_eqI, (rule emits_intros)+) (simp_all add: wire_Stat_inner_def)

lemma length_wire [simp]:
  "length (wire_u8 a) = 1" "length (wire_u16 b) = 2" "length (wire_u32 c) = 4" "length (wire_u64 d) = 8"
  "length (wire_string v) = 2 + length v"
  by (simp_all add: wire_u8_def wire_u16_def wire_u32_def wire_u64_def wire_string_def)

lemma length_wire_Stat_inner:
  "length (wire_Stat_inner st) = 47 + length (hn_name (st_HasName st)) + length (st_uid st) +
     length (st_gid st) + length (st_muid st)"
  by (simp add: wire_Stat_inner_def wire_Qid_def)

lemma emits_Stat [emits_intros]: "emits (Stat_encode st) (fits_Stat st) (wire_Stat st)"
  unfolding emits_def
proof (intro allI impI)
  fix s assume a: "ample s"
  let ?ok = "fits_u16 (hn_name (st_HasName st)) \<and> fits_u16 (st_uid st) \<and> fits_u16 (st_gid st) \<and>
      fits_u16 (st_muid st)"
  have a': "ample (ss_new (ss_max s))"
    using a by (simp add: ample_def ss_new_def)
  show "if fits_Stat st then Stat_encode st s = (Ok (), put_bytes (wire_Stat st) s)
    else \<exists>e p. Stat_encode st s = (Throw e, put_bytes p s)"
  proof (cases ?ok)
    case True
    have "length (wire_Stat_inner st) \<le> ss_max s"
      using True a by (simp add: length_wire_Stat_inner fits_u16_def ample_def)
    then have "Stat_encode st s = encode_string (wire_Stat_inner st) s"
      using emits_Ok [OF emits_Stat_inner True a']
      by (simp add: Stat_encode_def put_bytes_new MessageStream_str_def)
    then show ?thesis
      using emits_string [of "wire_Stat_inner st"] a
      by (auto simp: emits_def fits_Stat_def wire_Stat_def)
  next
    case False
    then have "\<not> fits_Stat st"
      by (auto simp: fits_Stat_def fits_u16_def length_wire_Stat_inner)
    moreover obtain e p where "Stat_inner st (ss_new (ss_max s)) = (Throw e, p)"
      using emits_Throw [OF emits_Stat_inner False a'] by blast
    then have "Stat_encode st s = (Throw e, put_bytes [] s)"
      by (simp add: Stat_encode_def)
    ultimately show ?thesis by (auto intro: exI [of _ "[]"])
  qed
qed

lemma reads_only_Stat [reads_only_intros]: "reads_only (Stat_decode ord st)"
  unfolding Stat_decode_def by (intro reads_only_intros)

lemma fits_Stat_strings:
  "fits_Stat st \<Longrightarrow> fits_u16 (hn_name (st_HasName st)) \<and> fits_u16 (st_uid st) \<and>
     fits_u16 (st_gid st) \<and> fits_u16 (st_muid st)"
  by (simp add: fits_Stat_def fits_u16_def length_wire_Stat_inner)

interpretation stat: member_codec Stat_encode wire_Stat fits_Stat "Stat_decode ord" "seen_Stat ord"
  for ord
proof unfold_locales
  fix st t s pre post
  assume f: "fits_Stat st" and g: "ss_good s"
  then show "Stat_decode ord t (reading s pre (wire_Stat st @ post)) =
      (Ok (seen_Stat ord t st), reading s (pre @ wire_Stat st) post)"
    using fits_Stat_strings [OF f]
    by (simp add: wire_Stat_def wire_string_def le_bytes_2_length fits_Stat_def)
      (simp add: Stat_decode_def wire_Stat_inner_def seen_Stat_def codec_simps)
qed (rule emits_Stat reads_only_Stat)+

lemmas stat_dec [codec_simps] = stat.dec_wire

section \<open>Messages\<close>

lemma emits_ErrorResponse [emits_intros]: "emits (ErrorResponse_encode m) (fits_ErrorResponse m) (wire_ErrorResponse m)"
  unfolding ErrorResponse_encode_def
  by (rule emits_eqI, (rule emits_intros)+) (simp_all add: wire_ErrorResponse_def fits_ErrorResponse_def)

lemma reads_only_ErrorResponse [reads_only_intros]: "reads_only (ErrorResponse_decode m)"
  unfolding ErrorResponse_decode_def by (intro reads_only_intros)

interpretation error_response: member_codec
  ErrorResponse_encode wire_ErrorResponse fits_ErrorResponse ErrorResponse_decode "seen_ErrorResponse"
  by unfold_locales
    (rule emits_ErrorResponse,
     simp add: ErrorResponse_decode_def wire_ErrorResponse_def fits_ErrorResponse_def seen_ErrorResponse_def codec_simps,
     rule reads_only_ErrorResponse)

lemma emits_VersionMessage [emits_intros]: "emits (VersionMessage_encode m) (fits_VersionMessage m) (wire_VersionMessage m)"
  unfolding VersionMessage_encode_def
  by (rule emits_eqI, (rule emits_intros)+) (simp_all add: wire_VersionMessage_def fits_VersionMessage_def)

lemma reads_only_VersionMessage [reads_only_intros]: "reads_only (VersionMessage_decode m)"
  unfolding VersionMessage_decode_def by (intro reads_only_intros)

interpretation version_message: member_codec
  VersionMessage_encode wire_VersionMessage fits_VersionMessage VersionMessage_decode "seen_VersionMessage"
  by unfold_locales
    (rule emits_VersionMessage,
     simp add: VersionMessage_decode_def wire_VersionMessage_def fits_VersionMessage_def seen_VersionMessage_def codec_simps,
     rule reads_only_VersionMessage)

lemma emits_AuthenticationRequest [emits_intros]: "emits (AuthenticationRequest_encode m) (fits_AuthenticationRequest m) (wire_AuthenticationRequest m)"
  unfolding AuthenticationRequest_encode_def
  by (rule emits_eqI, (rule emits_intros)+) (simp_all add: wire_AuthenticationRequest_def fits_AuthenticationRequest_def)

lemma reads_only_AuthenticationRequest [reads_only_intros]: "reads_only (AuthenticationRequest_decode m)"
  unfolding AuthenticationRequest_decode_def by (intro reads_only_intros)

interpretation auth_request: member_codec
  AuthenticationRequest_encode wire_AuthenticationRequest fits_AuthenticationRequest AuthenticationRequest_decode "seen_AuthenticationRequest"
  by unfold_locales
    (rule emits_AuthenticationRequest,
     simp add: AuthenticationRequest_decode_def wire_AuthenticationRequest_def fits_AuthenticationRequest_def seen_AuthenticationRequest_def codec_simps,
     rule reads_only_AuthenticationRequest)

lemma emits_AuthenticationResponse [emits_intros]: "emits (AuthenticationResponse_encode m) True (wire_AuthenticationResponse m)"
  unfolding AuthenticationResponse_encode_def
  by (rule emits_eqI, (rule emits_intros)+) (simp_all add: wire_AuthenticationResponse_def)

lemma reads_only_AuthenticationResponse [reads_only_intros]: "reads_only (AuthenticationResponse_decode ord m)"
  unfolding AuthenticationResponse_decode_def by (intro reads_only_intros)

interpretation auth_response: member_codec
  AuthenticationResponse_encode wire_AuthenticationResponse "\<lambda>_. True" "AuthenticationResponse_decode ord" "seen_AuthenticationResponse ord"
  for ord
  by unfold_locales
    (rule emits_AuthenticationResponse,
     simp add: AuthenticationResponse_decode_def wire_AuthenticationResponse_def seen_AuthenticationResponse_def codec_simps,
     rule reads_only_AuthenticationResponse)

lemma emits_FlushRequest [emits_intros]: "emits (FlushRequest_encode m) True (wire_FlushRequest m)"
  unfolding FlushRequest_encode_def
  by (rule emits_eqI, (rule emits_intros)+) (simp_all add: wire_FlushRequest_def)

lemma reads_only_FlushRequest [reads_only_intros]: "reads_only (FlushRequest_decode m)"
  unfolding FlushRequest_decode_def by (intro reads_only_intros)

interpretation flush_request: member_codec
  FlushRequest_encode wire_FlushRequest "\<lambda>_. True" FlushRequest_decode "\<lambda>_ m. m"
  by unfold_locales
    (rule emits_FlushRequest,
     simp add: FlushRequest_decode_def wire_FlushRequest_def codec_simps,
     rule reads_only_FlushRequest)

lemma emits_AttachRequest [emits_intros]: "emits (AttachRequest_encode m) (fits_AttachRequest m) (wire_AttachRequest m)"
  unfolding AttachRequest_encode_def
  by (rule emits_eqI, (rule emits_intros)+) (simp_all add: wire_AttachRequest_def fits_AttachRequest_def)

lemma reads_only_AttachRequest [reads_only_intros]: "reads_only (AttachRequest_decode m)"
  unfolding AttachRequest_decode_def by (intro reads_only_intros)

interpretation attach_request: member_codec
  AttachRequest_encode wire_AttachRequest fits_AttachRequest AttachRequest_decode "seen_AttachRequest"
  by unfold_locales
    (rule emits_AttachRequest,
     simp add: AttachRequest_decode_def wire_AttachRequest_def fits_AttachRequest_def seen_AttachRequest_def codec_simps,
     rule reads_only_AttachRequest)

lemma emits_AttachResponse [emits_intros]: "emits (AttachResponse_encode m) True (wire_AttachResponse m)"
  unfolding AttachResponse_encode_def
  by (rule emits_eqI, (rule emits_intros)+) (simp_all add: wire_AttachResponse_def)

lemma reads_only_AttachResponse [reads_only_intros]: "reads_only (AttachResponse_decode ord m)"
  unfolding AttachResponse_decode_def by (intro reads_only_intros)

interpretation attach_response: member_codec
  AttachResponse_encode wire_AttachResponse "\<lambda>_. True" "AttachResponse_decode ord" "seen_AttachResponse ord"
  for ord
  by unfold_locales
    (rule emits_AttachResponse,
     simp add: AttachResponse_decode_def wire_AttachResponse_def seen_AttachResponse_def codec_simps,
     rule reads_only_AttachResponse)

lemma emits_WalkRequest [emits_intros]: "emits (WalkRequest_encode m) (fits_WalkRequest m) (wire_WalkRequest m)"
  unfolding WalkRequest_encode_def
  by (rule emits_eqI, (rule emits_intros)+) (simp_all add: wire_WalkRequest_def fits_WalkRequest_def)

lemma reads_only_WalkRequest [reads_only_intros]: "reads_only (WalkRequest_decode m)"
  unfolding WalkRequest_decode_def by (intro reads_only_intros)

interpretation walk_request: member_codec
  WalkRequest_encode wire_WalkRequest fits_WalkRequest WalkRequest_decode "seen_WalkRequest"
  by unfold_locales
    (rule emits_WalkRequest,
     simp add: WalkRequest_decode_def wire_WalkRequest_def fits_WalkRequest_def seen_WalkRequest_def codec_simps,
     rule reads_only_WalkRequest)

lemma emits_WalkResponse [emits_intros]: "emits (WalkResponse_encode m) (fits_WalkResponse m) (wire_WalkResponse m)"
  unfolding WalkResponse_encode_def
  by (rule emits_eqI, (rule emits_intros)+) (simp_all add: wire_WalkResponse_def fits_WalkResponse_def)

lemma reads_only_WalkResponse [reads_only_intros]: "reads_only (WalkResponse_decode ord m)"
  unfolding WalkResponse_decode_def by (intro reads_only_intros)

interpretation walk_response: member_codec
  WalkResponse_encode wire_WalkResponse fits_WalkResponse "WalkResponse_decode ord" "seen_WalkResponse ord"
  for ord
  by unfold_locales
    (rule emits_WalkResponse,
     simp add: WalkResponse_decode_def wire_WalkResponse_def fits_WalkResponse_def seen_WalkResponse_def codec_simps,
     rule reads_only_WalkResponse)

lemma emits_OpenRequest [emits_intros]: "emits (OpenRequest_encode m) True (wire_OpenRequest m)"
  unfolding OpenRequest_encode_def
  by (rule emits_eqI, (rule emits_intros)+) (simp_all add: wire_OpenRequest_def)

lemma reads_only_OpenRequest [reads_only_intros]: "reads_only (OpenRequest_decode m)"
  unfolding OpenRequest_decode_def by (intro reads_only_intros)

interpretation open_request: member_codec
  OpenRequest_encode wire_OpenRequest "\<lambda>_. True" OpenRequest_decode "\<lambda>_ m. m"
  by unfold_locales
    (rule emits_OpenRequest,
     simp add: OpenRequest_decode_def wire_OpenRequest_def codec_simps,
     rule reads_only_OpenRequest)

lemma emits_OpenOrCreateResponse [emits_intros]: "emits (OpenOrCreateResponse_encode m) True (wire_OpenOrCreateResponse m)"
  unfolding OpenOrCreateResponse_encode_def
  by (rule emits_eqI, (rule emits_intros)+) (simp_all add: wire_OpenOrCreateResponse_def)

lemma reads_only_OpenOrCreateResponse [reads_only_intros]: "reads_only (OpenOrCreateResponse_decode ord m)"
  unfolding OpenOrCreateResponse_decode_def by (intro reads_only_intros)

interpretation open_response: member_codec
  OpenOrCreateResponse_encode wire_OpenOrCreateResponse "\<lambda>_. True" "OpenOrCreateResponse_decode ord" "seen_OpenOrCreateResponse ord"
  for ord
  by unfold_locales
    (rule emits_OpenOrCreateResponse,
     simp add: OpenOrCreateResponse_decode_def wire_OpenOrCreateResponse_def seen_OpenOrCreateResponse_def codec_simps,
     rule reads_only_OpenOrCreateResponse)

lemma emits_CreateRequest [emits_intros]: "emits (CreateRequest_encode m) (fits_CreateRequest m) (wire_CreateRequest m)"
  unfolding CreateRequest_encode_def
  by (rule emits_eqI, (rule emits_intros)+) (simp_all add: wire_CreateRequest_def fits_CreateRequest_def)

lemma reads_only_CreateRequest [reads_only_intros]: "reads_only (CreateRequest_decode m)"
  unfolding CreateRequest_decode_def by (intro reads_only_intros)

interpretation create_request: member_codec
  CreateRequest_encode wire_CreateRequest fits_CreateRequest CreateRequest_decode "seen_CreateRequest"
  by unfold_locales
    (rule emits_CreateRequest,
     simp add: CreateRequest_decode_def wire_CreateRequest_def fits_CreateRequest_def seen_CreateRequest_def codec_simps,
     rule reads_only_CreateRequest)

lemma emits_FidRequest [emits_intros]: "emits (FidRequest_encode m) True (wire_FidRequest m)"
  unfolding FidRequest_encode_def
  by (rule emits_eqI, (rule emits_intros)+) (simp_all add: wire_FidRequest_def)

lemma reads_only_FidRequest [reads_only_intros]: "reads_only (FidRequest_decode m)"
  unfolding FidRequest_decode_def by (intro reads_only_intros)

interpretation fid_request: member_codec
  FidRequest_encode wire_FidRequest "\<lambda>_. True" FidRequest_decode "\<lambda>_ m. m"
  by unfold_locales
    (rule emits_FidRequest,
     simp add: FidRequest_decode_def wire_FidRequest_def codec_simps,
     rule reads_only_FidRequest)

lemma emits_ReadRequest [emits_intros]: "emits (ReadRequest_encode m) True (wire_ReadRequest m)"
  unfolding ReadRequest_encode_def ReadWriteRequest_encode_def FidRequest_encode_def
  by (rule emits_eqI, (rule emits_intros)+) (simp_all add: wire_ReadRequest_def)

lemma reads_only_ReadRequest [reads_only_intros]: "reads_only (ReadRequest_decode ord m)"
  unfolding ReadRequest_decode_def ReadWriteRequest_decode_def FidRequest_decode_def by (intro reads_only_intros)

interpretation read_request: member_codec
  ReadRequest_encode wire_ReadRequest "\<lambda>_. True" "ReadRequest_decode ord" "seen_ReadRequest ord"
  for ord
  by unfold_locales
    (rule emits_ReadRequest,
     simp add: ReadRequest_decode_def ReadWriteRequest_decode_def FidRequest_decode_def wire_ReadRequest_def seen_ReadRequest_def codec_simps,
     rule reads_only_ReadRequest)

lemma emits_ReadResponse [emits_intros]: "emits (ReadResponse_encode m) (fits_ReadResponse m) (wire_ReadResponse m)"
  unfolding ReadResponse_encode_def
  by (rule emits_eqI, (rule emits_intros)+) (simp_all add: wire_ReadResponse_def fits_ReadResponse_def)

lemma reads_only_ReadResponse [reads_only_intros]: "reads_only (ReadResponse_decode m)"
  unfolding ReadResponse_decode_def by (intro reads_only_intros)

interpretation read_response: member_codec
  ReadResponse_encode wire_ReadResponse fits_ReadResponse ReadResponse_decode "seen_ReadResponse"
  by unfold_locales
    (rule emits_ReadResponse,
     simp add: ReadResponse_decode_def wire_ReadResponse_def fits_ReadResponse_def seen_ReadResponse_def codec_simps,
     rule reads_only_ReadResponse)

lemma emits_WriteRequest [emits_intros]: "emits (WriteRequest_encode m) (fits_WriteRequest m) (wire_WriteRequest m)"
  unfolding WriteRequest_encode_def ReadWriteRequest_encode_def FidRequest_encode_def
  by (rule emits_eqI, (rule emits_intros)+) (simp_all add: wire_WriteRequest_def fits_WriteRequest_def)

lemma reads_only_WriteRequest [reads_only_intros]: "reads_only (WriteRequest_decode ord m)"
  unfolding WriteRequest_decode_def ReadWriteRequest_decode_def FidRequest_decode_def by (intro reads_only_intros)

interpretation write_request: member_codec
  WriteRequest_encode wire_WriteRequest fits_WriteRequest "WriteRequest_decode ord" "seen_WriteRequest ord"
  for ord
  by unfold_locales
    (rule emits_WriteRequest,
     simp add: WriteRequest_decode_def ReadWriteRequest_decode_def FidRequest_decode_def wire_WriteRequest_def fits_WriteRequest_def seen_WriteRequest_def codec_simps,
     rule reads_only_WriteRequest)

lemma emits_WriteResponse [emits_intros]: "emits (WriteResponse_encode m) True (wire_WriteResponse m)"
  unfolding WriteResponse_encode_def
  by (rule emits_eqI, (rule emits_intros)+) (simp_all add: wire_WriteResponse_def)

lemma reads_only_WriteResponse [reads_only_intros]: "reads_only (WriteResponse_decode m)"
  unfolding WriteResponse_decode_def by (intro reads_only_intros)

interpretation write_response: member_codec
  WriteResponse_encode wire_WriteResponse "\<lambda>_. True" WriteResponse_decode "\<lambda>_ m. m"
  by unfold_locales
    (rule emits_WriteResponse,
     simp add: WriteResponse_decode_def wire_WriteResponse_def codec_simps,
     rule reads_only_WriteResponse)

lemma emits_StatResponse [emits_intros]: "emits (StatResponse_encode m) (fits_StatResponse m) (wire_StatResponse m)"
  unfolding StatResponse_encode_def
  by (rule emits_eqI, (rule emits_intros)+) (simp_all add: wire_StatResponse_def fits_StatResponse_def)

lemma reads_only_StatResponse [reads_only_intros]: "reads_only (StatResponse_decode m)"
  unfolding StatResponse_decode_def by (intro reads_only_intros)

interpretation stat_response: member_codec
  StatResponse_encode wire_StatResponse fits_StatResponse StatResponse_decode "seen_StatResponse"
  by unfold_locales
    (rule emits_StatResponse,
     simp add: StatResponse_decode_def wire_StatResponse_def fits_StatResponse_def seen_StatResponse_def codec_simps,
     rule reads_only_StatResponse)

lemma emits_WStatRequest [emits_intros]: "emits (WStatRequest_encode m) (fits_WStatRequest m) (wire_WStatRequest m)"
  unfolding WStatRequest_encode_def
  by (rule emits_eqI, (rule emits_intros)+) (simp_all add: wire_WStatRequest_def fits_WStatRequest_def)

lemma reads_only_WStatRequest [reads_only_intros]: "reads_only (WStatRequest_decode ord m)"
  unfolding WStatRequest_decode_def by (intro reads_only_intros)

interpretation wstat_request: member_codec
  WStatRequest_encode wire_WStatRequest fits_WStatRequest "WStatRequest_decode ord" "seen_WStatRequest ord"
  for ord
  by unfold_locales
    (rule emits_WStatRequest,
     simp add: WStatRequest_decode_def wire_WStatRequest_def fits_WStatRequest_def seen_WStatRequest_def codec_simps,
     rule reads_only_WStatRequest)

end
