(* ===== verification/Interaction.thy ===== *)
theory Interaction
  imports Message_Codecs
begin

text \<open>
  \<^verbatim>\<open>Interaction.h\<close> and \<^verbatim>\<open>Interaction.cc\<close>: the variants over all requests and all
  responses, and their operators on a stream.

  A \<^verbatim>\<open>std::variant\<close> is a datatype with one constructor per alternative, in the order of the
  alternatives. \<^verbatim>\<open>std::visit\<close> is a function by cases on it. \<^verbatim>\<open>emplace<T>()\<close> makes a
  value-initialised object: the members are zero or empty, except for \<open>VersionMessage\<close>, whose
  constructor is user-provided and leaves \<^verbatim>\<open>_msize\<close> with whatever the memory held, the
  parameter \<open>u\<close>.

  The operators \<^verbatim>\<open>>>\<close> change the variant and the stream, and the change stays when they
  throw: they give the result, the variant and the stream.

  The locale \<open>dispatcher\<close> is the contract of such a pair of operators; requests, responses
  and interactions are its interpretations.
\<close>

section \<open>Responses and requests\<close>

text \<open>A \<open>Stat\<close> whose members are all zero or empty.\<close>

definition Stat_zero :: Stat where
  "Stat_zero = \<lparr>st_HasQid = \<lparr>hq_qid = Qid_ctor 0 0 0\<rparr>, st_HasName = \<lparr>hn_name = []\<rparr>,
     st_type = 0, st_dev = 0, st_mode = 0, st_atime = 0, st_mtime = 0, st_length = 0,
     st_uid = [], st_gid = [], st_muid = []\<rparr>"

text \<open>
  The types of the alternatives are those that \<^verbatim>\<open>BindRequestResponseToTypes\<close> binds to each
  operation at the end of \<^verbatim>\<open>Message.h\<close>.
\<close>

datatype Response =
    Resp_Undefined UndefinedResponse
  | Resp_Version VersionResponse
  | Resp_Auth AuthenticationResponse
  | Resp_Attach AttachResponse
  | Resp_Error ErrorResponse
  | Resp_Flush FlushResponse
  | Resp_Walk WalkResponse
  | Resp_Open OpenResponse
  | Resp_Create CreateResponse
  | Resp_Read ReadResponse
  | Resp_Write WriteResponse
  | Resp_Clunk ClunkResponse
  | Resp_Remove RemoveResponse
  | Resp_Stat StatResponse
  | Resp_WStat WStatResponse

fun Response_encode :: "Response \<Rightarrow> (MessageStream, unit) action" where
  "Response_encode (Resp_Undefined m) = UndefinedMessage_encode Response m"
| "Response_encode (Resp_Version m) = VersionMessage_encode m"
| "Response_encode (Resp_Auth m) = AuthenticationResponse_encode m"
| "Response_encode (Resp_Attach m) = AttachResponse_encode m"
| "Response_encode (Resp_Error m) = ErrorResponse_encode m"
| "Response_encode (Resp_Flush m) = MessageHeader_encode m"
| "Response_encode (Resp_Walk m) = WalkResponse_encode m"
| "Response_encode (Resp_Open m) = OpenOrCreateResponse_encode m"
| "Response_encode (Resp_Create m) = OpenOrCreateResponse_encode m"
| "Response_encode (Resp_Read m) = ReadResponse_encode m"
| "Response_encode (Resp_Write m) = WriteResponse_encode m"
| "Response_encode (Resp_Clunk m) = MessageHeader_encode m"
| "Response_encode (Resp_Remove m) = MessageHeader_encode m"
| "Response_encode (Resp_Stat m) = StatResponse_encode m"
| "Response_encode (Resp_WStat m) = MessageHeader_encode m"

fun Response_decode :: "arg_order \<Rightarrow> Response \<Rightarrow> (MessageStream, Response) action" where
  "Response_decode ord (Resp_Undefined m) = bindM (UndefinedMessage_decode Response m) (\<lambda>m. retM (Resp_Undefined m))"
| "Response_decode ord (Resp_Version m) = bindM (VersionMessage_decode m) (\<lambda>m. retM (Resp_Version m))"
| "Response_decode ord (Resp_Auth m) = bindM (AuthenticationResponse_decode ord m) (\<lambda>m. retM (Resp_Auth m))"
| "Response_decode ord (Resp_Attach m) = bindM (AttachResponse_decode ord m) (\<lambda>m. retM (Resp_Attach m))"
| "Response_decode ord (Resp_Error m) = bindM (ErrorResponse_decode m) (\<lambda>m. retM (Resp_Error m))"
| "Response_decode ord (Resp_Flush m) = bindM (MessageHeader_decode m) (\<lambda>m. retM (Resp_Flush m))"
| "Response_decode ord (Resp_Walk m) = bindM (WalkResponse_decode ord m) (\<lambda>m. retM (Resp_Walk m))"
| "Response_decode ord (Resp_Open m) = bindM (OpenOrCreateResponse_decode ord m) (\<lambda>m. retM (Resp_Open m))"
| "Response_decode ord (Resp_Create m) = bindM (OpenOrCreateResponse_decode ord m) (\<lambda>m. retM (Resp_Create m))"
| "Response_decode ord (Resp_Read m) = bindM (ReadResponse_decode m) (\<lambda>m. retM (Resp_Read m))"
| "Response_decode ord (Resp_Write m) = bindM (WriteResponse_decode m) (\<lambda>m. retM (Resp_Write m))"
| "Response_decode ord (Resp_Clunk m) = bindM (MessageHeader_decode m) (\<lambda>m. retM (Resp_Clunk m))"
| "Response_decode ord (Resp_Remove m) = bindM (MessageHeader_decode m) (\<lambda>m. retM (Resp_Remove m))"
| "Response_decode ord (Resp_Stat m) = bindM (StatResponse_decode m) (\<lambda>m. retM (Resp_Stat m))"
| "Response_decode ord (Resp_WStat m) = bindM (MessageHeader_decode m) (\<lambda>m. retM (Resp_WStat m))"

fun emplace_Response :: "16 word \<Rightarrow> ConceptualOperation \<Rightarrow> Response" where
  "emplace_Response u Undefined = Resp_Undefined
     \<lparr>hdr_op = translateConcept Undefined Response, hdr_tag = notag\<rparr>"
| "emplace_Response u Version = Resp_Version
     \<lparr>hdr_op = translateConcept Version Response, hdr_tag = notag, vm_version = [], vm_msize = u\<rparr>"
| "emplace_Response u Auth = Resp_Auth
     \<lparr>hdr_op = translateConcept Auth Response, hdr_tag = notag, aur_HasQid = \<lparr>hq_qid = Qid_ctor 0 0 0\<rparr>\<rparr>"
| "emplace_Response u Attach = Resp_Attach
     \<lparr>hdr_op = translateConcept Attach Response, hdr_tag = notag, atr_HasQid = \<lparr>hq_qid = Qid_ctor 0 0 0\<rparr>\<rparr>"
| "emplace_Response u Error = Resp_Error
     \<lparr>hdr_op = translateConcept Error Response, hdr_tag = notag, er_ename = []\<rparr>"
| "emplace_Response u Flush = Resp_Flush
     \<lparr>hdr_op = translateConcept Flush Response, hdr_tag = notag\<rparr>"
| "emplace_Response u Walk = Resp_Walk
     \<lparr>hdr_op = translateConcept Walk Response, hdr_tag = notag, wkr_wqid = []\<rparr>"
| "emplace_Response u Open = Resp_Open
     \<lparr>hdr_op = translateConcept Open Response, hdr_tag = notag, oc_HasQid = \<lparr>hq_qid = Qid_ctor 0 0 0\<rparr>, oc_iounit = 0\<rparr>"
| "emplace_Response u Create = Resp_Create
     \<lparr>hdr_op = translateConcept Create Response, hdr_tag = notag, oc_HasQid = \<lparr>hq_qid = Qid_ctor 0 0 0\<rparr>, oc_iounit = 0\<rparr>"
| "emplace_Response u Read = Resp_Read
     \<lparr>hdr_op = translateConcept Read Response, hdr_tag = notag, rdr_HasDataStorage = \<lparr>hd_data = []\<rparr>\<rparr>"
| "emplace_Response u Write = Resp_Write
     \<lparr>hdr_op = translateConcept Write Response, hdr_tag = notag, wrr_HasCount = \<lparr>hc_count = 0\<rparr>\<rparr>"
| "emplace_Response u Clunk = Resp_Clunk
     \<lparr>hdr_op = translateConcept Clunk Response, hdr_tag = notag\<rparr>"
| "emplace_Response u Remove = Resp_Remove
     \<lparr>hdr_op = translateConcept Remove Response, hdr_tag = notag\<rparr>"
| "emplace_Response u Stat = Resp_Stat
     \<lparr>hdr_op = translateConcept Stat Response, hdr_tag = notag, sr_data = []\<rparr>"
| "emplace_Response u WStat = Resp_WStat
     \<lparr>hdr_op = translateConcept WStat Response, hdr_tag = notag\<rparr>"

datatype Request =
    Req_Undefined UndefinedRequest
  | Req_Version VersionRequest
  | Req_Auth AuthenticationRequest
  | Req_Attach AttachRequest
  | Req_Error ErrorRequest
  | Req_Flush FlushRequest
  | Req_Walk WalkRequest
  | Req_Open OpenRequest
  | Req_Create CreateRequest
  | Req_Read ReadRequest
  | Req_Write WriteRequest
  | Req_Clunk ClunkRequest
  | Req_Remove RemoveRequest
  | Req_Stat StatRequest
  | Req_WStat WStatRequest

fun Request_encode :: "Request \<Rightarrow> (MessageStream, unit) action" where
  "Request_encode (Req_Undefined m) = UndefinedMessage_encode Request m"
| "Request_encode (Req_Version m) = VersionMessage_encode m"
| "Request_encode (Req_Auth m) = AuthenticationRequest_encode m"
| "Request_encode (Req_Attach m) = AttachRequest_encode m"
| "Request_encode (Req_Error m) = MessageHeader_encode m"
| "Request_encode (Req_Flush m) = FlushRequest_encode m"
| "Request_encode (Req_Walk m) = WalkRequest_encode m"
| "Request_encode (Req_Open m) = OpenRequest_encode m"
| "Request_encode (Req_Create m) = CreateRequest_encode m"
| "Request_encode (Req_Read m) = ReadRequest_encode m"
| "Request_encode (Req_Write m) = WriteRequest_encode m"
| "Request_encode (Req_Clunk m) = FidRequest_encode m"
| "Request_encode (Req_Remove m) = FidRequest_encode m"
| "Request_encode (Req_Stat m) = FidRequest_encode m"
| "Request_encode (Req_WStat m) = WStatRequest_encode m"

fun Request_decode :: "arg_order \<Rightarrow> Request \<Rightarrow> (MessageStream, Request) action" where
  "Request_decode ord (Req_Undefined m) = bindM (UndefinedMessage_decode Request m) (\<lambda>m. retM (Req_Undefined m))"
| "Request_decode ord (Req_Version m) = bindM (VersionMessage_decode m) (\<lambda>m. retM (Req_Version m))"
| "Request_decode ord (Req_Auth m) = bindM (AuthenticationRequest_decode m) (\<lambda>m. retM (Req_Auth m))"
| "Request_decode ord (Req_Attach m) = bindM (AttachRequest_decode m) (\<lambda>m. retM (Req_Attach m))"
| "Request_decode ord (Req_Error m) = bindM (MessageHeader_decode m) (\<lambda>m. retM (Req_Error m))"
| "Request_decode ord (Req_Flush m) = bindM (FlushRequest_decode m) (\<lambda>m. retM (Req_Flush m))"
| "Request_decode ord (Req_Walk m) = bindM (WalkRequest_decode m) (\<lambda>m. retM (Req_Walk m))"
| "Request_decode ord (Req_Open m) = bindM (OpenRequest_decode m) (\<lambda>m. retM (Req_Open m))"
| "Request_decode ord (Req_Create m) = bindM (CreateRequest_decode m) (\<lambda>m. retM (Req_Create m))"
| "Request_decode ord (Req_Read m) = bindM (ReadRequest_decode ord m) (\<lambda>m. retM (Req_Read m))"
| "Request_decode ord (Req_Write m) = bindM (WriteRequest_decode ord m) (\<lambda>m. retM (Req_Write m))"
| "Request_decode ord (Req_Clunk m) = bindM (FidRequest_decode m) (\<lambda>m. retM (Req_Clunk m))"
| "Request_decode ord (Req_Remove m) = bindM (FidRequest_decode m) (\<lambda>m. retM (Req_Remove m))"
| "Request_decode ord (Req_Stat m) = bindM (FidRequest_decode m) (\<lambda>m. retM (Req_Stat m))"
| "Request_decode ord (Req_WStat m) = bindM (WStatRequest_decode ord m) (\<lambda>m. retM (Req_WStat m))"

fun emplace_Request :: "16 word \<Rightarrow> ConceptualOperation \<Rightarrow> Request" where
  "emplace_Request u Undefined = Req_Undefined
     \<lparr>hdr_op = translateConcept Undefined Request, hdr_tag = notag\<rparr>"
| "emplace_Request u Version = Req_Version
     \<lparr>hdr_op = translateConcept Version Request, hdr_tag = notag, vm_version = [], vm_msize = u\<rparr>"
| "emplace_Request u Auth = Req_Auth
     \<lparr>hdr_op = translateConcept Auth Request, hdr_tag = notag, au_afid = 0, au_uname = [], au_aname = []\<rparr>"
| "emplace_Request u Attach = Req_Attach
     \<lparr>hdr_op = translateConcept Attach Request, hdr_tag = notag, at_HasFid = \<lparr>hf_fid = 0\<rparr>, at_afid = 0, at_uname = [], at_aname = []\<rparr>"
| "emplace_Request u Error = Req_Error
     \<lparr>hdr_op = translateConcept Error Request, hdr_tag = notag\<rparr>"
| "emplace_Request u Flush = Req_Flush
     \<lparr>hdr_op = translateConcept Flush Request, hdr_tag = notag, fl_oldtag = 0\<rparr>"
| "emplace_Request u Walk = Req_Walk
     \<lparr>hdr_op = translateConcept Walk Request, hdr_tag = notag, wk_HasFid = \<lparr>hf_fid = 0\<rparr>, wk_newfid = 0, wk_wname = []\<rparr>"
| "emplace_Request u Open = Req_Open
     \<lparr>hdr_op = translateConcept Open Request, hdr_tag = notag, op_HasFid = \<lparr>hf_fid = 0\<rparr>, op_mode = 0\<rparr>"
| "emplace_Request u Create = Req_Create
     \<lparr>hdr_op = translateConcept Create Request, hdr_tag = notag, cr_HasFid = \<lparr>hf_fid = 0\<rparr>, cr_HasName = \<lparr>hn_name = []\<rparr>, cr_perm = 0, cr_mode = 0\<rparr>"
| "emplace_Request u Read = Req_Read
     \<lparr>hdr_op = translateConcept Read Request, hdr_tag = notag, fr_HasFid = \<lparr>hf_fid = 0\<rparr>, rw_HasOffset = \<lparr>ho_offset = 0\<rparr>, rd_HasCount = \<lparr>hc_count = 0\<rparr>\<rparr>"
| "emplace_Request u Write = Req_Write
     \<lparr>hdr_op = translateConcept Write Request, hdr_tag = notag, fr_HasFid = \<lparr>hf_fid = 0\<rparr>, rw_HasOffset = \<lparr>ho_offset = 0\<rparr>, wr_HasDataStorage = \<lparr>hd_data = []\<rparr>\<rparr>"
| "emplace_Request u Clunk = Req_Clunk
     \<lparr>hdr_op = translateConcept Clunk Request, hdr_tag = notag, fr_HasFid = \<lparr>hf_fid = 0\<rparr>\<rparr>"
| "emplace_Request u Remove = Req_Remove
     \<lparr>hdr_op = translateConcept Remove Request, hdr_tag = notag, fr_HasFid = \<lparr>hf_fid = 0\<rparr>\<rparr>"
| "emplace_Request u Stat = Req_Stat
     \<lparr>hdr_op = translateConcept Stat Request, hdr_tag = notag, fr_HasFid = \<lparr>hf_fid = 0\<rparr>\<rparr>"
| "emplace_Request u WStat = Req_WStat
     \<lparr>hdr_op = translateConcept WStat Request, hdr_tag = notag, ws_HasFid = \<lparr>hf_fid = 0\<rparr>, ws_stat = Stat_zero\<rparr>"

section \<open>The stream operators\<close>

definition illegal_type :: Exception where
  "illegal_type = Exception_ctor [Lit ''Illegal type found!'']"

definition cannot_deduce :: Exception where
  "cannot_deduce = Exception_ctor
     [Lit ''Cannot deduce type because message is not in a good state!'']"

text \<open>Decoding into an alternative that has just been made: its state after each way out.\<close>

definition decode_emplaced ::
  "('a \<Rightarrow> (MessageStream, 'a) action) \<Rightarrow> 'a \<Rightarrow> MessageStream \<Rightarrow> unit result \<times> 'a \<times> MessageStream" where
  "decode_emplaced dec fresh s =
     (case dec fresh s of (r, s') \<Rightarrow>
        (case r of Ok a \<Rightarrow> (Ok (), a, s') | Throw e \<Rightarrow> (Throw e, fresh, s') | Undef \<Rightarrow> (Undef, fresh, s')))"

definition extract_Request ::
  "arg_order \<Rightarrow> 16 word \<Rightarrow> Request \<Rightarrow> MessageStream \<Rightarrow> unit result \<times> Request \<times> MessageStream" where
  "extract_Request ord u request msg =
     (case MessageStream_peek msg of (op, msg) \<Rightarrow>
        (case op of
           Some b \<Rightarrow>
             (case convert b of
                Undefined \<Rightarrow> (Throw illegal_type, request, msg)
              | c \<Rightarrow> decode_emplaced (Request_decode ord) (emplace_Request u c) msg)
         | None \<Rightarrow> (Throw cannot_deduce, request, msg)))"

definition extract_Response ::
  "arg_order \<Rightarrow> 16 word \<Rightarrow> Response \<Rightarrow> MessageStream \<Rightarrow> unit result \<times> Response \<times> MessageStream" where
  "extract_Response ord u request msg =
     (case MessageStream_peek msg of (op, msg) \<Rightarrow>
        (case op of
           Some b \<Rightarrow>
             (case convert b of
                Undefined \<Rightarrow> (Throw illegal_type, request, msg)
              | c \<Rightarrow> decode_emplaced (Response_decode ord) (emplace_Response u c) msg)
         | None \<Rightarrow> (Throw cannot_deduce, request, msg)))"

datatype Interaction = Interaction_Response Response | Interaction_Request Request

text \<open>
  The function type of what sends an interaction: a \<^verbatim>\<open>std::function\<close> object over a state
  \<open>'s\<close> it may change.
\<close>

type_synonym 's SendInteraction = "Interaction \<Rightarrow> ('s, unit) action"

fun Interaction_encode :: "Interaction \<Rightarrow> (MessageStream, unit) action" where
  "Interaction_encode (Interaction_Response r) = Response_encode r"
| "Interaction_encode (Interaction_Request r) = Request_encode r"

text \<open>
  \<^verbatim>\<open>thing.emplace<kzr::Request>()\<close> default-constructs the inner variant, which then holds its
  first alternative.
\<close>

definition extract_Interaction ::
  "arg_order \<Rightarrow> 16 word \<Rightarrow> Interaction \<Rightarrow> MessageStream \<Rightarrow>
     unit result \<times> Interaction \<times> MessageStream" where
  "extract_Interaction ord u thing msg =
     (case MessageStream_peek msg of (op, msg) \<Rightarrow>
        (case op of
           Some b \<Rightarrow>
             (if isRequest b
              then (case extract_Request ord u (emplace_Request u Undefined) msg of
                      (r, req, msg) \<Rightarrow> (r, Interaction_Request req, msg))
              else (case extract_Response ord u (emplace_Response u Undefined) msg of
                      (r, resp, msg) \<Rightarrow> (r, Interaction_Response resp, msg)))
         | None \<Rightarrow> (Throw cannot_deduce, thing, msg)))"

section \<open>Specification\<close>

text \<open>
  The operation that the type of an alternative is bound to: the table
  \<^verbatim>\<open>BindRequestResponseToTypes\<close> read from the type to the operation. The first alternative of a
  variant is bound to none.
\<close>

fun kind_Request :: "Request \<Rightarrow> ConceptualOperation" where
  "kind_Request (Req_Undefined m) = Undefined"
| "kind_Request (Req_Version m) = Version"
| "kind_Request (Req_Auth m) = Auth"
| "kind_Request (Req_Attach m) = Attach"
| "kind_Request (Req_Error m) = Error"
| "kind_Request (Req_Flush m) = Flush"
| "kind_Request (Req_Walk m) = Walk"
| "kind_Request (Req_Open m) = Open"
| "kind_Request (Req_Create m) = Create"
| "kind_Request (Req_Read m) = Read"
| "kind_Request (Req_Write m) = Write"
| "kind_Request (Req_Clunk m) = Clunk"
| "kind_Request (Req_Remove m) = Remove"
| "kind_Request (Req_Stat m) = Stat"
| "kind_Request (Req_WStat m) = WStat"

fun op_Request :: "Request \<Rightarrow> Operation" where
  "op_Request (Req_Undefined m) = hdr_op m"
| "op_Request (Req_Version m) = hdr_op m"
| "op_Request (Req_Auth m) = hdr_op m"
| "op_Request (Req_Attach m) = hdr_op m"
| "op_Request (Req_Error m) = hdr_op m"
| "op_Request (Req_Flush m) = hdr_op m"
| "op_Request (Req_Walk m) = hdr_op m"
| "op_Request (Req_Open m) = hdr_op m"
| "op_Request (Req_Create m) = hdr_op m"
| "op_Request (Req_Read m) = hdr_op m"
| "op_Request (Req_Write m) = hdr_op m"
| "op_Request (Req_Clunk m) = hdr_op m"
| "op_Request (Req_Remove m) = hdr_op m"
| "op_Request (Req_Stat m) = hdr_op m"
| "op_Request (Req_WStat m) = hdr_op m"

fun wire_Request :: "Request \<Rightarrow> byte list" where
  "wire_Request (Req_Undefined m) = wire_header m"
| "wire_Request (Req_Version m) = wire_VersionMessage m"
| "wire_Request (Req_Auth m) = wire_AuthenticationRequest m"
| "wire_Request (Req_Attach m) = wire_AttachRequest m"
| "wire_Request (Req_Error m) = wire_header m"
| "wire_Request (Req_Flush m) = wire_FlushRequest m"
| "wire_Request (Req_Walk m) = wire_WalkRequest m"
| "wire_Request (Req_Open m) = wire_OpenRequest m"
| "wire_Request (Req_Create m) = wire_CreateRequest m"
| "wire_Request (Req_Read m) = wire_ReadRequest m"
| "wire_Request (Req_Write m) = wire_WriteRequest m"
| "wire_Request (Req_Clunk m) = wire_FidRequest m"
| "wire_Request (Req_Remove m) = wire_FidRequest m"
| "wire_Request (Req_Stat m) = wire_FidRequest m"
| "wire_Request (Req_WStat m) = wire_WStatRequest m"

fun sendable_Request :: "Request \<Rightarrow> bool" where
  "sendable_Request (Req_Undefined m) = False"
| "sendable_Request (Req_Version m) = fits_VersionMessage m"
| "sendable_Request (Req_Auth m) = fits_AuthenticationRequest m"
| "sendable_Request (Req_Attach m) = fits_AttachRequest m"
| "sendable_Request (Req_Error m) = True"
| "sendable_Request (Req_Flush m) = True"
| "sendable_Request (Req_Walk m) = fits_WalkRequest m"
| "sendable_Request (Req_Open m) = True"
| "sendable_Request (Req_Create m) = fits_CreateRequest m"
| "sendable_Request (Req_Read m) = True"
| "sendable_Request (Req_Write m) = fits_WriteRequest m"
| "sendable_Request (Req_Clunk m) = True"
| "sendable_Request (Req_Remove m) = True"
| "sendable_Request (Req_Stat m) = True"
| "sendable_Request (Req_WStat m) = fits_WStatRequest m"

fun received_Request :: "arg_order \<Rightarrow> Request \<Rightarrow> Request" where
  "received_Request ord (Req_Undefined m) = Req_Undefined m"
| "received_Request ord (Req_Version m) = Req_Version (m\<lparr>vm_version := []\<rparr>)"
| "received_Request ord (Req_Auth m) = Req_Auth (m\<lparr>au_uname := [], au_aname := []\<rparr>)"
| "received_Request ord (Req_Attach m) = Req_Attach (m\<lparr>at_uname := [], at_aname := []\<rparr>)"
| "received_Request ord (Req_Error m) = Req_Error m"
| "received_Request ord (Req_Flush m) = Req_Flush m"
| "received_Request ord (Req_Walk m) = Req_Walk (m\<lparr>wk_wname := map (\<lambda>_. []) (wk_wname m)\<rparr>)"
| "received_Request ord (Req_Open m) = Req_Open m"
| "received_Request ord (Req_Create m) = Req_Create (m\<lparr>cr_HasName := \<lparr>hn_name = []\<rparr>\<rparr>)"
| "received_Request ord (Req_Read m) = Req_Read (m\<lparr>rw_HasOffset := \<lparr>ho_offset = seen_u64 ord (ho_offset (rw_HasOffset m))\<rparr>\<rparr>)"
| "received_Request ord (Req_Write m) = Req_Write (m\<lparr>rw_HasOffset := \<lparr>ho_offset = seen_u64 ord (ho_offset (rw_HasOffset m))\<rparr>\<rparr>)"
| "received_Request ord (Req_Clunk m) = Req_Clunk m"
| "received_Request ord (Req_Remove m) = Req_Remove m"
| "received_Request ord (Req_Stat m) = Req_Stat m"
| "received_Request ord (Req_WStat m) = Req_WStat (m\<lparr>ws_stat := seen_Stat ord Stat_zero (ws_stat m)\<rparr>)"

fun kind_Response :: "Response \<Rightarrow> ConceptualOperation" where
  "kind_Response (Resp_Undefined m) = Undefined"
| "kind_Response (Resp_Version m) = Version"
| "kind_Response (Resp_Auth m) = Auth"
| "kind_Response (Resp_Attach m) = Attach"
| "kind_Response (Resp_Error m) = Error"
| "kind_Response (Resp_Flush m) = Flush"
| "kind_Response (Resp_Walk m) = Walk"
| "kind_Response (Resp_Open m) = Open"
| "kind_Response (Resp_Create m) = Create"
| "kind_Response (Resp_Read m) = Read"
| "kind_Response (Resp_Write m) = Write"
| "kind_Response (Resp_Clunk m) = Clunk"
| "kind_Response (Resp_Remove m) = Remove"
| "kind_Response (Resp_Stat m) = Stat"
| "kind_Response (Resp_WStat m) = WStat"

fun op_Response :: "Response \<Rightarrow> Operation" where
  "op_Response (Resp_Undefined m) = hdr_op m"
| "op_Response (Resp_Version m) = hdr_op m"
| "op_Response (Resp_Auth m) = hdr_op m"
| "op_Response (Resp_Attach m) = hdr_op m"
| "op_Response (Resp_Error m) = hdr_op m"
| "op_Response (Resp_Flush m) = hdr_op m"
| "op_Response (Resp_Walk m) = hdr_op m"
| "op_Response (Resp_Open m) = hdr_op m"
| "op_Response (Resp_Create m) = hdr_op m"
| "op_Response (Resp_Read m) = hdr_op m"
| "op_Response (Resp_Write m) = hdr_op m"
| "op_Response (Resp_Clunk m) = hdr_op m"
| "op_Response (Resp_Remove m) = hdr_op m"
| "op_Response (Resp_Stat m) = hdr_op m"
| "op_Response (Resp_WStat m) = hdr_op m"

fun wire_Response :: "Response \<Rightarrow> byte list" where
  "wire_Response (Resp_Undefined m) = wire_header m"
| "wire_Response (Resp_Version m) = wire_VersionMessage m"
| "wire_Response (Resp_Auth m) = wire_AuthenticationResponse m"
| "wire_Response (Resp_Attach m) = wire_AttachResponse m"
| "wire_Response (Resp_Error m) = wire_ErrorResponse m"
| "wire_Response (Resp_Flush m) = wire_header m"
| "wire_Response (Resp_Walk m) = wire_WalkResponse m"
| "wire_Response (Resp_Open m) = wire_OpenOrCreateResponse m"
| "wire_Response (Resp_Create m) = wire_OpenOrCreateResponse m"
| "wire_Response (Resp_Read m) = wire_ReadResponse m"
| "wire_Response (Resp_Write m) = wire_WriteResponse m"
| "wire_Response (Resp_Clunk m) = wire_header m"
| "wire_Response (Resp_Remove m) = wire_header m"
| "wire_Response (Resp_Stat m) = wire_StatResponse m"
| "wire_Response (Resp_WStat m) = wire_header m"

fun sendable_Response :: "Response \<Rightarrow> bool" where
  "sendable_Response (Resp_Undefined m) = False"
| "sendable_Response (Resp_Version m) = fits_VersionMessage m"
| "sendable_Response (Resp_Auth m) = True"
| "sendable_Response (Resp_Attach m) = True"
| "sendable_Response (Resp_Error m) = fits_ErrorResponse m"
| "sendable_Response (Resp_Flush m) = True"
| "sendable_Response (Resp_Walk m) = fits_WalkResponse m"
| "sendable_Response (Resp_Open m) = True"
| "sendable_Response (Resp_Create m) = True"
| "sendable_Response (Resp_Read m) = fits_ReadResponse m"
| "sendable_Response (Resp_Write m) = True"
| "sendable_Response (Resp_Clunk m) = True"
| "sendable_Response (Resp_Remove m) = True"
| "sendable_Response (Resp_Stat m) = fits_StatResponse m"
| "sendable_Response (Resp_WStat m) = True"

fun received_Response :: "arg_order \<Rightarrow> Response \<Rightarrow> Response" where
  "received_Response ord (Resp_Undefined m) = Resp_Undefined m"
| "received_Response ord (Resp_Version m) = Resp_Version (m\<lparr>vm_version := []\<rparr>)"
| "received_Response ord (Resp_Auth m) = Resp_Auth (m\<lparr>aur_HasQid := \<lparr>hq_qid = seen_Qid ord (hq_qid (aur_HasQid m))\<rparr>\<rparr>)"
| "received_Response ord (Resp_Attach m) = Resp_Attach (m\<lparr>atr_HasQid := \<lparr>hq_qid = seen_Qid ord (hq_qid (atr_HasQid m))\<rparr>\<rparr>)"
| "received_Response ord (Resp_Error m) = Resp_Error (m\<lparr>er_ename := []\<rparr>)"
| "received_Response ord (Resp_Flush m) = Resp_Flush m"
| "received_Response ord (Resp_Walk m) = Resp_Walk (m\<lparr>wkr_wqid := map (seen_Qid ord) (wkr_wqid m)\<rparr>)"
| "received_Response ord (Resp_Open m) = Resp_Open (m\<lparr>oc_HasQid := \<lparr>hq_qid = seen_Qid ord (hq_qid (oc_HasQid m))\<rparr>\<rparr>)"
| "received_Response ord (Resp_Create m) = Resp_Create (m\<lparr>oc_HasQid := \<lparr>hq_qid = seen_Qid ord (hq_qid (oc_HasQid m))\<rparr>\<rparr>)"
| "received_Response ord (Resp_Read m) = Resp_Read m"
| "received_Response ord (Resp_Write m) = Resp_Write m"
| "received_Response ord (Resp_Clunk m) = Resp_Clunk m"
| "received_Response ord (Resp_Remove m) = Resp_Remove m"
| "received_Response ord (Resp_Stat m) = Resp_Stat (m\<lparr>sr_data := []\<rparr>)"
| "received_Response ord (Resp_WStat m) = Resp_WStat m"

fun wire_Interaction :: "Interaction \<Rightarrow> byte list" where
  "wire_Interaction (Interaction_Response r) = wire_Response r"
| "wire_Interaction (Interaction_Request r) = wire_Request r"

fun sendable_Interaction :: "Interaction \<Rightarrow> bool" where
  "sendable_Interaction (Interaction_Response r) = sendable_Response r"
| "sendable_Interaction (Interaction_Request r) = sendable_Request r"

fun received_Interaction :: "arg_order \<Rightarrow> Interaction \<Rightarrow> Interaction" where
  "received_Interaction ord (Interaction_Response r) = Interaction_Response (received_Response ord r)"
| "received_Interaction ord (Interaction_Request r) = Interaction_Request (received_Request ord r)"

fun op_Interaction :: "Interaction \<Rightarrow> Operation" where
  "op_Interaction (Interaction_Response r) = op_Response r"
| "op_Interaction (Interaction_Request r) = op_Request r"

text \<open>The operation code of a message agrees with the alternative that holds it.\<close>

definition wf_Request :: "Request \<Rightarrow> bool" where
  "wf_Request r \<longleftrightarrow> op_Request r = translateConcept (kind_Request r) Request"

definition wf_Response :: "Response \<Rightarrow> bool" where
  "wf_Response r \<longleftrightarrow> op_Response r = translateConcept (kind_Response r) Response"

fun wf_Interaction :: "Interaction \<Rightarrow> bool" where
  "wf_Interaction (Interaction_Response r) = wf_Response r"
| "wf_Interaction (Interaction_Request r) = wf_Request r"

text \<open>Reading a number of messages, one after the other, each into the variant given.\<close>

primrec receive ::
  "('a \<Rightarrow> MessageStream \<Rightarrow> unit result \<times> 'a \<times> MessageStream) \<Rightarrow> 'a \<Rightarrow> nat \<Rightarrow> (MessageStream, 'a list) action" where
  "receive extr t 0 = retM []"
| "receive extr t (Suc n) = bindM
     (\<lambda>s. case extr t s of (r, a, s') \<Rightarrow>
        (case r of Ok _ \<Rightarrow> (Ok a, s') | Throw e \<Rightarrow> (Throw e, s') | Undef \<Rightarrow> (Undef, s')))
     (\<lambda>a. bindM (receive extr t n) (\<lambda>as. retM (a # as)))"

section \<open>The contract of the operators\<close>

locale dispatcher = encoder enc wire fits
  for enc :: "'a \<Rightarrow> (MessageStream, unit) action" and wire fits +
  fixes extr :: "'a \<Rightarrow> MessageStream \<Rightarrow> unit result \<times> 'a \<times> MessageStream"
    and wf :: "'a \<Rightarrow> bool"
    and received :: "'a \<Rightarrow> 'a"
  assumes extract_wire: "fits a \<Longrightarrow> wf a \<Longrightarrow> ss_good s \<Longrightarrow>
      extr t (reading s pre (wire a @ post)) = (Ok (), received a, reading s (pre @ wire a) post)"
begin

lemma receive_wire:
  assumes "\<forall>a \<in> set as. fits a \<and> wf a" and "ss_good s"
  shows "receive extr t (length as) (reading s pre (concat (map wire as) @ post)) =
    (Ok (map received as), reading s (pre @ concat (map wire as)) post)"
  using assms by (induction as arbitrary: pre) (simp_all add: extract_wire)

text \<open>Messages written to a new stream are received in order, and nothing is left over.\<close>

lemma send_receive:
  assumes "\<forall>a \<in> set as. fits a \<and> wf a" and "length (concat (map wire as)) \<le> m" and "2 ^ 20 \<le> m"
  shows "\<exists>s s'. seqM (map enc as) (ss_new m) = (Ok (), s) \<and>
    receive extr t (length as) s = (Ok (map received as), s') \<and>
    ss_good s' \<and> ss_get s' = length (ss_buf s')"
proof -
  have f: "\<forall>a \<in> set as. fits a" using assms(1) by blast
  let ?n = "(ss_new m)\<lparr>ss_put := length (concat (map wire as))\<rparr>"
  have "ss_good ?n" by simp
  from receive_wire [OF assms(1) this, of t "[]" "[]"] enc_all_new [OF f assms(2,3)] this
  show ?thesis by auto
qed

end

section \<open>Lemmas\<close>

lemma wire_Request_hd: "\<exists>bs. wire_Request r = op_Request r # bs"
  by (cases r) (simp_all add: wire_header_def wire_u8_def wire_VersionMessage_def
      wire_AuthenticationRequest_def wire_AttachRequest_def wire_FlushRequest_def wire_WalkRequest_def
      wire_OpenRequest_def wire_CreateRequest_def wire_ReadRequest_def wire_WriteRequest_def
      wire_FidRequest_def wire_WStatRequest_def)

lemma wire_Response_hd: "\<exists>bs. wire_Response r = op_Response r # bs"
  by (cases r) (simp_all add: wire_header_def wire_u8_def wire_VersionMessage_def
      wire_AuthenticationResponse_def wire_AttachResponse_def wire_ErrorResponse_def
      wire_WalkResponse_def wire_OpenOrCreateResponse_def wire_ReadResponse_def
      wire_WriteResponse_def wire_StatResponse_def)

lemma emits_Undefined: "emits (UndefinedMessage_encode dir m) False w"
  by (auto simp: emits_def UndefinedMessage_encode_def intro: exI [of _ "[]"])

interpretation request: encoder Request_encode wire_Request sendable_Request
proof unfold_locales
  fix r show "emits (Request_encode r) (sendable_Request r) (wire_Request r)"
    by (cases r) (simp_all add: emits_intros emits_Undefined)
qed

interpretation response: encoder Response_encode wire_Response sendable_Response
proof unfold_locales
  fix r show "emits (Response_encode r) (sendable_Response r) (wire_Response r)"
    by (cases r) (simp_all add: emits_intros emits_Undefined)
qed

lemmas message_dec =
  header.dec_wire [OF TrueI] error_response.dec_wire version_message.dec_wire auth_request.dec_wire
  auth_response.dec_wire [OF TrueI] flush_request.dec_wire [OF TrueI] attach_request.dec_wire
  attach_response.dec_wire [OF TrueI] walk_request.dec_wire walk_response.dec_wire
  open_request.dec_wire [OF TrueI] open_response.dec_wire [OF TrueI] create_request.dec_wire
  fid_request.dec_wire [OF TrueI] read_request.dec_wire [OF TrueI] read_response.dec_wire
  write_request.dec_wire write_response.dec_wire [OF TrueI] stat_response.dec_wire wstat_request.dec_wire

lemmas message_seen =
  seen_ErrorResponse_def seen_VersionMessage_def seen_AuthenticationRequest_def
  seen_AuthenticationResponse_def seen_AttachRequest_def seen_AttachResponse_def seen_WalkRequest_def
  seen_WalkResponse_def seen_OpenOrCreateResponse_def seen_CreateRequest_def seen_ReadRequest_def
  seen_ReadResponse_def seen_WriteRequest_def seen_StatResponse_def seen_WStatRequest_def

lemma Request_decode_fresh:
  "sendable_Request r \<Longrightarrow> ss_good s \<Longrightarrow>
     Request_decode ord (emplace_Request u (kind_Request r)) (reading s pre (wire_Request r @ post)) =
       (Ok (received_Request ord r), reading s (pre @ wire_Request r) post)"
  by (cases r) (simp_all add: message_dec message_seen)

lemma Response_decode_fresh:
  "sendable_Response r \<Longrightarrow> ss_good s \<Longrightarrow>
     Response_decode ord (emplace_Response u (kind_Response r)) (reading s pre (wire_Response r @ post)) =
       (Ok (received_Response ord r), reading s (pre @ wire_Response r) post)"
  by (cases r) (simp_all add: message_dec message_seen)

lemma convert_zero [simp]: "convert 0 = Undefined"
  by (simp add: convert_def)

lemma convert_translate [simp]: "convert (translateConcept c dir) = c"
  by (cases c; cases dir) (simp_all add: translateConcept_def convert_def)

lemma isRequest_translate [simp]: "isRequest (translateConcept c dir) \<longleftrightarrow> dir = Request"
  by (cases c; cases dir) (simp_all add: translateConcept_def isRequest_def isEven_def)

lemma extract_known:
  assumes "convert b \<noteq> Undefined" and "ss_good s"
  shows "extract_Request ord u t (reading s pre (b # post)) =
      decode_emplaced (Request_decode ord) (emplace_Request u (convert b)) (reading s pre (b # post))"
    and "extract_Response ord u t' (reading s pre (b # post)) =
      decode_emplaced (Response_decode ord) (emplace_Response u (convert b)) (reading s pre (b # post))"
proof -
  have "b \<noteq> 0" using assms(1) by auto
  then show "extract_Request ord u t (reading s pre (b # post)) =
      decode_emplaced (Request_decode ord) (emplace_Request u (convert b)) (reading s pre (b # post))"
    "extract_Response ord u t' (reading s pre (b # post)) =
      decode_emplaced (Response_decode ord) (emplace_Response u (convert b)) (reading s pre (b # post))"
    using assms
    by (simp_all add: extract_Request_def extract_Response_def stream_simps split: ConceptualOperation.split)
qed

lemma sendable_kind:
  "sendable_Request r \<Longrightarrow> kind_Request r \<noteq> Undefined" "sendable_Response q \<Longrightarrow> kind_Response q \<noteq> Undefined"
  by (cases r, simp_all) (cases q, simp_all)

lemma extract_Request_wire:
  assumes "sendable_Request r" and "wf_Request r" and "ss_good s"
  shows "extract_Request ord u t (reading s pre (wire_Request r @ post)) =
    (Ok (), received_Request ord r, reading s (pre @ wire_Request r) post)"
proof -
  obtain bs where w: "wire_Request r = op_Request r # bs"
    using wire_Request_hd by blast
  have "convert (op_Request r) = kind_Request r"
    using assms(2) by (simp add: wf_Request_def)
  with extract_known(1) [of "op_Request r" s ord u t pre "bs @ post"] assms sendable_kind(1)
  have "extract_Request ord u t (reading s pre (wire_Request r @ post)) =
    decode_emplaced (Request_decode ord) (emplace_Request u (kind_Request r))
      (reading s pre (wire_Request r @ post))"
    by (simp add: w)
  then show ?thesis
    by (simp add: decode_emplaced_def Request_decode_fresh assms)
qed

lemma extract_Response_wire:
  assumes "sendable_Response r" and "wf_Response r" and "ss_good s"
  shows "extract_Response ord u t (reading s pre (wire_Response r @ post)) =
    (Ok (), received_Response ord r, reading s (pre @ wire_Response r) post)"
proof -
  obtain bs where w: "wire_Response r = op_Response r # bs"
    using wire_Response_hd by blast
  have "convert (op_Response r) = kind_Response r"
    using assms(2) by (simp add: wf_Response_def)
  with extract_known(2) [of "op_Response r" s ord u t pre "bs @ post"] assms sendable_kind(2)
  have "extract_Response ord u t (reading s pre (wire_Response r @ post)) =
    decode_emplaced (Response_decode ord) (emplace_Response u (kind_Response r))
      (reading s pre (wire_Response r @ post))"
    by (simp add: w)
  then show ?thesis
    by (simp add: decode_emplaced_def Response_decode_fresh assms)
qed

interpretation requests: dispatcher Request_encode wire_Request sendable_Request
  "extract_Request ord u" wf_Request "received_Request ord"
  for ord u
  by unfold_locales (rule extract_Request_wire)

interpretation responses: dispatcher Response_encode wire_Response sendable_Response
  "extract_Response ord u" wf_Response "received_Response ord"
  for ord u
  by unfold_locales (rule extract_Response_wire)

lemma peek_op:
  assumes "op \<noteq> 0" and "ss_good s"
  shows "MessageStream_peek (reading s pre (op # bs)) = (Some op, reading s pre (op # bs))"
  using assms by (simp add: stream_simps)

lemma translate_nonzero: "c \<noteq> Undefined \<Longrightarrow> translateConcept c dir \<noteq> 0"
  by (metis convert_translate convert_zero)

lemma extract_Interaction_wire:
  assumes "sendable_Interaction i" and "wf_Interaction i" and "ss_good s"
  shows "extract_Interaction ord u t (reading s pre (wire_Interaction i @ post)) =
    (Ok (), received_Interaction ord i, reading s (pre @ wire_Interaction i) post)"
proof (cases i)
  case (Interaction_Request r)
  obtain bs where w: "wire_Request r = op_Request r # bs"
    using wire_Request_hd by blast
  have "MessageStream_peek (reading s pre (wire_Request r @ post)) =
      (Some (op_Request r), reading s pre (wire_Request r @ post))"
    using assms Interaction_Request sendable_kind(1) [of r]
    by (simp add: w peek_op wf_Request_def translate_nonzero)
  then show ?thesis
    using assms Interaction_Request extract_Request_wire [of r s ord u]
    by (simp add: extract_Interaction_def wf_Request_def)
next
  case (Interaction_Response r)
  obtain bs where w: "wire_Response r = op_Response r # bs"
    using wire_Response_hd by blast
  have "MessageStream_peek (reading s pre (wire_Response r @ post)) =
      (Some (op_Response r), reading s pre (wire_Response r @ post))"
    using assms Interaction_Response sendable_kind(2) [of r]
    by (simp add: w peek_op wf_Response_def translate_nonzero)
  then show ?thesis
    using assms Interaction_Response extract_Response_wire [of r s ord u]
    by (simp add: extract_Interaction_def wf_Response_def)
qed

lemma emits_Interaction: "emits (Interaction_encode i) (sendable_Interaction i) (wire_Interaction i)"
  by (cases i) (simp_all add: request.enc_emits response.enc_emits)

interpretation interactions: dispatcher Interaction_encode wire_Interaction sendable_Interaction
  "extract_Interaction ord u" wf_Interaction "received_Interaction ord"
  for ord u
  by unfold_locales (rule emits_Interaction, rule extract_Interaction_wire)

section \<open>What an arbitrary stream decodes to\<close>

lemma decode_u8_Ok:
  "decode_u8 s = (Ok b, s') \<Longrightarrow> ss_good s \<and> ss_get s < length (ss_buf s) \<and> b = ss_buf s ! ss_get s"
  by (auto simp: decode_u8_def ss_get_char_def split: if_splits)

lemma header_op:
  "MessageHeader_decode m s = (Ok m', s') \<Longrightarrow>
     ss_good s \<and> ss_get s < length (ss_buf s) \<and> hdr_op m' = ss_buf s ! ss_get s"
  by (auto simp: MessageHeader_decode_def decode_Operation_def bindM_Ok_iff dest: decode_u8_Ok)

lemmas message_decode_defs =
  ErrorResponse_decode_def VersionMessage_decode_def AuthenticationRequest_decode_def
  AuthenticationResponse_decode_def FlushRequest_decode_def AttachRequest_decode_def
  AttachResponse_decode_def WalkRequest_decode_def WalkResponse_decode_def OpenRequest_decode_def
  OpenOrCreateResponse_decode_def CreateRequest_decode_def FidRequest_decode_def
  ReadWriteRequest_decode_def ReadRequest_decode_def ReadResponse_decode_def WriteRequest_decode_def
  WriteResponse_decode_def StatResponse_decode_def WStatRequest_decode_def

lemma Request_decode_op:
  "Request_decode ord r s = (Ok r', s') \<Longrightarrow> kind_Request r' = kind_Request r \<and>
     ss_good s \<and> ss_get s < length (ss_buf s) \<and> op_Request r' = ss_buf s ! ss_get s"
  by (cases r)
    (auto simp: bindM_Ok_iff message_decode_defs UndefinedMessage_decode_def dest!: header_op split: if_splits)

lemma Response_decode_op:
  "Response_decode ord r s = (Ok r', s') \<Longrightarrow> kind_Response r' = kind_Response r \<and>
     ss_good s \<and> ss_get s < length (ss_buf s) \<and> op_Response r' = ss_buf s ! ss_get s"
  by (cases r)
    (auto simp: bindM_Ok_iff message_decode_defs UndefinedMessage_decode_def dest!: header_op split: if_splits)

lemma kind_emplace [simp]:
  "kind_Request (emplace_Request u c) = c" "kind_Response (emplace_Response u c) = c"
  by (cases c; simp)+

lemma peek_good:
  "MessageStream_peek s = (Some b, s') \<Longrightarrow> ss_good s' \<Longrightarrow>
     s' = s \<and> ss_get s < length (ss_buf s) \<and> b = ss_buf s ! ss_get s"
  by (auto simp: MessageStream_peek_def ss_peek_def ss_good_def split: if_splits)

lemma extract_Request_Ok:
  assumes "extract_Request ord u t s = (Ok (), r, s')"
  shows "ss_good s \<and> ss_get s < length (ss_buf s) \<and> op_Request r = ss_buf s ! ss_get s \<and>
    kind_Request r = convert (op_Request r)"
proof -
  obtain b s1 where p: "MessageStream_peek s = (Some b, s1)" and "convert b \<noteq> Undefined"
    and d: "Request_decode ord (emplace_Request u (convert b)) s1 = (Ok r, s')"
    using assms
    by (cases "MessageStream_peek s")
      (auto simp: extract_Request_def decode_emplaced_def
        split: option.splits prod.splits result.splits ConceptualOperation.splits)
  from Request_decode_op [OF d] peek_good [OF p] show ?thesis by auto
qed

lemma extract_Response_Ok:
  assumes "extract_Response ord u t s = (Ok (), r, s')"
  shows "ss_good s \<and> ss_get s < length (ss_buf s) \<and> op_Response r = ss_buf s ! ss_get s \<and>
    kind_Response r = convert (op_Response r)"
proof -
  obtain b s1 where p: "MessageStream_peek s = (Some b, s1)" and "convert b \<noteq> Undefined"
    and d: "Response_decode ord (emplace_Response u (convert b)) s1 = (Ok r, s')"
    using assms
    by (cases "MessageStream_peek s")
      (auto simp: extract_Response_def decode_emplaced_def
        split: option.splits prod.splits result.splits ConceptualOperation.splits)
  from Response_decode_op [OF d] peek_good [OF p] show ?thesis by auto
qed

lemma form_translate:
  "convert b \<noteq> Undefined \<Longrightarrow>
     b = translateConcept (convert b) (if isRequest b then Request else Response)"
  using form_unique [of b] by (simp add: translateConcept_def split: if_splits)

lemma sendable_received_kind: "kind_Request (received_Request ord r) = kind_Request r"
  "kind_Response (received_Response ord q) = kind_Response q"
  by (cases r, simp_all) (cases q, simp_all)

end
