(* ===== verification/Wire_Uniqueness.thy ===== *)
theory Wire_Uniqueness
  imports Interaction
begin

text \<open>
  The wire formats are prefix codes: the bytes of a value tell the value, and where it ends.

  The locale \<open>prefix_code\<close> is this law for a wire format and the values that fit it, and
  gives it to sequences and to counted vectors. Integers, strings, data, every class of
  \<^verbatim>\<open>Message.h\<close> and the three variants are its interpretations. A \<open>Stat\<close> is treated with
  its length field apart, because the decoder does not look at it.
\<close>

named_theorems wire_split \<open>equality of two wire formats with something after them\<close>

section \<open>Prefix codes\<close>

locale prefix_code =
  fixes wire :: "'a \<Rightarrow> byte list" and fits :: "'a \<Rightarrow> bool"
  assumes unique: "fits a \<Longrightarrow> fits b \<Longrightarrow> wire a @ xs = wire b @ ys \<Longrightarrow> a = b"
begin

lemma split: "fits a \<Longrightarrow> fits b \<Longrightarrow> wire a @ xs = wire b @ ys \<longleftrightarrow> a = b \<and> xs = ys"
  using unique by auto

lemma injective: "fits a \<Longrightarrow> fits b \<Longrightarrow> wire a = wire b \<longleftrightarrow> a = b"
  using split [of a b "[]" "[]"] by simp

lemma split_list:
  assumes "length as = length bs" and "\<forall>a \<in> set as \<union> set bs. fits a"
  shows "concat (map wire as) @ xs = concat (map wire bs) @ ys \<longleftrightarrow> as = bs \<and> xs = ys"
  using assms by (induction as bs rule: list_induct2) (auto simp: split)

end

lemma le_bytes_inject:
  "x < 256 ^ n \<Longrightarrow> y < 256 ^ n \<Longrightarrow> le_bytes n x = le_bytes n y \<longleftrightarrow> x = y"
  by (metis le_val_le_bytes mod_less)

lemma unat_bounds:
  "unat (b :: 16 word) < 256 ^ 2" "unat (c :: 32 word) < 256 ^ 4" "unat (d :: 64 word) < 256 ^ 8"
  using unsigned_less [of b] unsigned_less [of c] unsigned_less [of d] by simp_all

lemma wire_u8_split [wire_split]: "wire_u8 a @ xs = wire_u8 b @ ys \<longleftrightarrow> a = b \<and> xs = ys"
  by (simp add: wire_u8_def)

lemma wire_u16_split [wire_split]: "wire_u16 a @ xs = wire_u16 b @ ys \<longleftrightarrow> a = b \<and> xs = ys"
  by (simp add: wire_u16_def le_bytes_inject [OF unat_bounds(1) unat_bounds(1)] word_unat_eq_iff)

lemma wire_u32_split [wire_split]: "wire_u32 a @ xs = wire_u32 b @ ys \<longleftrightarrow> a = b \<and> xs = ys"
  by (simp add: wire_u32_def le_bytes_inject [OF unat_bounds(2) unat_bounds(2)] word_unat_eq_iff)

lemma wire_u64_split [wire_split]: "wire_u64 a @ xs = wire_u64 b @ ys \<longleftrightarrow> a = b \<and> xs = ys"
  by (simp add: wire_u64_def le_bytes_inject [OF unat_bounds(3) unat_bounds(3)] word_unat_eq_iff)

lemma count_inject:
  "fits_u16 a \<Longrightarrow> fits_u16 b \<Longrightarrow> le_bytes 2 (length a) = le_bytes 2 (length b) \<longleftrightarrow> length a = length b"
  by (rule le_bytes_inject) (simp_all add: fits_u16_def)

lemma wire_string_split [wire_split]:
  "fits_u16 a \<Longrightarrow> fits_u16 b \<Longrightarrow> wire_string a @ xs = wire_string b @ ys \<longleftrightarrow> a = b \<and> xs = ys"
  by (auto simp: wire_string_def count_inject)

lemma wire_data_split [wire_split]:
  "fits_data a \<Longrightarrow> fits_data b \<Longrightarrow> wire_data a @ xs = wire_data b @ ys \<longleftrightarrow> a = b \<and> xs = ys"
  using le_bytes_inject [of "length (hd_data a)" 4 "length (hd_data b)"]
  by (cases a; cases b) (auto simp: wire_data_def fits_data_def)

text \<open>A vector is its count and its elements.\<close>

context prefix_code
begin

lemma split_vector:
  assumes "fits_u16 as" and "fits_u16 bs" and "\<forall>a \<in> set as. fits a" and "\<forall>b \<in> set bs. fits b"
  shows "wire_vector wire as @ xs = wire_vector wire bs @ ys \<longleftrightarrow> as = bs \<and> xs = ys"
  using assms count_inject [OF assms(1,2)] split_list [of as bs xs ys]
  by (auto simp: wire_vector_def)

end

interpretation string_code: prefix_code wire_string fits_u16
  by unfold_locales (simp add: wire_split)

interpretation qid_code: prefix_code wire_Qid "\<lambda>_. True"
proof unfold_locales
  fix a b xs ys assume "wire_Qid a @ xs = wire_Qid b @ ys"
  then show "a = b" by (cases a; cases b) (simp add: wire_Qid_def wire_split)
qed

lemmas vector_split [wire_split] = string_code.split_vector qid_code.split_vector [simplified]
  and qid_split [wire_split] = qid_code.split [OF TrueI TrueI]

section \<open>Messages\<close>

lemma wire_header_split [wire_split]:
  "wire_header m @ xs = wire_header m' @ ys \<longleftrightarrow> hdr_op m = hdr_op m' \<and> hdr_tag m = hdr_tag m' \<and> xs = ys"
  by (auto simp: wire_header_def wire_split)

lemma mixin_inject [wire_split]:
  "hq_qid q = hq_qid q' \<longleftrightarrow> q = (q' :: HasQid)" "hn_name n = hn_name n' \<longleftrightarrow> n = (n' :: HasName)"
  "hf_fid f = hf_fid f' \<longleftrightarrow> f = (f' :: HasFid)" "hc_count c = hc_count c' \<longleftrightarrow> c = (c' :: HasCount)"
  "ho_offset p = ho_offset p' \<longleftrightarrow> p = (p' :: HasOffset)"
  by (auto intro: HasQid.equality HasName.equality HasFid.equality HasCount.equality HasOffset.equality)

text \<open>
  The decoder of a \<open>Stat\<close> reads the length in front of it and does not use it. A
  \<open>lax\<close> wire format has any number there, and asks of the strings only that each fits.
\<close>

definition lax_wire_Stat :: "16 word \<Rightarrow> Stat \<Rightarrow> byte list" where
  "lax_wire_Stat len st = wire_u16 len @ wire_Stat_inner st"

definition strings_fit_Stat :: "Stat \<Rightarrow> bool" where
  "strings_fit_Stat st \<longleftrightarrow> fits_u16 (hn_name (st_HasName st)) \<and> fits_u16 (st_uid st) \<and>
     fits_u16 (st_gid st) \<and> fits_u16 (st_muid st)"

lemma wire_Stat_lax:
  assumes "fits_Stat st"
  shows "wire_Stat st = lax_wire_Stat (word_of_nat (length (wire_Stat_inner st))) st"
    and "strings_fit_Stat st"
  using assms fits_Stat_strings [OF assms]
  by (simp_all add: wire_Stat_def wire_string_def lax_wire_Stat_def strings_fit_Stat_def fits_Stat_def
      le_bytes_2_length)

lemma lax_wire_Stat_split [wire_split]:
  assumes "strings_fit_Stat a" and "strings_fit_Stat b"
  shows "lax_wire_Stat l a @ xs = lax_wire_Stat l' b @ ys \<longleftrightarrow> l = l' \<and> a = b \<and> xs = ys"
  using assms
  by (cases a; cases b) (auto simp: lax_wire_Stat_def wire_Stat_inner_def strings_fit_Stat_def wire_split)

lemma wire_ErrorResponse_unique:
  "fits_ErrorResponse a \<Longrightarrow> fits_ErrorResponse b \<Longrightarrow>
     wire_ErrorResponse a @ xs = wire_ErrorResponse b @ ys \<Longrightarrow> a = b"
  by (cases a; cases b) (auto simp: wire_ErrorResponse_def fits_ErrorResponse_def wire_split)

interpretation error_response_code: prefix_code wire_ErrorResponse fits_ErrorResponse
  by unfold_locales (rule wire_ErrorResponse_unique)

lemma wire_VersionMessage_unique:
  "fits_VersionMessage a \<Longrightarrow> fits_VersionMessage b \<Longrightarrow>
     wire_VersionMessage a @ xs = wire_VersionMessage b @ ys \<Longrightarrow> a = b"
  by (cases a; cases b) (auto simp: wire_VersionMessage_def fits_VersionMessage_def wire_split)

interpretation version_message_code: prefix_code wire_VersionMessage fits_VersionMessage
  by unfold_locales (rule wire_VersionMessage_unique)

lemma wire_AuthenticationRequest_unique:
  "fits_AuthenticationRequest a \<Longrightarrow> fits_AuthenticationRequest b \<Longrightarrow>
     wire_AuthenticationRequest a @ xs = wire_AuthenticationRequest b @ ys \<Longrightarrow> a = b"
  by (cases a; cases b) (auto simp: wire_AuthenticationRequest_def fits_AuthenticationRequest_def wire_split)

interpretation auth_request_code: prefix_code wire_AuthenticationRequest fits_AuthenticationRequest
  by unfold_locales (rule wire_AuthenticationRequest_unique)

lemma wire_AuthenticationResponse_unique:
  "wire_AuthenticationResponse a @ xs = wire_AuthenticationResponse b @ ys \<Longrightarrow> a = b"
  by (cases a; cases b) (auto simp: wire_AuthenticationResponse_def wire_split)

interpretation auth_response_code: prefix_code wire_AuthenticationResponse "\<lambda>_. True"
  by unfold_locales (rule wire_AuthenticationResponse_unique)

lemma wire_FlushRequest_unique:
  "wire_FlushRequest a @ xs = wire_FlushRequest b @ ys \<Longrightarrow> a = b"
  by (cases a; cases b) (auto simp: wire_FlushRequest_def wire_split)

interpretation flush_request_code: prefix_code wire_FlushRequest "\<lambda>_. True"
  by unfold_locales (rule wire_FlushRequest_unique)

lemma wire_AttachRequest_unique:
  "fits_AttachRequest a \<Longrightarrow> fits_AttachRequest b \<Longrightarrow>
     wire_AttachRequest a @ xs = wire_AttachRequest b @ ys \<Longrightarrow> a = b"
  by (cases a; cases b) (auto simp: wire_AttachRequest_def fits_AttachRequest_def wire_split)

interpretation attach_request_code: prefix_code wire_AttachRequest fits_AttachRequest
  by unfold_locales (rule wire_AttachRequest_unique)

lemma wire_AttachResponse_unique:
  "wire_AttachResponse a @ xs = wire_AttachResponse b @ ys \<Longrightarrow> a = b"
  by (cases a; cases b) (auto simp: wire_AttachResponse_def wire_split)

interpretation attach_response_code: prefix_code wire_AttachResponse "\<lambda>_. True"
  by unfold_locales (rule wire_AttachResponse_unique)

lemma wire_WalkRequest_unique:
  "fits_WalkRequest a \<Longrightarrow> fits_WalkRequest b \<Longrightarrow>
     wire_WalkRequest a @ xs = wire_WalkRequest b @ ys \<Longrightarrow> a = b"
  by (cases a; cases b) (auto simp: wire_WalkRequest_def fits_WalkRequest_def wire_split)

interpretation walk_request_code: prefix_code wire_WalkRequest fits_WalkRequest
  by unfold_locales (rule wire_WalkRequest_unique)

lemma wire_WalkResponse_unique:
  "fits_WalkResponse a \<Longrightarrow> fits_WalkResponse b \<Longrightarrow>
     wire_WalkResponse a @ xs = wire_WalkResponse b @ ys \<Longrightarrow> a = b"
  by (cases a; cases b) (auto simp: wire_WalkResponse_def fits_WalkResponse_def wire_split)

interpretation walk_response_code: prefix_code wire_WalkResponse fits_WalkResponse
  by unfold_locales (rule wire_WalkResponse_unique)

lemma wire_OpenRequest_unique:
  "wire_OpenRequest a @ xs = wire_OpenRequest b @ ys \<Longrightarrow> a = b"
  by (cases a; cases b) (auto simp: wire_OpenRequest_def wire_split)

interpretation open_request_code: prefix_code wire_OpenRequest "\<lambda>_. True"
  by unfold_locales (rule wire_OpenRequest_unique)

lemma wire_OpenOrCreateResponse_unique:
  "wire_OpenOrCreateResponse a @ xs = wire_OpenOrCreateResponse b @ ys \<Longrightarrow> a = b"
  by (cases a; cases b) (auto simp: wire_OpenOrCreateResponse_def wire_split)

interpretation open_response_code: prefix_code wire_OpenOrCreateResponse "\<lambda>_. True"
  by unfold_locales (rule wire_OpenOrCreateResponse_unique)

lemma wire_CreateRequest_unique:
  "fits_CreateRequest a \<Longrightarrow> fits_CreateRequest b \<Longrightarrow>
     wire_CreateRequest a @ xs = wire_CreateRequest b @ ys \<Longrightarrow> a = b"
  by (cases a; cases b) (auto simp: wire_CreateRequest_def fits_CreateRequest_def wire_split)

interpretation create_request_code: prefix_code wire_CreateRequest fits_CreateRequest
  by unfold_locales (rule wire_CreateRequest_unique)

lemma wire_FidRequest_unique:
  "wire_FidRequest a @ xs = wire_FidRequest b @ ys \<Longrightarrow> a = b"
  by (cases a; cases b) (auto simp: wire_FidRequest_def wire_split)

interpretation fid_request_code: prefix_code wire_FidRequest "\<lambda>_. True"
  by unfold_locales (rule wire_FidRequest_unique)

lemma wire_ReadRequest_unique:
  "wire_ReadRequest a @ xs = wire_ReadRequest b @ ys \<Longrightarrow> a = b"
  by (cases a; cases b) (auto simp: wire_ReadRequest_def wire_split)

interpretation read_request_code: prefix_code wire_ReadRequest "\<lambda>_. True"
  by unfold_locales (rule wire_ReadRequest_unique)

lemma wire_ReadResponse_unique:
  "fits_ReadResponse a \<Longrightarrow> fits_ReadResponse b \<Longrightarrow>
     wire_ReadResponse a @ xs = wire_ReadResponse b @ ys \<Longrightarrow> a = b"
  by (cases a; cases b) (auto simp: wire_ReadResponse_def fits_ReadResponse_def wire_split)

interpretation read_response_code: prefix_code wire_ReadResponse fits_ReadResponse
  by unfold_locales (rule wire_ReadResponse_unique)

lemma wire_WriteRequest_unique:
  "fits_WriteRequest a \<Longrightarrow> fits_WriteRequest b \<Longrightarrow>
     wire_WriteRequest a @ xs = wire_WriteRequest b @ ys \<Longrightarrow> a = b"
  by (cases a; cases b) (auto simp: wire_WriteRequest_def fits_WriteRequest_def wire_split)

interpretation write_request_code: prefix_code wire_WriteRequest fits_WriteRequest
  by unfold_locales (rule wire_WriteRequest_unique)

lemma wire_WriteResponse_unique:
  "wire_WriteResponse a @ xs = wire_WriteResponse b @ ys \<Longrightarrow> a = b"
  by (cases a; cases b) (auto simp: wire_WriteResponse_def wire_split)

interpretation write_response_code: prefix_code wire_WriteResponse "\<lambda>_. True"
  by unfold_locales (rule wire_WriteResponse_unique)

lemma wire_StatResponse_unique:
  "fits_StatResponse a \<Longrightarrow> fits_StatResponse b \<Longrightarrow>
     wire_StatResponse a @ xs = wire_StatResponse b @ ys \<Longrightarrow> a = b"
  by (cases a; cases b) (auto simp: wire_StatResponse_def fits_StatResponse_def wire_split)

interpretation stat_response_code: prefix_code wire_StatResponse fits_StatResponse
  by unfold_locales (rule wire_StatResponse_unique)

section \<open>Requests, responses and interactions\<close>

fun lax_wire_Request :: "16 word \<Rightarrow> Request \<Rightarrow> byte list" where
  "lax_wire_Request len (Req_WStat m) =
     wire_header m @ wire_u32 (hf_fid (ws_HasFid m)) @ lax_wire_Stat len (ws_stat m)"
| "lax_wire_Request len r = wire_Request r"

fun lax_sendable_Request :: "Request \<Rightarrow> bool" where
  "lax_sendable_Request (Req_WStat m) = strings_fit_Stat (ws_stat m)"
| "lax_sendable_Request r = sendable_Request r"

fun lax_wire_Interaction :: "16 word \<Rightarrow> Interaction \<Rightarrow> byte list" where
  "lax_wire_Interaction len (Interaction_Request r) = lax_wire_Request len r"
| "lax_wire_Interaction len i = wire_Interaction i"

fun lax_sendable_Interaction :: "Interaction \<Rightarrow> bool" where
  "lax_sendable_Interaction (Interaction_Request r) = lax_sendable_Request r"
| "lax_sendable_Interaction i = sendable_Interaction i"

lemma wire_Request_lax:
  "sendable_Request r \<Longrightarrow> lax_sendable_Request r \<and> (\<exists>len. wire_Request r = lax_wire_Request len r)"
  by (cases r) (auto simp: wire_WStatRequest_def fits_WStatRequest_def wire_Stat_lax)

lemma wire_Interaction_lax:
  "sendable_Interaction i \<Longrightarrow>
     lax_sendable_Interaction i \<and> (\<exists>len. wire_Interaction i = lax_wire_Interaction len i)"
  using wire_Request_lax by (cases i) auto

lemma header_unique: "wire_header (m :: MessageHeader) @ xs = wire_header m' @ ys \<Longrightarrow> m = m'"
  by (cases m; cases m') (simp add: wire_split)

lemma lax_WStatRequest_unique:
  fixes m m' :: WStatRequest
  assumes "strings_fit_Stat (ws_stat m)" and "strings_fit_Stat (ws_stat m')"
    and "wire_header m @ wire_u32 (hf_fid (ws_HasFid m)) @ lax_wire_Stat l (ws_stat m) @ xs =
      wire_header m' @ wire_u32 (hf_fid (ws_HasFid m')) @ lax_wire_Stat l' (ws_stat m') @ ys"
  shows "m = m'"
  using assms by (cases m; cases m') (simp add: wire_split)

lemmas message_unique =
  header_unique wire_ErrorResponse_unique wire_VersionMessage_unique
  wire_AuthenticationRequest_unique wire_AuthenticationResponse_unique wire_FlushRequest_unique
  wire_AttachRequest_unique wire_AttachResponse_unique wire_WalkRequest_unique
  wire_WalkResponse_unique wire_OpenRequest_unique wire_OpenOrCreateResponse_unique
  wire_CreateRequest_unique wire_FidRequest_unique wire_ReadRequest_unique
  wire_ReadResponse_unique wire_WriteRequest_unique wire_WriteResponse_unique
  wire_StatResponse_unique lax_WStatRequest_unique

lemma lax_wire_Request_unique:
  assumes "lax_sendable_Request r" and "lax_sendable_Request r'" and "kind_Request r = kind_Request r'"
    and "lax_wire_Request l r @ xs = lax_wire_Request l' r' @ ys"
  shows "r = r'"
  using assms by (cases r; cases r'; simp) (blast dest: message_unique)+

lemma wire_Response_unique:
  assumes "sendable_Response r" and "sendable_Response r'" and "kind_Response r = kind_Response r'"
    and "wire_Response r @ xs = wire_Response r' @ ys"
  shows "r = r'"
  using assms by (cases r; cases r'; simp) (blast dest: message_unique)+

lemma lax_wire_Request_hd: "\<exists>bs. lax_wire_Request len r = op_Request r # bs"
  using wire_Request_hd [of r] by (cases r) (simp_all add: wire_header_def wire_u8_def)

lemma translate_inject: "translateConcept c d = translateConcept c' d' \<longleftrightarrow> c = c' \<and> d = d'"
  by (metis MessageDirection.exhaust convert_translate isRequest_translate)

text \<open>
  The first byte of a well-formed interaction is the operation code of its alternative, so two
  with the same first byte hold the same alternative.
\<close>

lemma lax_wire_Interaction_unique:
  assumes "lax_sendable_Interaction i" and "lax_sendable_Interaction j"
    and "wf_Interaction i" and "wf_Interaction j"
    and eq: "lax_wire_Interaction l i @ xs = lax_wire_Interaction l' j @ ys"
  shows "i = j"
proof -
  have "\<exists>bs. lax_wire_Interaction l i = op_Interaction i # bs" for l i
    using lax_wire_Request_hd wire_Response_hd by (cases i) auto
  with eq have op: "op_Interaction i = op_Interaction j"
    by (metis append_Cons list.inject)
  show ?thesis
    using assms op
    by (cases i; cases j)
      (auto simp: wf_Request_def wf_Response_def translate_inject
        dest: lax_wire_Request_unique wire_Response_unique)
qed

interpretation interaction_code: prefix_code wire_Interaction
  "\<lambda>i. sendable_Interaction i \<and> wf_Interaction i"
  by unfold_locales (metis lax_wire_Interaction_unique wire_Interaction_lax)

end
