(* ===== verification/Accepted_Streams.thy ===== *)
theory Accepted_Streams
  imports Wire_Uniqueness
begin

text \<open>
  What the decoders accept. \<open>accepts m R\<close> says of an action that, whenever it returns and leaves
  the stream good, it has taken some bytes from it and done nothing else, and that \<open>R\<close> relates
  what it returned to those bytes. It is proved for every decoder, from the integers up, with the
  locale \<open>exact_codec\<close> as the contract: a codec whose decoder takes nothing but the wire format
  of a value.
\<close>

section \<open>Accepting actions\<close>

definition advanced :: "MessageStream \<Rightarrow> byte list \<Rightarrow> MessageStream \<Rightarrow> bool" where
  "advanced s bs s' \<longleftrightarrow> ss_good s \<and> take (length bs) (drop (ss_get s) (ss_buf s)) = bs \<and>
     s' = s\<lparr>ss_get := ss_get s + length bs\<rparr>"

definition accepts :: "(MessageStream, 'a) action \<Rightarrow> ('a \<Rightarrow> byte list \<Rightarrow> bool) \<Rightarrow> bool" where
  "accepts m R \<longleftrightarrow>
     (\<forall>s a s'. m s = (Ok a, s') \<longrightarrow> ss_good s' \<longrightarrow> (\<exists>bs. advanced s bs s' \<and> R a bs))"

named_theorems accepts_intros \<open>what an action accepts\<close>

lemma acceptsI:
  "(\<And>s a s'. m s = (Ok a, s') \<Longrightarrow> ss_good s' \<Longrightarrow> \<exists>bs. advanced s bs s' \<and> R a bs) \<Longrightarrow> accepts m R"
  by (simp add: accepts_def)

lemma acceptsD: "accepts m R \<Longrightarrow> m s = (Ok a, s') \<Longrightarrow> ss_good s' \<Longrightarrow> \<exists>bs. advanced s bs s' \<and> R a bs"
  by (simp add: accepts_def)

lemma accepts_mono: "accepts m R \<Longrightarrow> (\<And>a bs. R a bs \<Longrightarrow> R' a bs) \<Longrightarrow> accepts m R'"
  unfolding accepts_def by blast

lemma ss_good_get [simp]: "ss_good (s\<lparr>ss_get := n\<rparr>) = ss_good s"
  by (simp add: ss_good_def)

lemma advanced_good: "advanced s bs s' \<Longrightarrow> ss_good s \<and> ss_good s'"
  by (auto simp: advanced_def)

lemma advanced_trans:
  assumes "advanced s bs s1" and "advanced s1 cs s2"
  shows "advanced s (bs @ cs) s2"
  using assms by (auto simp: advanced_def take_add drop_drop add.commute add.left_commute)

lemma accepts_retM [accepts_intros]: "accepts (retM a) (\<lambda>b bs. b = a \<and> bs = [])"
  by (rule acceptsI) (auto simp: advanced_def intro: exI [of _ "[]"])

lemma accepts_bindM [accepts_intros]:
  assumes m: "accepts m R" and f: "\<And>a. accepts (f a) (Q a)"
  shows "accepts (bindM m f) (\<lambda>b bs. \<exists>a bs1 bs2. bs = bs1 @ bs2 \<and> R a bs1 \<and> Q a b bs2)"
proof (rule acceptsI)
  fix s b s' assume run: "bindM m f s = (Ok b, s')" and g: "ss_good s'"
  from run obtain a s1 where m1: "m s = (Ok a, s1)" and f1: "f a s1 = (Ok b, s')"
    by (auto simp: bindM_Ok_iff)
  from acceptsD [OF f f1 g] obtain bs2 where b2: "advanced s1 bs2 s'" "Q a b bs2" by blast
  from acceptsD [OF m m1] advanced_good [OF b2(1)] obtain bs1 where b1: "advanced s bs1 s1" "R a bs1"
    by blast
  from advanced_trans [OF b1(1) b2(1)] b1(2) b2(2)
  show "\<exists>bs. advanced s bs s' \<and> (\<exists>a bs1 bs2. bs = bs1 @ bs2 \<and> R a bs1 \<and> Q a b bs2)" by blast
qed

section \<open>Integers, strings and vectors\<close>

lemma ss_read_advanced:
  assumes "ss_read n s = (bs, s')" and "ss_good s'"
  shows "length bs = n" and "advanced s bs s'"
proof -
  have g: "ss_good s" using assms by (auto simp: ss_read_def split: if_splits)
  with assms show l: "length bs = n"
    by (auto simp: ss_read_def Let_def ss_good_def split: if_splits)
  from assms g show "advanced s bs s'"
    by (auto simp: ss_read_def Let_def advanced_def ss_good_def min_def split: if_splits)
qed

lemma accepts_u8 [accepts_intros]: "accepts decode_u8 (\<lambda>a bs. bs = wire_u8 a)"
  by (rule acceptsI)
    (auto simp: decode_u8_def ss_get_char_def advanced_def wire_u8_def Cons_nth_drop_Suc [symmetric]
      split: if_splits)

text \<open>Every two, four or eight bytes are the wire format of the number they make.\<close>

lemma wire_le_val:
  "length bs = 2 \<Longrightarrow> wire_u16 (word_of_nat (le_val bs)) = bs"
  "length bs = 4 \<Longrightarrow> wire_u32 (word_of_nat (le_val bs)) = bs"
  "length bs = 8 \<Longrightarrow> wire_u64 (word_of_nat (le_val bs)) = bs"
  using le_val_bound [of bs] le_bytes_le_val [of bs]
  by (simp_all add: wire_u16_def wire_u32_def wire_u64_def unat_of_nat)

lemma accepts_u16 [accepts_intros]: "accepts decode_u16 (\<lambda>a bs. bs = wire_u16 a)"
proof (rule acceptsI)
  fix s a s' assume d: "decode_u16 s = (Ok a, s')" and g: "ss_good s'"
  obtain bs where r: "ss_read 2 s = (bs, s')" and b: "a = build_u8 (bs ! 0) (bs ! 1)"
    using d by (auto simp: decode_u16_def split: prod.splits if_splits)
  obtain v where "bs = wire_u16 v"
    using wire_le_val(1) [OF ss_read_advanced(1) [OF r g], symmetric] by blast
  with ss_read_advanced(2) [OF r g] b show "\<exists>bs. advanced s bs s' \<and> bs = wire_u16 a"
    by (auto simp: wire_u16_bytes build_u8_bytes)
qed

lemma accepts_u32 [accepts_intros]: "accepts decode_u32 (\<lambda>a bs. bs = wire_u32 a)"
proof (rule acceptsI)
  fix s a s' assume d: "decode_u32 s = (Ok a, s')" and g: "ss_good s'"
  obtain bs where r: "ss_read 4 s = (bs, s')" and b: "a = build_u8x4 (bs ! 0) (bs ! 1) (bs ! 2) (bs ! 3)"
    using d by (auto simp: decode_u32_def split: prod.splits if_splits)
  obtain v where "bs = wire_u32 v"
    using wire_le_val(2) [OF ss_read_advanced(1) [OF r g], symmetric] by blast
  with ss_read_advanced(2) [OF r g] b show "\<exists>bs. advanced s bs s' \<and> bs = wire_u32 a"
    by (auto simp: wire_u32_bytes build_u8x4_bytes)
qed

lemma ex_wire_u64: "\<exists>v. wire_u32 a @ wire_u32 b = wire_u64 v \<and> ucast v = a \<and> ucast (drop_bit 32 v) = b"
proof -
  let ?v = "build_u32 a b"
  have "ucast ?v = a" "ucast (drop_bit 32 ?v) = b"
    by (rule bit_word_eqI; auto simp: build_u32_def bit_simps dest: bit_imp_le_length)+
  then show ?thesis by (metis wire_u64_halves)
qed

lemma accepts_u64 [accepts_intros]:
  "accepts (decode_u64 ord) (\<lambda>a bs. \<exists>v. a = seen_u64 ord v \<and> bs = wire_u64 v)"
  unfolding decode_u64_def
proof (rule accepts_mono, (rule accepts_intros)+, elim exE conjE, hypsubst)
  fix a b
  obtain v where v: "wire_u32 a @ wire_u32 b = wire_u64 v" "ucast v = a" "ucast (drop_bit 32 v) = b"
    using ex_wire_u64 by blast
  show "\<exists>v. (case ord of LeftFirst \<Rightarrow> build_u32 a b | RightFirst \<Rightarrow> build_u32 b a) = seen_u64 ord v \<and>
      wire_u32 a @ wire_u32 b @ [] = wire_u64 v"
    using v build_u32_halves [of v] build_u32_swapped [of v]
    by (auto simp: seen_u64_def split: arg_order.split intro!: exI [of _ v])
qed

lemma accepts_string [accepts_intros]:
  "accepts (decode_string t) (\<lambda>a bs. \<exists>v. fits_u16 v \<and> a = overlay v t \<and> bs = wire_string v)"
proof (rule acceptsI)
  fix s a s' assume d: "decode_string t s = (Ok a, s')" and g: "ss_good s'"
  from d obtain len s1 where l: "decode_u16 s = (Ok len, s1)"
    and k: "(case ss_read (unat len) s1 of (bs, s') \<Rightarrow> (Ok (overlay bs t), s')) = (Ok a, s')"
    unfolding decode_string_def bindM_Ok_iff by blast
  from k obtain v where r: "ss_read (unat len) s1 = (v, s')" and a: "a = overlay v t"
    by (cases "ss_read (unat len) s1") simp
  note v = ss_read_advanced [OF r g]
  have "unat len < 2 ^ LENGTH(16)" by (rule unsigned_less)
  then have f: "fits_u16 v" using v(1) by (simp add: fits_u16_def)
  from acceptsD [OF accepts_u16 l] advanced_good [OF v(2)] have "advanced s (wire_u16 len) s1" by blast
  from advanced_trans [OF this v(2)] have "advanced s (wire_string v) s'"
    using v(1) by (simp add: wire_string_def wire_u16_def)
  with f a show "\<exists>bs. advanced s bs s' \<and> (\<exists>v. fits_u16 v \<and> a = overlay v t \<and> bs = wire_string v)"
    by blast
qed

section \<open>Codecs whose decoder takes nothing else\<close>

lemma advanced_reading:
  assumes "ss_get s \<le> length (ss_buf s)"
  shows "advanced s bs s' \<longleftrightarrow> ss_good s \<and>
    (\<exists>pre post. s = reading s pre (bs @ post) \<and> s' = reading s (pre @ bs) post)"
proof
  assume a: "advanced s bs s'"
  let ?pre = "take (ss_get s) (ss_buf s)" and ?post = "drop (length bs) (drop (ss_get s) (ss_buf s))"
  have "drop (ss_get s) (ss_buf s) = bs @ ?post"
    using a by (metis advanced_def append_take_drop_id)
  then have "ss_buf s = ?pre @ bs @ ?post"
    by (metis append_take_drop_id)
  then have "s = reading s ?pre (bs @ ?post) \<and> s' = reading s (?pre @ bs) ?post"
    using a assms by (auto simp: reading_def advanced_def)
  with advanced_good [OF a]
  show "ss_good s \<and> (\<exists>pre post. s = reading s pre (bs @ post) \<and> s' = reading s (pre @ bs) post)"
    by blast
next
  assume "ss_good s \<and> (\<exists>pre post. s = reading s pre (bs @ post) \<and> s' = reading s (pre @ bs) post)"
  then obtain pre post where "ss_good s" and s: "s = reading s pre (bs @ post)"
    and s': "s' = reading s (pre @ bs) post" by blast
  moreover have "ss_buf s = pre @ bs @ post" "ss_get s = length pre"
    by (subst s, simp)+
  ultimately show "advanced s bs s'"
    by (simp add: advanced_def reading_def)
qed

locale exact_codec = member_codec enc wire fits dec seen
  for enc :: "'a \<Rightarrow> (MessageStream, unit) action" and wire fits dec seen +
  assumes dec_accepts: "accepts (dec t) (\<lambda>a bs. \<exists>v. fits v \<and> a = seen t v \<and> bs = wire v)"
begin

text \<open>The decoder returns and leaves the stream good exactly on the wire format of a value.\<close>

lemma dec_exact:
  assumes "ss_get s \<le> length (ss_buf s)"
  shows "dec t s = (Ok a, s') \<and> ss_good s' \<longleftrightarrow> (\<exists>v. fits v \<and> a = seen t v \<and> advanced s (wire v) s')"
proof
  assume "dec t s = (Ok a, s') \<and> ss_good s'"
  with acceptsD [OF dec_accepts] show "\<exists>v. fits v \<and> a = seen t v \<and> advanced s (wire v) s'" by blast
next
  assume "\<exists>v. fits v \<and> a = seen t v \<and> advanced s (wire v) s'"
  then obtain v where v: "fits v" "a = seen t v" "advanced s (wire v) s'" by blast
  then obtain pre post where "s = reading s pre (wire v @ post)" "s' = reading s (pre @ wire v) post"
    and "ss_good s"
    using advanced_reading [OF assms] by blast
  with dec_wire [of v s t pre post] v show "dec t s = (Ok a, s') \<and> ss_good s'" by simp
qed

lemma accepts_elements:
  "accepts (decode_elements dec fresh n collec)
     (\<lambda>a bs. \<exists>xs. length xs = n \<and> (\<forall>x \<in> set xs. fits x) \<and>
        a = collec @ map (seen fresh) xs \<and> bs = concat (map wire xs))"
proof (induction n arbitrary: collec)
  case 0
  show ?case
    unfolding decode_elements.simps by (rule accepts_mono, rule accepts_retM) simp
next
  case (Suc n)
  show ?case
  proof (simp only: decode_elements.simps, rule accepts_mono, rule accepts_bindM, rule dec_accepts, rule Suc,
      elim exE conjE)
    fix b bs a bs1 bs2 v xs
    assume "bs = bs1 @ bs2" "fits v" "a = seen fresh v" "bs1 = wire v" "length xs = n"
      "\<forall>x\<in>set xs. fits x" "b = (collec @ [a]) @ map (seen fresh) xs" "bs2 = concat (map wire xs)"
    then show "\<exists>xs. length xs = Suc n \<and> (\<forall>x\<in>set xs. fits x) \<and> b = collec @ map (seen fresh) xs \<and>
        bs = concat (map wire xs)"
      by (intro exI [of _ "v # xs"]) auto
  qed
qed

end

locale exact_vector = vector_codec enc wire fits dec seen fresh + exact_codec enc wire fits dec seen
  for enc :: "'a \<Rightarrow> (MessageStream, unit) action" and wire fits dec seen fresh
begin

lemma accepts_vector:
  "accepts (decode_vector dec fresh collec)
    (\<lambda>a bs. \<exists>xs. fits_u16 xs \<and> (\<forall>x \<in> set xs. fits x) \<and> a = collec @ map (seen fresh) xs \<and>
       bs = wire_vector wire xs)"
  unfolding decode_vector_def
proof (rule accepts_mono, rule accepts_bindM, rule accepts_u16, rule accepts_elements, elim exE conjE)
  fix b bs a bs1 bs2 and xs
  assume *: "bs = bs1 @ bs2" "bs1 = wire_u16 a" "length xs = unat a" "\<forall>x\<in>set xs. fits x"
    "b = collec @ map (seen fresh) xs" "bs2 = concat (map wire xs)"
  have "unat a < 2 ^ LENGTH(16)" by (rule unsigned_less)
  with * show "\<exists>xs. fits_u16 xs \<and> (\<forall>x \<in> set xs. fits x) \<and> b = collec @ map (seen fresh) xs \<and>
       bs = wire_vector wire xs"
    by (intro exI [of _ xs]) (simp add: fits_u16_def wire_vector_def wire_u16_def)
qed

end

interpretation exact_u8: exact_codec encode_u8 wire_u8 "\<lambda>_. True" "\<lambda>_. decode_u8" "\<lambda>_ a. a"
  by unfold_locales (simp add: accepts_u8)

interpretation exact_u16: exact_codec encode_u16 wire_u16 "\<lambda>_. True" "\<lambda>_. decode_u16" "\<lambda>_ a. a"
  by unfold_locales (simp add: accepts_u16)

interpretation exact_u32: exact_codec encode_u32 wire_u32 "\<lambda>_. True" "\<lambda>_. decode_u32" "\<lambda>_ a. a"
  by unfold_locales (simp add: accepts_u32)

interpretation exact_u64: exact_codec encode_u64 wire_u64 "\<lambda>_. True" "\<lambda>_. decode_u64 ord" "\<lambda>_. seen_u64 ord"
  for ord
  by unfold_locales (simp add: accepts_u64)

interpretation exact_strings: exact_vector encode_string wire_string fits_u16 decode_string
  "\<lambda>t a. overlay a t" "[]"
  by unfold_locales (rule accepts_string)

lemma accepts_Qid [accepts_intros]:
  "accepts (Qid_decode ord t) (\<lambda>a bs. \<exists>v. a = seen_Qid ord v \<and> bs = wire_Qid v)"
  unfolding Qid_decode_def
  by (rule accepts_mono, (rule accepts_intros)+)
    (cases t, auto simp: Qid.splits seen_Qid_def wire_Qid_def)

interpretation exact_qids: exact_vector Qid_encode wire_Qid "\<lambda>_. True" "Qid_decode ord"
  "\<lambda>_. seen_Qid ord" "Qid_ctor 0 0 0"
  for ord
  by unfold_locales (simp add: accepts_Qid)

lemmas accepts_vectors [accepts_intros] =
  exact_strings.accepts_vector exact_qids.accepts_vector [simplified]

section \<open>Mixins and messages\<close>

lemma accepts_data [accepts_intros]:
  "accepts (HasDataStorage_decode h)
     (\<lambda>a bs. \<exists>v. fits_data v \<and> a = \<lparr>hd_data = hd_data h @ hd_data v\<rparr> \<and> bs = wire_data v)"
  unfolding HasDataStorage_decode_def
proof (rule accepts_mono, rule accepts_bindM, rule accepts_u32, rule accepts_bindM,
    rule exact_u8.accepts_elements, rule accepts_retM, elim exE conjE)
  fix b bs a bs1 bs2 d ds es xs
  assume *: "bs = bs1 @ bs2" "bs1 = wire_u32 a" "bs2 = ds @ es" "length xs = unat a"
    "d = hd_data h @ map (\<lambda>a. a) xs" "ds = concat (map wire_u8 xs)" "b = h\<lparr>hd_data := d\<rparr>" "es = []"
  have "unat a < 2 ^ LENGTH(32)" by (rule unsigned_less)
  with * show "\<exists>v. fits_data v \<and> b = \<lparr>hd_data = hd_data h @ hd_data v\<rparr> \<and> bs = wire_data v"
    by (intro exI [of _ "\<lparr>hd_data = xs\<rparr>"])
      (simp add: fits_data_def wire_data_def wire_u32_def mixin_eta)
qed

lemma accepts_mixins [accepts_intros]:
  "accepts (HasQid_decode ord q) (\<lambda>a bs. \<exists>v. a = \<lparr>hq_qid = seen_Qid ord v\<rparr> \<and> bs = wire_Qid v)"
  "accepts (HasName_decode n)
     (\<lambda>a bs. \<exists>v. fits_u16 v \<and> a = \<lparr>hn_name = overlay v (hn_name n)\<rparr> \<and> bs = wire_string v)"
  "accepts (HasFid_decode f) (\<lambda>a bs. bs = wire_u32 (hf_fid a))"
  "accepts (HasCount_decode c) (\<lambda>a bs. bs = wire_u32 (hc_count a))"
  "accepts (HasOffset_decode ord p)
     (\<lambda>a bs. \<exists>v. a = \<lparr>ho_offset = seen_u64 ord v\<rparr> \<and> bs = wire_u64 v)"
  unfolding HasQid_decode_def HasName_decode_def HasFid_decode_def HasCount_decode_def HasOffset_decode_def
  by (rule accepts_mono, (rule accepts_intros)+, auto simp: mixin_eta)+

lemma accepts_header [accepts_intros]:
  "accepts (MessageHeader_decode t)
     (\<lambda>a bs. \<exists>op tag. a = t\<lparr>hdr_op := op, hdr_tag := tag\<rparr> \<and> bs = wire_u8 op @ wire_u16 tag)"
  unfolding MessageHeader_decode_def decode_Operation_def
  by (rule accepts_mono, (rule accepts_intros)+) auto

lemma accepts_Stat [accepts_intros]:
  "accepts (Stat_decode ord t)
     (\<lambda>a bs. \<exists>st len. strings_fit_Stat st \<and> a = seen_Stat ord t st \<and> bs = lax_wire_Stat len st)"
  unfolding Stat_decode_def
  by (rule accepts_mono, (rule accepts_intros)+)
    (cases t, auto simp: Stat.splits HasQid.splits HasName.splits strings_fit_Stat_def seen_Stat_def
      lax_wire_Stat_def wire_Stat_inner_def, blast)

lemma accepts_ErrorResponse:
  "accepts (ErrorResponse_decode t) (\<lambda>a bs. \<exists>v. fits_ErrorResponse v \<and> a = seen_ErrorResponse t v \<and> bs = wire_ErrorResponse v)"
  unfolding ErrorResponse_decode_def
  by (rule accepts_mono, (rule accepts_intros)+)
    (cases t, auto simp: ErrorResponse.splits wire_ErrorResponse_def wire_header_def fits_ErrorResponse_def seen_ErrorResponse_def)

lemma accepts_VersionMessage:
  "accepts (VersionMessage_decode t) (\<lambda>a bs. \<exists>v. fits_VersionMessage v \<and> a = seen_VersionMessage t v \<and> bs = wire_VersionMessage v)"
  unfolding VersionMessage_decode_def
  by (rule accepts_mono, (rule accepts_intros)+)
    (cases t, auto simp: VersionMessage.splits wire_VersionMessage_def wire_header_def fits_VersionMessage_def seen_VersionMessage_def)

lemma accepts_AuthenticationRequest:
  "accepts (AuthenticationRequest_decode t) (\<lambda>a bs. \<exists>v. fits_AuthenticationRequest v \<and> a = seen_AuthenticationRequest t v \<and> bs = wire_AuthenticationRequest v)"
  unfolding AuthenticationRequest_decode_def
  by (rule accepts_mono, (rule accepts_intros)+)
    (cases t, auto simp: AuthenticationRequest.splits wire_AuthenticationRequest_def wire_header_def fits_AuthenticationRequest_def seen_AuthenticationRequest_def, blast)

lemma accepts_AuthenticationResponse:
  "accepts (AuthenticationResponse_decode ord t) (\<lambda>a bs. \<exists>v. a = seen_AuthenticationResponse ord t v \<and> bs = wire_AuthenticationResponse v)"
  unfolding AuthenticationResponse_decode_def
  by (rule accepts_mono, (rule accepts_intros)+)
    (cases t, auto simp: AuthenticationResponse.splits HasQid.splits wire_AuthenticationResponse_def wire_header_def seen_AuthenticationResponse_def)

lemma accepts_FlushRequest:
  "accepts (FlushRequest_decode t) (\<lambda>a bs. bs = wire_FlushRequest a)"
  unfolding FlushRequest_decode_def
  by (rule accepts_mono, (rule accepts_intros)+)
    (cases t, auto simp: wire_FlushRequest_def wire_header_def)

lemma accepts_AttachRequest:
  "accepts (AttachRequest_decode t) (\<lambda>a bs. \<exists>v. fits_AttachRequest v \<and> a = seen_AttachRequest t v \<and> bs = wire_AttachRequest v)"
  unfolding AttachRequest_decode_def
  by (rule accepts_mono, (rule accepts_intros)+)
    (cases t, auto simp: AttachRequest.splits wire_AttachRequest_def wire_header_def fits_AttachRequest_def seen_AttachRequest_def, blast)

lemma accepts_AttachResponse:
  "accepts (AttachResponse_decode ord t) (\<lambda>a bs. \<exists>v. a = seen_AttachResponse ord t v \<and> bs = wire_AttachResponse v)"
  unfolding AttachResponse_decode_def
  by (rule accepts_mono, (rule accepts_intros)+)
    (cases t, auto simp: AttachResponse.splits HasQid.splits wire_AttachResponse_def wire_header_def seen_AttachResponse_def)

lemma accepts_WalkRequest:
  "accepts (WalkRequest_decode t) (\<lambda>a bs. \<exists>v. fits_WalkRequest v \<and> a = seen_WalkRequest t v \<and> bs = wire_WalkRequest v)"
  unfolding WalkRequest_decode_def
  by (rule accepts_mono, (rule accepts_intros)+)
    (cases t, auto simp: WalkRequest.splits wire_WalkRequest_def wire_header_def fits_WalkRequest_def seen_WalkRequest_def)

lemma accepts_WalkResponse:
  "accepts (WalkResponse_decode ord t) (\<lambda>a bs. \<exists>v. fits_WalkResponse v \<and> a = seen_WalkResponse ord t v \<and> bs = wire_WalkResponse v)"
  unfolding WalkResponse_decode_def
  by (rule accepts_mono, (rule accepts_intros)+)
    (cases t, auto simp: WalkResponse.splits wire_WalkResponse_def wire_header_def fits_WalkResponse_def seen_WalkResponse_def)

lemma accepts_OpenRequest:
  "accepts (OpenRequest_decode t) (\<lambda>a bs. bs = wire_OpenRequest a)"
  unfolding OpenRequest_decode_def
  by (rule accepts_mono, (rule accepts_intros)+)
    (cases t, auto simp: wire_OpenRequest_def wire_header_def)

lemma accepts_OpenOrCreateResponse:
  "accepts (OpenOrCreateResponse_decode ord t) (\<lambda>a bs. \<exists>v. a = seen_OpenOrCreateResponse ord t v \<and> bs = wire_OpenOrCreateResponse v)"
  unfolding OpenOrCreateResponse_decode_def
  by (rule accepts_mono, (rule accepts_intros)+)
    (cases t, auto simp: OpenOrCreateResponse.splits HasQid.splits wire_OpenOrCreateResponse_def wire_header_def seen_OpenOrCreateResponse_def)

lemma accepts_CreateRequest:
  "accepts (CreateRequest_decode t) (\<lambda>a bs. \<exists>v. fits_CreateRequest v \<and> a = seen_CreateRequest t v \<and> bs = wire_CreateRequest v)"
  unfolding CreateRequest_decode_def
  by (rule accepts_mono, (rule accepts_intros)+)
    (cases t, auto simp: CreateRequest.splits HasName.splits wire_CreateRequest_def wire_header_def fits_CreateRequest_def seen_CreateRequest_def)

lemma accepts_FidRequest:
  "accepts (FidRequest_decode t) (\<lambda>a bs. bs = wire_FidRequest a)"
  unfolding FidRequest_decode_def
  by (rule accepts_mono, (rule accepts_intros)+)
    (cases t, auto simp: wire_FidRequest_def wire_header_def)

lemma accepts_ReadRequest:
  "accepts (ReadRequest_decode ord t) (\<lambda>a bs. \<exists>v. a = seen_ReadRequest ord t v \<and> bs = wire_ReadRequest v)"
  unfolding ReadRequest_decode_def ReadWriteRequest_decode_def FidRequest_decode_def
  by (rule accepts_mono, (rule accepts_intros)+)
    (cases t, auto simp: ReadRequest.splits HasOffset.splits wire_ReadRequest_def wire_header_def seen_ReadRequest_def)

lemma accepts_ReadResponse:
  "accepts (ReadResponse_decode t) (\<lambda>a bs. \<exists>v. fits_ReadResponse v \<and> a = seen_ReadResponse t v \<and> bs = wire_ReadResponse v)"
  unfolding ReadResponse_decode_def
  by (rule accepts_mono, (rule accepts_intros)+)
    (cases t, auto simp: ReadResponse.splits wire_ReadResponse_def wire_header_def fits_ReadResponse_def seen_ReadResponse_def)

lemma accepts_WriteRequest:
  "accepts (WriteRequest_decode ord t) (\<lambda>a bs. \<exists>v. fits_WriteRequest v \<and> a = seen_WriteRequest ord t v \<and> bs = wire_WriteRequest v)"
  unfolding WriteRequest_decode_def ReadWriteRequest_decode_def FidRequest_decode_def
  by (rule accepts_mono, (rule accepts_intros)+)
    (cases t, auto simp: WriteRequest.splits HasOffset.splits wire_WriteRequest_def wire_header_def fits_WriteRequest_def seen_WriteRequest_def, blast)

lemma accepts_WriteResponse:
  "accepts (WriteResponse_decode t) (\<lambda>a bs. bs = wire_WriteResponse a)"
  unfolding WriteResponse_decode_def
  by (rule accepts_mono, (rule accepts_intros)+)
    (cases t, auto simp: wire_WriteResponse_def wire_header_def)

lemma accepts_StatResponse:
  "accepts (StatResponse_decode t) (\<lambda>a bs. \<exists>v. fits_StatResponse v \<and> a = seen_StatResponse t v \<and> bs = wire_StatResponse v)"
  unfolding StatResponse_decode_def
  by (rule accepts_mono, (rule accepts_intros)+)
    (cases t, auto simp: StatResponse.splits wire_StatResponse_def wire_header_def fits_StatResponse_def seen_StatResponse_def)

interpretation exact_error_response: exact_codec ErrorResponse_encode wire_ErrorResponse fits_ErrorResponse
  ErrorResponse_decode seen_ErrorResponse
  by unfold_locales (simp add: accepts_ErrorResponse)

interpretation exact_version_message: exact_codec VersionMessage_encode wire_VersionMessage fits_VersionMessage
  VersionMessage_decode seen_VersionMessage
  by unfold_locales (simp add: accepts_VersionMessage)

interpretation exact_auth_request: exact_codec AuthenticationRequest_encode wire_AuthenticationRequest fits_AuthenticationRequest
  AuthenticationRequest_decode seen_AuthenticationRequest
  by unfold_locales (simp add: accepts_AuthenticationRequest)

interpretation exact_auth_response: exact_codec AuthenticationResponse_encode wire_AuthenticationResponse "\<lambda>_. True"
  "AuthenticationResponse_decode ord" "seen_AuthenticationResponse ord"
  for ord
  by unfold_locales (simp add: accepts_AuthenticationResponse)

interpretation exact_flush_request: exact_codec FlushRequest_encode wire_FlushRequest "\<lambda>_. True"
  FlushRequest_decode "\<lambda>_ m. m"
  by unfold_locales (simp add: accepts_FlushRequest)

interpretation exact_attach_request: exact_codec AttachRequest_encode wire_AttachRequest fits_AttachRequest
  AttachRequest_decode seen_AttachRequest
  by unfold_locales (simp add: accepts_AttachRequest)

interpretation exact_attach_response: exact_codec AttachResponse_encode wire_AttachResponse "\<lambda>_. True"
  "AttachResponse_decode ord" "seen_AttachResponse ord"
  for ord
  by unfold_locales (simp add: accepts_AttachResponse)

interpretation exact_walk_request: exact_codec WalkRequest_encode wire_WalkRequest fits_WalkRequest
  WalkRequest_decode seen_WalkRequest
  by unfold_locales (simp add: accepts_WalkRequest)

interpretation exact_walk_response: exact_codec WalkResponse_encode wire_WalkResponse fits_WalkResponse
  "WalkResponse_decode ord" "seen_WalkResponse ord"
  for ord
  by unfold_locales (simp add: accepts_WalkResponse)

interpretation exact_open_request: exact_codec OpenRequest_encode wire_OpenRequest "\<lambda>_. True"
  OpenRequest_decode "\<lambda>_ m. m"
  by unfold_locales (simp add: accepts_OpenRequest)

interpretation exact_open_response: exact_codec OpenOrCreateResponse_encode wire_OpenOrCreateResponse "\<lambda>_. True"
  "OpenOrCreateResponse_decode ord" "seen_OpenOrCreateResponse ord"
  for ord
  by unfold_locales (simp add: accepts_OpenOrCreateResponse)

interpretation exact_create_request: exact_codec CreateRequest_encode wire_CreateRequest fits_CreateRequest
  CreateRequest_decode seen_CreateRequest
  by unfold_locales (simp add: accepts_CreateRequest)

interpretation exact_fid_request: exact_codec FidRequest_encode wire_FidRequest "\<lambda>_. True"
  FidRequest_decode "\<lambda>_ m. m"
  by unfold_locales (simp add: accepts_FidRequest)

interpretation exact_read_request: exact_codec ReadRequest_encode wire_ReadRequest "\<lambda>_. True"
  "ReadRequest_decode ord" "seen_ReadRequest ord"
  for ord
  by unfold_locales (simp add: accepts_ReadRequest)

interpretation exact_read_response: exact_codec ReadResponse_encode wire_ReadResponse fits_ReadResponse
  ReadResponse_decode seen_ReadResponse
  by unfold_locales (simp add: accepts_ReadResponse)

interpretation exact_write_request: exact_codec WriteRequest_encode wire_WriteRequest fits_WriteRequest
  "WriteRequest_decode ord" "seen_WriteRequest ord"
  for ord
  by unfold_locales (simp add: accepts_WriteRequest)

interpretation exact_write_response: exact_codec WriteResponse_encode wire_WriteResponse "\<lambda>_. True"
  WriteResponse_decode "\<lambda>_ m. m"
  by unfold_locales (simp add: accepts_WriteResponse)

interpretation exact_stat_response: exact_codec StatResponse_encode wire_StatResponse fits_StatResponse
  StatResponse_decode seen_StatResponse
  by unfold_locales (simp add: accepts_StatResponse)

section \<open>Requests and responses\<close>

text \<open>The alternatives a kind leaves open, for the existential quantifiers below.\<close>

lemma kind_Request_iff:
  "kind_Request r = Version \<longleftrightarrow> (\<exists>m. r = Req_Version m)"
  "kind_Request r = Auth \<longleftrightarrow> (\<exists>m. r = Req_Auth m)"
  "kind_Request r = Attach \<longleftrightarrow> (\<exists>m. r = Req_Attach m)"
  "kind_Request r = Error \<longleftrightarrow> (\<exists>m. r = Req_Error m)"
  "kind_Request r = Flush \<longleftrightarrow> (\<exists>m. r = Req_Flush m)"
  "kind_Request r = Walk \<longleftrightarrow> (\<exists>m. r = Req_Walk m)"
  "kind_Request r = Open \<longleftrightarrow> (\<exists>m. r = Req_Open m)"
  "kind_Request r = Create \<longleftrightarrow> (\<exists>m. r = Req_Create m)"
  "kind_Request r = Read \<longleftrightarrow> (\<exists>m. r = Req_Read m)"
  "kind_Request r = Write \<longleftrightarrow> (\<exists>m. r = Req_Write m)"
  "kind_Request r = Clunk \<longleftrightarrow> (\<exists>m. r = Req_Clunk m)"
  "kind_Request r = Remove \<longleftrightarrow> (\<exists>m. r = Req_Remove m)"
  "kind_Request r = Stat \<longleftrightarrow> (\<exists>m. r = Req_Stat m)"
  "kind_Request r = WStat \<longleftrightarrow> (\<exists>m. r = Req_WStat m)"
  by (cases r; simp)+

lemma kind_Response_iff:
  "kind_Response r = Version \<longleftrightarrow> (\<exists>m. r = Resp_Version m)"
  "kind_Response r = Auth \<longleftrightarrow> (\<exists>m. r = Resp_Auth m)"
  "kind_Response r = Attach \<longleftrightarrow> (\<exists>m. r = Resp_Attach m)"
  "kind_Response r = Error \<longleftrightarrow> (\<exists>m. r = Resp_Error m)"
  "kind_Response r = Flush \<longleftrightarrow> (\<exists>m. r = Resp_Flush m)"
  "kind_Response r = Walk \<longleftrightarrow> (\<exists>m. r = Resp_Walk m)"
  "kind_Response r = Open \<longleftrightarrow> (\<exists>m. r = Resp_Open m)"
  "kind_Response r = Create \<longleftrightarrow> (\<exists>m. r = Resp_Create m)"
  "kind_Response r = Read \<longleftrightarrow> (\<exists>m. r = Resp_Read m)"
  "kind_Response r = Write \<longleftrightarrow> (\<exists>m. r = Resp_Write m)"
  "kind_Response r = Clunk \<longleftrightarrow> (\<exists>m. r = Resp_Clunk m)"
  "kind_Response r = Remove \<longleftrightarrow> (\<exists>m. r = Resp_Remove m)"
  "kind_Response r = Stat \<longleftrightarrow> (\<exists>m. r = Resp_Stat m)"
  "kind_Response r = WStat \<longleftrightarrow> (\<exists>m. r = Resp_WStat m)"
  by (cases r; simp)+

lemma accepts_header_message: "accepts (MessageHeader_decode t) (\<lambda>a bs. bs = wire_header (a :: MessageHeader))"
  by (rule accepts_mono, rule accepts_header) (auto simp: wire_header_def)

lemma accepts_WStatRequest:
  "accepts (WStatRequest_decode ord t)
     (\<lambda>a bs. \<exists>v len. strings_fit_Stat (ws_stat v) \<and> a = seen_WStatRequest ord t v \<and>
        bs = wire_header v @ wire_u32 (hf_fid (ws_HasFid v)) @ lax_wire_Stat len (ws_stat v))"
  unfolding WStatRequest_decode_def
  by (rule accepts_mono, (rule accepts_intros)+)
    (cases t, auto simp: WStatRequest.splits wire_header_def seen_WStatRequest_def)

lemmas accepts_message =
  accepts_header_message
  accepts_ErrorResponse
  accepts_VersionMessage
  accepts_AuthenticationRequest
  accepts_AuthenticationResponse
  accepts_FlushRequest
  accepts_AttachRequest
  accepts_AttachResponse
  accepts_WalkRequest
  accepts_WalkResponse
  accepts_OpenRequest
  accepts_OpenOrCreateResponse
  accepts_CreateRequest
  accepts_FidRequest
  accepts_ReadRequest
  accepts_ReadResponse
  accepts_WriteRequest
  accepts_WriteResponse
  accepts_StatResponse

lemma accepts_WStat:
  "accepts (Request_decode ord (emplace_Request u WStat))
    (\<lambda>a bs. \<exists>v len. kind_Request v = WStat \<and> lax_sendable_Request v \<and> a = received_Request ord v \<and>
       bs = lax_wire_Request len v)"
  unfolding Request_decode.simps emplace_Request.simps
proof (rule accepts_mono, rule accepts_bindM, rule accepts_WStatRequest, rule accepts_retM, elim exE conjE)
  fix a bs m bs1 bs2 v len
  assume "bs = bs1 @ bs2" "strings_fit_Stat (ws_stat v)" "a = Req_WStat m" "bs2 = []"
    "bs1 = wire_header v @ wire_u32 (hf_fid (ws_HasFid v)) @ lax_wire_Stat len (ws_stat v)"
    "m = seen_WStatRequest ord \<lparr>hdr_op = translateConcept WStat Request, hdr_tag = notag,
       ws_HasFid = \<lparr>hf_fid = 0\<rparr>, ws_stat = Stat_zero\<rparr> v"
  then show "\<exists>v len. kind_Request v = WStat \<and> lax_sendable_Request v \<and> a = received_Request ord v \<and>
       bs = lax_wire_Request len v"
    by (intro exI [of _ "Req_WStat v"] exI [of _ len]) (simp add: seen_WStatRequest_def)
qed

lemma accepts_Request:
  assumes "c \<noteq> Undefined"
  shows "accepts (Request_decode ord (emplace_Request u c))
    (\<lambda>a bs. \<exists>v len. kind_Request v = c \<and> lax_sendable_Request v \<and> a = received_Request ord v \<and>
       bs = lax_wire_Request len v)"
proof (cases "c = WStat")
  case True
  then show ?thesis using accepts_WStat by simp
next
  case False
  with assms show ?thesis
    by (cases c; simp only: Request_decode.simps emplace_Request.simps)
      (rule accepts_mono, rule accepts_bindM, rule accepts_message, rule accepts_retM,
       auto simp: kind_Request_iff message_seen)+
qed

lemma accepts_Response:
  assumes "c \<noteq> Undefined"
  shows "accepts (Response_decode ord (emplace_Response u c))
    (\<lambda>a bs. \<exists>v. kind_Response v = c \<and> sendable_Response v \<and> a = received_Response ord v \<and>
       bs = wire_Response v)"
  using assms
  by (cases c; simp only: Response_decode.simps emplace_Response.simps)
    (rule accepts_mono, rule accepts_bindM, rule accepts_message, rule accepts_retM,
     auto simp: kind_Response_iff message_seen)+

end
