(* ===== verification/Stream_Properties.thy ===== *)
theory Stream_Properties
  imports Codec
begin

text \<open>
  The properties of \<^verbatim>\<open>MessageStream\<close> itself: the stream invariant, integers and strings on
  the wire, what a short stream does to a decoder, and the behaviour of \<^verbatim>\<open>read\<close>,
  \<^verbatim>\<open>write\<close>, \<^verbatim>\<open>peek\<close> and \<^verbatim>\<open>reset\<close> on every state of the stream.
\<close>

section \<open>Lemmas\<close>





lemma ss_wf_get_char: "ss_wf s \<Longrightarrow> ss_wf (snd (ss_get_char s))"
  by (auto simp: ss_wf_def ss_get_char_def)



lemma encode_bytes_put: "seqM (map encode_u8 v) s = (Ok (), put_bytes v s)"
  by (induction v arbitrary: s) (simp_all add: encode_u8_def)

lemma fits_u16_long: "\<not> fits_u16 v \<longleftrightarrow> 65535 < length v"
  by (auto simp: fits_u16_def)

lemma sputn_full:
  "ss_wf s \<Longrightarrow> ss_bad (ss_sputn bs s) \<longleftrightarrow> ss_bad s \<or> ss_max s < ss_put s + length bs"
proof (induction bs arbitrary: s)
  case Nil
  then show ?case by (auto simp: ss_wf_def)
next
  case (Cons b bs)
  show ?case
  proof (cases "ss_sputc b s")
    case None
    with Cons.prems show ?thesis
      by (auto simp: ss_sputc_def ss_wf_def split: if_splits)
  next
    case (Some s')
    with Cons.prems have "ss_wf s' \<and> ss_bad s' = ss_bad s \<and> ss_max s' = ss_max s \<and> ss_put s' = Suc (ss_put s)"
      by (auto simp: ss_sputc_def ss_wf_def split: if_splits)
    with Some Cons.IH [of s'] show ?thesis by simp
  qed
qed

lemma peek_ahead:
  "ss_good s \<Longrightarrow> ss_get s < length (ss_buf s) \<Longrightarrow> MessageStream_peek s =
     (if ss_buf s ! ss_get s = 0 then None else Some (ss_buf s ! ss_get s), s)"
  by (auto simp: MessageStream_peek_def ss_peek_def ss_good_def uint_0_iff)

lemma peek_at_end:
  "ss_good s \<Longrightarrow> \<not> ss_get s < length (ss_buf s) \<Longrightarrow>
     MessageStream_peek s = (Some 0xFF, s\<lparr>ss_eof := True\<rparr>)"
  by (auto simp: MessageStream_peek_def ss_peek_def ss_good_def)

lemma peek_not_good: "\<not> ss_good s \<Longrightarrow> MessageStream_peek s = (Some 0xFF, s\<lparr>ss_fail := True\<rparr>)"
  by (auto simp: MessageStream_peek_def ss_peek_def ss_good_def)


section \<open>Properties\<close>



text \<open>
  C20. Integers on the wire and back. The \<^verbatim>\<open>encode\<close> functions put the little-endian bytes of
  the number, on every stream. Decoding from the stream an integer was encoded to gives that
  integer; for 64 bits this holds when the compiler evaluates the arguments of \<^verbatim>\<open>build\<close> from
  left to right, and the two halves change places when it evaluates them from right to left.
\<close>

theorem integer_roundtrip:
  assumes "2 ^ 20 \<le> m"
  shows "(encode_u16 b s = (Ok (), put_bytes (le_bytes 2 (unat b)) s) \<and>
      encode_u32 c s = (Ok (), put_bytes (le_bytes 4 (unat c)) s) \<and>
      encode_u64 d s = (Ok (), put_bytes (le_bytes 8 (unat d)) s)) \<and>
    fst (bindM (encode_u8 a) (\<lambda>_. decode_u8) (ss_new m)) = Ok a \<and>
    fst (bindM (encode_u16 b) (\<lambda>_. decode_u16) (ss_new m)) = Ok b \<and>
    fst (bindM (encode_u32 c) (\<lambda>_. decode_u32) (ss_new m)) = Ok c \<and>
    fst (bindM (encode_u64 d) (\<lambda>_. decode_u64 ord) (ss_new m)) =
      Ok (case ord of LeftFirst \<Rightarrow> d | RightFirst \<Rightarrow> build_u32 (ucast (drop_bit 32 d)) (ucast d))"
proof (rule conjI)
  show "encode_u16 b s = (Ok (), put_bytes (le_bytes 2 (unat b)) s) \<and>
      encode_u32 c s = (Ok (), put_bytes (le_bytes 4 (unat c)) s) \<and>
      encode_u64 d s = (Ok (), put_bytes (le_bytes 8 (unat d)) s)"
    by (simp add: encode_u16_put encode_u32_put encode_u64_def wire_u16_def [symmetric]
        wire_u32_def [symmetric] wire_u64_def [symmetric] wire_u64_halves)
  have seen: "seen_u64 ord d =
      (case ord of LeftFirst \<Rightarrow> d | RightFirst \<Rightarrow> build_u32 (ucast (drop_bit 32 d)) (ucast d))"
    by (cases ord) (simp_all add: build_u32_swapped seen_u64_def)
  have w: "length (wire_u8 a) \<le> m" "length (wire_u16 b) \<le> m" "length (wire_u32 c) \<le> m"
    "length (wire_u64 d) \<le> m"
    using assms by (simp_all add: wire_u8_def wire_u16_def wire_u32_def wire_u64_def)
  show "fst (bindM (encode_u8 a) (\<lambda>_. decode_u8) (ss_new m)) = Ok a \<and>
    fst (bindM (encode_u16 b) (\<lambda>_. decode_u16) (ss_new m)) = Ok b \<and>
    fst (bindM (encode_u32 c) (\<lambda>_. decode_u32) (ss_new m)) = Ok c \<and>
    fst (bindM (encode_u64 d) (\<lambda>_. decode_u64 ord) (ss_new m)) =
      Ok (case ord of LeftFirst \<Rightarrow> d | RightFirst \<Rightarrow> build_u32 (ucast (drop_bit 32 d)) (ucast d))"
    using u8.roundtrip [OF TrueI w(1) assms] u16.roundtrip [OF TrueI w(2) assms]
      u32.roundtrip [OF TrueI w(3) assms] u64.roundtrip [OF TrueI w(4) assms, of ord]
    by (auto simp: seen)
qed

theorem integer_roundtrip_witness:
  "fst (bindM (encode_u64 0x0102030405060708) (\<lambda>_. decode_u64 LeftFirst) (ss_new (2 ^ 20))) =
     Ok 0x0102030405060708 \<and>
   fst (bindM (encode_u64 0x0102030405060708) (\<lambda>_. decode_u64 RightFirst) (ss_new (2 ^ 20))) =
     Ok 0x0506070801020304"
  using integer_roundtrip [of "2 ^ 20" 0 "ss_new 0" 0 "0x0102030405060708" 0 LeftFirst]
    integer_roundtrip [of "2 ^ 20" 0 "ss_new 0" 0 "0x0102030405060708" 0 RightFirst]
  by (simp add: build_u32_def)

text \<open>
  C30. A short stream. Decoding an integer has defined behaviour exactly when the stream is good
  and holds at least as many bytes as the integer has; no decoder of an integer throws, so that
  in all other cases bytes that were never written are used.
\<close>

theorem decode_short_undefined:
  "(fst (decode_u8 s) \<noteq> Undef \<longleftrightarrow> ss_good s \<and> 1 \<le> length (ss_buf s) - ss_get s) \<and>
   (fst (decode_u16 s) \<noteq> Undef \<longleftrightarrow> ss_good s \<and> 2 \<le> length (ss_buf s) - ss_get s) \<and>
   (fst (decode_u32 s) \<noteq> Undef \<longleftrightarrow> ss_good s \<and> 4 \<le> length (ss_buf s) - ss_get s) \<and>
   (fst (decode_u64 ord s) \<noteq> Undef \<longleftrightarrow> ss_good s \<and> 8 \<le> length (ss_buf s) - ss_get s) \<and>
   \<not> is_Throw (fst (decode_u8 s)) \<and> \<not> is_Throw (fst (decode_u16 s)) \<and>
   \<not> is_Throw (fst (decode_u32 s)) \<and> \<not> is_Throw (fst (decode_u64 ord s))"
proof -
  note defs = decode_u8_def ss_get_char_def decode_u16_def decode_u32_def ss_read_def Let_def
  have u32: "fst (decode_u32 s) \<noteq> Undef \<longleftrightarrow> ss_good s \<and> 4 \<le> length (ss_buf s) - ss_get s" for s
    by (auto simp: defs split: if_splits)
  have after: "\<exists>v. decode_u32 s = (Ok v, s\<lparr>ss_get := ss_get s + 4\<rparr>)"
    if "ss_good s" and "4 \<le> length (ss_buf s) - ss_get s" for s
    using that by (auto simp: defs)
  have "fst (decode_u64 ord s) \<noteq> Undef \<longleftrightarrow> ss_good s \<and> 8 \<le> length (ss_buf s) - ss_get s"
  proof (cases "ss_good s \<and> 4 \<le> length (ss_buf s) - ss_get s")
    case True
    let ?s = "s\<lparr>ss_get := ss_get s + 4\<rparr>"
    have g: "ss_good ?s" using True by (simp add: ss_good_def)
    obtain v where v: "decode_u32 s = (Ok v, ?s)" using after True by blast
    obtain r s2 where r: "decode_u32 ?s = (r, s2)" by (cases "decode_u32 ?s")
    then have "\<not> is_Throw r" using reads_onlyD(1) [OF reads_only_u32] by blast
    with u32 [of ?s] g v r show ?thesis
      using True by (cases r) (auto simp: decode_u64_def)
  next
    case False
    obtain r s1 where r: "decode_u32 s = (r, s1)" by (cases "decode_u32 s")
    with u32 [of s] False have "r = Undef" by simp
    with r False show ?thesis by (auto simp: decode_u64_def)
  qed
  moreover have "\<not> is_Throw (fst (decode_u64 ord s))"
    using reads_onlyD(1) [OF reads_only_u64, of ord s] by (cases "decode_u64 ord s") auto
  ultimately show ?thesis
    using u32 [of s] by (auto simp: defs split: if_splits)
qed

lemma encode_string_long:
  assumes "65535 < length v"
  shows "encode_string v s = (Throw \<lparr>exn_message = ''Attempted to encode a string of '' @
    show_nat (length v) @ '' characters when 65535 is the maximum allowed!''\<rparr>, s)"
proof -
  have m: "unat (- 1 :: 16 word) = 65535"
    by (simp add: unsigned_minus_1_eq_mask mask_eq_exp_minus_1)
  have n: "show_nat 65535 = ''65535''"
    by (simp add: show_nat.simps char_of_eq_iff)
  have "unat (word_of_nat (length v) :: 16 word) \<noteq> length v"
    using assms fits_u16_unat [of v] fits_u16_long [of v] by auto
  then show ?thesis
    by (simp add: encode_string_def Let_def Exception_ctor_def m n)
qed

lemma encode_string_put:
  "fits_u16 v \<Longrightarrow> encode_string v s = (Ok (), put_bytes (wire_string v) s)"
  using fits_u16_unat [of v]
  by (simp add: encode_string_def encode_u16_put encode_bytes_put wire_string_def le_bytes_2_length)

text \<open>
  C19. Strings on the wire and back. A string of at most 65535 characters is put as its length and
  its characters, on every stream; a longer one is refused with the message that names both
  numbers, and nothing is written. Decoding what was put keeps the size of the target: its
  characters are replaced by those of the encoded string as far as both go. A target of the right
  size gets the string, an empty one stays empty.
\<close>

theorem string_behaviour:
  "encode_string v s =
     (if length v \<le> 65535 then (Ok (), put_bytes (le_bytes 2 (length v) @ v) s)
      else (Throw \<lparr>exn_message = ''Attempted to encode a string of '' @ show_nat (length v) @
              '' characters when 65535 is the maximum allowed!''\<rparr>, s)) \<and>
   (length v \<le> 65535 \<and> ss_good s \<longrightarrow>
     decode_string t (reading s pre (le_bytes 2 (length v) @ v @ post)) =
       (Ok (take (length t) v @ drop (length v) t), reading s (pre @ le_bytes 2 (length v) @ v) post)) \<and>
   (length t = length v \<longrightarrow> take (length t) v @ drop (length v) t = v) \<and>
   (t = [] \<longrightarrow> take (length t) v @ drop (length v) t = [])"
  using string.dec_wire [of v s t pre post] fits_u16_long [of v] encode_string_put [of v s]
    encode_string_long [of v s]
  by (cases "length v \<le> 65535") (simp_all add: wire_string_def overlay_def)

theorem string_behaviour_witness:
  "decode_string [] (reading (ss_new 9) [] (le_bytes 2 2 @ [57, 80] @ [])) =
     (Ok [], reading (ss_new 9) (le_bytes 2 2 @ [57, 80]) []) \<and>
   decode_string [0, 0] (reading (ss_new 9) [] (le_bytes 2 2 @ [57, 80] @ [])) =
     (Ok [57, 80], reading (ss_new 9) (le_bytes 2 2 @ [57, 80]) [])"
  using string_behaviour [of "[57, 80]" "ss_new 9" "[]" "[]" "[]"]
    string_behaviour [of "[57, 80]" "ss_new 9" "[0, 0]" "[]" "[]"]
  by (simp add: numeral_2_eq_2)

lemma write_room:
  assumes "ss_wf s" and "ss_good s" and "ss_put s + length bs \<le> ss_max s"
  shows "MessageStream_write bs s = (Ok (), s\<lparr>ss_buf := take (ss_put s) (ss_buf s) @ bs @
    drop (ss_put s + length bs) (ss_buf s), ss_put := ss_put s + length bs\<rparr>)"
proof -
  from assms have r: "room (length bs) s" by (simp add: room_def)
  then show ?thesis
    by (simp add: MessageStream_write_def ss_write_def Let_def sputn_room put_bytes_room)
      (simp add: room_def ss_good_def)
qed

text \<open>
  C33. Writing raw bytes, and lost writes. On a well-formed stream \<^verbatim>\<open>write\<close> throws exactly when
  the stream is bad or is good and has no room for the bytes; when the stream is good and has room
  the bytes are at the put position afterwards. A stream that has reached its end or failed takes
  no more bytes, and \<^verbatim>\<open>reset\<close> does not change that: after it the buffer is empty and stays
  empty whatever is encoded or written, and as long as the stream is not bad nobody is told.
\<close>

theorem write_behaviour:
  assumes "ss_wf s"
  shows "(is_Throw (fst (MessageStream_write bs s)) \<longleftrightarrow>
       ss_bad s \<or> (ss_good s \<and> ss_max s < ss_put s + length bs)) \<and>
    (ss_good s \<and> ss_put s + length bs \<le> ss_max s \<longrightarrow>
       MessageStream_write bs s = (Ok (), s\<lparr>ss_buf := take (ss_put s) (ss_buf s) @ bs @
         drop (ss_put s + length bs) (ss_buf s), ss_put := ss_put s + length bs\<rparr>)) \<and>
    (\<not> ss_good s \<longrightarrow>
       ss_buf (snd (MessageStream_write bs (MessageStream_reset s))) = [] \<and>
       encode_u64 v (MessageStream_reset s) = (Ok (), (MessageStream_reset s)\<lparr>ss_fail := True\<rparr>) \<and>
       (\<not> ss_bad s \<longrightarrow> fst (MessageStream_write bs (MessageStream_reset s)) = Ok ()))"
proof (intro conjI impI)
  show "is_Throw (fst (MessageStream_write bs s)) \<longleftrightarrow>
       ss_bad s \<or> (ss_good s \<and> ss_max s < ss_put s + length bs)"
    using sputn_full [OF assms, of bs]
    by (auto simp: MessageStream_write_def ss_write_def Let_def ss_good_def)
next
  assume "ss_good s \<and> ss_put s + length bs \<le> ss_max s"
  with assms write_room show "MessageStream_write bs s = (Ok (), s\<lparr>ss_buf := take (ss_put s) (ss_buf s) @ bs @
         drop (ss_put s + length bs) (ss_buf s), ss_put := ss_put s + length bs\<rparr>)" by blast
next
  assume n: "\<not> ss_good s"
  then have ng: "\<not> ss_good (MessageStream_reset s)"
    by (simp add: MessageStream_reset_def ss_set_str_def ss_good_def)
  have ne: "le_bytes 8 (unat v) \<noteq> []"
    using length_le_bytes [of 8 "unat v"] by (metis list.size(3) zero_neq_numeral)
  show "ss_buf (snd (MessageStream_write bs (MessageStream_reset s))) = []"
    and "encode_u64 v (MessageStream_reset s) = (Ok (), (MessageStream_reset s)\<lparr>ss_fail := True\<rparr>)"
    and "\<not> ss_bad s \<Longrightarrow> fst (MessageStream_write bs (MessageStream_reset s)) = Ok ()"
    using ng ne encode_u32_put wire_u64_halves [of v, symmetric]
    by (auto simp: put_bytes_not_good MessageStream_write_def ss_write_def Let_def encode_u64_def
        wire_u64_def MessageStream_reset_def ss_set_str_def)
qed

theorem write_behaviour_witness:
  "is_Throw (fst (MessageStream_write [1, 2, 3] (ss_new 2))) \<and>
   MessageStream_write [1, 2] (ss_new 2) = (Ok (), (ss_new 2)\<lparr>ss_buf := [1, 2], ss_put := 2\<rparr>) \<and>
   fst (MessageStream_write [1] (MessageStream_reset (snd (MessageStream_peek (ss_new 9))))) = Ok () \<and>
   ss_buf (snd (MessageStream_write [1] (MessageStream_reset (snd (MessageStream_peek (ss_new 9)))))) = []"
  using write_behaviour [of "ss_new 2" "[1, 2, 3]"] write_behaviour [of "ss_new 2" "[1, 2]"]
    write_behaviour [of "snd (MessageStream_peek (ss_new 9))" "[1]"]
  by (simp add: ss_wf_def ss_new_def ss_good_def MessageStream_peek_def ss_peek_def)

text \<open>
  C32. Reading raw bytes. \<^verbatim>\<open>read\<close> on a good stream takes the bytes that are there, at most
  as many as asked for, reports their number, and leaves the stream good; on any other stream it
  takes none, and it clears the state bits.
\<close>

theorem read_behaviour:
  "MessageStream_read n s =
     (let bs = (if ss_good s then take n (drop (ss_get s) (ss_buf s)) else [])
      in ((length bs, bs), ss_clear (s\<lparr>ss_get := ss_get s + length bs\<rparr>)))"
  by (auto simp: MessageStream_read_def ss_read_def Let_def ss_clear_def ss_good_def)

text \<open>
  C31. Peeking. \<^verbatim>\<open>peek\<close> gives the next byte, but a zero byte is taken for the end of the
  stream, while at the real end, and on a stream that is not good, the answer is the byte
  \<open>0xFF\<close>. At the end the stream is no longer good afterwards.
\<close>

theorem peek_behaviour:
  "MessageStream_peek s =
     (if ss_good s \<and> ss_get s < length (ss_buf s)
      then (if ss_buf s ! ss_get s = 0 then None else Some (ss_buf s ! ss_get s), s)
      else if ss_good s then (Some 0xFF, s\<lparr>ss_eof := True\<rparr>)
      else (Some 0xFF, s\<lparr>ss_fail := True\<rparr>))"
  by (simp add: peek_ahead peek_at_end peek_not_good)

end
