(* ===== verification/Stream_Queue.thy ===== *)
theory Stream_Queue
  imports Accepted_Streams Stream_Properties
begin

text \<open>
  The stream as a queue of bytes.

  A \<open>MessageStream\<close> has a buffer, two positions and three state bits. To its user it promises less
  and more: what is encoded goes in at one end, what is decoded comes out at the other. The abstract
  specification is that queue, a list of bytes, with one operation for each operation of the stream,
  defined where the stream does not fail. \<open>holds\<close> relates a stream to the queue it stands for, and
  the operations of the stream, in any order, simulate those of the queue as long as the bytes put
  fit the memory at hand.
\<close>

section \<open>Operations in any order\<close>

datatype stream_op =
    Enc_u8 byte | Enc_u16 "16 word" | Enc_u32 "32 word" | Enc_u64 "64 word" | Enc_string std_string
  | Put_bytes "byte list"
  | Dec_u8 | Dec_u16 | Dec_u32 | Dec_u64 | Dec_string std_string
  | Peek

datatype stream_val =
    Done | Got_u8 byte | Got_u16 "16 word" | Got_u32 "32 word" | Got_u64 "64 word"
  | Got_string std_string | Saw "byte option"

fun stream_do :: "arg_order \<Rightarrow> stream_op \<Rightarrow> (MessageStream, stream_val) action" where
  "stream_do ord (Enc_u8 v) = thenM (insert_u8 v) (retM Done)"
| "stream_do ord (Enc_u16 v) = thenM (insert_u16 v) (retM Done)"
| "stream_do ord (Enc_u32 v) = thenM (insert_u32 v) (retM Done)"
| "stream_do ord (Enc_u64 v) = thenM (insert_u64 v) (retM Done)"
| "stream_do ord (Enc_string v) = thenM (insert_string v) (retM Done)"
| "stream_do ord (Put_bytes bs) = thenM (MessageStream_write bs) (retM Done)"
| "stream_do ord Dec_u8 = bindM extract_u8 (\<lambda>v. retM (Got_u8 v))"
| "stream_do ord Dec_u16 = bindM extract_u16 (\<lambda>v. retM (Got_u16 v))"
| "stream_do ord Dec_u32 = bindM extract_u32 (\<lambda>v. retM (Got_u32 v))"
| "stream_do ord Dec_u64 = bindM (extract_u64 ord) (\<lambda>v. retM (Got_u64 v))"
| "stream_do ord (Dec_string t) = bindM (extract_string t) (\<lambda>v. retM (Got_string v))"
| "stream_do ord Peek = (\<lambda>s. case MessageStream_peek s of (b, s') \<Rightarrow> (Ok (Saw b), s'))"

primrec stream_run :: "arg_order \<Rightarrow> stream_op list \<Rightarrow> (MessageStream, stream_val list) action" where
  "stream_run ord [] = retM []"
| "stream_run ord (x # xs) =
     bindM (stream_do ord x) (\<lambda>v. bindM (stream_run ord xs) (\<lambda>vs. retM (v # vs)))"

text \<open>What an operator does is what the member it calls does.\<close>

lemma operators [simp]:
  "insert_u8 v8 = encode_u8 v8" "insert_u16 v16 = encode_u16 v16" "insert_u32 v32 = encode_u32 v32"
  "insert_u64 v64 = encode_u64 v64" "insert_string v = encode_string v"
  "extract_u8 = decode_u8" "extract_u16 = decode_u16" "extract_u32 = decode_u32"
  "extract_u64 ord = decode_u64 ord" "extract_string v = decode_string v"
  by (simp_all add: fun_eq_iff thenM_def bindM_def retM_def insert_u8_def insert_u16_def
      insert_u32_def insert_u64_def insert_string_def extract_u8_def extract_u16_def extract_u32_def
      extract_u64_def extract_string_def split: prod.split result.split)

section \<open>The queue\<close>

definition queue_take :: "nat \<Rightarrow> (byte list \<Rightarrow> stream_val) \<Rightarrow> byte list \<Rightarrow> (stream_val \<times> byte list) option" where
  "queue_take n f q = (if n \<le> length q then Some (f (take n q), drop n q) else None)"

fun queue_do :: "arg_order \<Rightarrow> stream_op \<Rightarrow> byte list \<Rightarrow> (stream_val \<times> byte list) option" where
  "queue_do ord (Enc_u8 v) q = Some (Done, q @ [v])"
| "queue_do ord (Enc_u16 v) q = Some (Done, q @ le_bytes 2 (unat v))"
| "queue_do ord (Enc_u32 v) q = Some (Done, q @ le_bytes 4 (unat v))"
| "queue_do ord (Enc_u64 v) q = Some (Done, q @ le_bytes 8 (unat v))"
| "queue_do ord (Enc_string v) q =
     (if length v < 2 ^ 16 then Some (Done, q @ le_bytes 2 (length v) @ v) else None)"
| "queue_do ord (Put_bytes bs) q = Some (Done, q @ bs)"
| "queue_do ord Dec_u8 q = queue_take 1 (\<lambda>bs. Got_u8 (hd bs)) q"
| "queue_do ord Dec_u16 q = queue_take 2 (\<lambda>bs. Got_u16 (word_of_nat (le_val bs))) q"
| "queue_do ord Dec_u32 q = queue_take 4 (\<lambda>bs. Got_u32 (word_of_nat (le_val bs))) q"
| "queue_do ord Dec_u64 q = queue_take 8 (\<lambda>bs. Got_u64 (seen_u64 ord (word_of_nat (le_val bs)))) q"
| "queue_do ord (Dec_string t) q =
     (if 2 \<le> length q
      then queue_take (2 + le_val (take 2 q)) (\<lambda>bs. Got_string (overlay (drop 2 bs) t)) q
      else None)"
| "queue_do ord Peek q = (case q of [] \<Rightarrow> None | b # _ \<Rightarrow> Some (Saw (if b = 0 then None else Some b), q))"

primrec queue_run :: "arg_order \<Rightarrow> stream_op list \<Rightarrow> byte list \<Rightarrow> (stream_val list \<times> byte list) option" where
  "queue_run ord [] q = Some ([], q)"
| "queue_run ord (x # xs) q =
     (case queue_do ord x q of None \<Rightarrow> None
      | Some (v, q') \<Rightarrow> (case queue_run ord xs q' of None \<Rightarrow> None | Some (vs, r) \<Rightarrow> Some (v # vs, r)))"

text \<open>The bytes an operation puts.\<close>

fun op_bytes :: "stream_op \<Rightarrow> nat" where
  "op_bytes (Enc_u8 v) = 1"
| "op_bytes (Enc_u16 v) = 2"
| "op_bytes (Enc_u32 v) = 4"
| "op_bytes (Enc_u64 v) = 8"
| "op_bytes (Enc_string v) = 2 + length v"
| "op_bytes (Put_bytes bs) = length bs"
| "op_bytes _ = 0"

section \<open>Simulation\<close>

definition holds :: "byte list \<Rightarrow> MessageStream \<Rightarrow> bool" where
  "holds q s \<longleftrightarrow> ss_good s \<and> ss_wf s \<and> ss_put s = length (ss_buf s) \<and> drop (ss_get s) (ss_buf s) = q"

lemma holds_new: "holds [] (ss_new m)"
  by (simp add: holds_def ss_wf_def ss_new_def ss_good_def)

lemma holds_put:
  assumes "holds q s" and "ss_put s + length bs \<le> ss_max s"
  shows "holds (q @ bs) (put_bytes bs s)" and "ss_put (put_bytes bs s) = ss_put s + length bs"
    and "room (length bs) s"
proof -
  show r: "room (length bs) s"
    using assms by (simp add: room_def holds_def)
  from assms show "holds (q @ bs) (put_bytes bs s)" "ss_put (put_bytes bs s) = ss_put s + length bs"
    unfolding put_bytes_room [OF r] by (auto simp: holds_def ss_wf_def ss_good_def)
qed

lemma holds_advanced:
  assumes "holds q s"
  shows "advanced s bs s' \<longleftrightarrow> (\<exists>q'. q = bs @ q' \<and> s' = s\<lparr>ss_get := ss_get s + length bs\<rparr>)"
  using assms by (auto simp: advanced_def holds_def) (metis append_take_drop_id)

lemma holds_get:
  assumes "holds (bs @ q) s"
  shows "holds q (s\<lparr>ss_get := ss_get s + length bs\<rparr>)"
proof -
  have d: "drop (ss_get s) (ss_buf s) = bs @ q" and g: "ss_get s \<le> length (ss_buf s)"
    using assms by (simp_all add: holds_def ss_wf_def)
  from d have "drop (ss_get s + length bs) (ss_buf s) = q"
    by (metis add.commute append_eq_conv_conj drop_drop)
  moreover have "ss_get s + length bs \<le> length (ss_buf s)"
    using arg_cong [OF d, of length] g by simp
  ultimately show ?thesis
    using assms by (auto simp: holds_def ss_wf_def ss_good_def)
qed

definition simulates :: "arg_order \<Rightarrow> stream_op \<Rightarrow> byte list \<Rightarrow> MessageStream \<Rightarrow> bool" where
  "simulates ord x q s \<longleftrightarrow>
     (case queue_do ord x q of
        Some (v, q') \<Rightarrow> \<exists>s'. stream_do ord x s = (Ok v, s') \<and> holds q' s' \<and>
          ss_put s' = ss_put s + op_bytes x \<and> ss_max s' = ss_max s
      | None \<Rightarrow> \<forall>v s'. stream_do ord x s = (Ok v, s') \<longrightarrow> \<not> ss_good s')"

text \<open>
  Laws for all decoders: on a stream that holds a queue, an exact codec takes the wire format of
  a value off the front, and it does nothing else without a failure. So one of a fixed size does
  what the queue does.
\<close>

context exact_codec
begin

lemma dec_front:
  assumes "holds (wire v @ q) s" and "fits v"
  shows "\<exists>s'. dec t s = (Ok (seen t v), s') \<and> holds q s' \<and> ss_put s' = ss_put s \<and> ss_max s' = ss_max s"
proof -
  let ?s = "s\<lparr>ss_get := ss_get s + length (wire v)\<rparr>"
  have "ss_get s \<le> length (ss_buf s)" and "advanced s (wire v) ?s"
    using assms(1) holds_advanced [OF assms(1)] by (auto simp: holds_def ss_wf_def)
  with assms(2) have "dec t s = (Ok (seen t v), ?s)"
    using dec_exact by blast
  with holds_get [OF assms(1)] show ?thesis by simp
qed

lemma dec_only_front:
  assumes "holds q s" and "dec t s = (Ok a, s')" and "ss_good s'"
  shows "\<exists>v q'. fits v \<and> q = wire v @ q'"
proof -
  have "ss_get s \<le> length (ss_buf s)"
    using assms(1) by (simp add: holds_def ss_wf_def)
  with assms(2,3) obtain v where "fits v" "advanced s (wire v) s'"
    using dec_exact by blast
  with holds_advanced [OF assms(1)] show ?thesis by blast
qed

lemma sim_fixed:
  assumes "holds q s" and "\<And>v. length (wire v) = n"
    and "\<And>bs. length bs = n \<Longrightarrow> fits (val bs) \<and> wire (val bs) = bs"
    and "queue_do ord x q = queue_take n (\<lambda>bs. got (seen t (val bs))) q"
    and "stream_do ord x = bindM (dec t) (\<lambda>v. retM (got v))" and "op_bytes x = 0"
  shows "simulates ord x q s"
proof (cases "n \<le> length q")
  case True
  then have v: "fits (val (take n q))" "wire (val (take n q)) = take n q"
    using assms(3) [of "take n q"] by simp_all
  with assms(1) have "holds (wire (val (take n q)) @ drop n q) s" by simp
  from dec_front [OF this v(1), of t] obtain s' where "dec t s = (Ok (seen t (val (take n q))), s')"
    "holds (drop n q) s'" "ss_put s' = ss_put s" "ss_max s' = ss_max s" by blast
  with True assms(4,5,6) show ?thesis
    by (simp add: simulates_def queue_take_def)
next
  case False
  have "\<not> ss_good s'" if "dec t s = (Ok a, s')" for a s'
    using dec_only_front [OF assms(1) that] assms(2) False by auto
  with False assms(4,5) show ?thesis
    by (auto simp: simulates_def queue_take_def bindM_Ok_iff)
qed

end

lemma sim_encode:
  assumes "holds q s" and "ss_put s + op_bytes x \<le> ss_max s"
    and "queue_do ord x q = Some (Done, q @ bs)" and "stream_do ord x s = (Ok Done, put_bytes bs s)"
    and "op_bytes x = length bs"
  shows "simulates ord x q s"
  using assms holds_put [of q s bs] by (simp add: simulates_def)

lemma sim_integers:
  assumes "holds q s"
  shows "simulates ord Dec_u8 q s" "simulates ord Dec_u16 q s" "simulates ord Dec_u32 q s"
    "simulates ord Dec_u64 q s"
proof -
  have u8: "wire_u8 (hd bs) = bs" if "length bs = 1" for bs
    using that by (cases bs) (simp_all add: wire_u8_def)
  show "simulates ord Dec_u8 q s"
    by (rule exact_u8.sim_fixed [OF assms, where val = hd and n = 1]) (simp_all add: u8)
  show "simulates ord Dec_u16 q s"
    by (rule exact_u16.sim_fixed [OF assms, where val = "\<lambda>bs. word_of_nat (le_val bs)" and n = 2])
      (simp_all add: wire_le_val)
  show "simulates ord Dec_u32 q s"
    by (rule exact_u32.sim_fixed [OF assms, where val = "\<lambda>bs. word_of_nat (le_val bs)" and n = 4])
      (simp_all add: wire_le_val)
  show "simulates ord Dec_u64 q s"
    by (rule exact_u64.sim_fixed [OF assms, where val = "\<lambda>bs. word_of_nat (le_val bs)" and n = 8])
      (simp_all add: wire_le_val)
qed

lemma sim_string:
  assumes "holds q s"
  shows "simulates ord (Dec_string t) q s"
proof (cases "2 \<le> length q \<and> 2 + le_val (take 2 q) \<le> length q")
  case True
  let ?v = "take (le_val (take 2 q)) (drop 2 q)" and ?r = "drop (2 + le_val (take 2 q)) q"
  have n: "le_val (take 2 q) < 256 ^ 2"
    using le_val_bound [of "take 2 q"] True by simp
  have l: "length ?v = le_val (take 2 q)" using True by auto
  have "le_bytes 2 (le_val (take 2 q)) = take 2 q"
    using le_bytes_le_val [of "take 2 q"] True by simp
  then have "wire_string ?v = take 2 q @ ?v"
    using l by (simp add: wire_string_def)
  moreover have "?v @ ?r = drop 2 q"
    by (metis add.commute append_take_drop_id drop_drop)
  ultimately have "wire_string ?v @ ?r = q" by simp
  with assms have "holds (wire_string ?v @ ?r) s" by simp
  moreover have "fits_u16 ?v" using n l by (simp add: fits_u16_def)
  ultimately obtain s' where "decode_string t s = (Ok (overlay ?v t), s')" "holds ?r s'"
    "ss_put s' = ss_put s" "ss_max s' = ss_max s"
    using exact_strings.dec_front [of ?v ?r s t] by blast
  with True show ?thesis
    by (simp add: simulates_def queue_take_def drop_take)
next
  case False
  have "\<not> ss_good s'" if "decode_string t s = (Ok a, s')" for a s'
  proof
    assume "ss_good s'"
    with exact_strings.dec_only_front [OF assms that] obtain v q' where
      v: "fits_u16 v" "q = wire_string v @ q'" by blast
    then have "le_val (take 2 q) = length v"
      by (simp add: wire_string_def le_val_le_bytes fits_u16_def)
    with v False show False by simp
  qed
  with False show ?thesis
    by (auto simp: simulates_def queue_take_def bindM_Ok_iff)
qed

lemma sim_peek:
  assumes "holds q s"
  shows "simulates ord Peek q s"
proof (cases q)
  case Nil
  then have "\<not> ss_get s < length (ss_buf s)" and "ss_good s"
    using assms by (simp_all add: holds_def)
  from peek_at_end [OF this(2,1)] Nil show ?thesis
    by (auto simp: simulates_def ss_good_def)
next
  case (Cons b r)
  then have "drop (ss_get s) (ss_buf s) = b # r" and g: "ss_good s"
    using assms by (simp_all add: holds_def)
  then have "ss_get s < length (ss_buf s)" and "ss_buf s ! ss_get s = b"
    by (metis drop_eq_Nil2 leI list.distinct(1), metis nth_via_drop)
  with peek_ahead [OF g] assms Cons show ?thesis
    by (simp add: simulates_def)
qed

lemma stream_step:
  assumes "holds q s" and "ss_put s + op_bytes x \<le> ss_max s"
  shows "simulates ord x q s"
proof (cases x)
  case (Enc_u8 v)
  then show ?thesis by (intro sim_encode [OF assms, where bs = "[v]"]) (simp_all add: encode_u8_def)
next
  case (Enc_u16 v)
  then show ?thesis
    by (intro sim_encode [OF assms, where bs = "wire_u16 v"]) (simp_all add: encode_u16_put, simp add: wire_u16_def)
next
  case (Enc_u32 v)
  then show ?thesis
    by (intro sim_encode [OF assms, where bs = "wire_u32 v"]) (simp_all add: encode_u32_put, simp add: wire_u32_def)
next
  case (Enc_u64 v)
  then show ?thesis
    by (intro sim_encode [OF assms, where bs = "wire_u64 v"])
      (simp_all add: encode_u64_def encode_u32_put wire_u64_halves [symmetric], simp add: wire_u64_def)
next
  case (Enc_string v)
  show ?thesis
  proof (cases "fits_u16 v")
    case True
    with Enc_string show ?thesis
      by (intro sim_encode [OF assms, where bs = "wire_string v"])
        (simp_all add: encode_string_put, simp_all add: wire_string_def fits_u16_def)
  next
    case False
    with Enc_string fits_u16_unat [of v] show ?thesis
      by (simp add: simulates_def fits_u16_def encode_string_def)
  qed
next
  case (Put_bytes bs)
  with assms holds_put [OF assms(1), of bs] show ?thesis
    by (intro sim_encode [OF assms, where bs = bs])
      (auto simp: MessageStream_write_def ss_write_def holds_def sputn_room ss_good_def)
qed (use assms sim_integers sim_string sim_peek in simp_all)

text \<open>A stream that has failed stays so through all these operations.\<close>

lemma accepts_good: "accepts m R \<Longrightarrow> m s = (Ok a, s') \<Longrightarrow> ss_good s' \<Longrightarrow> ss_good s"
  by (metis acceptsD advanced_good)

lemmas decoder_good =
  accepts_u8 [THEN accepts_good] accepts_u16 [THEN accepts_good] accepts_u32 [THEN accepts_good]
  accepts_u64 [THEN accepts_good] accepts_string [THEN accepts_good]

lemma stream_do_failed:
  assumes "stream_do ord x s = (Ok v, s')" and "\<not> ss_good s"
  shows "\<not> ss_good s'"
  using assms
  by (cases x)
    (auto simp: encode_u8_def encode_u16_put encode_u32_put encode_u64_def encode_string_def
      encode_bytes_put put_bytes_not_good put_char_not_good MessageStream_write_def ss_write_def
      bindM_Ok_iff peek_not_good thenM_def Let_def split: if_splits dest: decoder_good)

lemma stream_run_failed:
  "stream_run ord xs s = (Ok vs, s') \<Longrightarrow> \<not> ss_good s \<Longrightarrow> \<not> ss_good s'"
  by (induction xs arbitrary: s vs) (auto simp: bindM_Ok_iff dest: stream_do_failed)

lemma stream_run_queue:
  assumes "holds q s" and "ss_put s + sum_list (map op_bytes xs) \<le> ss_max s"
  shows "case queue_run ord xs q of
      Some (vs, q') \<Rightarrow> \<exists>s'. stream_run ord xs s = (Ok vs, s') \<and> holds q' s'
    | None \<Rightarrow> \<forall>vs s'. stream_run ord xs s = (Ok vs, s') \<longrightarrow> \<not> ss_good s'"
  using assms
proof (induction xs arbitrary: q s)
  case (Cons x xs)
  have step: "simulates ord x q s"
    using stream_step [of q s x ord] Cons.prems by simp
  show ?case
  proof (cases "queue_do ord x q")
    case None
    with step have bad: "\<not> ss_good s1" if "stream_do ord x s = (Ok v, s1)" for v s1
      using that by (simp add: simulates_def)
    with None stream_run_failed show ?thesis by (fastforce simp: bindM_Ok_iff)
  next
    case (Some r)
    then obtain v q1 where q1: "queue_do ord x q = Some (v, q1)" by (cases r) simp
    with step obtain s1 where s1: "stream_do ord x s = (Ok v, s1)" "holds q1 s1"
      "ss_put s1 = ss_put s + op_bytes x" "ss_max s1 = ss_max s"
      by (auto simp: simulates_def)
    with Cons.IH [of q1 s1] Cons.prems q1 show ?thesis
      by (auto simp: bindM_Ok_iff split: option.splits)
  qed
qed simp

section \<open>Property\<close>

text \<open>
  C7. A stream is a queue. Any sequence of operations on a new stream, the operators \<^verbatim>\<open><<\<close> and
  \<^verbatim>\<open>>>\<close> on integers and strings, writing and peeking in any order, gives the results that a
  queue of bytes gives, and leaves a good stream that holds the bytes the queue holds, as long as
  what is put fits the memory at hand; and where the queue has no result, because there are too few
  bytes or a string is too long, the stream throws, is undefined, or ends in a failed state.
\<close>

theorem stream_simulates_queue:
  assumes "sum_list (map op_bytes xs) \<le> m"
  shows "case queue_run ord xs [] of
      Some (vs, q) \<Rightarrow> \<exists>s. stream_run ord xs (ss_new m) = (Ok vs, s) \<and> ss_good s \<and>
        drop (ss_get s) (ss_buf s) = q
    | None \<Rightarrow> \<forall>vs s. stream_run ord xs (ss_new m) = (Ok vs, s) \<longrightarrow> \<not> ss_good s"
  using stream_run_queue [OF holds_new, of m xs ord] assms
  by (auto simp: holds_def ss_new_def split: option.splits)

theorem stream_simulates_queue_witness:
  "\<exists>s. stream_run LeftFirst [Enc_u16 258, Dec_u8, Enc_u8 7, Peek, Dec_u16] (ss_new 3) =
     (Ok [Done, Got_u8 2, Done, Saw (Some 1), Got_u16 1793], s) \<and> ss_good s"
proof -
  have "queue_run LeftFirst [Enc_u16 258, Dec_u8, Enc_u8 7, Peek, Dec_u16] [] =
      Some ([Done, Got_u8 2, Done, Saw (Some 1), Got_u16 1793], [])"
    by (simp add: queue_take_def le_bytes_2)
  with stream_simulates_queue [of "[Enc_u16 258, Dec_u8, Enc_u8 7, Peek, Dec_u16]" 3 LeftFirst]
  show ?thesis by auto
qed

end
