(* ===== verification/Message_Layout.thy ===== *)
theory Message_Layout
  imports Interaction Stream_Properties
begin

text \<open>
  The layout of the messages: a reference for all encoders.

  A message is laid out as a list of \<open>field\<close>s, the way the manual of 9P2000 tabulates it: numbers of
  one, two, four or eight bytes, counted strings, counted vectors, counted data, and a stat, which
  is a message in a message. \<open>write_fields\<close> says what a list of fields puts on a stream: the bytes,
  and the exception it ends with if a field cannot be written. \<open>layout_Request\<close>,
  \<open>layout_Response\<close> and \<open>layout_Interaction\<close> are the tables.

  \<open>lays m fs\<close> says of an encoder that it does exactly what its fields say, bytes and exception; it
  is proved of every \<^verbatim>\<open>encode\<close> of the library along its definition.
\<close>

section \<open>Fields\<close>

datatype field =
    U8 byte | U16 "16 word" | U32 "32 word" | U64 "64 word"
  | Str std_string
  | Data "byte list"
  | Vec "field list list"
  | Sub "field list"
  | Illegal string

text \<open>What is written: the bytes, and the exception that ended it, if one did.\<close>

type_synonym writing = "byte list \<times> Exception option"

definition w_then :: "writing \<Rightarrow> writing \<Rightarrow> writing" where
  "w_then v w = (case snd v of None \<Rightarrow> (fst v @ fst w, snd w) | Some e \<Rightarrow> v)"

primrec w_seq :: "writing list \<Rightarrow> writing" where
  "w_seq [] = ([], None)"
| "w_seq (w # ws) = w_then w (w_seq ws)"

definition string_too_long :: "nat \<Rightarrow> Exception" where
  "string_too_long n = Exception_ctor [Lit ''Attempted to encode a string of '', Num n,
     Lit '' characters when '', Num 65535, Lit '' is the maximum allowed!'']"

definition vector_too_long :: "nat \<Rightarrow> Exception" where
  "vector_too_long n = Exception_ctor [Lit ''Attempted to encode a std::vector<T> of '', Num n,
     Lit '' elements when '', Num 65535, Lit '' is the maximum allowed!'']"

definition data_too_large :: Exception where
  "data_too_large = Exception_ctor [Lit ''data storage too large for transmission'']"

definition w_string :: "std_string \<Rightarrow> writing" where
  "w_string v =
     (if length v < 2 ^ 16 then (le_bytes 2 (length v) @ v, None)
      else ([], Some (string_too_long (length v))))"

text \<open>
  A vector of \<open>n\<close> elements, and a message in a message, which is sent as a string when it could be
  written.
\<close>

definition w_vector :: "nat \<Rightarrow> writing \<Rightarrow> writing" where
  "w_vector n w =
     (if n < 2 ^ 16 then w_then (le_bytes 2 n, None) w else ([], Some (vector_too_long n)))"

definition w_sub :: "writing \<Rightarrow> writing" where
  "w_sub w = (case w of (bs, None) \<Rightarrow> w_string bs | (bs, Some e) \<Rightarrow> ([], Some e))"

primrec write_field :: "field \<Rightarrow> writing" where
  "write_field (U8 v) = ([v], None)"
| "write_field (U16 v) = (le_bytes 2 (unat v), None)"
| "write_field (U32 v) = (le_bytes 4 (unat v), None)"
| "write_field (U64 v) = (le_bytes 8 (unat v), None)"
| "write_field (Str v) = w_string v"
| "write_field (Data d) =
     (if length d < 2 ^ 32 then (le_bytes 4 (length d) @ d, None) else ([], Some data_too_large))"
| "write_field (Vec ess) = w_vector (length ess) (w_seq (map w_seq (map (map write_field) ess)))"
| "write_field (Sub fs) = w_sub (w_seq (map write_field fs))"
| "write_field (Illegal msg) = ([], Some (Exception_ctor [Lit msg]))"

definition write_fields :: "field list \<Rightarrow> writing" where
  "write_fields fs = w_seq (map write_field fs)"

section \<open>The tables\<close>

definition layout_header :: "'a MessageHeader_scheme \<Rightarrow> field list" where
  "layout_header m = [U8 (hdr_op m), U16 (hdr_tag m)]"

definition layout_Qid :: "Qid \<Rightarrow> field list" where
  "layout_Qid q = [U8 (qid_type q), U32 (qid_version q), U64 (qid_path q)]"

definition layout_Stat :: "Stat \<Rightarrow> field list" where
  "layout_Stat st =
     [U16 (st_type st), U32 (st_dev st)] @ layout_Qid (hq_qid (st_HasQid st)) @
     [U32 (st_mode st), U32 (st_atime st), U32 (st_mtime st), U64 (st_length st),
      Str (hn_name (st_HasName st)), Str (st_uid st), Str (st_gid st), Str (st_muid st)]"

fun layout_Request :: "Request \<Rightarrow> field list" where
  "layout_Request (Req_Undefined m) = [Illegal ''Undefined request!'']"
| "layout_Request (Req_Version m) = layout_header m @ [U16 (vm_msize m), Str (vm_version m)]"
| "layout_Request (Req_Auth m) = layout_header m @ [U32 (au_afid m), Str (au_uname m), Str (au_aname m)]"
| "layout_Request (Req_Attach m) = layout_header m @
     [U32 (hf_fid (at_HasFid m)), U32 (at_afid m), Str (at_uname m), Str (at_aname m)]"
| "layout_Request (Req_Error m) = layout_header m"
| "layout_Request (Req_Flush m) = layout_header m @ [U16 (fl_oldtag m)]"
| "layout_Request (Req_Walk m) = layout_header m @
     [U32 (hf_fid (wk_HasFid m)), U32 (wk_newfid m), Vec (map (\<lambda>v. [Str v]) (wk_wname m))]"
| "layout_Request (Req_Open m) = layout_header m @ [U32 (hf_fid (op_HasFid m)), U8 (op_mode m)]"
| "layout_Request (Req_Create m) = layout_header m @
     [U32 (hf_fid (cr_HasFid m)), Str (hn_name (cr_HasName m)), U32 (cr_perm m), U8 (cr_mode m)]"
| "layout_Request (Req_Read m) = layout_header m @
     [U32 (hf_fid (fr_HasFid m)), U64 (ho_offset (rw_HasOffset m)), U32 (hc_count (rd_HasCount m))]"
| "layout_Request (Req_Write m) = layout_header m @
     [U32 (hf_fid (fr_HasFid m)), U64 (ho_offset (rw_HasOffset m)), Data (hd_data (wr_HasDataStorage m))]"
| "layout_Request (Req_Clunk m) = layout_header m @ [U32 (hf_fid (fr_HasFid m))]"
| "layout_Request (Req_Remove m) = layout_header m @ [U32 (hf_fid (fr_HasFid m))]"
| "layout_Request (Req_Stat m) = layout_header m @ [U32 (hf_fid (fr_HasFid m))]"
| "layout_Request (Req_WStat m) = layout_header m @ [U32 (hf_fid (ws_HasFid m)), Sub (layout_Stat (ws_stat m))]"

fun layout_Response :: "Response \<Rightarrow> field list" where
  "layout_Response (Resp_Undefined m) = [Illegal ''Undefined response!'']"
| "layout_Response (Resp_Version m) = layout_header m @ [U16 (vm_msize m), Str (vm_version m)]"
| "layout_Response (Resp_Auth m) = layout_header m @ layout_Qid (hq_qid (aur_HasQid m))"
| "layout_Response (Resp_Attach m) = layout_header m @ layout_Qid (hq_qid (atr_HasQid m))"
| "layout_Response (Resp_Error m) = layout_header m @ [Str (er_ename m)]"
| "layout_Response (Resp_Flush m) = layout_header m"
| "layout_Response (Resp_Walk m) = layout_header m @ [Vec (map layout_Qid (wkr_wqid m))]"
| "layout_Response (Resp_Open m) = layout_header m @ layout_Qid (hq_qid (oc_HasQid m)) @ [U32 (oc_iounit m)]"
| "layout_Response (Resp_Create m) = layout_header m @ layout_Qid (hq_qid (oc_HasQid m)) @ [U32 (oc_iounit m)]"
| "layout_Response (Resp_Read m) = layout_header m @ [Data (hd_data (rdr_HasDataStorage m))]"
| "layout_Response (Resp_Write m) = layout_header m @ [U32 (hc_count (wrr_HasCount m))]"
| "layout_Response (Resp_Clunk m) = layout_header m"
| "layout_Response (Resp_Remove m) = layout_header m"
| "layout_Response (Resp_Stat m) = layout_header m @ [Str (sr_data m)]"
| "layout_Response (Resp_WStat m) = layout_header m"

fun layout_Interaction :: "Interaction \<Rightarrow> field list" where
  "layout_Interaction (Interaction_Response r) = layout_Response r"
| "layout_Interaction (Interaction_Request r) = layout_Request r"

section \<open>Encoders that follow their layout\<close>

fun perform :: "writing \<Rightarrow> (MessageStream, unit) action" where
  "perform (bs, None) s = (Ok (), put_bytes bs s)"
| "perform (bs, Some e) s = (Throw e, put_bytes bs s)"

definition lays :: "(MessageStream, unit) action \<Rightarrow> field list \<Rightarrow> bool" where
  "lays m fs \<longleftrightarrow> (\<forall>s. ample s \<longrightarrow> m s = perform (write_fields fs) s)"

named_theorems lays_intros \<open>encoders and the fields they write\<close>

lemma laysI: "(\<And>s. ample s \<Longrightarrow> m s = perform (write_fields fs) s) \<Longrightarrow> lays m fs"
  by (simp add: lays_def)

lemma laysD: "lays m fs \<Longrightarrow> ample s \<Longrightarrow> m s = perform (write_fields fs) s"
  by (simp add: lays_def)

lemma lays_eqI: "lays m fs \<Longrightarrow> fs = gs \<Longrightarrow> lays m gs"
  by simp

lemma w_then_simps [simp]:
  "w_then (bs, None) w = (bs @ fst w, snd w)" "w_then (bs, Some e) w = (bs, Some e)"
  "w_then w ([], None) = w"
  by (auto simp: w_then_def prod_eq_iff split: option.split)

lemma w_then_assoc: "w_then (w_then u v) w = w_then u (w_then v w)"
  by (simp add: w_then_def split: option.split)

lemma w_seq_append: "w_seq (vs @ ws) = w_then (w_seq vs) (w_seq ws)"
  by (induction vs) (simp_all add: w_then_assoc)

lemma write_fields_single [simp]: "write_fields [f] = write_field f"
  by (simp add: write_fields_def)

lemma write_fields_append: "write_fields (fs @ gs) = w_then (write_fields fs) (write_fields gs)"
  by (simp add: write_fields_def w_seq_append)

lemma perform_then: "perform (w_then v w) = thenM (perform v) (perform w)"
proof (rule ext)
  fix s
  obtain bs x where v: "v = (bs, x)" by (cases v)
  obtain cs y where w: "w = (cs, y)" by (cases w)
  show "perform (w_then v w) s = thenM (perform v) (perform w) s"
    unfolding v w by (cases x; cases y) simp_all
qed

lemma perform_ample: "snd (perform w s) = put_bytes (fst w) s"
  by (cases w; cases "snd w") auto

lemma lays_Nil [lays_intros]: "lays (seqM []) []"
  by (rule laysI) (simp add: write_fields_def)

lemma lays_thenM:
  assumes "lays m fs" and "lays k gs"
  shows "lays (thenM m k) (fs @ gs)"
proof (rule laysI)
  fix s assume a: "ample s"
  have "thenM m k s = thenM (perform (write_fields fs)) (perform (write_fields gs)) s"
    using laysD [OF assms(1) a] laysD [OF assms(2)] a perform_ample [of "write_fields fs" s]
    by (auto simp: thenM_def bindM_def split: prod.splits result.splits)
  then show "thenM m k s = perform (write_fields (fs @ gs)) s"
    by (simp only: write_fields_append perform_then)
qed

lemma lays_Cons [lays_intros]: "lays m fs \<Longrightarrow> lays (seqM ms) gs \<Longrightarrow> lays (seqM (m # ms)) (fs @ gs)"
  by (simp add: lays_thenM)

lemma lays_integers [lays_intros]:
  "lays (encode_u8 a) [U8 a]" "lays (encode_u16 b) [U16 b]"
  "lays (encode_u32 c) [U32 c]" "lays (encode_u64 d) [U64 d]"
  using emits_Ok [OF emits_u8 TrueI, of _ a] emits_Ok [OF emits_u16 TrueI, of _ b]
    emits_Ok [OF emits_u32 TrueI, of _ c] emits_Ok [OF emits_u64 TrueI, of _ d]
  by (simp_all add: lays_def write_fields_def wire_u8_def wire_u16_def wire_u32_def wire_u64_def)

lemma max_u16: "unat (- 1 :: 16 word) = 65535"
  by (simp add: unsigned_minus_1_eq_mask mask_eq_exp_minus_1)

lemma lays_string [lays_intros]: "lays (encode_string v) [Str v]"
proof (rule laysI)
  fix s assume "ample s"
  then show "encode_string v s = perform (write_fields [Str v]) s"
    using emits_Ok [OF emits_string, of v s] fits_u16_unat [of v]
    by (cases "fits_u16 v")
      (auto simp: write_fields_def w_string_def wire_string_def fits_u16_def encode_string_def Let_def
        string_too_long_def max_u16)
qed

lemma lays_data [lays_intros]: "lays (HasDataStorage_encode h) [Data (hd_data h)]"
proof (rule laysI)
  fix s assume "ample s"
  then show "HasDataStorage_encode h s = perform (write_fields [Data (hd_data h)]) s"
    using emits_Ok [OF emits_data, of h s] fits_data_unat [of h]
    by (cases "fits_data h")
      (auto simp: write_fields_def wire_data_def fits_data_def HasDataStorage_encode_def Let_def
        data_too_large_def)
qed

lemma lays_map: "(\<And>a. lays (enc a) (lay a)) \<Longrightarrow> lays (seqM (map enc as)) (concat (map lay as))"
proof (induction as)
  case (Cons a as)
  then show ?case using lays_thenM [of "enc a" "lay a"] by simp
qed (simp add: lays_Nil [simplified])

lemma w_seq_concat: "w_seq (map w_seq wss) = w_seq (concat wss)"
  by (induction wss) (simp_all add: w_seq_append)

lemma write_field_Vec:
  "write_field (Vec ess) = w_vector (length ess) (write_fields (concat ess))"
  by (simp add: write_fields_def w_seq_concat map_concat del: map_map)

lemma lays_vector:
  assumes "\<And>a. lays (enc a) (lay a)"
  shows "lays (encode_vector enc as) [Vec (map lay as)]"
proof (rule laysI)
  fix s assume a: "ample s"
  show "encode_vector enc as s = perform (write_fields [Vec (map lay as)]) s"
  proof (cases "fits_u16 as")
    case True
    let ?fs = "[U16 (word_of_nat (length as))] @ concat (map lay as)"
    have "encode_vector enc as = thenM (encode_u16 (word_of_nat (length as))) (seqM (map enc as))"
      using True fits_u16_unat [of as] by (simp add: encode_vector_def)
    moreover have "lays (thenM (encode_u16 (word_of_nat (length as))) (seqM (map enc as))) ?fs"
      by (intro lays_thenM lays_integers lays_map assms)
    moreover have "write_fields ?fs = write_field (Vec (map lay as))"
      using True fits_u16_unat [of as]
      unfolding write_fields_append write_field_Vec by (simp add: w_vector_def fits_u16_def)
    ultimately show ?thesis
      using laysD [OF _ a, of _ ?fs] by (simp only: write_fields_single)
  next
    case False
    then show ?thesis
      using fits_u16_unat [of as]
      by (auto simp: w_vector_def fits_u16_def encode_vector_def vector_too_long_def max_u16)
  qed
qed

lemma lays_Undefined [lays_intros]:
  "lays (UndefinedMessage_encode Request m) [Illegal ''Undefined request!'']"
  "lays (UndefinedMessage_encode Response m) [Illegal ''Undefined response!'']"
  by (simp_all add: lays_def UndefinedMessage_encode_def write_fields_def)

lemma lays_header [lays_intros]: "lays (MessageHeader_encode m) (layout_header m)"
  unfolding MessageHeader_encode_def encode_Operation_def
  by (rule lays_eqI, (rule lays_intros)+) (simp add: layout_header_def)

lemma lays_Qid [lays_intros]: "lays (Qid_encode q) (layout_Qid q)"
  unfolding Qid_encode_def by (rule lays_eqI, (rule lays_intros)+) (simp add: layout_Qid_def)

lemma lays_vectors [lays_intros]:
  "lays (encode_vector encode_string vs) [Vec (map (\<lambda>v. [Str v]) vs)]"
  "lays (encode_vector Qid_encode qs) [Vec (map layout_Qid qs)]"
  by (rule lays_vector, rule lays_intros)+

lemma lays_mixins [lays_intros]:
  "lays (HasQid_encode h) (layout_Qid (hq_qid h))" "lays (HasName_encode n) [Str (hn_name n)]"
  "lays (HasFid_encode f) [U32 (hf_fid f)]" "lays (HasCount_encode c) [U32 (hc_count c)]"
  "lays (HasOffset_encode p) [U64 (ho_offset p)]"
  unfolding HasQid_encode_def HasName_encode_def HasFid_encode_def HasCount_encode_def HasOffset_encode_def
  by (rule lays_intros)+

lemma lays_Stat_inner: "lays (Stat_inner st) (layout_Stat st)"
  unfolding Stat_inner_def by (rule lays_eqI, (rule lays_intros)+) (simp add: layout_Stat_def)

lemma write_Stat: "write_fields (layout_Stat st) = (bs, None) \<Longrightarrow> length bs < 2 ^ 19"
  by (auto simp: layout_Stat_def layout_Qid_def write_fields_def w_string_def split: if_splits)

lemma lays_Stat [lays_intros]: "lays (Stat_encode st) [Sub (layout_Stat st)]"
proof (rule laysI)
  fix s assume a: "ample s"
  then have a': "ample (ss_new (ss_max s))"
    by (simp add: ample_def ss_new_def)
  obtain bs x where w: "write_fields (layout_Stat st) = (bs, x)"
    by (cases "write_fields (layout_Stat st)")
  note inner = laysD [OF lays_Stat_inner [of st] a', unfolded w]
  have sub: "write_field (Sub (layout_Stat st)) = w_sub (bs, x)"
    using w by (simp add: write_fields_def)
  show "Stat_encode st s = perform (write_fields [Sub (layout_Stat st)]) s"
  proof (cases x)
    case None
    then have "length bs \<le> ss_max s"
      using write_Stat [of st bs] w a by (simp add: ample_def)
    then have "Stat_encode st s = encode_string bs s"
      using inner None by (simp add: Stat_encode_def put_bytes_new MessageStream_str_def)
    with laysD [OF lays_string a, of bs] None sub show ?thesis
      by (simp add: w_sub_def)
  next
    case (Some e)
    with inner sub show ?thesis
      by (simp add: Stat_encode_def w_sub_def)
  qed
qed

lemmas message_encode_defs =
  ErrorResponse_encode_def VersionMessage_encode_def AuthenticationRequest_encode_def
  AuthenticationResponse_encode_def FlushRequest_encode_def AttachRequest_encode_def
  AttachResponse_encode_def WalkRequest_encode_def WalkResponse_encode_def OpenRequest_encode_def
  OpenOrCreateResponse_encode_def CreateRequest_encode_def FidRequest_encode_def
  ReadWriteRequest_encode_def ReadRequest_encode_def ReadResponse_encode_def WriteRequest_encode_def
  WriteResponse_encode_def StatResponse_encode_def WStatRequest_encode_def

lemma lays_Request: "lays (Request_encode r) (layout_Request r)"
  by (cases r; simp only: Request_encode.simps layout_Request.simps message_encode_defs)
    (rule lays_eqI, (rule lays_intros)+, simp)+

lemma lays_Response: "lays (Response_encode r) (layout_Response r)"
  by (cases r; simp only: Response_encode.simps layout_Response.simps message_encode_defs)
    (rule lays_eqI, (rule lays_intros)+, simp)+

lemma lays_Interaction: "lays (Interaction_encode i) (layout_Interaction i)"
  by (cases i) (simp_all add: lays_Request lays_Response)

section \<open>Layouts and wire formats\<close>

fun kind_Interaction :: "Interaction \<Rightarrow> ConceptualOperation" where
  "kind_Interaction (Interaction_Response r) = kind_Response r"
| "kind_Interaction (Interaction_Request r) = kind_Request r"

lemma put_bytes_new_eq:
  assumes "put_bytes bs (ss_new m) = put_bytes cs (ss_new m)" and "length bs \<le> m" and "length cs \<le> m"
  shows "bs = cs"
  using arg_cong [OF assms(1), of ss_buf] assms(2,3) by (simp add: put_bytes_new)

lemma write_sendable:
  "if sendable_Interaction i then write_fields (layout_Interaction i) = (wire_Interaction i, None)
   else snd (write_fields (layout_Interaction i)) \<noteq> None"
proof -
  obtain bs x where w: "write_fields (layout_Interaction i) = (bs, x)"
    by (cases "write_fields (layout_Interaction i)")
  let ?m = "max (2 ^ 20) (max (length bs) (length (wire_Interaction i)))"
  have a: "ample (ss_new ?m)" by (simp add: ample_new)
  note run = laysD [OF lays_Interaction a, of i, unfolded w]
  show ?thesis
  proof (cases "sendable_Interaction i")
    case True
    then have "x = None \<and> put_bytes bs (ss_new ?m) = put_bytes (wire_Interaction i) (ss_new ?m)"
      using interactions.enc_fits [OF True a] run by (cases x) auto
    with put_bytes_new_eq [of bs ?m "wire_Interaction i"] w True show ?thesis by simp
  next
    case False
    with interactions.enc_unfit [OF False a] run w show ?thesis by (cases x) auto
  qed
qed

lemma layout_header_cases:
  assumes "kind_Interaction i \<noteq> Undefined"
  obtains t fs where "layout_Interaction i = U8 (op_Interaction i) # U16 t # fs"
proof (cases i)
  case (Interaction_Request r)
  with assms that show thesis by (cases r) (simp_all add: layout_header_def)
next
  case (Interaction_Response r)
  with assms that show thesis by (cases r) (simp_all add: layout_header_def)
qed

lemma write_header:
  assumes "kind_Interaction i \<noteq> Undefined"
  shows "\<exists>ps. fst (write_fields (layout_Interaction i)) = op_Interaction i # ps \<and> 2 \<le> length ps"
  using assms by (rule layout_header_cases) (simp add: write_fields_def)

section \<open>Property\<close>

text \<open>
  C11. Encoding follows the table. On a stream with memory at hand, encoding an interaction does
  exactly what its layout says: the bytes of its fields in order up to the first field that cannot
  be written, and then the exception of that field. It is written whole, its wire format, if and
  only if it can be sent. An interaction that is refused is not taken back: unless it is an
  undefined message, its header at least stays on the stream.
\<close>

theorem encode_follows_layout:
  assumes "ample s"
  shows "Interaction_encode i s =
      (case write_fields (layout_Interaction i) of
         (bs, None) \<Rightarrow> (Ok (), put_bytes bs s) | (bs, Some e) \<Rightarrow> (Throw e, put_bytes bs s)) \<and>
    (write_fields (layout_Interaction i) = (wire_Interaction i, None) \<longleftrightarrow> sendable_Interaction i) \<and>
    (snd (write_fields (layout_Interaction i)) = None \<longleftrightarrow> sendable_Interaction i) \<and>
    (kind_Interaction i \<noteq> Undefined \<longrightarrow>
      (\<exists>ps. fst (write_fields (layout_Interaction i)) = op_Interaction i # ps \<and> 2 \<le> length ps))"
  using laysD [OF lays_Interaction assms, of i] write_sendable [of i] write_header [of i]
  by (auto split: prod.split option.split if_splits)

theorem encode_follows_layout_witness:
  "Interaction_encode (Interaction_Response (Resp_Error
       \<lparr>hdr_op = RError, hdr_tag = 5, er_ename = replicate 65536 0\<rparr>)) (ss_new (2 ^ 20)) =
     (Throw (string_too_long 65536), put_bytes [RError, 5, 0] (ss_new (2 ^ 20)))"
proof -
  let ?i = "Interaction_Response (Resp_Error \<lparr>hdr_op = RError, hdr_tag = 5, er_ename = replicate 65536 0\<rparr>)"
  have "write_fields (layout_Interaction ?i) = ([RError, 5, 0], Some (string_too_long 65536))"
    by (simp add: layout_header_def write_fields_def w_string_def le_bytes_2)
  with encode_follows_layout [of "ss_new (2 ^ 20)" ?i] show ?thesis
    by (simp add: ample_new)
qed

end
