(* ===== verification/Message_Building.thy ===== *)
theory Message_Building
  imports Message_Layout
begin

text \<open>
  The messages a program can make. \<open>built_Request\<close> and \<open>built_Response\<close> are the objects that
  come about by default construction of one of the message classes of \<^verbatim>\<open>Message.h\<close> and calls of its
  setters, or assignments through the references its getters give, any number of times in any
  order; one rule for each class and each of these calls. \<open>made_Stat\<close> are the stats that come
  about in the same way, from which \<^verbatim>\<open>setStat\<close> takes one.

  A default-constructed message, value-initialised as the \<^verbatim>\<open>emplace\<close> of the variants does it,
  has the header that the constructor of \<open>Message\<close> stores with its default argument \<^verbatim>\<open>notag\<close>, empty strings and vectors, and numbers that are zero, but for
  \<^verbatim>\<open>_msize\<close> of a \<open>VersionMessage\<close>, whose constructor is user-provided and leaves it as it
  is. Everything else has to be set.

  What can be built is compared with \<open>code_Request\<close> and \<open>code_Response\<close>, the numbers of the
  protocol written out for each class.
\<close>

section \<open>Construction and setters\<close>

inductive made_Stat :: "Stat \<Rightarrow> bool" where
  new_Stat: "made_Stat Stat_zero"
| Stat_setQid: "made_Stat st \<Longrightarrow>
    made_Stat (st\<lparr>st_HasQid := HasQid_setQid (Qid_ctor t p v) (st_HasQid st)\<rparr>)"
| Stat_setName: "made_Stat st \<Longrightarrow> made_Stat (st\<lparr>st_HasName := HasName_setName v (st_HasName st)\<rparr>)"
| made_setType: "made_Stat st \<Longrightarrow> made_Stat (Stat_setType v st)"
| made_setDevice: "made_Stat st \<Longrightarrow> made_Stat (Stat_setDevice v st)"
| made_setPermissions: "made_Stat st \<Longrightarrow> made_Stat (Stat_setPermissions v st)"
| made_setLastAccessTime: "made_Stat st \<Longrightarrow> made_Stat (Stat_setLastAccessTime v st)"
| made_setLastModificationTime: "made_Stat st \<Longrightarrow> made_Stat (Stat_setLastModificationTime v st)"
| made_setLength: "made_Stat st \<Longrightarrow> made_Stat (Stat_setLength v st)"
| made_setOwner: "made_Stat st \<Longrightarrow> made_Stat (Stat_setOwner v st)"
| made_setGroup: "made_Stat st \<Longrightarrow> made_Stat (Stat_setGroup v st)"
| made_setUserThatLastModified: "made_Stat st \<Longrightarrow> made_Stat (Stat_setUserThatLastModified v st)"

inductive built_Request :: "Request \<Rightarrow> bool" where
  new_Req_Undefined: "h = Message_ctor Undefined Request notag \<Longrightarrow>
    built_Request (Req_Undefined \<lparr>hdr_op = hdr_op h, hdr_tag = hdr_tag h\<rparr>)"
| Req_Undefined_setTag: "built_Request (Req_Undefined m) \<Longrightarrow>
    built_Request (Req_Undefined (MessageHeader_setTag v m))"
| new_Req_Version: "h = Message_ctor Version Request notag \<Longrightarrow>
    built_Request (Req_Version
      \<lparr>hdr_op = hdr_op h, hdr_tag = hdr_tag h, vm_version = [], vm_msize = u\<rparr>)"
| Req_Version_setTag: "built_Request (Req_Version m) \<Longrightarrow>
    built_Request (Req_Version (VersionMessage_setTag v m))"
| Req_Version_setMsize: "built_Request (Req_Version m) \<Longrightarrow>
    built_Request (Req_Version (VersionMessage_setMsize v m))"
| Req_Version_setVersion: "built_Request (Req_Version m) \<Longrightarrow>
    built_Request (Req_Version (VersionMessage_setVersion v m))"
| new_Req_Auth: "h = Message_ctor Auth Request notag \<Longrightarrow>
    built_Request (Req_Auth
      \<lparr>hdr_op = hdr_op h, hdr_tag = hdr_tag h, au_afid = 0, au_uname = [],
      au_aname = []\<rparr>)"
| Req_Auth_setTag: "built_Request (Req_Auth m) \<Longrightarrow>
    built_Request (Req_Auth (MessageHeader_setTag v m))"
| Req_Auth_setAuthenticationHandle: "built_Request (Req_Auth m) \<Longrightarrow>
    built_Request (Req_Auth (AuthenticationRequest_setAuthenticationHandle v m))"
| Req_Auth_setUserName: "built_Request (Req_Auth m) \<Longrightarrow>
    built_Request (Req_Auth (AuthenticationRequest_setUserName v m))"
| Req_Auth_setAttachName: "built_Request (Req_Auth m) \<Longrightarrow>
    built_Request (Req_Auth (AuthenticationRequest_setAttachName v m))"
| new_Req_Attach: "h = Message_ctor Attach Request notag \<Longrightarrow>
    built_Request (Req_Attach
      \<lparr>hdr_op = hdr_op h, hdr_tag = hdr_tag h, at_HasFid = \<lparr>hf_fid = 0\<rparr>,
      at_afid = 0, at_uname = [], at_aname = []\<rparr>)"
| Req_Attach_setTag: "built_Request (Req_Attach m) \<Longrightarrow>
    built_Request (Req_Attach (MessageHeader_setTag v m))"
| Req_Attach_setFid: "built_Request (Req_Attach m) \<Longrightarrow>
    built_Request (Req_Attach (m\<lparr>at_HasFid := HasFid_setFid v (at_HasFid m)\<rparr>))"
| Req_Attach_setAuthenticationHandle: "built_Request (Req_Attach m) \<Longrightarrow>
    built_Request (Req_Attach (AttachRequest_setAuthenticationHandle v m))"
| Req_Attach_setUserName: "built_Request (Req_Attach m) \<Longrightarrow>
    built_Request (Req_Attach (AttachRequest_setUserName v m))"
| Req_Attach_setAttachName: "built_Request (Req_Attach m) \<Longrightarrow>
    built_Request (Req_Attach (AttachRequest_setAttachName v m))"
| new_Req_Error: "h = Message_ctor Error Request notag \<Longrightarrow>
    built_Request (Req_Error \<lparr>hdr_op = hdr_op h, hdr_tag = hdr_tag h\<rparr>)"
| Req_Error_setTag: "built_Request (Req_Error m) \<Longrightarrow>
    built_Request (Req_Error (MessageHeader_setTag v m))"
| new_Req_Flush: "h = Message_ctor Flush Request notag \<Longrightarrow>
    built_Request (Req_Flush \<lparr>hdr_op = hdr_op h, hdr_tag = hdr_tag h, fl_oldtag = 0\<rparr>)"
| Req_Flush_setTag: "built_Request (Req_Flush m) \<Longrightarrow>
    built_Request (Req_Flush (MessageHeader_setTag v m))"
| Req_Flush_setOldTag: "built_Request (Req_Flush m) \<Longrightarrow>
    built_Request (Req_Flush (FlushRequest_setOldTag v m))"
| new_Req_Walk: "h = Message_ctor Walk Request notag \<Longrightarrow>
    built_Request (Req_Walk
      \<lparr>hdr_op = hdr_op h, hdr_tag = hdr_tag h, wk_HasFid = \<lparr>hf_fid = 0\<rparr>,
      wk_newfid = 0, wk_wname = []\<rparr>)"
| Req_Walk_setTag: "built_Request (Req_Walk m) \<Longrightarrow>
    built_Request (Req_Walk (MessageHeader_setTag v m))"
| Req_Walk_setFid: "built_Request (Req_Walk m) \<Longrightarrow>
    built_Request (Req_Walk (m\<lparr>wk_HasFid := HasFid_setFid v (wk_HasFid m)\<rparr>))"
| Req_Walk_setNewFid: "built_Request (Req_Walk m) \<Longrightarrow>
    built_Request (Req_Walk (WalkRequest_setNewFid v m))"
| Req_Walk_getWname: "built_Request (Req_Walk m) \<Longrightarrow>
    built_Request (Req_Walk (m\<lparr>wk_wname := v\<rparr>))"
| new_Req_Open: "h = Message_ctor Open Request notag \<Longrightarrow>
    built_Request (Req_Open
      \<lparr>hdr_op = hdr_op h, hdr_tag = hdr_tag h, op_HasFid = \<lparr>hf_fid = 0\<rparr>,
      op_mode = 0\<rparr>)"
| Req_Open_setTag: "built_Request (Req_Open m) \<Longrightarrow>
    built_Request (Req_Open (MessageHeader_setTag v m))"
| Req_Open_setFid: "built_Request (Req_Open m) \<Longrightarrow>
    built_Request (Req_Open (m\<lparr>op_HasFid := HasFid_setFid v (op_HasFid m)\<rparr>))"
| Req_Open_setMode: "built_Request (Req_Open m) \<Longrightarrow>
    built_Request (Req_Open (OpenRequest_setMode v m))"
| new_Req_Create: "h = Message_ctor Create Request notag \<Longrightarrow>
    built_Request (Req_Create
      \<lparr>hdr_op = hdr_op h, hdr_tag = hdr_tag h, cr_HasFid = \<lparr>hf_fid = 0\<rparr>,
      cr_HasName = \<lparr>hn_name = []\<rparr>, cr_perm = 0, cr_mode = 0\<rparr>)"
| Req_Create_setTag: "built_Request (Req_Create m) \<Longrightarrow>
    built_Request (Req_Create (MessageHeader_setTag v m))"
| Req_Create_setFid: "built_Request (Req_Create m) \<Longrightarrow>
    built_Request (Req_Create (m\<lparr>cr_HasFid := HasFid_setFid v (cr_HasFid m)\<rparr>))"
| Req_Create_setName: "built_Request (Req_Create m) \<Longrightarrow>
    built_Request (Req_Create (m\<lparr>cr_HasName := HasName_setName v (cr_HasName m)\<rparr>))"
| Req_Create_setPermissions: "built_Request (Req_Create m) \<Longrightarrow>
    built_Request (Req_Create (CreateRequest_setPermissions v m))"
| Req_Create_setMode: "built_Request (Req_Create m) \<Longrightarrow>
    built_Request (Req_Create (CreateRequest_setMode v m))"
| new_Req_Read: "h = Message_ctor Read Request notag \<Longrightarrow>
    built_Request (Req_Read
      \<lparr>hdr_op = hdr_op h, hdr_tag = hdr_tag h, fr_HasFid = \<lparr>hf_fid = 0\<rparr>,
      rw_HasOffset = \<lparr>ho_offset = 0\<rparr>,
      rd_HasCount = \<lparr>hc_count = 0\<rparr>\<rparr>)"
| Req_Read_setTag: "built_Request (Req_Read m) \<Longrightarrow>
    built_Request (Req_Read (MessageHeader_setTag v m))"
| Req_Read_setFid: "built_Request (Req_Read m) \<Longrightarrow>
    built_Request (Req_Read (m\<lparr>fr_HasFid := HasFid_setFid v (fr_HasFid m)\<rparr>))"
| Req_Read_setOffset: "built_Request (Req_Read m) \<Longrightarrow>
    built_Request (Req_Read (m\<lparr>rw_HasOffset := HasOffset_setOffset v (rw_HasOffset m)\<rparr>))"
| Req_Read_setCount: "built_Request (Req_Read m) \<Longrightarrow>
    built_Request (Req_Read (m\<lparr>rd_HasCount := HasCount_setCount v (rd_HasCount m)\<rparr>))"
| new_Req_Write: "h = Message_ctor Write Request notag \<Longrightarrow>
    built_Request (Req_Write
      \<lparr>hdr_op = hdr_op h, hdr_tag = hdr_tag h, fr_HasFid = \<lparr>hf_fid = 0\<rparr>,
      rw_HasOffset = \<lparr>ho_offset = 0\<rparr>,
      wr_HasDataStorage = \<lparr>hd_data = []\<rparr>\<rparr>)"
| Req_Write_setTag: "built_Request (Req_Write m) \<Longrightarrow>
    built_Request (Req_Write (MessageHeader_setTag v m))"
| Req_Write_setFid: "built_Request (Req_Write m) \<Longrightarrow>
    built_Request (Req_Write (m\<lparr>fr_HasFid := HasFid_setFid v (fr_HasFid m)\<rparr>))"
| Req_Write_setOffset: "built_Request (Req_Write m) \<Longrightarrow>
    built_Request (Req_Write (m\<lparr>rw_HasOffset := HasOffset_setOffset v (rw_HasOffset m)\<rparr>))"
| Req_Write_getData: "built_Request (Req_Write m) \<Longrightarrow>
    built_Request (Req_Write (m\<lparr>wr_HasDataStorage := (wr_HasDataStorage m)\<lparr>hd_data := v\<rparr>\<rparr>))"
| new_Req_Clunk: "h = Message_ctor Clunk Request notag \<Longrightarrow>
    built_Request (Req_Clunk
      \<lparr>hdr_op = hdr_op h, hdr_tag = hdr_tag h, fr_HasFid = \<lparr>hf_fid = 0\<rparr>\<rparr>)"
| Req_Clunk_setTag: "built_Request (Req_Clunk m) \<Longrightarrow>
    built_Request (Req_Clunk (MessageHeader_setTag v m))"
| Req_Clunk_setFid: "built_Request (Req_Clunk m) \<Longrightarrow>
    built_Request (Req_Clunk (m\<lparr>fr_HasFid := HasFid_setFid v (fr_HasFid m)\<rparr>))"
| new_Req_Remove: "h = Message_ctor Remove Request notag \<Longrightarrow>
    built_Request (Req_Remove
      \<lparr>hdr_op = hdr_op h, hdr_tag = hdr_tag h, fr_HasFid = \<lparr>hf_fid = 0\<rparr>\<rparr>)"
| Req_Remove_setTag: "built_Request (Req_Remove m) \<Longrightarrow>
    built_Request (Req_Remove (MessageHeader_setTag v m))"
| Req_Remove_setFid: "built_Request (Req_Remove m) \<Longrightarrow>
    built_Request (Req_Remove (m\<lparr>fr_HasFid := HasFid_setFid v (fr_HasFid m)\<rparr>))"
| new_Req_Stat: "h = Message_ctor Stat Request notag \<Longrightarrow>
    built_Request (Req_Stat
      \<lparr>hdr_op = hdr_op h, hdr_tag = hdr_tag h, fr_HasFid = \<lparr>hf_fid = 0\<rparr>\<rparr>)"
| Req_Stat_setTag: "built_Request (Req_Stat m) \<Longrightarrow>
    built_Request (Req_Stat (MessageHeader_setTag v m))"
| Req_Stat_setFid: "built_Request (Req_Stat m) \<Longrightarrow>
    built_Request (Req_Stat (m\<lparr>fr_HasFid := HasFid_setFid v (fr_HasFid m)\<rparr>))"
| new_Req_WStat: "h = Message_ctor WStat Request notag \<Longrightarrow>
    built_Request (Req_WStat
      \<lparr>hdr_op = hdr_op h, hdr_tag = hdr_tag h, ws_HasFid = \<lparr>hf_fid = 0\<rparr>,
      ws_stat = Stat_zero\<rparr>)"
| Req_WStat_setTag: "built_Request (Req_WStat m) \<Longrightarrow>
    built_Request (Req_WStat (MessageHeader_setTag v m))"
| Req_WStat_setFid: "built_Request (Req_WStat m) \<Longrightarrow>
    built_Request (Req_WStat (m\<lparr>ws_HasFid := HasFid_setFid v (ws_HasFid m)\<rparr>))"
| Req_WStat_setStat: "built_Request (Req_WStat m) \<Longrightarrow> made_Stat v \<Longrightarrow>
    built_Request (Req_WStat (WStatRequest_setStat v m))"

inductive built_Response :: "Response \<Rightarrow> bool" where
  new_Resp_Undefined: "h = Message_ctor Undefined Response notag \<Longrightarrow>
    built_Response (Resp_Undefined \<lparr>hdr_op = hdr_op h, hdr_tag = hdr_tag h\<rparr>)"
| Resp_Undefined_setTag: "built_Response (Resp_Undefined m) \<Longrightarrow>
    built_Response (Resp_Undefined (MessageHeader_setTag v m))"
| new_Resp_Version: "h = Message_ctor Version Response notag \<Longrightarrow>
    built_Response (Resp_Version
      \<lparr>hdr_op = hdr_op h, hdr_tag = hdr_tag h, vm_version = [], vm_msize = u\<rparr>)"
| Resp_Version_setTag: "built_Response (Resp_Version m) \<Longrightarrow>
    built_Response (Resp_Version (VersionMessage_setTag v m))"
| Resp_Version_setMsize: "built_Response (Resp_Version m) \<Longrightarrow>
    built_Response (Resp_Version (VersionMessage_setMsize v m))"
| Resp_Version_setVersion: "built_Response (Resp_Version m) \<Longrightarrow>
    built_Response (Resp_Version (VersionMessage_setVersion v m))"
| new_Resp_Auth: "h = Message_ctor Auth Response notag \<Longrightarrow>
    built_Response (Resp_Auth
      \<lparr>hdr_op = hdr_op h, hdr_tag = hdr_tag h,
      aur_HasQid = \<lparr>hq_qid = Qid_ctor 0 0 0\<rparr>\<rparr>)"
| Resp_Auth_setTag: "built_Response (Resp_Auth m) \<Longrightarrow>
    built_Response (Resp_Auth (MessageHeader_setTag v m))"
| Resp_Auth_setQid: "built_Response (Resp_Auth m) \<Longrightarrow>
    built_Response (Resp_Auth (m\<lparr>aur_HasQid := HasQid_setQid (Qid_ctor t p v) (aur_HasQid m)\<rparr>))"
| new_Resp_Attach: "h = Message_ctor Attach Response notag \<Longrightarrow>
    built_Response (Resp_Attach
      \<lparr>hdr_op = hdr_op h, hdr_tag = hdr_tag h, atr_HasQid = \<lparr>hq_qid = Qid_ctor 0 0 0\<rparr>\<rparr>)"
| Resp_Attach_setTag: "built_Response (Resp_Attach m) \<Longrightarrow>
    built_Response (Resp_Attach (MessageHeader_setTag v m))"
| Resp_Attach_setQid: "built_Response (Resp_Attach m) \<Longrightarrow>
    built_Response (Resp_Attach (m\<lparr>atr_HasQid := HasQid_setQid (Qid_ctor t p v) (atr_HasQid m)\<rparr>))"
| new_Resp_Error: "h = Message_ctor Error Response notag \<Longrightarrow>
    built_Response (Resp_Error \<lparr>hdr_op = hdr_op h, hdr_tag = hdr_tag h, er_ename = []\<rparr>)"
| Resp_Error_setTag: "built_Response (Resp_Error m) \<Longrightarrow>
    built_Response (Resp_Error (MessageHeader_setTag v m))"
| Resp_Error_setErrorName: "built_Response (Resp_Error m) \<Longrightarrow>
    built_Response (Resp_Error (ErrorResponse_setErrorName v m))"
| new_Resp_Flush: "h = Message_ctor Flush Response notag \<Longrightarrow>
    built_Response (Resp_Flush \<lparr>hdr_op = hdr_op h, hdr_tag = hdr_tag h\<rparr>)"
| Resp_Flush_setTag: "built_Response (Resp_Flush m) \<Longrightarrow>
    built_Response (Resp_Flush (MessageHeader_setTag v m))"
| new_Resp_Walk: "h = Message_ctor Walk Response notag \<Longrightarrow>
    built_Response (Resp_Walk \<lparr>hdr_op = hdr_op h, hdr_tag = hdr_tag h,
      wkr_wqid = []\<rparr>)"
| Resp_Walk_setTag: "built_Response (Resp_Walk m) \<Longrightarrow>
    built_Response (Resp_Walk (MessageHeader_setTag v m))"
| Resp_Walk_getWqid: "built_Response (Resp_Walk m) \<Longrightarrow>
    built_Response (Resp_Walk (m\<lparr>wkr_wqid := v\<rparr>))"
| new_Resp_Open: "h = Message_ctor Open Response notag \<Longrightarrow>
    built_Response (Resp_Open
      \<lparr>hdr_op = hdr_op h, hdr_tag = hdr_tag h,
      oc_HasQid = \<lparr>hq_qid = Qid_ctor 0 0 0\<rparr>, oc_iounit = 0\<rparr>)"
| Resp_Open_setTag: "built_Response (Resp_Open m) \<Longrightarrow>
    built_Response (Resp_Open (MessageHeader_setTag v m))"
| Resp_Open_setQid: "built_Response (Resp_Open m) \<Longrightarrow>
    built_Response (Resp_Open (m\<lparr>oc_HasQid := HasQid_setQid (Qid_ctor t p v) (oc_HasQid m)\<rparr>))"
| Resp_Open_setIounit: "built_Response (Resp_Open m) \<Longrightarrow>
    built_Response (Resp_Open (OpenOrCreateResponse_setIounit v m))"
| new_Resp_Create: "h = Message_ctor Create Response notag \<Longrightarrow>
    built_Response (Resp_Create
      \<lparr>hdr_op = hdr_op h, hdr_tag = hdr_tag h,
      oc_HasQid = \<lparr>hq_qid = Qid_ctor 0 0 0\<rparr>, oc_iounit = 0\<rparr>)"
| Resp_Create_setTag: "built_Response (Resp_Create m) \<Longrightarrow>
    built_Response (Resp_Create (MessageHeader_setTag v m))"
| Resp_Create_setQid: "built_Response (Resp_Create m) \<Longrightarrow>
    built_Response (Resp_Create (m\<lparr>oc_HasQid := HasQid_setQid (Qid_ctor t p v) (oc_HasQid m)\<rparr>))"
| Resp_Create_setIounit: "built_Response (Resp_Create m) \<Longrightarrow>
    built_Response (Resp_Create (OpenOrCreateResponse_setIounit v m))"
| new_Resp_Read: "h = Message_ctor Read Response notag \<Longrightarrow>
    built_Response (Resp_Read
      \<lparr>hdr_op = hdr_op h, hdr_tag = hdr_tag h,
      rdr_HasDataStorage = \<lparr>hd_data = []\<rparr>\<rparr>)"
| Resp_Read_setTag: "built_Response (Resp_Read m) \<Longrightarrow>
    built_Response (Resp_Read (MessageHeader_setTag v m))"
| Resp_Read_getData: "built_Response (Resp_Read m) \<Longrightarrow>
    built_Response (Resp_Read (m\<lparr>rdr_HasDataStorage := (rdr_HasDataStorage m)\<lparr>hd_data := v\<rparr>\<rparr>))"
| new_Resp_Write: "h = Message_ctor Write Response notag \<Longrightarrow>
    built_Response (Resp_Write
      \<lparr>hdr_op = hdr_op h, hdr_tag = hdr_tag h,
      wrr_HasCount = \<lparr>hc_count = 0\<rparr>\<rparr>)"
| Resp_Write_setTag: "built_Response (Resp_Write m) \<Longrightarrow>
    built_Response (Resp_Write (MessageHeader_setTag v m))"
| Resp_Write_setCount: "built_Response (Resp_Write m) \<Longrightarrow>
    built_Response (Resp_Write (m\<lparr>wrr_HasCount := HasCount_setCount v (wrr_HasCount m)\<rparr>))"
| new_Resp_Clunk: "h = Message_ctor Clunk Response notag \<Longrightarrow>
    built_Response (Resp_Clunk \<lparr>hdr_op = hdr_op h, hdr_tag = hdr_tag h\<rparr>)"
| Resp_Clunk_setTag: "built_Response (Resp_Clunk m) \<Longrightarrow>
    built_Response (Resp_Clunk (MessageHeader_setTag v m))"
| new_Resp_Remove: "h = Message_ctor Remove Response notag \<Longrightarrow>
    built_Response (Resp_Remove \<lparr>hdr_op = hdr_op h, hdr_tag = hdr_tag h\<rparr>)"
| Resp_Remove_setTag: "built_Response (Resp_Remove m) \<Longrightarrow>
    built_Response (Resp_Remove (MessageHeader_setTag v m))"
| new_Resp_Stat: "h = Message_ctor Stat Response notag \<Longrightarrow>
    built_Response (Resp_Stat \<lparr>hdr_op = hdr_op h, hdr_tag = hdr_tag h, sr_data = []\<rparr>)"
| Resp_Stat_setTag: "built_Response (Resp_Stat m) \<Longrightarrow>
    built_Response (Resp_Stat (MessageHeader_setTag v m))"
| Resp_Stat_setData: "built_Response (Resp_Stat m) \<Longrightarrow>
    built_Response (Resp_Stat (StatResponse_setData v m))"
| new_Resp_WStat: "h = Message_ctor WStat Response notag \<Longrightarrow>
    built_Response (Resp_WStat \<lparr>hdr_op = hdr_op h, hdr_tag = hdr_tag h\<rparr>)"
| Resp_WStat_setTag: "built_Response (Resp_WStat m) \<Longrightarrow>
    built_Response (Resp_WStat (MessageHeader_setTag v m))"

section \<open>What can be built\<close>

text \<open>The numbers of the protocol.\<close>

fun code_Request :: "Request \<Rightarrow> byte" where
  "code_Request (Req_Undefined m) = 254"
| "code_Request (Req_Version m) = 100"
| "code_Request (Req_Auth m) = 102"
| "code_Request (Req_Attach m) = 104"
| "code_Request (Req_Error m) = 106"
| "code_Request (Req_Flush m) = 108"
| "code_Request (Req_Walk m) = 110"
| "code_Request (Req_Open m) = 112"
| "code_Request (Req_Create m) = 114"
| "code_Request (Req_Read m) = 116"
| "code_Request (Req_Write m) = 118"
| "code_Request (Req_Clunk m) = 120"
| "code_Request (Req_Remove m) = 122"
| "code_Request (Req_Stat m) = 124"
| "code_Request (Req_WStat m) = 126"

fun code_Response :: "Response \<Rightarrow> byte" where
  "code_Response (Resp_Undefined m) = 255"
| "code_Response (Resp_Version m) = 101"
| "code_Response (Resp_Auth m) = 103"
| "code_Response (Resp_Attach m) = 105"
| "code_Response (Resp_Error m) = 107"
| "code_Response (Resp_Flush m) = 109"
| "code_Response (Resp_Walk m) = 111"
| "code_Response (Resp_Open m) = 113"
| "code_Response (Resp_Create m) = 115"
| "code_Response (Resp_Read m) = 117"
| "code_Response (Resp_Write m) = 119"
| "code_Response (Resp_Clunk m) = 121"
| "code_Response (Resp_Remove m) = 123"
| "code_Response (Resp_Stat m) = 125"
| "code_Response (Resp_WStat m) = 127"

text \<open>A version message always has the tag \<^verbatim>\<open>notag\<close>, the largest number.\<close>

fun untagged_Request :: "Request \<Rightarrow> bool" where
  "untagged_Request (Req_Version m) \<longleftrightarrow> hdr_tag m = 0xFFFF"
| "untagged_Request _ \<longleftrightarrow> True"

fun untagged_Response :: "Response \<Rightarrow> bool" where
  "untagged_Response (Resp_Version m) \<longleftrightarrow> hdr_tag m = 0xFFFF"
| "untagged_Response _ \<longleftrightarrow> True"

lemmas setter_defs =
  Message_ctor_def MessageHeader_ctor_def MessageHeader_setTag_def VersionMessage_setTag_def
  VersionMessage_setMsize_def VersionMessage_setVersion_def
  AuthenticationRequest_setAuthenticationHandle_def AuthenticationRequest_setUserName_def
  AuthenticationRequest_setAttachName_def AttachRequest_setAuthenticationHandle_def
  AttachRequest_setUserName_def AttachRequest_setAttachName_def FlushRequest_setOldTag_def
  WalkRequest_setNewFid_def OpenRequest_setMode_def OpenOrCreateResponse_setIounit_def
  CreateRequest_setPermissions_def CreateRequest_setMode_def ErrorResponse_setErrorName_def
  StatResponse_setData_def WStatRequest_setStat_def HasFid_setFid_def HasName_setName_def
  HasQid_setQid_def HasCount_setCount_def HasOffset_setOffset_def Qid_ctor_def

lemmas stat_setter_defs =
  Stat_setType_def Stat_setDevice_def Stat_setPermissions_def Stat_setLastAccessTime_def
  Stat_setLastModificationTime_def Stat_setLength_def Stat_setOwner_def Stat_setGroup_def
  Stat_setUserThatLastModified_def

lemma mixin_record:
  "\<lparr>hn_name = hn_name n\<rparr> = (n :: HasName)"
      "\<lparr>hd_data = hd_data d\<rparr> = (d :: HasDataStorage)"
  "\<lparr>ho_offset = ho_offset p\<rparr> = (p :: HasOffset)"
      "\<lparr>hq_qid = hq_qid h\<rparr> = (h :: HasQid)"
  "\<lparr>hc_count = hc_count c\<rparr> = (c :: HasCount)"
      "\<lparr>hf_fid = hf_fid f\<rparr> = (f :: HasFid)"
  "\<lparr>qid_type = qid_type q, qid_version = qid_version q, qid_path = qid_path q\<rparr> = (q :: Qid)"
  by simp_all

lemma notag_max: "notag = 0xFFFF"
  by (simp add: notag_def unsigned_minus_1_eq_mask mask_eq_exp_minus_1)

lemmas code_simps = translateConcept_def notag_max

lemma wf_code:
  "wf_Request r \<longleftrightarrow> op_Request r = code_Request r"
      "wf_Response q \<longleftrightarrow> op_Response q = code_Response q"
  by (cases r; simp add: wf_Request_def translateConcept_def)
    (cases q; simp add: wf_Response_def translateConcept_def)

lemma built_Request_code: "built_Request r \<Longrightarrow> op_Request r = code_Request r \<and> untagged_Request r"
  by (induction rule: built_Request.induct) (simp_all add: setter_defs code_simps)

lemma built_Response_code: "built_Response r \<Longrightarrow> op_Response r = code_Response r \<and> untagged_Response r"
  by (induction rule: built_Response.induct) (simp_all add: setter_defs code_simps)

lemmas build_simps = setter_defs mixin_eta mixin_record code_simps

named_theorems builds \<open>what a constructor and setters can make\<close>

text \<open>Every stat is what its setters make of an empty one, one setter for each member.\<close>

lemma made_Stat_all: "made_Stat st"
  using made_setUserThatLastModified
    [OF made_setGroup
    [OF made_setOwner
    [OF made_setLength
    [OF made_setLastModificationTime
    [OF made_setLastAccessTime
    [OF made_setPermissions
    [OF made_setDevice
    [OF made_setType
    [OF Stat_setName [OF Stat_setQid [OF new_Stat, of "qid_type (hq_qid (st_HasQid st))"
    "qid_path (hq_qid (st_HasQid st))" "qid_version (hq_qid (st_HasQid st))"],
      of "hn_name (st_HasName st)"], of "st_type st"], of "st_dev st"], of "st_mode st"],
      of "st_atime st"], of "st_mtime st"], of "st_length st"], of "st_uid st"],
      of "st_gid st"], of "st_muid st"]
  by (cases st) (simp add: stat_setter_defs build_simps Stat_zero_def)

text \<open>Every message that has the code of its class is what the constructor and the setters make.\<close>

lemma build_Req_Undefined [builds]:
  "hdr_op m = 254 \<Longrightarrow> built_Request (Req_Undefined m)"
  using Req_Undefined_setTag
    [OF new_Req_Undefined [OF refl], of "hdr_tag m"]
  by (cases m) (simp add: build_simps)

lemma build_Req_Version [builds]:
  "hdr_op m = 100 \<Longrightarrow> hdr_tag m = 0xFFFF \<Longrightarrow> built_Request (Req_Version m)"
  using Req_Version_setVersion
    [OF Req_Version_setMsize
    [OF new_Req_Version [OF refl, of 0], of "vm_msize m"], of "vm_version m"]
  by (cases m) (simp add: build_simps)

lemma build_Req_Auth [builds]:
  "hdr_op m = 102 \<Longrightarrow> built_Request (Req_Auth m)"
  using Req_Auth_setAttachName
    [OF Req_Auth_setUserName
    [OF Req_Auth_setAuthenticationHandle
    [OF Req_Auth_setTag
    [OF new_Req_Auth [OF refl], of "hdr_tag m"], of "au_afid m"], of "au_uname m"], of "au_aname m"]
  by (cases m) (simp add: build_simps)

lemma build_Req_Attach [builds]:
  "hdr_op m = 104 \<Longrightarrow> built_Request (Req_Attach m)"
  using Req_Attach_setAttachName
    [OF Req_Attach_setUserName
    [OF Req_Attach_setAuthenticationHandle
    [OF Req_Attach_setFid
    [OF Req_Attach_setTag
    [OF new_Req_Attach [OF refl], of "hdr_tag m"], of "hf_fid (at_HasFid m)"], of "at_afid m"],
      of "at_uname m"], of "at_aname m"]
  by (cases m) (simp add: build_simps)

lemma build_Req_Error [builds]:
  "hdr_op m = 106 \<Longrightarrow> built_Request (Req_Error m)"
  using Req_Error_setTag
    [OF new_Req_Error [OF refl], of "hdr_tag m"]
  by (cases m) (simp add: build_simps)

lemma build_Req_Flush [builds]:
  "hdr_op m = 108 \<Longrightarrow> built_Request (Req_Flush m)"
  using Req_Flush_setOldTag
    [OF Req_Flush_setTag
    [OF new_Req_Flush [OF refl], of "hdr_tag m"], of "fl_oldtag m"]
  by (cases m) (simp add: build_simps)

lemma build_Req_Walk [builds]:
  "hdr_op m = 110 \<Longrightarrow> built_Request (Req_Walk m)"
  using Req_Walk_getWname
    [OF Req_Walk_setNewFid
    [OF Req_Walk_setFid
    [OF Req_Walk_setTag
    [OF new_Req_Walk [OF refl], of "hdr_tag m"], of "hf_fid (wk_HasFid m)"], of "wk_newfid m"],
      of "wk_wname m"]
  by (cases m) (simp add: build_simps)

lemma build_Req_Open [builds]:
  "hdr_op m = 112 \<Longrightarrow> built_Request (Req_Open m)"
  using Req_Open_setMode
    [OF Req_Open_setFid
    [OF Req_Open_setTag
    [OF new_Req_Open [OF refl], of "hdr_tag m"], of "hf_fid (op_HasFid m)"], of "op_mode m"]
  by (cases m) (simp add: build_simps)

lemma build_Req_Create [builds]:
  "hdr_op m = 114 \<Longrightarrow> built_Request (Req_Create m)"
  using Req_Create_setMode
    [OF Req_Create_setPermissions
    [OF Req_Create_setName
    [OF Req_Create_setFid
    [OF Req_Create_setTag
    [OF new_Req_Create [OF refl], of "hdr_tag m"], of "hf_fid (cr_HasFid m)"],
      of "hn_name (cr_HasName m)"], of "cr_perm m"], of "cr_mode m"]
  by (cases m) (simp add: build_simps)

lemma build_Req_Read [builds]:
  "hdr_op m = 116 \<Longrightarrow> built_Request (Req_Read m)"
  using Req_Read_setCount
    [OF Req_Read_setOffset
    [OF Req_Read_setFid
    [OF Req_Read_setTag
    [OF new_Req_Read [OF refl], of "hdr_tag m"], of "hf_fid (fr_HasFid m)"],
      of "ho_offset (rw_HasOffset m)"], of "hc_count (rd_HasCount m)"]
  by (cases m) (simp add: build_simps)

lemma build_Req_Write [builds]:
  "hdr_op m = 118 \<Longrightarrow> built_Request (Req_Write m)"
  using Req_Write_getData
    [OF Req_Write_setOffset
    [OF Req_Write_setFid
    [OF Req_Write_setTag
    [OF new_Req_Write [OF refl], of "hdr_tag m"], of "hf_fid (fr_HasFid m)"],
      of "ho_offset (rw_HasOffset m)"], of "hd_data (wr_HasDataStorage m)"]
  by (cases m) (simp add: build_simps)

lemma build_Req_Clunk [builds]:
  "hdr_op m = 120 \<Longrightarrow> built_Request (Req_Clunk m)"
  using Req_Clunk_setFid
    [OF Req_Clunk_setTag
    [OF new_Req_Clunk [OF refl], of "hdr_tag m"], of "hf_fid (fr_HasFid m)"]
  by (cases m) (simp add: build_simps)

lemma build_Req_Remove [builds]:
  "hdr_op m = 122 \<Longrightarrow> built_Request (Req_Remove m)"
  using Req_Remove_setFid
    [OF Req_Remove_setTag
    [OF new_Req_Remove [OF refl], of "hdr_tag m"], of "hf_fid (fr_HasFid m)"]
  by (cases m) (simp add: build_simps)

lemma build_Req_Stat [builds]:
  "hdr_op m = 124 \<Longrightarrow> built_Request (Req_Stat m)"
  using Req_Stat_setFid
    [OF Req_Stat_setTag
    [OF new_Req_Stat [OF refl], of "hdr_tag m"], of "hf_fid (fr_HasFid m)"]
  by (cases m) (simp add: build_simps)

lemma build_Req_WStat [builds]:
  "hdr_op m = 126 \<Longrightarrow> built_Request (Req_WStat m)"
  using Req_WStat_setStat
    [OF Req_WStat_setFid
    [OF Req_WStat_setTag
    [OF new_Req_WStat [OF refl], of "hdr_tag m"],
      of "hf_fid (ws_HasFid m)"] made_Stat_all, of "ws_stat m"]
  by (cases m) (simp add: build_simps)

lemma Request_built: "op_Request r = code_Request r \<Longrightarrow> untagged_Request r \<Longrightarrow> built_Request r"
  by (cases r) (simp_all add: builds)

lemma build_Resp_Undefined [builds]:
  "hdr_op m = 255 \<Longrightarrow> built_Response (Resp_Undefined m)"
  using Resp_Undefined_setTag
    [OF new_Resp_Undefined [OF refl], of "hdr_tag m"]
  by (cases m) (simp add: build_simps)

lemma build_Resp_Version [builds]:
  "hdr_op m = 101 \<Longrightarrow> hdr_tag m = 0xFFFF \<Longrightarrow> built_Response (Resp_Version m)"
  using Resp_Version_setVersion
    [OF Resp_Version_setMsize
    [OF new_Resp_Version [OF refl, of 0], of "vm_msize m"], of "vm_version m"]
  by (cases m) (simp add: build_simps)

lemma build_Resp_Auth [builds]:
  "hdr_op m = 103 \<Longrightarrow> built_Response (Resp_Auth m)"
  using Resp_Auth_setQid
    [OF Resp_Auth_setTag
    [OF new_Resp_Auth [OF refl], of "hdr_tag m"], of "qid_type (hq_qid (aur_HasQid m))"
      "qid_path (hq_qid (aur_HasQid m))" "qid_version (hq_qid (aur_HasQid m))"]
  by (cases m) (simp add: build_simps)

lemma build_Resp_Attach [builds]:
  "hdr_op m = 105 \<Longrightarrow> built_Response (Resp_Attach m)"
  using Resp_Attach_setQid
    [OF Resp_Attach_setTag
    [OF new_Resp_Attach [OF refl], of "hdr_tag m"], of "qid_type (hq_qid (atr_HasQid m))"
      "qid_path (hq_qid (atr_HasQid m))" "qid_version (hq_qid (atr_HasQid m))"]
  by (cases m) (simp add: build_simps)

lemma build_Resp_Error [builds]:
  "hdr_op m = 107 \<Longrightarrow> built_Response (Resp_Error m)"
  using Resp_Error_setErrorName
    [OF Resp_Error_setTag
    [OF new_Resp_Error [OF refl], of "hdr_tag m"], of "er_ename m"]
  by (cases m) (simp add: build_simps)

lemma build_Resp_Flush [builds]:
  "hdr_op m = 109 \<Longrightarrow> built_Response (Resp_Flush m)"
  using Resp_Flush_setTag
    [OF new_Resp_Flush [OF refl], of "hdr_tag m"]
  by (cases m) (simp add: build_simps)

lemma build_Resp_Walk [builds]:
  "hdr_op m = 111 \<Longrightarrow> built_Response (Resp_Walk m)"
  using Resp_Walk_getWqid
    [OF Resp_Walk_setTag
    [OF new_Resp_Walk [OF refl], of "hdr_tag m"], of "wkr_wqid m"]
  by (cases m) (simp add: build_simps)

lemma build_Resp_Open [builds]:
  "hdr_op m = 113 \<Longrightarrow> built_Response (Resp_Open m)"
  using Resp_Open_setIounit
    [OF Resp_Open_setQid
    [OF Resp_Open_setTag
    [OF new_Resp_Open [OF refl], of "hdr_tag m"], of "qid_type (hq_qid (oc_HasQid m))"
      "qid_path (hq_qid (oc_HasQid m))" "qid_version (hq_qid (oc_HasQid m))"], of "oc_iounit m"]
  by (cases m) (simp add: build_simps)

lemma build_Resp_Create [builds]:
  "hdr_op m = 115 \<Longrightarrow> built_Response (Resp_Create m)"
  using Resp_Create_setIounit
    [OF Resp_Create_setQid
    [OF Resp_Create_setTag
    [OF new_Resp_Create [OF refl], of "hdr_tag m"], of "qid_type (hq_qid (oc_HasQid m))"
      "qid_path (hq_qid (oc_HasQid m))" "qid_version (hq_qid (oc_HasQid m))"], of "oc_iounit m"]
  by (cases m) (simp add: build_simps)

lemma build_Resp_Read [builds]:
  "hdr_op m = 117 \<Longrightarrow> built_Response (Resp_Read m)"
  using Resp_Read_getData
    [OF Resp_Read_setTag
    [OF new_Resp_Read [OF refl], of "hdr_tag m"], of "hd_data (rdr_HasDataStorage m)"]
  by (cases m) (simp add: build_simps)

lemma build_Resp_Write [builds]:
  "hdr_op m = 119 \<Longrightarrow> built_Response (Resp_Write m)"
  using Resp_Write_setCount
    [OF Resp_Write_setTag
    [OF new_Resp_Write [OF refl], of "hdr_tag m"], of "hc_count (wrr_HasCount m)"]
  by (cases m) (simp add: build_simps)

lemma build_Resp_Clunk [builds]:
  "hdr_op m = 121 \<Longrightarrow> built_Response (Resp_Clunk m)"
  using Resp_Clunk_setTag
    [OF new_Resp_Clunk [OF refl], of "hdr_tag m"]
  by (cases m) (simp add: build_simps)

lemma build_Resp_Remove [builds]:
  "hdr_op m = 123 \<Longrightarrow> built_Response (Resp_Remove m)"
  using Resp_Remove_setTag
    [OF new_Resp_Remove [OF refl], of "hdr_tag m"]
  by (cases m) (simp add: build_simps)

lemma build_Resp_Stat [builds]:
  "hdr_op m = 125 \<Longrightarrow> built_Response (Resp_Stat m)"
  using Resp_Stat_setData
    [OF Resp_Stat_setTag
    [OF new_Resp_Stat [OF refl], of "hdr_tag m"], of "sr_data m"]
  by (cases m) (simp add: build_simps)

lemma build_Resp_WStat [builds]:
  "hdr_op m = 127 \<Longrightarrow> built_Response (Resp_WStat m)"
  using Resp_WStat_setTag
    [OF new_Resp_WStat [OF refl], of "hdr_tag m"]
  by (cases m) (simp add: build_simps)

lemma Response_built: "op_Response r = code_Response r \<Longrightarrow> untagged_Response r \<Longrightarrow> built_Response r"
  by (cases r) (simp_all add: builds)

section \<open>Property\<close>

text \<open>
  C14. The messages a program can make. Whatever setters are called, and in whatever order, on a
  default-constructed message, it keeps the operation code that the protocol gives its class, and
  a version message the tag \<^verbatim>\<open>0xFFFF\<close>; and every object of which this is true can be made,
  every other member having the value it was given by its setter. So can every stat. The
  well-formed messages, of which the other theorems speak, are those with the code of their class.
\<close>

theorem built_iff_well_formed:
  "(built_Request r \<longleftrightarrow> op_Request r = code_Request r \<and> untagged_Request r) \<and>
   (built_Response q \<longleftrightarrow> op_Response q = code_Response q \<and> untagged_Response q) \<and>
   made_Stat st \<and>
   (wf_Request r \<longleftrightarrow> op_Request r = code_Request r) \<and> (wf_Response q \<longleftrightarrow> op_Response q = code_Response q)"
  using built_Request_code built_Response_code Request_built Response_built made_Stat_all wf_code by blast

end
