(* ===== verification/Message_Properties.thy ===== *)
theory Message_Properties
  imports Interaction Stream_Properties
begin

text \<open>
  The properties of messages and interactions: what is written, what comes back, which streams
  are refused and which are not.
\<close>

section \<open>Definitions used in the statements\<close>

text \<open>The strings a message carries.\<close>

fun strings_Request :: "Request \<Rightarrow> std_string list" where
  "strings_Request (Req_Version m) = [vm_version m]"
| "strings_Request (Req_Auth m) = [au_uname m, au_aname m]"
| "strings_Request (Req_Attach m) = [at_uname m, at_aname m]"
| "strings_Request (Req_Walk m) = wk_wname m"
| "strings_Request (Req_Create m) = [hn_name (cr_HasName m)]"
| "strings_Request (Req_WStat m) =
     [hn_name (st_HasName (ws_stat m)), st_uid (ws_stat m), st_gid (ws_stat m), st_muid (ws_stat m)]"
| "strings_Request _ = []"

fun strings_Response :: "Response \<Rightarrow> std_string list" where
  "strings_Response (Resp_Version m) = [vm_version m]"
| "strings_Response (Resp_Error m) = [er_ename m]"
| "strings_Response (Resp_Stat m) = [sr_data m]"
| "strings_Response _ = []"

fun strings_Interaction :: "Interaction \<Rightarrow> std_string list" where
  "strings_Interaction (Interaction_Response r) = strings_Response r"
| "strings_Interaction (Interaction_Request r) = strings_Request r"

section \<open>Lemmas\<close>

lemma seen_Qid_LeftFirst [simp]: "seen_Qid LeftFirst q = q"
  by (simp add: seen_Qid_def seen_u64_def)

lemma mixin_surjective [simp]:
  "\<lparr>hq_qid = hq_qid h\<rparr> = (h :: HasQid)" "\<lparr>ho_offset = ho_offset p\<rparr> = (p :: HasOffset)"
  by simp_all

lemma map_blank_eq: "map (\<lambda>_. []) xs = xs \<longleftrightarrow> (\<forall>v \<in> set xs. v = [])"
  by (induction xs) auto

lemma HasName_eq: "\<lparr>hn_name = v\<rparr> = (n :: HasName) \<longleftrightarrow> hn_name n = v"
  by (cases n) auto

lemma seen_Stat_LeftFirst:
  "seen_Stat LeftFirst Stat_zero st = st \<longleftrightarrow>
     hn_name (st_HasName st) = [] \<and> st_uid st = [] \<and> st_gid st = [] \<and> st_muid st = []"
  by (cases st) (auto simp: seen_Stat_def Stat_zero_def seen_u64_def HasName_eq)

lemma reads_only_Request: "c \<noteq> Undefined \<Longrightarrow> reads_only (Request_decode ord (emplace_Request u c))"
  by (cases c) (simp_all add: reads_only_intros)

lemma reads_only_Response: "c \<noteq> Undefined \<Longrightarrow> reads_only (Response_decode ord (emplace_Response u c))"
  by (cases c) (simp_all add: reads_only_intros)

lemma decode_emplaced_frame:
  assumes "reads_only (dec fresh)" and "decode_emplaced dec fresh s = (r, a, s')"
  shows "ss_buf s' = ss_buf s \<and> ss_put s' = ss_put s \<and> ss_get s \<le> ss_get s' \<and> \<not> is_Throw r"
proof -
  obtain r1 s1 where d: "dec fresh s = (r1, s1)" by (cases "dec fresh s")
  from reads_onlyD [OF assms(1) d] d assms(2) show ?thesis
    by (auto simp: decode_emplaced_def split: result.splits)
qed

lemmas request_emplaced_frame = decode_emplaced_frame
    [where dec = "Request_decode ord" and fresh = "emplace_Request u c" for ord u c, OF reads_only_Request]
  and response_emplaced_frame = decode_emplaced_frame
    [where dec = "Response_decode ord" and fresh = "emplace_Response u c" for ord u c, OF reads_only_Response]

lemma extract_Request_cases:
  "extract_Request ord u t s =
     (case MessageStream_peek s of (op, s') \<Rightarrow>
        (case op of
           Some b \<Rightarrow> if convert b = Undefined then (Throw illegal_type, t, s')
             else decode_emplaced (Request_decode ord) (emplace_Request u (convert b)) s'
         | None \<Rightarrow> (Throw cannot_deduce, t, s')))"
  by (simp add: extract_Request_def split: option.split ConceptualOperation.split prod.split)

lemma extract_Response_cases:
  "extract_Response ord u t s =
     (case MessageStream_peek s of (op, s') \<Rightarrow>
        (case op of
           Some b \<Rightarrow> if convert b = Undefined then (Throw illegal_type, t, s')
             else decode_emplaced (Response_decode ord) (emplace_Response u (convert b)) s'
         | None \<Rightarrow> (Throw cannot_deduce, t, s')))"
  by (simp add: extract_Response_def split: option.split ConceptualOperation.split prod.split)

lemma received_eq_iff:
  "received_Interaction LeftFirst i = i \<longleftrightarrow> (\<forall>v \<in> set (strings_Interaction i). v = [])"
proof (cases i)
  case (Interaction_Request r)
  then show ?thesis
  proof (cases r)
    case (Req_Create m)
    with Interaction_Request show ?thesis by (cases m) (auto simp: HasName_eq)
  next
    case (Req_WStat m)
    with Interaction_Request show ?thesis by (cases m) (auto simp: seen_Stat_LeftFirst)
  next
    case (Req_Walk m)
    with Interaction_Request show ?thesis by (cases m) (auto simp: map_blank_eq)
  next
    case (Req_Version m)
    with Interaction_Request show ?thesis by (cases m) auto
  next
    case (Req_Auth m)
    with Interaction_Request show ?thesis by (cases m) auto
  next
    case (Req_Attach m)
    with Interaction_Request show ?thesis by (cases m) auto
  qed (simp_all add: seen_u64_def)
next
  case (Interaction_Response r)
  then show ?thesis
  proof (cases r)
    case (Resp_Version m)
    with Interaction_Response show ?thesis by (cases m) auto
  next
    case (Resp_Error m)
    with Interaction_Response show ?thesis by (cases m) auto
  next
    case (Resp_Stat m)
    with Interaction_Response show ?thesis by (cases m) auto
  next
    case (Resp_Walk m)
    with Interaction_Response show ?thesis by (cases m) (auto simp: map_idI)
  qed simp_all
qed

section \<open>Properties\<close>

text \<open>
  C1. Messages arrive in order. Any list of interactions that can be sent, written to a new
  stream one after the other, is received from that stream one by one: the same alternatives in
  the same order, each as \<open>received_Interaction\<close> says, until the stream is used up. What the
  receiving variant held before and what the memory held do not matter.
\<close>

theorem interactions_in_order:
  assumes "\<forall>i \<in> set is. sendable_Interaction i \<and> wf_Interaction i"
    and "length (concat (map wire_Interaction is)) \<le> m" and "2 ^ 20 \<le> m"
  shows "\<exists>s s'. seqM (map Interaction_encode is) (ss_new m) = (Ok (), s) \<and>
    receive (extract_Interaction ord u) t (length is) s = (Ok (map (received_Interaction ord) is), s') \<and>
    ss_good s' \<and> ss_get s' = length (ss_buf s')"
  using assms by (rule interactions.send_receive)

theorem interactions_in_order_witness:
  "\<exists>s s'. seqM (map Interaction_encode
      [Interaction_Request (emplace_Request 0 Clunk), Interaction_Response (emplace_Response 0 Clunk)])
      (ss_new (2 ^ 20)) = (Ok (), s) \<and>
    receive (extract_Interaction LeftFirst 7) (Interaction_Request (emplace_Request 0 Walk))
      (length [Interaction_Request (emplace_Request 0 Clunk), Interaction_Response (emplace_Response 0 Clunk)]) s =
      (Ok (map (received_Interaction LeftFirst)
        [Interaction_Request (emplace_Request 0 Clunk), Interaction_Response (emplace_Response 0 Clunk)]), s') \<and>
    ss_good s' \<and> ss_get s' = length (ss_buf s')"
  by (rule interactions_in_order)
    (simp_all add: wf_Request_def wf_Response_def wire_FidRequest_def wire_header_def)

text \<open>
  C10. What survives the journey. An interaction that can be sent, encoded to a new stream, is read
  back from it; with arguments evaluated from left to right, what is read back is the interaction
  that was sent exactly when all its strings are empty: every number, every Qid and all data come
  through, no character of a string does.
\<close>

theorem received_unchanged_iff:
  assumes "sendable_Interaction i" and "wf_Interaction i"
    and "length (wire_Interaction i) \<le> m" and "2 ^ 20 \<le> m"
  shows "\<exists>s j s'. Interaction_encode i (ss_new m) = (Ok (), s) \<and>
    extract_Interaction LeftFirst u t s = (Ok (), j, s') \<and>
    (j = i \<longleftrightarrow> (\<forall>v \<in> set (strings_Interaction i). v = []))"
proof -
  from interactions.enc_all_new [of "[i]" m] assms(1,3,4)
  have "Interaction_encode i (ss_new m) =
      (Ok (), reading ((ss_new m)\<lparr>ss_put := length (wire_Interaction i)\<rparr>) [] (wire_Interaction i @ []))"
    by (auto simp: thenM_def bindM_Ok_iff)
  moreover have "ss_good ((ss_new m)\<lparr>ss_put := length (wire_Interaction i)\<rparr>)"
    by (simp add: ss_good_def ss_new_def)
  ultimately show ?thesis
    using extract_Interaction_wire [OF assms(1,2)] received_eq_iff [of i] by blast
qed

theorem received_unchanged_iff_witness:
  "\<exists>s s'. Interaction_encode (Interaction_Request (emplace_Request 0 Read)) (ss_new (2 ^ 20)) = (Ok (), s) \<and>
     extract_Interaction LeftFirst 0 (Interaction_Request (emplace_Request 0 Walk)) s =
       (Ok (), Interaction_Request (emplace_Request 0 Read), s')"
  using received_unchanged_iff [of "Interaction_Request (emplace_Request 0 Read)" "2 ^ 20" 0
      "Interaction_Request (emplace_Request 0 Walk)"]
  by (simp add: wf_Request_def wire_ReadRequest_def wire_header_def)

text \<open>
  C4. Type safety of decoding. Whatever bytes a stream holds, when an interaction has been read
  from it the alternative of the variant agrees with the operation code that was read, in kind
  and in direction.
\<close>

theorem extract_Interaction_type_safe:
  assumes "extract_Interaction ord u t s = (Ok (), i, s')"
  shows "wf_Interaction i \<and> op_Interaction i = ss_buf s ! ss_get s"
proof -
  obtain b s1 where p: "MessageStream_peek s = (Some b, s1)"
    using assms by (cases "MessageStream_peek s") (auto simp: extract_Interaction_def split: option.splits)
  show ?thesis
  proof (cases "isRequest b")
    case True
    then obtain r where r: "extract_Request ord u (emplace_Request u Undefined) s1 = (Ok (), r, s')"
      and i: "i = Interaction_Request r"
      using assms p by (auto simp: extract_Interaction_def split: prod.splits)
    from extract_Request_Ok [OF r] peek_good [OF p] have e: "s1 = s" "op_Request r = b"
      "b = ss_buf s ! ss_get s" "kind_Request r = convert b" by auto
    have "convert b \<noteq> Undefined"
      using r p e(1) by (auto simp: extract_Request_cases)
    from form_translate [OF this] True i e show ?thesis by (simp add: wf_Request_def)
  next
    case False
    then obtain r where r: "extract_Response ord u (emplace_Response u Undefined) s1 = (Ok (), r, s')"
      and i: "i = Interaction_Response r"
      using assms p by (auto simp: extract_Interaction_def split: prod.splits)
    from extract_Response_Ok [OF r] peek_good [OF p] have e: "s1 = s" "op_Response r = b"
      "b = ss_buf s ! ss_get s" "kind_Response r = convert b" by auto
    have "convert b \<noteq> Undefined"
      using r p e(1) by (auto simp: extract_Response_cases)
    from form_translate [OF this] False i e show ?thesis by (simp add: wf_Response_def)
  qed
qed

theorem extract_Interaction_type_safe_witness:
  "\<exists>i s'. extract_Interaction LeftFirst 0 (Interaction_Request (emplace_Request 0 Walk))
       (reading (ss_new 9) [] (wire_Interaction (Interaction_Response (emplace_Response 0 Flush)) @ [])) =
       (Ok (), i, s') \<and>
     wf_Interaction i \<and> op_Interaction i = RFlush"
proof -
  let ?f = "Interaction_Response (emplace_Response 0 Flush)"
  let ?s = "reading (ss_new 9) [] (wire_Interaction ?f @ [])"
  have e: "extract_Interaction LeftFirst 0 (Interaction_Request (emplace_Request 0 Walk)) ?s =
      (Ok (), received_Interaction LeftFirst ?f, reading (ss_new 9) ([] @ wire_Interaction ?f) [])"
    by (rule extract_Interaction_wire) (simp_all add: wf_Response_def)
  from extract_Interaction_type_safe [OF e] have "wf_Interaction (received_Interaction LeftFirst ?f)" by blast
  with e show ?thesis by (simp add: translateConcept_def)
qed

text \<open>
  C13. Which streams are refused. On a good stream, reading an interaction throws in exactly two
  ways: the next byte is zero and the type \<open>cannot be deduced\<close>; or the next byte is no operation
  of the protocol, or there is no next byte, and an \<open>illegal type\<close> is found. In particular an
  exhausted stream is reported as an illegal type and not as a stream in a bad state.
\<close>

theorem extract_Interaction_refuses:
  assumes "ss_good s"
  shows "(fst (extract_Interaction ord u t s) = Throw cannot_deduce \<longleftrightarrow>
      ss_get s < length (ss_buf s) \<and> ss_buf s ! ss_get s = 0) \<and>
    (fst (extract_Interaction ord u t s) = Throw illegal_type \<longleftrightarrow>
      (ss_get s < length (ss_buf s) \<longrightarrow>
         ss_buf s ! ss_get s \<noteq> 0 \<and> convert (ss_buf s ! ss_get s) = Undefined)) \<and>
    (is_Throw (fst (extract_Interaction ord u t s)) \<longrightarrow>
      fst (extract_Interaction ord u t s) \<in> {Throw cannot_deduce, Throw illegal_type})"
proof -
  have ne: "cannot_deduce \<noteq> illegal_type"
    by (simp add: cannot_deduce_def illegal_type_def Exception_ctor_def)
  show ?thesis
  proof (cases "ss_get s < length (ss_buf s)")
    case False
    have "convert 0xFF = Undefined" by (simp add: convert_def)
    moreover have "\<not> isRequest 0xFF" by (simp add: isRequest_def isEven_def)
    moreover have "\<not> ss_good (s\<lparr>ss_eof := True\<rparr>)" by (simp add: ss_good_def)
    ultimately show ?thesis
      using False assms ne peek_at_end [OF assms False] peek_not_good [of "s\<lparr>ss_eof := True\<rparr>"]
      by (simp add: extract_Interaction_def extract_Response_cases)
  next
    case True
    let ?b = "ss_buf s ! ss_get s"
    have peek: "MessageStream_peek s = (if ?b = 0 then None else Some ?b, s)"
      using True assms by (rule peek_ahead [rotated])
    have req: "\<not> is_Throw (fst (decode_emplaced (Request_decode ord) (emplace_Request u (convert ?b)) s))"
      if "convert ?b \<noteq> Undefined"
      using request_emplaced_frame [OF that] by (metis prod.collapse)
    have resp: "\<not> is_Throw (fst (decode_emplaced (Response_decode ord) (emplace_Response u (convert ?b)) s))"
      if "convert ?b \<noteq> Undefined"
      using response_emplaced_frame [OF that] by (metis prod.collapse)
    show ?thesis
      using True ne peek req resp
      by (auto simp: extract_Interaction_def extract_Request_cases extract_Response_cases is_Throw_iff
          split: prod.splits)
  qed
qed

theorem extract_Interaction_refuses_witness:
  "fst (extract_Interaction LeftFirst 0 (Interaction_Request (emplace_Request 0 Walk)) (ss_new 9)) =
     Throw illegal_type"
  using extract_Interaction_refuses [OF ss_good_new(1) [of 9], of LeftFirst 0
      "Interaction_Request (emplace_Request 0 Walk)"]
  by (simp add: ss_new_def)

text \<open>
  C28. A stat is sent whole or not at all. It is sent when its four strings have at most 65488
  characters together, as the length of the inner message followed by it; otherwise the encoder
  throws and has written nothing, although it has already encoded the fields.
\<close>

theorem Stat_encode_behaviour:
  assumes "ample s"
  shows "if length (hn_name (st_HasName st)) + length (st_uid st) + length (st_gid st) +
        length (st_muid st) \<le> 65488
    then Stat_encode st s = (Ok (), put_bytes (wire_string (wire_Stat_inner st)) s)
    else (\<exists>e. Stat_encode st s = (Throw e, s))"
proof -
  have f: "fits_Stat st \<longleftrightarrow> length (hn_name (st_HasName st)) + length (st_uid st) +
      length (st_gid st) + length (st_muid st) \<le> 65488"
    by (auto simp: fits_Stat_def fits_u16_def length_wire_Stat_inner)
  have same: "Stat_encode st s = (Throw e, s') \<Longrightarrow> s' = s" for e s'
    by (auto simp: Stat_encode_def encode_string_def Let_def encode_u16_put encode_bytes_put
        split: prod.splits result.splits if_splits)
  show ?thesis
    using emits_Ok [OF emits_Stat _ assms, of st] emits_Throw [OF emits_Stat _ assms, of st] f same
    by (auto simp: wire_Stat_def)
qed

theorem Stat_encode_behaviour_witness:
  "Stat_encode Stat_zero (ss_new (2 ^ 20)) =
     (Ok (), put_bytes (wire_string (wire_Stat_inner Stat_zero)) (ss_new (2 ^ 20)))"
  using Stat_encode_behaviour [of "ss_new (2 ^ 20)" Stat_zero] by (simp add: ample_new Stat_zero_def)

text \<open>
  C29. Decoding into a used object. The two vectors and the data of a message that is decoded into
  are not cleared. What arrives is appended to what the object held: to the names of a walk request
  as many names, each empty; to the Qids of a walk response the Qids, their paths with the halves as
  the order of evaluation has them; to the data of a read response and of a write request the bytes.
  Every other member is replaced.
\<close>

theorem decode_appends:
  assumes "ss_good s" and "fits_WalkRequest n" and "fits_WalkResponse w" and "fits_ReadResponse d"
    and "fits_WriteRequest b"
  shows "WalkRequest_decode tn (reading s pre (wire_WalkRequest n @ post)) =
      (Ok (n\<lparr>wk_wname := wk_wname tn @ replicate (length (wk_wname n)) []\<rparr>),
       reading s (pre @ wire_WalkRequest n) post) \<and>
    WalkResponse_decode ord tw (reading s pre (wire_WalkResponse w @ post)) =
      (Ok (w\<lparr>wkr_wqid := wkr_wqid tw @
         map (\<lambda>q. q\<lparr>qid_path := seen_u64 ord (qid_path q)\<rparr>) (wkr_wqid w)\<rparr>),
       reading s (pre @ wire_WalkResponse w) post) \<and>
    ReadResponse_decode td (reading s pre (wire_ReadResponse d @ post)) =
      (Ok (d\<lparr>rdr_HasDataStorage := \<lparr>hd_data = hd_data (rdr_HasDataStorage td) @
         hd_data (rdr_HasDataStorage d)\<rparr>\<rparr>),
       reading s (pre @ wire_ReadResponse d) post) \<and>
    WriteRequest_decode ord tb (reading s pre (wire_WriteRequest b @ post)) =
      (Ok (b\<lparr>rw_HasOffset := \<lparr>ho_offset = seen_u64 ord (ho_offset (rw_HasOffset b))\<rparr>,
         wr_HasDataStorage := \<lparr>hd_data = hd_data (wr_HasDataStorage tb) @
           hd_data (wr_HasDataStorage b)\<rparr>\<rparr>),
       reading s (pre @ wire_WriteRequest b) post)"
proof (intro conjI)
  show "WalkRequest_decode tn (reading s pre (wire_WalkRequest n @ post)) =
      (Ok (n\<lparr>wk_wname := wk_wname tn @ replicate (length (wk_wname n)) []\<rparr>),
       reading s (pre @ wire_WalkRequest n) post)"
    using walk_request.dec_wire [OF assms(2,1)] by (simp add: seen_WalkRequest_def map_replicate_const)
  show "WalkResponse_decode ord tw (reading s pre (wire_WalkResponse w @ post)) =
      (Ok (w\<lparr>wkr_wqid := wkr_wqid tw @
         map (\<lambda>q. q\<lparr>qid_path := seen_u64 ord (qid_path q)\<rparr>) (wkr_wqid w)\<rparr>),
       reading s (pre @ wire_WalkResponse w) post)"
    using walk_response.dec_wire [OF assms(3,1)] by (simp add: seen_WalkResponse_def seen_Qid_def)
  show "ReadResponse_decode td (reading s pre (wire_ReadResponse d @ post)) =
      (Ok (d\<lparr>rdr_HasDataStorage := \<lparr>hd_data = hd_data (rdr_HasDataStorage td) @
         hd_data (rdr_HasDataStorage d)\<rparr>\<rparr>),
       reading s (pre @ wire_ReadResponse d) post)"
    using read_response.dec_wire [OF assms(4,1)] by (simp add: seen_ReadResponse_def)
  show "WriteRequest_decode ord tb (reading s pre (wire_WriteRequest b @ post)) =
      (Ok (b\<lparr>rw_HasOffset := \<lparr>ho_offset = seen_u64 ord (ho_offset (rw_HasOffset b))\<rparr>,
         wr_HasDataStorage := \<lparr>hd_data = hd_data (wr_HasDataStorage tb) @
           hd_data (wr_HasDataStorage b)\<rparr>\<rparr>),
       reading s (pre @ wire_WriteRequest b) post)"
    using write_request.dec_wire [OF assms(5,1)] by (simp add: seen_WriteRequest_def)
qed

theorem decode_appends_witness:
  "ReadResponse_decode
      \<lparr>hdr_op = RRead, hdr_tag = 1, rdr_HasDataStorage = \<lparr>hd_data = [1, 2]\<rparr>\<rparr>
      (reading (ss_new 99) [] (wire_ReadResponse
        \<lparr>hdr_op = RRead, hdr_tag = 1, rdr_HasDataStorage = \<lparr>hd_data = [3]\<rparr>\<rparr> @ [])) =
    (Ok \<lparr>hdr_op = RRead, hdr_tag = 1, rdr_HasDataStorage = \<lparr>hd_data = [1, 2, 3]\<rparr>\<rparr>,
     reading (ss_new 99) ([] @ wire_ReadResponse
        \<lparr>hdr_op = RRead, hdr_tag = 1, rdr_HasDataStorage = \<lparr>hd_data = [3]\<rparr>\<rparr>) []) \<and>
   WalkRequest_decode
      \<lparr>hdr_op = TWalk, hdr_tag = 1, wk_HasFid = \<lparr>hf_fid = 2\<rparr>, wk_newfid = 3, wk_wname = [[97]]\<rparr>
      (reading (ss_new 99) [] (wire_WalkRequest
        \<lparr>hdr_op = TWalk, hdr_tag = 4, wk_HasFid = \<lparr>hf_fid = 5\<rparr>, wk_newfid = 6, wk_wname = [[98]]\<rparr> @ [])) =
    (Ok \<lparr>hdr_op = TWalk, hdr_tag = 4, wk_HasFid = \<lparr>hf_fid = 5\<rparr>, wk_newfid = 6, wk_wname = [[97], []]\<rparr>,
     reading (ss_new 99) ([] @ wire_WalkRequest
        \<lparr>hdr_op = TWalk, hdr_tag = 4, wk_HasFid = \<lparr>hf_fid = 5\<rparr>, wk_newfid = 6, wk_wname = [[98]]\<rparr>) [])"
  using decode_appends [where s = "ss_new 99" and pre = "[]" and post = "[]"
      and n = "\<lparr>hdr_op = TWalk, hdr_tag = 4, wk_HasFid = \<lparr>hf_fid = 5\<rparr>, wk_newfid = 6, wk_wname = [[98]]\<rparr>"
      and tn = "\<lparr>hdr_op = TWalk, hdr_tag = 1, wk_HasFid = \<lparr>hf_fid = 2\<rparr>, wk_newfid = 3, wk_wname = [[97]]\<rparr>"
      and d = "\<lparr>hdr_op = RRead, hdr_tag = 1, rdr_HasDataStorage = \<lparr>hd_data = [3]\<rparr>\<rparr>"
      and td = "\<lparr>hdr_op = RRead, hdr_tag = 1, rdr_HasDataStorage = \<lparr>hd_data = [1, 2]\<rparr>\<rparr>"
      and w = "\<lparr>hdr_op = RWalk, hdr_tag = 1, wkr_wqid = []\<rparr>"
      and b = "\<lparr>hdr_op = TWrite, hdr_tag = 1, fr_HasFid = \<lparr>hf_fid = 0\<rparr>, rw_HasOffset = \<lparr>ho_offset = 0\<rparr>,
        wr_HasDataStorage = \<lparr>hd_data = []\<rparr>\<rparr>"]
  by (simp add: fits_WalkRequest_def fits_WalkResponse_def fits_ReadResponse_def fits_WriteRequest_def
      fits_u16_def fits_data_def)

end
