(* ===== verification/Reading_Properties.thy ===== *)
theory Reading_Properties
  imports Message_Properties Accepted_Streams
begin

text \<open>
  The properties of reading interactions that follow from the wire format being a prefix code
  and from what the decoders accept: the streams that are read without a failure are exactly the
  wire formats, a message that is cut off is noticed, and a stream is read to its end in
  finitely many steps.
\<close>

section \<open>Clean reads\<close>

lemma stat_lax_dec:
  assumes "strings_fit_Stat st" and "ss_good s"
  shows "Stat_decode ord t (reading s pre (lax_wire_Stat len st @ post)) =
    (Ok (seen_Stat ord t st), reading s (pre @ lax_wire_Stat len st) post)"
  using assms
  by (simp add: Stat_decode_def lax_wire_Stat_def wire_Stat_inner_def seen_Stat_def strings_fit_Stat_def
      codec_simps)

lemma Request_decode_lax:
  assumes "lax_sendable_Request r" and "ss_good s"
  shows "Request_decode ord (emplace_Request u (kind_Request r)) (reading s pre (lax_wire_Request len r @ post)) =
    (Ok (received_Request ord r), reading s (pre @ lax_wire_Request len r) post)"
proof (cases "kind_Request r = WStat")
  case True
  then obtain m where "r = Req_WStat m" by (auto simp: kind_Request_iff)
  with assms show ?thesis
    by (simp add: WStatRequest_decode_def codec_simps stat_lax_dec)
next
  case False
  then have "lax_wire_Request len r = wire_Request r" "sendable_Request r"
    using assms by (cases r; simp)+
  with assms show ?thesis by (simp add: Request_decode_fresh)
qed

lemma lax_sendable_kind: "lax_sendable_Request r \<Longrightarrow> kind_Request r \<noteq> Undefined"
  by (cases r) simp_all

lemma extract_Interaction_lax:
  assumes "lax_sendable_Interaction i" and "wf_Interaction i" and "ss_good s"
  shows "extract_Interaction ord u t (reading s pre (lax_wire_Interaction len i @ post)) =
    (Ok (), received_Interaction ord i, reading s (pre @ lax_wire_Interaction len i) post)"
proof (cases i)
  case (Interaction_Request r)
  obtain bs where w: "lax_wire_Request len r = op_Request r # bs"
    using lax_wire_Request_hd by blast
  have k: "convert (op_Request r) = kind_Request r" "kind_Request r \<noteq> Undefined" "isRequest (op_Request r)"
    using assms Interaction_Request by (simp_all add: wf_Request_def lax_sendable_kind)
  then have "op_Request r \<noteq> 0" by auto
  with k Request_decode_lax [of r s ord u pre len post] show ?thesis
    using assms Interaction_Request
    by (simp add: extract_Interaction_def peek_op w extract_known decode_emplaced_def)
next
  case (Interaction_Response r)
  with assms extract_Interaction_wire [of i s ord u t pre post] show ?thesis by simp
qed

lemma received_op [simp]:
  "op_Request (received_Request ord r) = op_Request r"
  "op_Response (received_Response ord q) = op_Response q"
  by (cases r, simp_all) (cases q, simp_all)

lemma extract_Request_emplaced:
  assumes "extract_Request ord u t s = (Ok (), r, s')"
  obtains b where "convert b \<noteq> Undefined" and "b = ss_buf s ! ss_get s" and "op_Request r = b"
    and "Request_decode ord (emplace_Request u (convert b)) s = (Ok r, s')"
proof -
  obtain b s1 where p: "MessageStream_peek s = (Some b, s1)" and c: "convert b \<noteq> Undefined"
    and d: "Request_decode ord (emplace_Request u (convert b)) s1 = (Ok r, s')"
    using assms
    by (cases "MessageStream_peek s")
      (auto simp: extract_Request_cases decode_emplaced_def
        split: option.splits prod.splits result.splits if_splits)
  from Request_decode_op [OF d] peek_good [OF p] that c d show thesis by auto
qed

lemma extract_Response_emplaced:
  assumes "extract_Response ord u t s = (Ok (), r, s')"
  obtains b where "convert b \<noteq> Undefined" and "b = ss_buf s ! ss_get s" and "op_Response r = b"
    and "Response_decode ord (emplace_Response u (convert b)) s = (Ok r, s')"
proof -
  obtain b s1 where p: "MessageStream_peek s = (Some b, s1)" and c: "convert b \<noteq> Undefined"
    and d: "Response_decode ord (emplace_Response u (convert b)) s1 = (Ok r, s')"
    using assms
    by (cases "MessageStream_peek s")
      (auto simp: extract_Response_cases decode_emplaced_def
        split: option.splits prod.splits result.splits if_splits)
  from Response_decode_op [OF d] peek_good [OF p] that c d show thesis by auto
qed

lemma extract_Interaction_emplaced:
  assumes "extract_Interaction ord u t s = (Ok (), i, s')"
  obtains (Req) b r where "i = Interaction_Request r" "isRequest b" "convert b \<noteq> Undefined"
      "op_Request r = b" "Request_decode ord (emplace_Request u (convert b)) s = (Ok r, s')"
  | (Resp) b r where "i = Interaction_Response r" "\<not> isRequest b" "convert b \<noteq> Undefined"
      "op_Response r = b" "Response_decode ord (emplace_Response u (convert b)) s = (Ok r, s')"
proof -
  obtain b s1 where p: "MessageStream_peek s = (Some b, s1)"
    using assms by (cases "MessageStream_peek s") (auto simp: extract_Interaction_def split: option.splits)
  show thesis
  proof (cases "isRequest b")
    case True
    then obtain r where r: "extract_Request ord u (emplace_Request u Undefined) s1 = (Ok (), r, s')"
      and i: "i = Interaction_Request r"
      using assms p by (auto simp: extract_Interaction_def split: prod.splits)
    from r show thesis
    proof (rule extract_Request_emplaced)
      fix c assume c: "convert c \<noteq> Undefined" "c = ss_buf s1 ! ss_get s1" "op_Request r = c"
        "Request_decode ord (emplace_Request u (convert c)) s1 = (Ok r, s')"
      with Request_decode_op [OF c(4)] peek_good [OF p] have "s1 = s" "c = b" by auto
      with Req c i True show thesis by auto
    qed
  next
    case False
    then obtain r where r: "extract_Response ord u (emplace_Response u Undefined) s1 = (Ok (), r, s')"
      and i: "i = Interaction_Response r"
      using assms p by (auto simp: extract_Interaction_def split: prod.splits)
    from r show thesis
    proof (rule extract_Response_emplaced)
      fix c assume c: "convert c \<noteq> Undefined" "c = ss_buf s1 ! ss_get s1" "op_Response r = c"
        "Response_decode ord (emplace_Response u (convert c)) s1 = (Ok r, s')"
      with Response_decode_op [OF c(4)] peek_good [OF p] have "s1 = s" "c = b" by auto
      with Resp c i False show thesis by auto
    qed
  qed
qed

lemma clean_read_accepts:
  assumes "extract_Interaction ord u t s = (Ok (), i, s')" and "ss_good s'"
  shows "\<exists>j len. lax_sendable_Interaction j \<and> wf_Interaction j \<and> i = received_Interaction ord j \<and>
    advanced s (lax_wire_Interaction len j) s'"
  using assms(1)
proof (cases rule: extract_Interaction_emplaced)
  case (Req b r)
  from acceptsD [OF accepts_Request [OF Req(3)] Req(5) assms(2)] obtain v len where
    v: "kind_Request v = convert b" "lax_sendable_Request v" "r = received_Request ord v"
      "advanced s (lax_wire_Request len v) s'" by blast
  with Req form_translate [OF Req(3)] have "wf_Request v" by (simp add: wf_Request_def)
  with v Req(1) show ?thesis by (intro exI [of _ "Interaction_Request v"] exI [of _ len]) simp
next
  case (Resp b r)
  from acceptsD [OF accepts_Response [OF Resp(3)] Resp(5) assms(2)] obtain v where
    v: "kind_Response v = convert b" "sendable_Response v" "r = received_Response ord v"
      "advanced s (wire_Response v) s'" by blast
  with Resp form_translate [OF Resp(3)] have "wf_Response v" by (simp add: wf_Response_def)
  with v Resp(1) show ?thesis by (intro exI [of _ "Interaction_Response v"]) simp
qed

section \<open>Bytes used up\<close>

text \<open>\<open>consumes n m\<close>: when the action \<open>m\<close> returns, it has taken at least \<open>n\<close> bytes of the stream.\<close>

definition consumes :: "nat \<Rightarrow> (MessageStream, 'a) action \<Rightarrow> bool" where
  "consumes n m \<longleftrightarrow> (\<forall>s a s'. m s = (Ok a, s') \<longrightarrow>
     ss_good s \<and> ss_buf s' = ss_buf s \<and> ss_get s + n \<le> ss_get s' \<and> ss_get s' \<le> length (ss_buf s))"

lemma consumesD:
  assumes "consumes n m" and "m s = (Ok a, s')"
  shows "ss_good s" "ss_buf s' = ss_buf s" "ss_get s + n \<le> ss_get s'" "ss_get s' \<le> length (ss_buf s)"
  using assms unfolding consumes_def by blast+

lemma consumes_bindM:
  assumes "consumes n m" and "\<And>a. reads_only (f a)"
  shows "consumes n (bindM m f)"
  unfolding consumes_def bindM_Ok_iff
  using consumesD [OF assms(1)] reads_onlyD [OF assms(2)] by (metis order_trans)

lemma consumes_header: "consumes 3 (MessageHeader_decode m)"
  unfolding consumes_def
proof (intro allI impI)
  fix s a s' assume "MessageHeader_decode m s = (Ok a, s')"
  then obtain b s1 v where 1: "decode_u8 s = (Ok b, s1)" and 2: "decode_u16 s1 = (Ok v, s')"
    by (auto simp: MessageHeader_decode_def decode_Operation_def bindM_Ok_iff)
  from 1 have "ss_good s \<and> ss_get s < length (ss_buf s) \<and> s1 = s\<lparr>ss_get := Suc (ss_get s)\<rparr>"
    by (auto simp: decode_u8_def ss_get_char_def split: if_splits)
  with 2 show "ss_good s \<and> ss_buf s' = ss_buf s \<and> ss_get s + 3 \<le> ss_get s' \<and> ss_get s' \<le> length (ss_buf s)"
    by (auto simp: decode_u16_def ss_read_def Let_def split: if_splits)
qed

lemma consumes_Request: "c \<noteq> Undefined \<Longrightarrow> consumes 3 (Request_decode ord (emplace_Request u c))"
  by (cases c; simp add: message_decode_defs)
    ((intro consumes_bindM consumes_header reads_only_intros)+)

lemma consumes_Response: "c \<noteq> Undefined \<Longrightarrow> consumes 3 (Response_decode ord (emplace_Response u c))"
  by (cases c; simp add: message_decode_defs)
    ((intro consumes_bindM consumes_header reads_only_intros)+)

lemma extract_Interaction_consumes:
  assumes "extract_Interaction ord u t s = (Ok (), i, s')"
  shows "ss_good s" "ss_buf s' = ss_buf s" "ss_get s + 3 \<le> ss_get s'" "ss_get s' \<le> length (ss_buf s)"
  using assms by (cases rule: extract_Interaction_emplaced;
    blast dest: consumesD [OF consumes_Request] consumesD [OF consumes_Response])+

lemma receive_consumes:
  "receive (extract_Interaction ord u) t n s = (Ok xs, s') \<Longrightarrow>
     ss_buf s' = ss_buf s \<and> length xs = n \<and> (n = 0 \<or> ss_get s + 3 * n \<le> length (ss_buf s))"
proof (induction n arbitrary: s xs)
  case (Suc n)
  then obtain i s1 ys where i: "extract_Interaction ord u t s = (Ok (), i, s1)"
    and r: "receive (extract_Interaction ord u) t n s1 = (Ok ys, s')" and xs: "xs = i # ys"
    by (auto simp: bindM_Ok_iff split: prod.splits result.splits)
  from Suc.IH [OF r] extract_Interaction_consumes [OF i] xs show ?case by auto
qed simp

text \<open>A first byte that is an operation of the protocol is never refused.\<close>

lemma extract_Interaction_known:
  assumes "ss_good s" and "convert b \<noteq> Undefined"
  shows "\<not> is_Throw (fst (extract_Interaction ord u t (reading s pre (b # post))))"
proof -
  have nz: "b \<noteq> 0" using assms(2) by auto
  have "\<not> is_Throw (fst (decode_emplaced (Request_decode ord) (emplace_Request u (convert b)) s'))"
    "\<not> is_Throw (fst (decode_emplaced (Response_decode ord) (emplace_Response u (convert b)) s'))" for s'
    using request_emplaced_frame [OF assms(2)] response_emplaced_frame [OF assms(2)] by (metis prod.collapse)+
  then show ?thesis
    using assms by (auto simp: extract_Interaction_def peek_op [OF nz] extract_known split: prod.splits)
      (metis fst_conv)+
qed

lemma length_lax_wire: "length (lax_wire_Interaction l i) = length (lax_wire_Interaction l' i)"
proof (cases i)
  case (Interaction_Request r)
  then show ?thesis by (cases r) (simp_all add: lax_wire_Stat_def)
qed simp

lemma advanced_unique_cut:
  assumes "sendable_Interaction i" and "wf_Interaction i" and "wire_Interaction i = bs @ cs"
    and "lax_sendable_Interaction j" and "wf_Interaction j"
    and "bs = lax_wire_Interaction len j @ rest"
  shows "cs = []"
proof -
  obtain l where i: "lax_sendable_Interaction i" "wire_Interaction i = lax_wire_Interaction l i"
    using wire_Interaction_lax [OF assms(1)] by blast
  with assms have eq: "lax_wire_Interaction l i @ [] = lax_wire_Interaction len j @ rest @ cs" by simp
  from lax_wire_Interaction_unique [OF i(1) assms(4,2,5) eq] eq length_lax_wire [of l i len]
  show ?thesis by (metis append_Nil2 append_eq_append_conv append_is_Nil_conv)
qed

section \<open>Sequences of messages\<close>

lemma wire_Interaction_nonempty: "wire_Interaction i \<noteq> []"
  using wire_Request_hd wire_Response_hd by (cases i) (metis list.distinct(1) wire_Interaction.simps)+

lemma wires_prefix:
  assumes "\<forall>i \<in> set is \<union> set js. sendable_Interaction i \<and> wf_Interaction i"
  shows "(\<exists>zs. concat (map wire_Interaction js) = concat (map wire_Interaction is) @ zs) \<longleftrightarrow>
    (\<exists>ks. js = is @ ks)"
  using assms
proof (induction "is" arbitrary: js)
  case (Cons i "is")
  show ?case
  proof (cases js)
    case Nil
    then show ?thesis by (simp add: wire_Interaction_nonempty)
  next
    case (Cons j js')
    with Cons.prems Cons.IH [of js'] show ?thesis by (auto simp: interaction_code.split)
  qed
qed simp

section \<open>Properties\<close>

text \<open>
  C9. The bytes tell the messages. Encoding is unambiguous, for one interaction and for any
  number of them one after the other: the bytes of one sequence of interactions that can be sent
  are a beginning of the bytes of another if and only if the sequence is a beginning of the other.
  So different sequences have different bytes, and where each message ends can be told from the
  bytes alone.
\<close>

theorem encoding_unambiguous:
  assumes "\<forall>i \<in> set is \<union> set js. sendable_Interaction i \<and> wf_Interaction i"
    and "length (concat (map wire_Interaction is)) \<le> m" and "length (concat (map wire_Interaction js)) \<le> m"
    and "2 ^ 20 \<le> m"
  shows "\<exists>s s'. seqM (map Interaction_encode is) (ss_new m) = (Ok (), s) \<and>
    seqM (map Interaction_encode js) (ss_new m) = (Ok (), s') \<and>
    ((\<exists>zs. MessageStream_str s' = MessageStream_str s @ zs) \<longleftrightarrow> (\<exists>ks. js = is @ ks))"
  using interactions.enc_all_new [of "is" m] interactions.enc_all_new [of js m] wires_prefix [OF assms(1)] assms
  by (simp add: MessageStream_str_def reading_def)

theorem encoding_unambiguous_witness:
  "\<exists>s s'. seqM (map Interaction_encode [Interaction_Request (emplace_Request 0 Clunk)]) (ss_new (2 ^ 20)) =
      (Ok (), s) \<and>
    seqM (map Interaction_encode [Interaction_Response (emplace_Response 0 Clunk)]) (ss_new (2 ^ 20)) =
      (Ok (), s') \<and> MessageStream_str s' \<noteq> MessageStream_str s"
  using encoding_unambiguous [of "[Interaction_Request (emplace_Request 0 Clunk)]"
      "[Interaction_Response (emplace_Response 0 Clunk)]" "2 ^ 20"]
  by (fastforce simp: wf_Request_def wf_Response_def wire_FidRequest_def wire_header_def)

text \<open>
  C3. Exactly which bytes are a message. Reading an interaction from a stream returns and leaves
  the stream good if and only if the stream was good and its next bytes are the wire format of a
  well-formed interaction all of whose strings, vectors and data fit; it then has taken exactly
  those bytes, and gives that interaction as \<open>received_Interaction\<close> says. The one freedom is the
  length in front of a \<open>Stat\<close>, which may be any number (\<open>lax_wire_Interaction\<close>).
\<close>

theorem clean_read_iff:
  assumes "ss_wf s"
  shows "extract_Interaction ord u t s = (Ok (), i, s') \<and> ss_good s' \<longleftrightarrow>
    (\<exists>j len. lax_sendable_Interaction j \<and> wf_Interaction j \<and> i = received_Interaction ord j \<and>
       ss_good s \<and> take (length (lax_wire_Interaction len j)) (drop (ss_get s) (ss_buf s)) =
         lax_wire_Interaction len j \<and>
       s' = s\<lparr>ss_get := ss_get s + length (lax_wire_Interaction len j)\<rparr>)"
  (is "?run \<longleftrightarrow> ?wire")
proof
  assume ?run
  with clean_read_accepts [of ord u t s i s'] show ?wire unfolding advanced_def by blast
next
  assume ?wire
  then obtain j len where j: "lax_sendable_Interaction j" "wf_Interaction j" "i = received_Interaction ord j"
    and a: "advanced s (lax_wire_Interaction len j) s'"
    unfolding advanced_def by blast
  have "ss_get s \<le> length (ss_buf s)" using assms by (simp add: ss_wf_def)
  from a [unfolded advanced_reading [OF this]] obtain pre post where
    "s = reading s pre (lax_wire_Interaction len j @ post)"
    "s' = reading s (pre @ lax_wire_Interaction len j) post" "ss_good s" by blast
  with extract_Interaction_lax [OF j(1,2), of s ord u t pre len post] j(3) advanced_good [OF a]
  show ?run by simp
qed

theorem clean_read_iff_witness:
  "\<exists>s'. extract_Interaction LeftFirst 0 (Interaction_Request (emplace_Request 0 Walk))
      (reading (ss_new 99) [] (lax_wire_Interaction 0 (Interaction_Request (emplace_Request 0 WStat)))) =
     (Ok (), Interaction_Request (emplace_Request 0 WStat), s') \<and> ss_good s'"
proof -
  let ?j = "Interaction_Request (emplace_Request 0 WStat)"
  let ?s = "reading (ss_new 99) [] (lax_wire_Interaction 0 ?j)"
  have l: "length (lax_wire_Interaction 0 ?j) = 56"
    by (simp add: wire_header_def lax_wire_Stat_def wire_Stat_inner_def wire_Qid_def Stat_zero_def)
  then have wf: "ss_wf ?s" by (simp add: ss_wf_def reading_def ss_new_def)
  have g: "ss_good ?s" by simp
  have j: "lax_sendable_Interaction ?j" "wf_Interaction ?j" "?j = received_Interaction LeftFirst ?j"
    "take (length (lax_wire_Interaction 0 ?j)) (drop (ss_get ?s) (ss_buf ?s)) = lax_wire_Interaction 0 ?j"
    by (simp_all add: wf_Request_def strings_fit_Stat_def fits_u16_def Stat_zero_def seen_Stat_def seen_u64_def reading_def)
  show ?thesis
    using clean_read_iff [OF wf] j g by blast
qed

text \<open>
  C15. A message that is cut off is never taken for a message. Reading from a stream that holds a
  proper part of the bytes of an interaction, however long, has undefined behaviour, or it returns
  with the stream in a failed state; the second only if the header is complete.
\<close>

theorem truncated_never_clean:
  assumes "sendable_Interaction i" and "wf_Interaction i" and "wire_Interaction i = bs @ cs"
    and "bs \<noteq> []" and "cs \<noteq> []" and "ss_good s"
  shows "case extract_Interaction ord u t (reading s pre bs) of (r, j, s') \<Rightarrow>
    r = Undef \<or> (r = Ok () \<and> 3 \<le> length bs \<and> \<not> ss_good s')"
proof -
  obtain r j s' where run: "extract_Interaction ord u t (reading s pre bs) = (r, j, s')"
    by (cases "extract_Interaction ord u t (reading s pre bs)")
  obtain ws where "wire_Interaction i = op_Interaction i # ws"
    using wire_Request_hd wire_Response_hd by (cases i) auto
  then obtain post where bs: "bs = op_Interaction i # post"
    using assms(3,4) by (cases bs) auto
  have "convert (op_Interaction i) \<noteq> Undefined"
    using assms(1,2) sendable_kind by (cases i) (auto simp: wf_Request_def wf_Response_def)
  from extract_Interaction_known [OF assms(6) this, of ord u t pre post] have "\<not> is_Throw r"
    by (simp add: bs [symmetric] run)
  moreover have "3 \<le> length bs \<and> \<not> ss_good s'" if "r = Ok ()"
  proof -
    note ok = run [unfolded that]
    have "\<not> ss_good s'"
    proof
      assume "ss_good s'"
      from clean_read_accepts [OF ok this] obtain k len where
        k: "lax_sendable_Interaction k" "wf_Interaction k"
          "take (length (lax_wire_Interaction len k)) bs = lax_wire_Interaction len k"
        by (auto simp: advanced_def reading_def)
      from advanced_unique_cut [OF assms(1,2,3) k(1,2)] k(3) assms(5) show False
        by (metis append_take_drop_id)
    qed
    with extract_Interaction_consumes [OF ok] show ?thesis by (simp add: reading_def)
  qed
  ultimately show ?thesis using run by (cases r) auto
qed

theorem truncated_never_clean_witness:
  "fst (extract_Interaction LeftFirst 0 (Interaction_Request (emplace_Request 0 Walk))
     (reading (ss_new 9) [] (take 2 (wire_Interaction (Interaction_Request (emplace_Request 0 Clunk)))))) = Undef"
proof -
  let ?i = "Interaction_Request (emplace_Request 0 Clunk)"
  have l: "length (wire_Interaction ?i) = 7"
    by (simp add: wire_FidRequest_def wire_header_def)
  have "take 2 (wire_Interaction ?i) \<noteq> []" "drop 2 (wire_Interaction ?i) \<noteq> []"
    using l by (auto simp flip: length_0_conv)
  with truncated_never_clean [of ?i "take 2 (wire_Interaction ?i)" "drop 2 (wire_Interaction ?i)" "ss_new 9"
      LeftFirst 0 "Interaction_Request (emplace_Request 0 Walk)" "[]"] l
  show ?thesis by (simp add: wf_Request_def split: prod.splits)
qed

text \<open>
  C16. Reading a stream to its end terminates. Each interaction that is read takes at least the
  three bytes of its header, so that a stream can be read from no more than a third of the bytes
  left times before a read throws or is undefined; no stream can be read from for ever, whatever
  it holds and into whatever variants.
\<close>

theorem reading_terminates:
  "wf {(s', s). \<exists>t i. extract_Interaction ord u t s = (Ok (), i, s')} \<and>
   (length (ss_buf s) < ss_get s + 3 * Suc n \<longrightarrow>
     \<not> is_Ok (fst (receive (extract_Interaction ord u) t (Suc n) s)))"
proof (rule conjI)
  have "{(s', s). \<exists>t i. extract_Interaction ord u t s = (Ok (), i, s')} \<subseteq>
      measure (\<lambda>s. length (ss_buf s) - ss_get s)"
    using extract_Interaction_consumes by (fastforce intro: diff_less_mono2)
  then show "wf {(s', s). \<exists>t i. extract_Interaction ord u t s = (Ok (), i, s')}"
    by (rule wf_subset [OF wf_measure])
  show "length (ss_buf s) < ss_get s + 3 * Suc n \<longrightarrow>
     \<not> is_Ok (fst (receive (extract_Interaction ord u) t (Suc n) s))"
    using receive_consumes [of ord u t "Suc n" s]
    by (cases "receive (extract_Interaction ord u) t (Suc n) s") (fastforce simp: is_Ok_iff)
qed

theorem reading_terminates_witness:
  "\<not> is_Ok (fst (receive (extract_Interaction LeftFirst 0) (Interaction_Request (emplace_Request 0 Walk)) (Suc 2)
     (reading (ss_new 9) [] [RFlush, 1, 0, RFlush, 2, 0, RFlush, 3])))"
  using reading_terminates [of LeftFirst 0 "reading (ss_new 9) [] [RFlush, 1, 0, RFlush, 2, 0, RFlush, 3]" 2]
  by (simp add: reading_def)

end
