(* ===== verification/Refused_Messages.thy ===== *)
theory Refused_Messages
  imports Message_Layout Reading_Properties
begin

text \<open>
  What becomes of a message that was refused. An encoder that throws leaves the fields it has written
  on the stream (\<open>Message_Layout\<close>). When its owner goes on and sends another message over the same
  stream, the reader at the other end meets those fields first.
\<close>

section \<open>Headers\<close>

text \<open>The header of an interaction is the first two fields of its layout.\<close>

definition header_fields :: "Interaction \<Rightarrow> field list" where
  "header_fields i = take 2 (layout_Interaction i)"

lemma header_decoded:
  assumes "MessageHeader_decode m s = (Ok m', s')"
  shows "take 3 (drop (ss_get s) (ss_buf s)) = fst (write_fields (layout_header m'))"
proof -
  have "ss_good s'"
    using assms
    by (auto simp: MessageHeader_decode_def bindM_Ok_iff decode_u16_def ss_read_def ss_good_def Let_def
        split: prod.splits if_splits)
  from acceptsD [OF accepts_header assms this] show ?thesis
    by (auto simp: advanced_def layout_header_def write_fields_def wire_u8_def wire_u16_def)
qed

lemma Request_decode_header:
  "Request_decode ord r s = (Ok r', s') \<Longrightarrow>
     take 3 (drop (ss_get s) (ss_buf s)) = fst (write_fields (header_fields (Interaction_Request r')))"
  by (cases r)
    (auto simp: bindM_Ok_iff message_decode_defs UndefinedMessage_decode_def header_fields_def layout_header_def
      dest!: header_decoded split: if_splits)

lemma Response_decode_header:
  "Response_decode ord r s = (Ok r', s') \<Longrightarrow>
     take 3 (drop (ss_get s) (ss_buf s)) = fst (write_fields (header_fields (Interaction_Response r')))"
  by (cases r)
    (auto simp: bindM_Ok_iff message_decode_defs UndefinedMessage_decode_def header_fields_def layout_header_def
      dest!: header_decoded split: if_splits)

lemma read_header:
  assumes "extract_Interaction ord u t s = (Ok (), x, s')"
  shows "take 3 (drop (ss_get s) (ss_buf s)) = fst (write_fields (header_fields x))"
    and "kind_Interaction x \<noteq> Undefined"
  using assms
  by (cases rule: extract_Interaction_emplaced;
      auto dest: Request_decode_header Response_decode_header Request_decode_op Response_decode_op)+

lemma header_fields_unique:
  assumes "fst (write_fields (header_fields x)) = fst (write_fields (header_fields i))"
    and "kind_Interaction x \<noteq> Undefined" and "kind_Interaction i \<noteq> Undefined"
  shows "header_fields x = header_fields i"
proof -
  obtain t fs where x: "layout_Interaction x = U8 (op_Interaction x) # U16 t # fs"
    using assms(2) by (rule layout_header_cases)
  obtain t' fs' where i: "layout_Interaction i = U8 (op_Interaction i) # U16 t' # fs'"
    using assms(3) by (rule layout_header_cases)
  have "le_bytes 2 (unat t) = le_bytes 2 (unat t')"
    using assms(1) x i by (simp add: header_fields_def write_fields_def)
  from arg_cong [OF this, of le_val] have "unat t = unat t'"
    using unsigned_less [of t, where 'a = nat] unsigned_less [of t', where 'a = nat]
    by (simp add: le_val_le_bytes)
  then have "t = t'" by (simp add: word_unat_eq_iff)
  with assms(1) x i show ?thesis
    by (simp add: header_fields_def write_fields_def)
qed

lemma header_written:
  assumes "kind_Interaction i \<noteq> Undefined"
  shows "take 3 (fst (write_fields (layout_Interaction i))) = fst (write_fields (header_fields i)) \<and>
    3 \<le> length (fst (write_fields (layout_Interaction i)))"
  using assms
proof (rule layout_header_cases)
  fix t fs assume "layout_Interaction i = U8 (op_Interaction i) # U16 t # fs"
  then show ?thesis by (simp add: header_fields_def write_fields_def)
qed

section \<open>Property\<close>

text \<open>
  C12. A refused message is delivered all the same. Let an interaction be refused while it is
  encoded to a new stream, because something in it is too long, and let another be sent over
  the same stream. Then the reader of the stream gets no exception, and what it reads first, if
  anything is read, has the operation and the tag of the message that was refused.
\<close>

theorem refused_message_is_read:
  assumes "\<not> sendable_Interaction i" and "wf_Interaction i" and "kind_Interaction i \<noteq> Undefined"
    and "sendable_Interaction j"
    and "length (fst (write_fields (layout_Interaction i))) + length (wire_Interaction j) \<le> m" and "2 ^ 20 \<le> m"
  shows "\<exists>e s s'. Interaction_encode i (ss_new m) = (Throw e, s) \<and> Interaction_encode j s = (Ok (), s') \<and>
    (case extract_Interaction ord u t s' of (r, x, s'') \<Rightarrow>
       \<not> is_Throw r \<and> (r = Ok () \<longrightarrow> header_fields x = header_fields i))"
proof -
  obtain bs e where w: "write_fields (layout_Interaction i) = (bs, Some e)"
    using write_sendable [of i] assms(1) by (cases "write_fields (layout_Interaction i)") auto
  let ?s = "put_bytes (bs @ wire_Interaction j) (ss_new m)"
  have i: "Interaction_encode i (ss_new m) = (Throw e, put_bytes bs (ss_new m))"
    using laysD [OF lays_Interaction, of "ss_new m" i] assms(6) w by (simp add: ample_new)
  have j: "Interaction_encode j (put_bytes bs (ss_new m)) = (Ok (), ?s)"
    using laysD [OF lays_Interaction, of "put_bytes bs (ss_new m)" j] assms(4,6) write_sendable [of j]
    by (simp add: ample_new)
  have s: "?s = reading ((ss_new m)\<lparr>ss_put := length (bs @ wire_Interaction j)\<rparr>) [] (bs @ wire_Interaction j)"
    using put_bytes_new_reading [of "bs @ wire_Interaction j" m] assms(5) w by simp
  obtain ps where ps: "bs = op_Interaction i # ps"
    using write_header [OF assms(3)] w by auto
  have "convert (op_Interaction i) \<noteq> Undefined"
    using assms(2,3) by (cases i) (auto simp: wf_Request_def wf_Response_def)
  then have no: "\<not> is_Throw (fst (extract_Interaction ord u t ?s))"
    unfolding s unfolding ps append_Cons by (intro extract_Interaction_known) simp_all
  have "header_fields x = header_fields i" if "extract_Interaction ord u t ?s = (Ok (), x, s'')" for x s''
  proof -
    have "take 3 (bs @ wire_Interaction j) = fst (write_fields (header_fields i))"
      using header_written [OF assms(3)] w by simp
    with read_header [OF that] s show ?thesis
      by (intro header_fields_unique) (simp_all add: reading_def assms(3))
  qed
  with i j no show ?thesis by (auto split: prod.split)
qed

lemma debris_read:
  "fst (extract_Interaction LeftFirst 0 t (reading ((ss_new m)\<lparr>ss_put := n\<rparr>) [] [RError, 5, 0, RFlush, 6, 0])) = Ok ()"
  by (simp add: extract_Interaction_def extract_Response_cases decode_emplaced_def reading_def ss_new_def
      MessageStream_peek_def ss_peek_def ss_good_def isRequest_def isEven_def convert_def message_decode_defs
      MessageHeader_decode_def decode_Operation_def decode_u8_def ss_get_char_def bindM_def decode_u16_def
      ss_read_def Let_def build_u8_def decode_string_def)

theorem refused_message_is_read_witness:
  "\<exists>e s s' x s''. Interaction_encode (Interaction_Response (Resp_Error
       \<lparr>hdr_op = RError, hdr_tag = 5, er_ename = replicate 65536 0\<rparr>)) (ss_new (2 ^ 20)) = (Throw e, s) \<and>
     Interaction_encode (Interaction_Response (Resp_Flush \<lparr>hdr_op = RFlush, hdr_tag = 6\<rparr>)) s = (Ok (), s') \<and>
     extract_Interaction LeftFirst 0 (Interaction_Request (emplace_Request 0 Walk)) s' = (Ok (), x, s'') \<and>
     header_fields x = [U8 RError, U16 5]"
proof -
  let ?i = "Interaction_Response (Resp_Error \<lparr>hdr_op = RError, hdr_tag = 5, er_ename = replicate 65536 0\<rparr>)"
  let ?j = "Interaction_Response (Resp_Flush \<lparr>hdr_op = RFlush, hdr_tag = 6\<rparr>)"
  let ?t = "Interaction_Request (emplace_Request 0 Walk)"
  have w: "write_fields (layout_Interaction ?i) = ([RError, 5, 0], Some (string_too_long 65536))"
    by (simp add: layout_header_def write_fields_def w_string_def le_bytes_2)
  have v: "wire_Interaction ?j = [RFlush, 6, 0]"
    by (simp add: wire_header_def wire_u8_def wire_u16_bytes)
  have "wf_Interaction ?i" "\<not> sendable_Interaction ?i"
    by (simp_all add: wf_Response_def translateConcept_def fits_ErrorResponse_def fits_u16_def)
  with w v refused_message_is_read [of ?i ?j "2 ^ 20" LeftFirst 0 ?t] obtain e s s' where
    i: "Interaction_encode ?i (ss_new (2 ^ 20)) = (Throw e, s)" and j: "Interaction_encode ?j s = (Ok (), s')"
    and x: "case extract_Interaction LeftFirst 0 ?t s' of (r, x, s'') \<Rightarrow>
      \<not> is_Throw r \<and> (r = Ok () \<longrightarrow> header_fields x = header_fields ?i)"
    by auto
  have s: "s = put_bytes [RError, 5, 0] (ss_new (2 ^ 20))"
    using laysD [OF lays_Interaction, of "ss_new (2 ^ 20)" ?i] w i by (simp add: ample_new)
  then have "ample s" by (simp only: ample_put_bytes ample_new)
  from laysD [OF lays_Interaction this, of ?j] write_sendable [of ?j] v j s
  have "s' = put_bytes [RError, 5, 0, RFlush, 6, 0] (ss_new (2 ^ 20))" by simp
  then have "fst (extract_Interaction LeftFirst 0 ?t s') = Ok ()"
    using put_bytes_new_reading [of "[RError, 5, 0, RFlush, 6, 0]" "2 ^ 20"] debris_read by simp
  moreover have "header_fields ?i = [U8 RError, U16 5]"
    by (simp add: header_fields_def layout_header_def)
  ultimately show ?thesis
    using i j x by (cases "extract_Interaction LeftFirst 0 ?t s'") auto
qed

end
