(* ===== verification/Connections.thy ===== *)
theory Connections
  imports Stream_Properties
begin

text \<open>
  \<^verbatim>\<open>Connection.h\<close>, \<^verbatim>\<open>Connection.cc\<close>, \<^verbatim>\<open>FileHandleConnection.h\<close> and
  \<^verbatim>\<open>FileHandleConnection.cc\<close>: framing of messages and raw input and output.

  The operating system is not part of the repository. It is the parameter \<open>k\<close>, a function
  from a system call and the state of the outside world to the call's answer and the new state;
  nothing is assumed about it. The record \<open>world\<close> keeps, beside that state, the trace of the
  calls the library has made.

  \<open>Connection\<close> is an abstract class: \<^verbatim>\<open>rawWrite\<close> and \<^verbatim>\<open>rawRead\<close> are arguments of
  its two operations, and the fields of the record its operators take. The locale
  \<open>raw_connection\<close> is what \<open>Connection\<close> relies on; \<open>raw_connections\<close> extends it to many
  connections that do not disturb each other, with \<open>FileHandleConnection\<close> as its interpretation.

  A \<^verbatim>\<open>size_t\<close> is a \<open>64 word\<close>: the \<^verbatim>\<open>-1\<close> of a failed system call becomes a large
  number. \<^verbatim>\<open>data.capacity()\<close>, which the implementation chooses for a string of a given size,
  is the parameter \<open>cap\<close>.
\<close>

unbundle bit_operations_syntax

section \<open>The outside world\<close>

record sockaddr_un =
  sun_family :: int
  sun_path :: "byte list"

datatype syscall =
    Sys_socket int int int
  | Sys_close int
  | Sys_write int "byte list"
  | Sys_read int nat
  | Sys_connect int sockaddr_un nat
  | Sys_signal int int
  | Sys_setsockopt int int int int
  | Sys_unlink "byte list"
  | Sys_bind int sockaddr_un nat
  | Sys_chmod "byte list" int
  | Sys_listen int nat

text \<open>The answer of a call: its return value, and the bytes a \<^verbatim>\<open>read\<close> stored.\<close>

record sysret =
  sys_ret :: int
  sys_out :: "byte list"

type_synonym 'w kernel = "syscall \<Rightarrow> 'w \<Rightarrow> sysret \<times> 'w"

record 'w world =
  trace :: "syscall list"
  os :: 'w

definition do_call :: "'w kernel \<Rightarrow> syscall \<Rightarrow> 'w world \<Rightarrow> sysret \<times> 'w world" where
  "do_call k c w = (case k c (os w) of (r, o') \<Rightarrow> (r, w\<lparr>trace := trace w @ [c], os := o'\<rparr>))"

section \<open>FileHandleConnection\<close>

record FileHandleConnection =
  fh_handle :: int
  fh_destroy :: bool

definition FileHandleConnection_ctor :: "int \<Rightarrow> bool \<Rightarrow> FileHandleConnection" where
  "FileHandleConnection_ctor fd destroy = \<lparr>fh_handle = fd, fh_destroy = destroy\<rparr>"

definition isValidHandle :: "'a FileHandleConnection_scheme \<Rightarrow> bool" where
  "isValidHandle c \<longleftrightarrow> fh_handle c \<ge> 0"

definition FileHandleConnection_dtor ::
  "'w kernel \<Rightarrow> 'a FileHandleConnection_scheme \<Rightarrow> 'w world \<Rightarrow> 'w world" where
  "FileHandleConnection_dtor k c w =
     (if isValidHandle c \<and> fh_destroy c then snd (do_call k (Sys_close (fh_handle c)) w) else w)"

definition FileHandleConnection_rawWrite ::
  "'w kernel \<Rightarrow> 'a FileHandleConnection_scheme \<Rightarrow> std_string \<Rightarrow> 'w world \<Rightarrow> 64 word \<times> 'w world" where
  "FileHandleConnection_rawWrite k c data w =
     (if isValidHandle c
      then (case do_call k (Sys_write (fh_handle c) data) w of (r, w') \<Rightarrow> (word_of_int (sys_ret r), w'))
      else (0, w))"

definition FileHandleConnection_rawRead ::
  "'w kernel \<Rightarrow> (nat \<Rightarrow> nat) \<Rightarrow> 'a FileHandleConnection_scheme \<Rightarrow> std_string \<Rightarrow> 'w world \<Rightarrow>
     (64 word \<times> std_string) \<times> 'w world" where
  "FileHandleConnection_rawRead k cap c data w =
     (if isValidHandle c
      then (case do_call k (Sys_read (fh_handle c) (cap (length data))) w of (r, w') \<Rightarrow>
              ((word_of_int (sys_ret r), overlay (sys_out r) data), w'))
      else ((0, data), w))"

section \<open>Connection\<close>

definition Connection_write ::
  "(std_string \<Rightarrow> 'w \<Rightarrow> 64 word \<times> 'w) \<Rightarrow> MessageStream \<Rightarrow> ('w, unit) action" where
  "Connection_write rawWrite msg w =
     (let contents = MessageStream_str msg; len = length contents in
      if len \<noteq> unat (word_of_nat len :: 32 word)
      then throwM [Lit ''length of the message is too long to write out!''] w
      else
        let actualLen = (word_of_nat len :: 32 word) + 4;
            newStr = [ucast actualLen, ucast (drop_bit 8 actualLen), ucast (drop_bit 16 actualLen),
                      ucast (drop_bit 24 actualLen)] @ contents
        in (case rawWrite newStr w of (bytesWritten, w') \<Rightarrow>
              if bytesWritten \<noteq> ucast actualLen
              then throwM [Lit ''Only wrote '', Num (unat bytesWritten), Lit ''bytes of a '',
                           Num (unat actualLen), Lit '' bytes long message!''] w'
              else (Ok (), w')))"

text \<open>
  \<^verbatim>\<open>std::string sizeAcquire(' ', 4)\<close> is the constructor that takes a count and a character:
  the string has as many characters as the code of the blank (32), each with code 4. The same
  holds for \<^verbatim>\<open>storage\<close>.
\<close>

definition blank_count :: nat where
  "blank_count = of_char (CHR '' '')"

definition Connection_read ::
  "(std_string \<Rightarrow> 'w \<Rightarrow> (64 word \<times> std_string) \<times> 'w) \<Rightarrow> MessageStream \<Rightarrow> 'w \<Rightarrow>
     unit result \<times> MessageStream \<times> 'w" where
  "Connection_read rawRead msg w =
     (case rawRead (replicate blank_count 4) w of ((bytesRead, sizeAcquire), w1) \<Rightarrow>
        if bytesRead \<noteq> 4
        then (Throw (Exception_ctor [Lit ''Expected to read 4 bytes but only read '',
                Num (unat bytesRead), Lit ''!'']), msg, w1)
        else
          let messageSize = build_u8x4 (sizeAcquire ! 0) (sizeAcquire ! 1) (sizeAcquire ! 2)
                (sizeAcquire ! 3)
          in if messageSize < 4
             then (Throw (Exception_ctor
                     [Lit ''Expected at least 4 bytes as the size of the message!'']), msg, w1)
             else
               let correctedMessageSize = messageSize - 4
               in (case rawRead (replicate blank_count (ucast correctedMessageSize)) w1 of
                     ((bytesRead2, storage), w2) \<Rightarrow>
                       if bytesRead2 \<noteq> ucast messageSize
                       then (Throw (Exception_ctor [Lit ''only able to read '', Num (unat bytesRead2),
                               Lit ''/'', Num (unat messageSize), Lit '' bytes!'']), msg, w2)
                       else if bytesRead2 + bytesRead \<noteq> ucast messageSize
                       then (Throw (Exception_ctor [Lit ''Not enough bytes read!'']), msg, w2)
                       else (case MessageStream_write storage msg of (r, msg') \<Rightarrow> (r, msg', w2))))"

text \<open>
  The class \<open>Connection\<close> as its callers see it, its two virtual functions; the object of a
  \<open>FileHandleConnection\<close> seen as one. The operators on a connection call its members, and the
  connection they give back is the one they were given.
\<close>

record 'w Connection =
  conn_rawWrite :: "std_string \<Rightarrow> 'w \<Rightarrow> 64 word \<times> 'w"
  conn_rawRead :: "std_string \<Rightarrow> 'w \<Rightarrow> (64 word \<times> std_string) \<times> 'w"

definition FileHandleConnection_upcast ::
  "'w kernel \<Rightarrow> (nat \<Rightarrow> nat) \<Rightarrow> 'a FileHandleConnection_scheme \<Rightarrow> 'w world Connection" where
  "FileHandleConnection_upcast k cap c =
     \<lparr>conn_rawWrite = FileHandleConnection_rawWrite k c, conn_rawRead = FileHandleConnection_rawRead k cap c\<rparr>"

definition Connection_insert :: "'w Connection \<Rightarrow> MessageStream \<Rightarrow> ('w, unit) action" where
  "Connection_insert c msg = thenM (Connection_write (conn_rawWrite c) msg) (retM ())"

definition Connection_extract ::
  "'w Connection \<Rightarrow> MessageStream \<Rightarrow> 'w \<Rightarrow> unit result \<times> MessageStream \<times> 'w" where
  "Connection_extract c msg w = Connection_read (conn_rawRead c) msg w"

section \<open>Specification\<close>

text \<open>A message on the wire: its total length in four bytes, little-endian, and its contents.\<close>

definition frame :: "byte list \<Rightarrow> byte list" where
  "frame contents = le_bytes 4 (length contents + 4) @ contents"

text \<open>What was handed to the operating system for writing on a handle.\<close>

definition written :: "int \<Rightarrow> 'w world \<Rightarrow> byte list list" where
  "written fd w = concat (map (\<lambda>c. case c of Sys_write f d \<Rightarrow> if f = fd then [d] else [] | _ \<Rightarrow> []) (trace w))"

section \<open>What a connection relies on\<close>

lemma unat_ucast_u32 [simp]: "unat (ucast (n :: 32 word) :: 64 word) = unat n"
proof -
  have "unat n < 2 ^ 32"
    using unsigned_less [of n] by simp
  then show ?thesis
    by (simp add: unsigned_ucast_eq take_bit_eq_mod)
qed

lemma eq_unat_u32: "l = unat (word_of_nat l :: 32 word) \<longleftrightarrow> l < 2 ^ 32"
  using unat_word_of_nat_eq_iff [of l, where 'a = 32] by auto

text \<open>
  What \<open>Connection::write\<close> asks for, of every message that is not refused at once: the length field
  counts modulo \<open>2 ^ 32\<close>, and is that of a frame when it has not wrapped around.
\<close>

lemma length_field:
  fixes l :: nat
  defines "n \<equiv> (word_of_nat l :: 32 word) + 4"
  shows "[ucast n, ucast (drop_bit 8 n), ucast (drop_bit 16 n), ucast (drop_bit 24 n)] =
    le_bytes 4 ((l + 4) mod 2 ^ 32)" and "unat n = (l + 4) mod 2 ^ 32"
proof -
  have "n = word_of_nat (l + 4)"
    by (simp add: n_def)
  then show u: "unat n = (l + 4) mod 2 ^ 32"
    by (simp add: unat_of_nat del: of_nat_add)
  show "[ucast n, ucast (drop_bit 8 n), ucast (drop_bit 16 n), ucast (drop_bit 24 n)] =
      le_bytes 4 ((l + 4) mod 2 ^ 32)"
    using wire_u32_bytes [of n] u by (simp add: wire_u32_def)
qed

lemma Connection_write_bytes:
  fixes msg :: MessageStream
  defines "c \<equiv> MessageStream_str msg"
  defines "n \<equiv> (length c + 4) mod 2 ^ 32"
  assumes "length c < 2 ^ 32"
  shows "Connection_write rawWrite msg w =
    (case rawWrite (le_bytes 4 n @ c) w of (b, w') \<Rightarrow>
       if unat b = n then (Ok (), w')
       else throwM [Lit ''Only wrote '', Num (unat b), Lit ''bytes of a '', Num n,
              Lit '' bytes long message!''] w')"
proof -
  let ?n = "(word_of_nat (length c) :: 32 word) + 4"
  have "b \<noteq> ucast ?n \<longleftrightarrow> unat b \<noteq> n" for b :: "64 word"
    unfolding n_def length_field(2) [symmetric] by (metis unat_ucast_u32 unsigned_word_eqI)
  moreover have "length c = unat (word_of_nat (length c) :: 32 word)"
    using assms(3) by (simp add: eq_unat_u32)
  ultimately show ?thesis
    unfolding Connection_write_def Let_def c_def [symmetric] length_field(1) length_field(2) n_def [symmetric]
    by (simp split: prod.splits)
qed

lemma Connection_write_frame:
  assumes "length (MessageStream_str msg) + 4 < 2 ^ 32"
  shows "Connection_write rawWrite msg w =
    (case rawWrite (frame (MessageStream_str msg)) w of (n, w') \<Rightarrow>
       if unat n = length (MessageStream_str msg) + 4 then (Ok (), w')
       else throwM [Lit ''Only wrote '', Num (unat n), Lit ''bytes of a '',
              Num (length (MessageStream_str msg) + 4), Lit '' bytes long message!''] w')"
proof -
  have "(length (MessageStream_str msg) + 4) mod 2 ^ 32 = length (MessageStream_str msg) + 4"
    using assms by (rule mod_less)
  with Connection_write_bytes [of msg rawWrite w] assms show ?thesis
    by (simp only: frame_def)
qed

locale raw_connection =
  fixes rawWrite :: "std_string \<Rightarrow> 'w \<Rightarrow> 64 word \<times> 'w"
    and sent :: "'w \<Rightarrow> byte list list"
  assumes raw_sent: "rawWrite d w = (n, w') \<Longrightarrow> sent w' = sent w @ [d] \<or> sent w' = sent w \<and> n = 0"
begin

text \<open>A message that was written has been handed over once, framed.\<close>

lemma write_Ok:
  assumes "Connection_write rawWrite msg w = (Ok (), w')" and "length (MessageStream_str msg) + 4 < 2 ^ 32"
  shows "sent w' = sent w @ [frame (MessageStream_str msg)]"
proof -
  obtain n v where r: "rawWrite (frame (MessageStream_str msg)) w = (n, v)"
    by (cases "rawWrite (frame (MessageStream_str msg)) w")
  with assms have "unat n = length (MessageStream_str msg) + 4" and "w' = v"
    by (simp_all add: Connection_write_frame split: if_splits)
  then have "n \<noteq> 0" and "w' = v" by auto
  with raw_sent [OF r] show ?thesis by blast
qed

end

text \<open>
  Many connections side by side: each has a channel, several may share one, and a write leaves
  all other channels alone. Each of them is a connection as above.
\<close>

locale raw_connections =
  fixes rawWrite :: "'c \<Rightarrow> std_string \<Rightarrow> 'w \<Rightarrow> 64 word \<times> 'w"
    and channel :: "'c \<Rightarrow> 'h"
    and sent :: "'h \<Rightarrow> 'w \<Rightarrow> byte list list"
  assumes own_channel: "rawWrite c d w = (n, w') \<Longrightarrow>
      sent (channel c) w' = sent (channel c) w @ [d] \<or> sent (channel c) w' = sent (channel c) w \<and> n = 0"
    and other_channels: "rawWrite c d w = (n, w') \<Longrightarrow> h \<noteq> channel c \<Longrightarrow> sent h w' = sent h w"

sublocale raw_connections \<subseteq> one: raw_connection "rawWrite c" "sent (channel c)" for c
  by unfold_locales (rule own_channel)

context raw_connections
begin

lemma write_other:
  assumes "Connection_write (rawWrite c) msg w = (r, w')" and "h \<noteq> channel c"
  shows "sent h w' = sent h w"
proof -
  have "w' = w \<or> (\<exists>d n. rawWrite c d w = (n, w'))"
    using assms(1) by (auto simp: Connection_write_def Let_def split: if_splits prod.splits)
  with other_channels assms(2) show ?thesis by blast
qed

text \<open>
  However the writes of the connections are interleaved, each channel has seen the messages that
  were meant for it.
\<close>

lemma writes_interleaved:
  assumes "seqM (map (\<lambda>(c, msg). Connection_write (rawWrite c) msg) cms) w = (Ok (), w')"
    and "\<forall>(c, msg) \<in> set cms. length (MessageStream_str msg) + 4 < 2 ^ 32"
  shows "sent h w' = sent h w @
    map (\<lambda>(c, msg). frame (MessageStream_str msg)) (filter (\<lambda>(c, msg). channel c = h) cms)"
  using assms
proof (induction cms arbitrary: w)
  case (Cons x cms)
  obtain c msg where x: "x = (c, msg)" by (cases x)
  with Cons.prems obtain w1 where w1: "Connection_write (rawWrite c) msg w = (Ok (), w1)"
    and rest: "seqM (map (\<lambda>(c, msg). Connection_write (rawWrite c) msg) cms) w1 = (Ok (), w')"
    by (auto simp: thenM_def bindM_Ok_iff)
  have "sent h w1 = sent h w @ (if channel c = h then [frame (MessageStream_str msg)] else [])"
    using one.write_Ok [OF w1] write_other [OF w1, of h] Cons.prems(2) x by auto
  with Cons.IH [OF rest] Cons.prems(2) x show ?case by simp
qed simp

end

interpretation file_handles: raw_connections "FileHandleConnection_rawWrite k" fh_handle written
  for k :: "'w kernel"
  by unfold_locales
    (auto simp: FileHandleConnection_rawWrite_def do_call_def written_def split: if_splits prod.splits)

section \<open>Frames\<close>

lemma length_frame [simp]: "length (frame c) = length c + 4"
  by (simp add: frame_def)

lemma le_val_frame: "length c + 4 < 2 ^ 32 \<Longrightarrow> le_val (take 4 (frame c)) = length c + 4"
  by (simp add: frame_def le_val_le_bytes)

lemma frame_append_eq:
  assumes "frame a @ xs = frame b @ ys" and "length a + 4 < 2 ^ 32" and "length b + 4 < 2 ^ 32"
  shows "a = b \<and> xs = ys"
proof -
  have "take 4 (frame a) = take 4 (frame b)"
    using arg_cong [OF assms(1), of "take 4"] by simp
  then have "length a = length b"
    using le_val_frame [OF assms(2)] le_val_frame [OF assms(3)] by simp
  then show ?thesis
    using assms(1) by (simp add: frame_def)
qed

text \<open>A byte stream made of frames is the frames of one sequence of messages only.\<close>

lemma frames_unambiguous:
  assumes "concat (map frame as) = concat (map frame bs)"
    and "\<forall>c \<in> set as \<union> set bs. length c + 4 < 2 ^ 32"
  shows "as = bs"
  using assms
proof (induction as arbitrary: bs)
  case Nil
  then have "bs = []" by (cases bs) (auto simp: frame_def dest: arg_cong [where f = length])
  then show ?case by simp
next
  case (Cons a as)
  then obtain b bs' where b: "bs = b # bs'"
    by (cases bs) (auto simp: frame_def dest: arg_cong [where f = length])
  with Cons.prems have "a = b \<and> concat (map frame as) = concat (map frame bs')"
    by (intro frame_append_eq) simp_all
  with Cons b show ?case by simp
qed

text \<open>Destruction closes the handle exactly when it is valid and owned, and makes no other call.\<close>

lemma trace_dtor:
  "trace (FileHandleConnection_dtor k c w) =
     trace w @ (if 0 \<le> fh_handle c \<and> fh_destroy c then [Sys_close (fh_handle c)] else [])"
  by (auto simp: FileHandleConnection_dtor_def isValidHandle_def do_call_def split: prod.splits)

end
