(* ===== verification/Connection_Properties.thy ===== *)
theory Connection_Properties
  imports Connections
begin

text \<open>
  The properties of \<open>Connection\<close> and \<open>FileHandleConnection\<close>: what reaches the operating
  system when messages are written, what happens when it takes less than it was given, and why no
  message can be read.
\<close>

section \<open>An example operating system, which takes all it is given\<close>

fun greedy :: "unit kernel" where
  "greedy (Sys_write fd d) o' = (\<lparr>sys_ret = int (length d), sys_out = []\<rparr>, o')"
| "greedy _ o' = (\<lparr>sys_ret = 0, sys_out = []\<rparr>, o')"

abbreviation idle :: "unit world" where
  "idle \<equiv> \<lparr>trace = [], os = ()\<rparr>"

abbreviation one_byte :: MessageStream where
  "one_byte \<equiv> (ss_new 99)\<lparr>ss_buf := [7]\<rparr>"

section \<open>Lemmas\<close>

lemma read_size_impossible: "ucast m + 4 \<noteq> (ucast (m :: 32 word) :: 64 word)"
  by simp

lemma blank_count_eq: "blank_count = 32"
  by code_simp

lemma unat_build_u8x4:
  assumes "4 \<le> length x"
  shows "unat (build_u8x4 (x ! 0) (x ! 1) (x ! 2) (x ! 3)) = le_val (take 4 x)"
proof -
  define v where "v = (word_of_nat (le_val (take 4 x)) :: 32 word)"
  have v: "unat v = le_val (take 4 x)"
    unfolding v_def unat_word_of_nat_eq_iff using le_val_bound [of "take 4 x"] assms by simp
  have "wire_u32 v = take 4 x"
    using le_bytes_le_val [of "take 4 x"] assms unfolding wire_u32_def v by simp
  moreover have "take 4 x = [x ! 0, x ! 1, x ! 2, x ! 3]"
    using assms by (simp add: list_eq_iff_nth_eq less_Suc_eq numeral_eq_Suc)
  ultimately show ?thesis
    using build_u8x4_bytes [of v] v by (simp add: wire_u32_bytes)
qed

lemma add_mod_eq_0:
  assumes "l < N" and "0 < m" and "m \<le> (N :: nat)"
  shows "(l + m) mod N = 0 \<longleftrightarrow> l = N - m"
proof (cases "l + m < N")
  case False
  then have "(l + m) mod N = l + m - N"
    using assms by (simp add: le_mod_geq)
  with False assms show ?thesis by linarith
qed (use assms in auto)

lemma write_greedy:
  assumes "length (MessageStream_str m) + 4 < 2 ^ 32" and "isValidHandle c"
  shows "Connection_write (FileHandleConnection_rawWrite greedy c) m w =
    (Ok (), w\<lparr>trace := trace w @ [Sys_write (fh_handle c) (frame (MessageStream_str m))]\<rparr>)"
proof -
  let ?l = "length (MessageStream_str m) + 4"
  have "unat (word_of_int (int ?l) :: 64 word) = ?l"
    using assms(1) unat_word_of_nat_eq_iff [of ?l, where 'a = 64] by (simp del: of_nat_add)
  then show ?thesis
    using assms by (simp add: Connection_write_frame FileHandleConnection_rawWrite_def do_call_def)
qed

section \<open>Properties\<close>

text \<open>
  C17. Messages leave whole and in order, on every handle. When messages have been written to
  any number of file handles, interleaved in any way, and none was refused, the operating system
  was handed on each handle exactly the frames of the messages meant for it, in their order; and
  the bytes it was handed there determine those messages: no other sequence of messages has the
  same frames.
\<close>

theorem file_handle_writes_in_order:
  assumes "seqM (map (\<lambda>(c, m). Connection_write (FileHandleConnection_rawWrite k c) m) cms) w = (Ok (), w')"
    and "\<forall>(c, m) \<in> set cms. length (MessageStream_str m) + 4 < 2 ^ 32"
  shows "written h w' = written h w @
      map frame (map (\<lambda>(c, m). MessageStream_str m) (filter (\<lambda>(c, m). fh_handle c = h) cms)) \<and>
    (\<forall>ds. (\<forall>d \<in> set ds. length d + 4 < 2 ^ 32) \<and>
       concat (written h w') = concat (written h w) @ concat (map frame ds) \<longrightarrow>
       ds = map (\<lambda>(c, m). MessageStream_str m) (filter (\<lambda>(c, m). fh_handle c = h) cms))"
proof -
  let ?ds = "map (\<lambda>(c, m). MessageStream_str m) (filter (\<lambda>(c, m). fh_handle c = h) cms)"
  have sent: "written h w' = written h w @ map frame ?ds"
    using file_handles.writes_interleaved [OF assms, of h] by (simp add: comp_def case_prod_unfold)
  have "ds = ?ds" if "\<forall>d \<in> set ds. length d + 4 < 2 ^ 32"
    and "concat (written h w') = concat (written h w) @ concat (map frame ds)" for ds
    using that assms(2) sent by (intro frames_unambiguous) auto
  with sent show ?thesis by blast
qed

theorem file_handle_writes_in_order_witness:
  "\<exists>w'. seqM (map (\<lambda>(c, m). Connection_write (FileHandleConnection_rawWrite greedy c) m)
        [(FileHandleConnection_ctor 3 True, one_byte), (FileHandleConnection_ctor 4 True, ss_new 9),
         (FileHandleConnection_ctor 3 True, one_byte)]) idle = (Ok (), w') \<and>
     written 3 w' = [[5, 0, 0, 0, 7], [5, 0, 0, 0, 7]] \<and> written 4 w' = [[4, 0, 0, 0]]"
proof -
  let ?cms = "[(FileHandleConnection_ctor 3 True, one_byte), (FileHandleConnection_ctor 4 True, ss_new 9),
    (FileHandleConnection_ctor 3 True, one_byte)]"
  have f: "frame [7] = [5, 0, 0, 0, 7]" "frame [] = [4, 0, 0, 0]"
    by code_simp+
  have "\<exists>w'. seqM (map (\<lambda>(c, m). Connection_write (FileHandleConnection_rawWrite greedy c) m) ?cms) idle =
      (Ok (), w')"
    by (simp add: write_greedy thenM_def bindM_def MessageStream_str_def isValidHandle_def
        FileHandleConnection_ctor_def ss_new_def)
  then obtain w' where w': "seqM (map (\<lambda>(c, m). Connection_write (FileHandleConnection_rawWrite greedy c) m)
      ?cms) idle = (Ok (), w')" by blast
  with file_handle_writes_in_order [OF w', of 3] file_handle_writes_in_order [OF w', of 4] f show ?thesis
    by (simp add: MessageStream_str_def written_def FileHandleConnection_ctor_def ss_new_def)
qed

text \<open>
  C22. Writing a message, on every branch. A message of \<open>2 ^ 32\<close> bytes or more is refused. Of any
  other the length field counts the message and its own four bytes modulo \<open>2 ^ 32\<close>. Without
  a valid handle nothing is handed to the operating system, and the write is refused, unless the
  message has exactly \<open>2 ^ 32 - 4\<close> bytes, whose length field is zero. With one, the
  length field and the contents are handed over once, and the write returns if and only if the
  operating system says it took as many bytes as the length field says; an error or a short write is
  an exception that names both numbers.
\<close>

theorem file_handle_write_behaviour:
  "Connection_write (FileHandleConnection_rawWrite k c) msg w =
    (let contents = MessageStream_str msg; n = (length contents + 4) mod 2 ^ 32 in
     if length contents \<ge> 2 ^ 32
     then throwM [Lit ''length of the message is too long to write out!''] w
     else if \<not> isValidHandle c
     then (if length contents = 2 ^ 32 - 4 then (Ok (), w)
           else throwM [Lit ''Only wrote '', Num 0, Lit ''bytes of a '', Num n, Lit '' bytes long message!''] w)
     else (case do_call k (Sys_write (fh_handle c) (le_bytes 4 n @ contents)) w of (r, w') \<Rightarrow>
        if sys_ret r mod 2 ^ 64 = int n then (Ok (), w')
        else throwM [Lit ''Only wrote '', Num (nat (sys_ret r mod 2 ^ 64)), Lit ''bytes of a '', Num n,
               Lit '' bytes long message!''] w'))"
proof (cases "length (MessageStream_str msg) < 2 ^ 32")
  case True
  define n where "n = (length (MessageStream_str msg) + 4) mod 2 ^ 32"
  have z: "0 = n \<longleftrightarrow> length (MessageStream_str msg) = 2 ^ 32 - 4"
    using add_mod_eq_0 [OF True, of 4] by (auto simp: n_def)
  have u: "unat (word_of_int z :: 64 word) = nat (z mod 2 ^ 64)" for z
    by (simp add: unat_eq_nat_uint uint_word_of_int)
  have e: "nat (z mod 2 ^ 64) = n \<longleftrightarrow> z mod 2 ^ 64 = int n" for z :: int
    by (auto simp: nat_eq_iff)
  show ?thesis
  proof (cases "isValidHandle c")
    case valid: True
    then show ?thesis
      using True unfolding Connection_write_bytes [OF True] Let_def n_def [symmetric]
      by (simp add: FileHandleConnection_rawWrite_def case_prod_beta u [simplified] e [simplified])
  next
    case False
    then show ?thesis
      using True z unfolding Connection_write_bytes [OF True] Let_def n_def [symmetric]
      by (simp add: FileHandleConnection_rawWrite_def)
  qed
next
  case False
  then show ?thesis
    by (simp add: Connection_write_def Let_def eq_unat_u32)
qed

text \<open>
  C18. No message can be read. Whatever the raw reads deliver, \<^verbatim>\<open>Connection::read\<close>, and with it the
  operator \<^verbatim>\<open>>>\<close>, ends with an exception and leaves the message as it was: it accepts a second read only of \<open>messageSize\<close>
  bytes, and then finds that together with the four bytes of the size that is not
  \<open>messageSize\<close>.
\<close>

theorem Connection_read_never_returns_a_message:
  "(\<exists>e w'. Connection_read rawRead msg w = (Throw e, msg, w')) \<and>
   (\<exists>e w'. Connection_extract c msg v = (Throw e, msg, w'))"
  by (auto simp: Connection_extract_def Connection_read_def Let_def split: prod.splits)

text \<open>
  C34. What is asked for when a message is read. From a valid handle the first read asks for as
  many bytes as a string of 32 characters has room for, and not for the four bytes of the size;
  there is a second read of the same kind exactly when the first one delivered four bytes and the
  size they make is at least four, and never a third. An invalid handle is never read from.
\<close>

theorem file_handle_read_calls:
  "case Connection_read (FileHandleConnection_rawRead k cap c) msg w of (r, msg', w') \<Rightarrow>
     if isValidHandle c then
       (case do_call k (Sys_read (fh_handle c) (cap 32)) w of (a, w1) \<Rightarrow>
          if sys_ret a mod 2 ^ 64 = 4 \<and> 4 \<le> le_val (take 4 (overlay (sys_out a) (replicate 32 4)))
          then w' = snd (do_call k (Sys_read (fh_handle c) (cap 32)) w1)
          else w' = w1)
     else w' = w"
proof -
  have u: "word_of_int z = (4 :: 64 word) \<longleftrightarrow> z mod 2 ^ 64 = 4" for z
    by (simp add: word_eq_iff_unsigned [where ?'a = int] uint_word_of_int)
  obtain a w1 where c1: "do_call k (Sys_read (fh_handle c) (cap 32)) w = (a, w1)"
    by (cases "do_call k (Sys_read (fh_handle c) (cap 32)) w")
  obtain a2 w2 where c2: "do_call k (Sys_read (fh_handle c) (cap 32)) w1 = (a2, w2)"
    by (cases "do_call k (Sys_read (fh_handle c) (cap 32)) w1")
  let ?x = "overlay (sys_out a) (replicate 32 4)"
  have size: "build_u8x4 (?x ! 0) (?x ! Suc 0) (?x ! 2) (?x ! 3) < 4 \<longleftrightarrow> \<not> 4 \<le> le_val (take 4 ?x)"
    using unat_build_u8x4 [of ?x] by (simp add: word_less_nat_alt not_le)
  show ?thesis
    using c1 c2 size
    by (simp add: Connection_read_def Let_def FileHandleConnection_rawRead_def u blank_count_eq)
      (simp split: prod.splits)
qed

end
