(* ===== verification/Sockets.thy ===== *)
theory Sockets
  imports Connections
begin

text \<open>
  \<^verbatim>\<open>SocketConnection.h\<close>, \<^verbatim>\<open>SocketConnection.cc\<close>, \<^verbatim>\<open>UnixDomainSocketConnection.h\<close>
  and \<^verbatim>\<open>UnixDomainSocketConnection.cc\<close>: sockets that are dialled or announced once.

  The numbers behind the names of the system headers (\<^verbatim>\<open>AF_UNIX\<close>, \<^verbatim>\<open>SOCK_STREAM\<close>,
  the size and the offset of \<^verbatim>\<open>sun_path\<close> and so on) are the record \<open>platform\<close>, a
  parameter of the definitions that use them.

  \<open>SocketConnection\<close> is abstract: \<^verbatim>\<open>performDial\<close> and \<^verbatim>\<open>performAnnounce\<close> are arguments
  of \<open>dial\<close> and \<open>announce\<close>. What the class relies on is the locale
  \<open>socket_impl\<close>, with \<open>UnixDomainSocketConnection\<close> as its interpretation. An operation is
  an action on the object together with the outside world. \<open>socket_step\<close> is the step relation of
  a Unix domain socket whose owner goes on after exceptions.
\<close>

unbundle bit_operations_syntax

section \<open>Names of the system headers\<close>

record platform =
  AF_UNIX :: int
  AF_LOCAL :: int
  AF_INET :: int
  AF_INET6 :: int
  AF_IPX :: int
  AF_NETLINK :: int
  AF_X25 :: int
  AF_AX25 :: int
  AF_ATMPVC :: int
  AF_APPLETALK :: int
  AF_PACKET :: int
  AF_ALG :: int
  SOCK_STREAM :: int
  SOCK_DGRAM :: int
  SOCK_SEQPACKET :: int
  SOCK_RAW :: int
  SOCK_RDM :: int
  SOCK_NONBLOCK :: int
  SOCK_CLOEXEC :: int
  SOL_SOCKET :: int
  SO_REUSEADDR :: int
  SIGPIPE :: int
  SIG_IGN :: int
  S_IRWXU :: int
  sun_path_size :: nat
  sun_path_offset :: nat

section \<open>Socket kinds\<close>

datatype SocketDomain =
    Unix | Local | IPv4 | IPv6 | IPX | Netlink
  | X25 | AX25 | ATMPVC | AppleTalk | LowLevelPacket | KernelCryptoAPI

primrec SocketDomain_int :: "platform \<Rightarrow> SocketDomain \<Rightarrow> int" where
  "SocketDomain_int p Unix = AF_UNIX p"
| "SocketDomain_int p Local = AF_LOCAL p"
| "SocketDomain_int p IPv4 = AF_INET p"
| "SocketDomain_int p IPv6 = AF_INET6 p"
| "SocketDomain_int p IPX = AF_IPX p"
| "SocketDomain_int p Netlink = AF_NETLINK p"
| "SocketDomain_int p X25 = AF_X25 p"
| "SocketDomain_int p AX25 = AF_AX25 p"
| "SocketDomain_int p ATMPVC = AF_ATMPVC p"
| "SocketDomain_int p AppleTalk = AF_APPLETALK p"
| "SocketDomain_int p LowLevelPacket = AF_PACKET p"
| "SocketDomain_int p KernelCryptoAPI = AF_ALG p"

datatype SocketType =
    Stream | NonBlockingStream | StreamCloseOnExec | NonBlockingStreamCloseOnExec
  | Datagram | NonBlockingDatagram | DatagramCloseOnExec | NonBlockingDatagramCloseOnExec
  | SequencedPacket | NonBlockingSequencedPacket | SequencedPacketCloseOnExec | NonBlockingSequencedPacketCloseOnExec
  | Raw | NonBlockingRaw | RawCloseOnExec | NonBlockingRawCloseOnExec
  | ReliableDatagram | NonBlockingReliableDatagram | ReliableDatagramCloseOnExec | NonBlockingReliableDatagramCloseOnExec

primrec SocketType_int :: "platform \<Rightarrow> SocketType \<Rightarrow> int" where
  "SocketType_int p Stream = SOCK_STREAM p"
| "SocketType_int p NonBlockingStream = SOCK_STREAM p OR SOCK_NONBLOCK p"
| "SocketType_int p StreamCloseOnExec = SOCK_STREAM p OR SOCK_CLOEXEC p"
| "SocketType_int p NonBlockingStreamCloseOnExec = SOCK_STREAM p OR SOCK_NONBLOCK p OR SOCK_CLOEXEC p"
| "SocketType_int p Datagram = SOCK_DGRAM p"
| "SocketType_int p NonBlockingDatagram = SOCK_DGRAM p OR SOCK_NONBLOCK p"
| "SocketType_int p DatagramCloseOnExec = SOCK_DGRAM p OR SOCK_CLOEXEC p"
| "SocketType_int p NonBlockingDatagramCloseOnExec = SOCK_DGRAM p OR SOCK_NONBLOCK p OR SOCK_CLOEXEC p"
| "SocketType_int p SequencedPacket = SOCK_SEQPACKET p"
| "SocketType_int p NonBlockingSequencedPacket = SOCK_SEQPACKET p OR SOCK_NONBLOCK p"
| "SocketType_int p SequencedPacketCloseOnExec = SOCK_SEQPACKET p OR SOCK_CLOEXEC p"
| "SocketType_int p NonBlockingSequencedPacketCloseOnExec = SOCK_SEQPACKET p OR SOCK_NONBLOCK p OR SOCK_CLOEXEC p"
| "SocketType_int p Raw = SOCK_RAW p"
| "SocketType_int p NonBlockingRaw = SOCK_RAW p OR SOCK_NONBLOCK p"
| "SocketType_int p RawCloseOnExec = SOCK_RAW p OR SOCK_CLOEXEC p"
| "SocketType_int p NonBlockingRawCloseOnExec = SOCK_RAW p OR SOCK_NONBLOCK p OR SOCK_CLOEXEC p"
| "SocketType_int p ReliableDatagram = SOCK_RDM p"
| "SocketType_int p NonBlockingReliableDatagram = SOCK_RDM p OR SOCK_NONBLOCK p"
| "SocketType_int p ReliableDatagramCloseOnExec = SOCK_RDM p OR SOCK_CLOEXEC p"
| "SocketType_int p NonBlockingReliableDatagramCloseOnExec = SOCK_RDM p OR SOCK_NONBLOCK p OR SOCK_CLOEXEC p"

definition isNonBlocking :: "platform \<Rightarrow> SocketType \<Rightarrow> bool" where
  "isNonBlocking p t \<longleftrightarrow> SocketType_int p t AND SOCK_NONBLOCK p \<noteq> 0"

definition isCloseOnExec :: "platform \<Rightarrow> SocketType \<Rightarrow> bool" where
  "isCloseOnExec p t \<longleftrightarrow> SocketType_int p t AND SOCK_CLOEXEC p \<noteq> 0"

section \<open>SocketConnection\<close>

datatype SocketMode = UndefinedMode | ConnectTo | Listen

record SocketConnection = FileHandleConnection +
  sc_domain :: SocketDomain
  sc_type :: SocketType
  sc_protocol :: int
  sc_mode :: SocketMode
  sc_address :: std_string

type_synonym 'w socket_state = "SocketConnection \<times> 'w"

definition SocketConnection_ctor ::
  "platform \<Rightarrow> 'w kernel \<Rightarrow> SocketDomain \<Rightarrow> SocketType \<Rightarrow> int \<Rightarrow> 'w world \<Rightarrow>
     SocketConnection \<times> 'w world" where
  "SocketConnection_ctor p k domain typ protocol w =
     (case do_call k (Sys_socket (SocketDomain_int p domain) (SocketType_int p typ) protocol) w of (r, w') \<Rightarrow>
        (\<lparr>fh_handle = sys_ret r, fh_destroy = True, sc_domain = domain, sc_type = typ,
          sc_protocol = protocol, sc_mode = UndefinedMode, sc_address = []\<rparr>, w'))"

definition SocketConnection_dtor :: "'w kernel \<Rightarrow> SocketConnection \<Rightarrow> 'w world \<Rightarrow> 'w world" where
  "SocketConnection_dtor k c w = FileHandleConnection_dtor k c w"

definition dial ::
  "('w socket_state, unit) action \<Rightarrow> std_string \<Rightarrow> ('w socket_state, unit) action" where
  "dial performDial addr s =
     (case s of (c, w) \<Rightarrow>
        if sc_mode c \<noteq> UndefinedMode
        then throwM [Lit ''SocketConnection's mode is already set''] (c, w)
        else if \<not> isValidHandle c
        then throwM [Lit ''Provided socket is not valid! Cannot dial!''] (c, w)
        else performDial (c\<lparr>sc_mode := ConnectTo, sc_address := addr\<rparr>, w))"

definition announce ::
  "('w socket_state, unit) action \<Rightarrow> std_string \<Rightarrow> ('w socket_state, unit) action" where
  "announce performAnnounce addr s =
     (case s of (c, w) \<Rightarrow>
        if sc_mode c \<noteq> UndefinedMode
        then throwM [Lit ''SocketConnection's mode is already set''] (c, w)
        else if \<not> isValidHandle c
        then throwM [Lit ''Provided socket is not valid! Cannot announce!''] (c, w)
        else performAnnounce (c\<lparr>sc_mode := Listen, sc_address := addr\<rparr>, w))"

section \<open>UnixDomainSocketConnection\<close>

text \<open>The class adds no member to its parent. The bodies of both destructors are empty.\<close>

type_synonym UnixDomainSocketConnection = SocketConnection

text \<open>A system call on behalf of a socket.\<close>

definition sys :: "'w kernel \<Rightarrow> syscall \<Rightarrow> ('w world socket_state, sysret) action" where
  "sys k call s = (case s of (c, w) \<Rightarrow> (case do_call k call w of (r, w') \<Rightarrow> (Ok r, (c, w'))))"

text \<open>What a function that takes a C string reads of a byte array.\<close>

definition c_str :: "byte list \<Rightarrow> byte list" where
  "c_str = takeWhile (\<lambda>b. b \<noteq> 0)"

definition UnixDomainSocketConnection_ctor ::
  "platform \<Rightarrow> 'w kernel \<Rightarrow> 'w world \<Rightarrow> UnixDomainSocketConnection \<times> 'w world" where
  "UnixDomainSocketConnection_ctor p k w = SocketConnection_ctor p k Unix Stream 0 w"

definition UnixDomainSocketConnection_dtor ::
  "'w kernel \<Rightarrow> UnixDomainSocketConnection \<Rightarrow> 'w world \<Rightarrow> 'w world" where
  "UnixDomainSocketConnection_dtor k c w = SocketConnection_dtor k c w"

text \<open>
  \<^verbatim>\<open>copy\<close> writes no terminating NUL. When it fills the array, \<^verbatim>\<open>SUN_LEN\<close> takes the
  \<^verbatim>\<open>strlen\<close> of characters that have no end inside the array: undefined behaviour.
\<close>

definition setupStructures :: "platform \<Rightarrow> std_string \<Rightarrow> (sockaddr_un \<times> nat) result" where
  "setupStructures p address =
     (let sa = \<lparr>sun_family = AF_UNIX p,
                sun_path = overlay address (replicate (sun_path_size p) 0)\<rparr>
      in if 0 \<in> set (sun_path sa) then Ok (sa, sun_path_offset p + length (c_str (sun_path sa)))
         else Undef)"

definition setupM :: "platform \<Rightarrow> ('w socket_state, sockaddr_un \<times> nat) action" where
  "setupM p s = (setupStructures p (sc_address (fst s)), s)"

definition performDial :: "platform \<Rightarrow> 'w kernel \<Rightarrow> ('w world socket_state, unit) action" where
  "performDial p k s =
     (let h = fh_handle (fst s) in
      bindM (setupM p) (\<lambda>(sa, salen).
      bindM (sys k (Sys_connect h sa salen)) (\<lambda>r.
        if sys_ret r \<noteq> 0 then throwM [Lit ''Could not connect to unix domain socket'']
        else retM ())) s)"

definition performAnnounce :: "platform \<Rightarrow> 'w kernel \<Rightarrow> ('w world socket_state, unit) action" where
  "performAnnounce p k s =
     (let h = fh_handle (fst s); path = c_str (sc_address (fst s)) in
      bindM (sys k (Sys_signal (SIGPIPE p) (SIG_IGN p))) (\<lambda>_.
      bindM (setupM p) (\<lambda>(sa, salen).
      bindM (sys k (Sys_setsockopt h (SOL_SOCKET p) (SO_REUSEADDR p) 1)) (\<lambda>r.
        if sys_ret r < 0 then throwM [Lit ''Could not set socket options!''] else
      bindM (sys k (Sys_unlink path)) (\<lambda>_.
      bindM (sys k (Sys_bind h sa salen)) (\<lambda>r.
        if sys_ret r < 0 then throwM [Lit ''Could not bind socket!''] else
      bindM (sys k (Sys_chmod path (S_IRWXU p))) (\<lambda>_.
      bindM (sys k (Sys_listen h 32)) (\<lambda>r.
        if sys_ret r < 0 then throwM [Lit ''Could not listen on socket!''] else retM ()))))))) s)"

section \<open>What a socket relies on\<close>

text \<open>
  The two virtual functions leave the members of \<open>SocketConnection\<close> alone. A caller that
  catches exceptions may try again: \<open>attempts\<close> is a sequence of tries and their outcomes.
\<close>

datatype attempt = Dial std_string | Announce std_string

fun try_socket ::
  "('w socket_state, unit) action \<Rightarrow> ('w socket_state, unit) action \<Rightarrow> attempt \<Rightarrow>
     ('w socket_state, unit) action" where
  "try_socket pd pa (Dial a) = dial pd a"
| "try_socket pd pa (Announce a) = announce pa a"

fun attempts ::
  "('w socket_state, unit) action \<Rightarrow> ('w socket_state, unit) action \<Rightarrow> attempt list \<Rightarrow>
     'w socket_state \<Rightarrow> unit result list \<times> 'w socket_state" where
  "attempts pd pa [] s = ([], s)"
| "attempts pd pa (a # as) s =
     (case try_socket pd pa a s of (r, s1) \<Rightarrow>
        (case attempts pd pa as s1 of (rs, s') \<Rightarrow> (r # rs, s')))"

definition already_set :: Exception where
  "already_set = Exception_ctor [Lit ''SocketConnection's mode is already set'']"

locale socket_impl =
  fixes pd pa :: "('w socket_state, unit) action"
  assumes dial_keeps: "pd s = (r, s') \<Longrightarrow> fst s' = fst s"
    and announce_keeps: "pa s = (r, s') \<Longrightarrow> fst s' = fst s"
begin

lemma attempt_marks:
  assumes "sc_mode (fst s) = UndefinedMode" and "isValidHandle (fst s)" and "try_socket pd pa a s = (r, s')"
  shows "fst s' = (fst s)\<lparr>sc_mode := (case a of Dial _ \<Rightarrow> ConnectTo | Announce _ \<Rightarrow> Listen),
    sc_address := (case a of Dial d \<Rightarrow> d | Announce d \<Rightarrow> d)\<rparr>"
  using assms
  by (cases a; cases s) (auto simp: dial_def announce_def dest!: dial_keeps announce_keeps)

lemma attempt_again:
  "sc_mode (fst s) \<noteq> UndefinedMode \<Longrightarrow>
     try_socket pd pa a s = (Throw already_set, s)"
  by (cases a; cases s) (simp_all add: dial_def announce_def already_set_def)

lemma attempt_invalid:
  "sc_mode (fst s) = UndefinedMode \<Longrightarrow> \<not> isValidHandle (fst s) \<Longrightarrow>
     \<exists>e. try_socket pd pa a s = (Throw e, s)"
  by (cases a; cases s) (simp_all add: dial_def announce_def)

lemma attempt_object:
  assumes "try_socket pd pa a s = (r, s')"
  shows "fh_handle (fst s') = fh_handle (fst s) \<and> fh_destroy (fst s') = fh_destroy (fst s)"
proof (cases "sc_mode (fst s) = UndefinedMode \<and> isValidHandle (fst s)")
  case True
  with attempt_marks [OF _ _ assms] show ?thesis by simp
next
  case False
  then have "\<exists>e. try_socket pd pa a s = (Throw e, s)"
    using attempt_again attempt_invalid by blast
  with assms show ?thesis by auto
qed

lemma attempts_again:
  "sc_mode (fst s) \<noteq> UndefinedMode \<Longrightarrow>
     attempts pd pa as s = (replicate (length as) (Throw already_set), s)"
  by (induction as) (simp_all add: attempt_again)

text \<open>Only the first try counts, whether it succeeds or not.\<close>

lemma attempts_once:
  assumes "sc_mode (fst s) = UndefinedMode" and "isValidHandle (fst s)"
    and "try_socket pd pa a s = (r, s1)"
  shows "attempts pd pa (a # as) s =
    (r # replicate (length as) (Throw already_set), s1)"
proof -
  have "sc_mode (fst s1) \<noteq> UndefinedMode"
    using attempt_marks [OF assms] by (simp split: attempt.splits)
  with assms(3) show ?thesis by (simp add: attempts_again)
qed

end

section \<open>Lemmas\<close>

lemma sys_apply: "sys k call s = (Ok (fst (do_call k call (snd s))), (fst s, snd (do_call k call (snd s))))"
  by (cases s) (simp add: sys_def split: prod.splits)

lemma bindM_sys:
  "bindM (sys k call) f s = f (fst (do_call k call (snd s))) (fst s, snd (do_call k call (snd s)))"
  by (simp add: sys_apply bindM_def)

lemma bindM_setupM:
  "bindM (setupM p) f s =
     (case setupStructures p (sc_address (fst s)) of
        Ok x \<Rightarrow> f x s | Throw e \<Rightarrow> (Throw e, s) | Undef \<Rightarrow> (Undef, s))"
  by (simp add: setupM_def bindM_def split: result.splits)

lemma trace_socket_dtor:
  "trace (UnixDomainSocketConnection_dtor k c w) =
     trace w @ (if 0 \<le> fh_handle c \<and> fh_destroy c then [Sys_close (fh_handle c)] else [])"
  by (simp add: UnixDomainSocketConnection_dtor_def SocketConnection_dtor_def trace_dtor)

lemmas perform_simps = performDial_def performAnnounce_def bindM_sys bindM_setupM Let_def

lemma trace_do_call [simp]: "trace (snd (do_call k call w)) = trace w @ [call]"
  by (simp add: do_call_def split: prod.splits)

lemma setupStructures_cases:
  "setupStructures p a = Undef \<or> (\<exists>sa n. setupStructures p a = Ok (sa, n))"
  by (simp add: setupStructures_def Let_def)

interpretation unix: socket_impl "performDial p k" "performAnnounce p k"
  for p :: platform and k :: "'w kernel"
proof unfold_locales
  fix s s' :: "'w world socket_state" and r
  show "performDial p k s = (r, s') \<Longrightarrow> fst s' = fst s"
    by (auto simp: perform_simps split: result.splits if_splits)
  show "performAnnounce p k s = (r, s') \<Longrightarrow> fst s' = fst s"
    by (auto simp: perform_simps split: result.splits if_splits)
qed

section \<open>The life of a Unix domain socket\<close>

text \<open>
  The owner of a socket dials, announces, writes and reads in any order, with any arguments, and
  goes on after exceptions. A step that has undefined behaviour is no step.
\<close>

inductive socket_step ::
  "platform \<Rightarrow> 'w kernel \<Rightarrow> (nat \<Rightarrow> nat) \<Rightarrow> 'w world socket_state \<Rightarrow> 'w world socket_state \<Rightarrow> bool"
  for p :: platform and k :: "'w kernel" and cap :: "nat \<Rightarrow> nat" where
  step_dial: "dial (performDial p k) a s = (r, s') \<Longrightarrow> r \<noteq> Undef \<Longrightarrow> socket_step p k cap s s'"
| step_announce: "announce (performAnnounce p k) a s = (r, s') \<Longrightarrow> r \<noteq> Undef \<Longrightarrow> socket_step p k cap s s'"
| step_write: "Connection_write (FileHandleConnection_rawWrite k c) msg w = (r, w') \<Longrightarrow>
    socket_step p k cap (c, w) (c, w')"
| step_read: "Connection_read (FileHandleConnection_rawRead k cap c) msg w = (r, msg', w') \<Longrightarrow>
    socket_step p k cap (c, w) (c, w')"

inductive socket_reachable ::
  "platform \<Rightarrow> 'w kernel \<Rightarrow> (nat \<Rightarrow> nat) \<Rightarrow> 'w world \<Rightarrow> 'w world socket_state \<Rightarrow> bool"
  for p :: platform and k :: "'w kernel" and cap :: "nat \<Rightarrow> nat" and w0 :: "'w world" where
  reach_new: "socket_reachable p k cap w0 (UnixDomainSocketConnection_ctor p k w0)"
| reach_step: "socket_reachable p k cap w0 s \<Longrightarrow> socket_step p k cap s s' \<Longrightarrow>
    socket_reachable p k cap w0 s'"

inductive_cases socket_stepE: "socket_step p k cap s s'"

text \<open>
  The protocol a socket keeps with the operating system: its system calls, those that move data
  over its own handle aside, are its creation followed by what its mode allows.
\<close>

fun io_on :: "int \<Rightarrow> syscall \<Rightarrow> bool" where
  "io_on h (Sys_write f d) = (f = h)"
| "io_on h (Sys_read f n) = (f = h)"
| "io_on h _ = False"

definition announce_calls :: "platform \<Rightarrow> int \<Rightarrow> std_string \<Rightarrow> sockaddr_un \<Rightarrow> nat \<Rightarrow> syscall list" where
  "announce_calls p h address sa salen =
     [Sys_signal (SIGPIPE p) (SIG_IGN p), Sys_setsockopt h (SOL_SOCKET p) (SO_REUSEADDR p) 1,
      Sys_unlink (c_str address), Sys_bind h sa salen, Sys_chmod (c_str address) (S_IRWXU p),
      Sys_listen h 32]"

text \<open>How many of these calls an announcement makes, and how it ends.\<close>

definition announce_outcomes :: "(nat \<times> unit result) list" where
  "announce_outcomes =
     [(2, Throw (Exception_ctor [Lit ''Could not set socket options!''])),
      (4, Throw (Exception_ctor [Lit ''Could not bind socket!''])),
      (6, Throw (Exception_ctor [Lit ''Could not listen on socket!''])),
      (6, Ok ())]"

definition mode_calls :: "platform \<Rightarrow> SocketConnection \<Rightarrow> syscall list list" where
  "mode_calls p c =
     (case sc_mode c of
        UndefinedMode \<Rightarrow> [[]]
      | ConnectTo \<Rightarrow> (case setupStructures p (sc_address c) of
          Ok (sa, salen) \<Rightarrow> [[Sys_connect (fh_handle c) sa salen]] | _ \<Rightarrow> [])
      | Listen \<Rightarrow> (case setupStructures p (sc_address c) of
          Ok (sa, salen) \<Rightarrow>
            map (\<lambda>n. take n (announce_calls p (fh_handle c) (sc_address c) sa salen)) [2, 4, 6]
        | _ \<Rightarrow> []))"

definition protocol :: "platform \<Rightarrow> SocketConnection \<Rightarrow> syscall list \<Rightarrow> bool" where
  "protocol p c cs \<longleftrightarrow>
     (\<exists>m \<in> set (mode_calls p c).
        filter (\<lambda>x. \<not> io_on (fh_handle c) x) cs = Sys_socket (AF_UNIX p) (SOCK_STREAM p) 0 # m) \<and>
     fh_destroy c \<and>
     (sc_mode c \<noteq> UndefinedMode \<longrightarrow> isValidHandle c)"

definition socket_inv :: "platform \<Rightarrow> 'w world \<Rightarrow> 'w world socket_state \<Rightarrow> bool" where
  "socket_inv p w0 s \<longleftrightarrow> (\<exists>cs. trace (snd s) = trace w0 @ cs \<and> protocol p (fst s) cs)"

lemma rawWrite_io:
  "FileHandleConnection_rawWrite k c d w = (n, w') \<Longrightarrow>
     \<exists>cs. trace w' = trace w @ cs \<and> (\<forall>x \<in> set cs. io_on (fh_handle c) x)"
  by (auto simp: FileHandleConnection_rawWrite_def do_call_def split: if_splits prod.splits)

lemma rawRead_io:
  "FileHandleConnection_rawRead k cap c d w = (n, w') \<Longrightarrow>
     \<exists>cs. trace w' = trace w @ cs \<and> (\<forall>x \<in> set cs. io_on (fh_handle c) x)"
  by (auto simp: FileHandleConnection_rawRead_def do_call_def split: if_splits prod.splits)

lemma write_io:
  assumes "Connection_write (FileHandleConnection_rawWrite k c) msg w = (r, w')"
  shows "\<exists>cs. trace w' = trace w @ cs \<and> (\<forall>x \<in> set cs. io_on (fh_handle c) x)"
proof -
  have "w' = w \<or> (\<exists>d n. FileHandleConnection_rawWrite k c d w = (n, w'))"
    using assms by (auto simp: Connection_write_def Let_def split: if_splits prod.splits)
  with rawWrite_io show ?thesis by fastforce
qed

lemma read_io:
  assumes "Connection_read (FileHandleConnection_rawRead k cap c) msg w = (r, msg', w')"
  shows "\<exists>cs. trace w' = trace w @ cs \<and> (\<forall>x \<in> set cs. io_on (fh_handle c) x)"
proof -
  obtain d n w1 where r1: "FileHandleConnection_rawRead k cap c d w = (n, w1)"
    and r2: "w' = w1 \<or> (\<exists>d n. FileHandleConnection_rawRead k cap c d w1 = (n, w'))"
    using assms unfolding Connection_read_def Let_def by (force split: if_splits prod.splits)
  from rawRead_io [OF r1] r2 rawRead_io [of k cap c _ w1 _ w'] show ?thesis
    by (metis Un_iff append.assoc set_append)
qed

lemma socket_inv_io:
  assumes "socket_inv p w0 (c, w)" and "trace w' = trace w @ cs" and "\<forall>x \<in> set cs. io_on (fh_handle c) x"
  shows "socket_inv p w0 (c, w')"
proof -
  from assms(1) obtain cs0 where "trace w = trace w0 @ cs0" and "protocol p c cs0"
    by (auto simp: socket_inv_def)
  moreover from assms(3) have "filter (\<lambda>x. \<not> io_on (fh_handle c) x) cs = []" by simp
  ultimately show ?thesis
    using assms(2) by (simp add: socket_inv_def protocol_def)
qed

lemma performDial_Ok_setup:
  assumes "setupStructures p (sc_address c) = Ok (sa, salen)"
    and "do_call k (Sys_connect (fh_handle c) sa salen) w = (a, w')"
  shows "performDial p k (c, w) =
    (if sys_ret a = 0 then Ok ()
     else Throw (Exception_ctor [Lit ''Could not connect to unix domain socket'']), (c, w'))"
  using assms by (simp add: perform_simps)

lemma performAnnounce_trace:
  assumes "setupStructures p (sc_address c) = Ok (sa, salen)" and "performAnnounce p k (c, w) = (r, s')"
  shows "\<exists>(n, r') \<in> set announce_outcomes. r = r' \<and> trace (snd s') =
      trace w @ take n (announce_calls p (fh_handle c) (sc_address c) sa salen)"
  using assms
  by (auto simp: perform_simps announce_calls_def announce_outcomes_def split: if_splits)

lemma perform_Undef:
  assumes "setupStructures p (sc_address c) = Undef"
  shows "fst (performDial p k (c, w)) = Undef" and "fst (performAnnounce p k (c, w)) = Undef"
  using assms by (simp_all add: perform_simps)

text \<open>From a fresh socket with a valid handle, the calls a dial or an announcement adds.\<close>

lemma socket_inv_enter:
  assumes "socket_inv p w0 (c, w)" and "sc_mode c = UndefinedMode" and "isValidHandle c"
    and "c' = c\<lparr>sc_mode := m, sc_address := a\<rparr>" and "m \<noteq> UndefinedMode"
    and "trace w' = trace w @ cs" and "cs \<in> set (mode_calls p c')"
    and "\<forall>x \<in> set cs. \<not> io_on (fh_handle c) x"
  shows "socket_inv p w0 (c', w')"
proof -
  from assms(1) obtain cs0 where t: "trace w = trace w0 @ cs0" and "protocol p c cs0"
    by (auto simp: socket_inv_def)
  then have cs0: "filter (\<lambda>x. \<not> io_on (fh_handle c) x) cs0 = [Sys_socket (AF_UNIX p) (SOCK_STREAM p) 0]"
    and d: "fh_destroy c"
    using assms(2) by (auto simp: protocol_def mode_calls_def)
  from assms(8) have "filter (\<lambda>x. \<not> io_on (fh_handle c) x) cs = cs" by simp
  with cs0 d have "protocol p c' (cs0 @ cs)"
    using assms(3,4,5,7) by (auto simp: protocol_def isValidHandle_def)
  with t assms(6) show ?thesis
    by (auto simp: socket_inv_def)
qed

lemma socket_inv_dial:
  assumes "socket_inv p w0 (c, w)" and "dial (performDial p k) a (c, w) = (r, s')" and "r \<noteq> Undef"
  shows "socket_inv p w0 s'"
proof (cases "sc_mode c = UndefinedMode \<and> isValidHandle c")
  case True
  let ?c = "c\<lparr>sc_mode := ConnectTo, sc_address := a\<rparr>"
  have run: "performDial p k (?c, w) = (r, s')"
    using assms(2) True by (simp add: dial_def)
  then obtain sa n where sa: "setupStructures p a = Ok (sa, n)"
    using setupStructures_cases [of p a] perform_Undef(1) [of p ?c k w] assms(3) by auto
  obtain v w' where v: "do_call k (Sys_connect (fh_handle c) sa n) w = (v, w')"
    by (cases "do_call k (Sys_connect (fh_handle c) sa n) w")
  have s': "s' = (?c, w')"
    using performDial_Ok_setup [of p ?c sa n k w v w'] sa v run by simp
  have t: "trace w' = trace w @ [Sys_connect (fh_handle c) sa n]"
    using trace_do_call [of k "Sys_connect (fh_handle c) sa n" w] v by simp
  show ?thesis
    unfolding s'
    by (rule socket_inv_enter [OF assms(1) _ _ _ _ t, where m = ConnectTo and a = a])
      (use True sa in \<open>simp_all add: mode_calls_def\<close>)
next
  case False
  then show ?thesis
    using assms(1,2) by (auto simp: dial_def split: if_splits)
qed

lemma socket_inv_announce:
  assumes "socket_inv p w0 (c, w)" and "announce (performAnnounce p k) a (c, w) = (r, s')" and "r \<noteq> Undef"
  shows "socket_inv p w0 s'"
proof (cases "sc_mode c = UndefinedMode \<and> isValidHandle c")
  case True
  let ?c = "c\<lparr>sc_mode := Listen, sc_address := a\<rparr>"
  have run: "performAnnounce p k (?c, w) = (r, s')"
    using assms(2) True by (simp add: announce_def)
  then obtain sa n where sa: "setupStructures p a = Ok (sa, n)"
    using setupStructures_cases [of p a] perform_Undef(2) [of p ?c k w] assms(3) by auto
  from performAnnounce_trace [of p ?c sa n k w r s'] sa run
  obtain j where j: "j \<in> {2, 4, 6}" and t: "trace (snd s') = trace w @ take j (announce_calls p (fh_handle c) a sa n)"
    by (auto simp: announce_outcomes_def)
  have s': "s' = (?c, snd s')"
    using unix.announce_keeps [OF run] by (cases s') simp
  show ?thesis
    by (subst s', rule socket_inv_enter [OF assms(1) _ _ _ _ t])
      (use True sa j in \<open>auto simp: mode_calls_def announce_calls_def dest: in_set_takeD\<close>)
next
  case False
  then show ?thesis
    using assms(1,2) by (auto simp: announce_def split: if_splits)
qed

lemma socket_inv_step:
  "socket_step p k cap s s' \<Longrightarrow> socket_inv p w0 s \<Longrightarrow> socket_inv p w0 s'"
  by (cases s, elim socket_stepE)
    (auto intro: socket_inv_dial socket_inv_announce socket_inv_io dest!: write_io read_io)

lemma socket_inv_new: "socket_inv p w0 (UnixDomainSocketConnection_ctor p k w0)"
  by (auto simp: socket_inv_def protocol_def mode_calls_def UnixDomainSocketConnection_ctor_def
      SocketConnection_ctor_def do_call_def split: prod.splits)

lemma socket_inv_reachable: "socket_reachable p k cap w0 s \<Longrightarrow> socket_inv p w0 s"
  by (induction rule: socket_reachable.induct) (auto intro: socket_inv_new socket_inv_step)

end
