(* ===== verification/Socket_Properties.thy ===== *)
theory Socket_Properties
  imports Sockets
begin

text \<open>
  The properties of sockets: the address handed to the operating system, what dialling and
  announcing do on each branch, that a socket has one chance, and the protocol every socket keeps
  over its whole life.
\<close>

unbundle bit_operations_syntax

section \<open>Example platform\<close>

text \<open>The values of the system headers of Linux on x86-64.\<close>

definition linux :: platform where
  "linux = \<lparr>AF_UNIX = 1, AF_LOCAL = 1, AF_INET = 2, AF_INET6 = 10, AF_IPX = 4, AF_NETLINK = 16,
     AF_X25 = 9, AF_AX25 = 3, AF_ATMPVC = 8, AF_APPLETALK = 5, AF_PACKET = 17, AF_ALG = 38,
     SOCK_STREAM = 1, SOCK_DGRAM = 2, SOCK_SEQPACKET = 5, SOCK_RAW = 3, SOCK_RDM = 4,
     SOCK_NONBLOCK = 2048, SOCK_CLOEXEC = 524288, SOL_SOCKET = 1, SO_REUSEADDR = 2, SIGPIPE = 13,
     SIG_IGN = 1, S_IRWXU = 448, sun_path_size = 108, sun_path_offset = 2\<rparr>"

text \<open>
  An operating system in which every call succeeds, one that refuses connections and one that
  refuses to bind.
\<close>

fun willing :: "unit kernel" where
  "willing (Sys_socket d t q) o' = (\<lparr>sys_ret = 3, sys_out = []\<rparr>, o')"
| "willing _ o' = (\<lparr>sys_ret = 0, sys_out = []\<rparr>, o')"

fun refusing :: "unit kernel" where
  "refusing (Sys_socket d t q) o' = (\<lparr>sys_ret = 3, sys_out = []\<rparr>, o')"
| "refusing (Sys_connect h sa n) o' = (\<lparr>sys_ret = - 1, sys_out = []\<rparr>, o')"
| "refusing _ o' = (\<lparr>sys_ret = 0, sys_out = []\<rparr>, o')"

fun unbinding :: "unit kernel" where
  "unbinding (Sys_bind h sa n) o' = (\<lparr>sys_ret = - 1, sys_out = []\<rparr>, o')"
| "unbinding _ o' = (\<lparr>sys_ret = 0, sys_out = []\<rparr>, o')"

text \<open>
  What the headers promise of the flags that may be combined with a socket type: they are bits
  of their own.
\<close>

definition separate_flags :: "platform \<Rightarrow> bool" where
  "separate_flags p \<longleftrightarrow>
     SOCK_NONBLOCK p \<noteq> 0 \<and> SOCK_CLOEXEC p \<noteq> 0 \<and> SOCK_NONBLOCK p AND SOCK_CLOEXEC p = 0 \<and>
     (\<forall>t \<in> {SOCK_STREAM p, SOCK_DGRAM p, SOCK_SEQPACKET p, SOCK_RAW p, SOCK_RDM p}.
        t AND SOCK_NONBLOCK p = 0 \<and> t AND SOCK_CLOEXEC p = 0)"

text \<open>
  The reference for an announcement: calls made one after the other, some of which are checked. A
  checked call that is answered with a negative number ends the sequence with its exception.
\<close>

primrec checked_calls ::
  "'w kernel \<Rightarrow> (syscall \<times> string option) list \<Rightarrow> 'w world \<Rightarrow> unit result \<times> 'w world" where
  "checked_calls k [] w = (Ok (), w)"
| "checked_calls k (x # xs) w =
     (case do_call k (fst x) w of (v, w') \<Rightarrow>
        (case snd x of
           None \<Rightarrow> checked_calls k xs w'
         | Some e \<Rightarrow>
             if sys_ret v < 0 then (Throw (Exception_ctor [Lit e]), w') else checked_calls k xs w'))"

definition announce_checks :: "string option list" where
  "announce_checks =
     [None, Some ''Could not set socket options!'', None, Some ''Could not bind socket!'', None,
      Some ''Could not listen on socket!'']"

section \<open>Lemmas\<close>

lemma overlay_zeros:
  "overlay a (replicate n 0) = take n a @ replicate (n - length a) (0 :: byte)"
  by (simp add: overlay_def)

lemma c_str_zeros: "c_str (a @ replicate (Suc n) 0) = c_str a"
  by (induction a) (simp_all add: c_str_def)

lemma c_str_take: "0 \<in> set (take n a) \<Longrightarrow> c_str (take n a) = c_str a"
proof (induction n arbitrary: a)
  case (Suc n)
  then show ?case by (cases a) (auto simp: c_str_def)
qed simp

lemma c_str_append_zero: "0 \<in> set a \<Longrightarrow> c_str (a @ b) = c_str a"
  by (induction a) (auto simp: c_str_def)

lemma setup_short:
  assumes "length a < sun_path_size p"
  shows "setupStructures p a = Ok (\<lparr>sun_family = AF_UNIX p,
    sun_path = a @ replicate (sun_path_size p - length a) 0\<rparr>, sun_path_offset p + length (c_str a))"
proof -
  obtain n where "sun_path_size p - length a = Suc n"
    using assms by (metis Suc_diff_Suc)
  with assms c_str_zeros [of a n] show ?thesis
    by (simp add: setupStructures_def overlay_zeros)
qed

lemma dial_short:
  assumes "sc_mode c = UndefinedMode" and "isValidHandle c" and "length a < sun_path_size p"
  shows "dial (performDial p k) a (c, w) =
    (case do_call k (Sys_connect (fh_handle c) \<lparr>sun_family = AF_UNIX p,
          sun_path = a @ replicate (sun_path_size p - length a) 0\<rparr>
          (sun_path_offset p + length (c_str a))) w of (v, w') \<Rightarrow>
       (if sys_ret v = 0 then Ok ()
        else Throw (Exception_ctor [Lit ''Could not connect to unix domain socket'']),
        (c\<lparr>sc_mode := ConnectTo, sc_address := a\<rparr>, w')))"
  using assms setup_short [OF assms(3)]
  by (simp add: dial_def performDial_Ok_setup [OF _ prod.collapse [symmetric]] case_prod_beta)

lemma performAnnounce_checked:
  assumes "setupStructures p (sc_address c) = Ok (sa, n)" and "performAnnounce p k (c, w) = (r, s')"
  shows "(r, snd s') =
    checked_calls k (zip (announce_calls p (fh_handle c) (sc_address c) sa n) announce_checks) w"
  using assms
  by (auto simp: perform_simps announce_calls_def announce_checks_def case_prod_beta split: if_splits)

lemma flag_OR:
  "(t OR f) AND g = 0 \<longleftrightarrow> t AND g = 0 \<and> f AND g = (0 :: int)"
  by (simp add: bit.conj_disj_distrib2 or_eq_0_iff)

lemma protocol_no_close:
  assumes "protocol p c cs"
  shows "Sys_close h \<notin> set cs"
proof
  assume "Sys_close h \<in> set cs"
  then have "Sys_close h \<in> set (filter (\<lambda>x. \<not> io_on (fh_handle c) x) cs)" by simp
  moreover obtain m where m: "m \<in> set (mode_calls p c)"
    and "filter (\<lambda>x. \<not> io_on (fh_handle c) x) cs = Sys_socket (AF_UNIX p) (SOCK_STREAM p) 0 # m"
    using assms by (auto simp: protocol_def)
  ultimately have "Sys_close h \<in> set m" by simp
  with m show False
    by (auto simp: mode_calls_def announce_calls_def dest: in_set_takeD
        split: SocketMode.splits result.splits prod.splits)
qed

lemma perform_mode:
  "dial (performDial p k) a (c, w) = (r, s') \<Longrightarrow> sc_mode c = UndefinedMode \<Longrightarrow> isValidHandle c \<Longrightarrow>
     performDial p k (c\<lparr>sc_mode := ConnectTo, sc_address := a\<rparr>, w) = (r, s')"
  "announce (performAnnounce p k) a (c, w) = (r, s') \<Longrightarrow> sc_mode c = UndefinedMode \<Longrightarrow> isValidHandle c \<Longrightarrow>
     performAnnounce p k (c\<lparr>sc_mode := Listen, sc_address := a\<rparr>, w) = (r, s')"
  by (simp_all add: dial_def announce_def)

abbreviation fresh :: SocketConnection where
  "fresh \<equiv> \<lparr>fh_handle = 3, fh_destroy = True, sc_domain = Unix, sc_type = Stream,
     sc_protocol = 0, sc_mode = UndefinedMode, sc_address = []\<rparr>"

section \<open>Properties\<close>

text \<open>
  C27. The address structure. When the address is shorter than \<^verbatim>\<open>sun_path\<close>, or has a NUL
  among the characters that fit, the structure holds its first characters padded with NULs, a
  reader of the C string sees the address as a C string, and the length covers exactly that.
  An address of at least the size of \<^verbatim>\<open>sun_path\<close> with no NUL among the characters that
  fit makes the length undefined.
\<close>

theorem setupStructures_behaviour:
  "if length a < sun_path_size p \<or> 0 \<in> set (take (sun_path_size p) a)
   then (\<exists>sa. setupStructures p a = Ok (sa, sun_path_offset p + length (c_str a)) \<and>
           sun_family sa = AF_UNIX p \<and>
           sun_path sa = take (sun_path_size p) a @ replicate (sun_path_size p - length a) 0 \<and>
           length (sun_path sa) = sun_path_size p \<and> c_str (sun_path sa) = c_str a)
   else setupStructures p a = Undef"
proof (cases "length a < sun_path_size p \<or> 0 \<in> set (take (sun_path_size p) a)")
  case True
  let ?path = "take (sun_path_size p) a @ replicate (sun_path_size p - length a) (0 :: byte)"
  have "c_str ?path = c_str a"
  proof (cases "length a < sun_path_size p")
    case True
    then obtain n where "sun_path_size p - length a = Suc n"
      by (metis Suc_diff_Suc)
    with True show ?thesis
      using c_str_zeros [of a n] by simp
  next
    case False
    with True show ?thesis
      by (simp add: c_str_take)
  qed
  moreover have "0 \<in> set ?path" using True by auto
  ultimately show ?thesis
    using True by (auto simp: setupStructures_def overlay_zeros)
next
  case False
  then show ?thesis
    by (auto simp: setupStructures_def overlay_zeros)
qed

text \<open>
  C26. Dialling. A fresh socket with a valid handle and an address that fits makes one call, a
  connect of its handle to that address, and returns if and only if the answer is zero; in both
  cases the socket is from then on a dialled one.
\<close>

theorem unix_dial_behaviour:
  assumes "sc_mode c = UndefinedMode" and "isValidHandle c" and "length a < sun_path_size p"
  shows "case do_call k (Sys_connect (fh_handle c) \<lparr>sun_family = AF_UNIX p,
          sun_path = a @ replicate (sun_path_size p - length a) 0\<rparr>
          (sun_path_offset p + length (c_str a))) w of (v, w') \<Rightarrow>
      dial (performDial p k) a (c, w) =
        (if sys_ret v = 0 then Ok ()
         else Throw (Exception_ctor [Lit ''Could not connect to unix domain socket'']),
         (c\<lparr>sc_mode := ConnectTo, sc_address := a\<rparr>, w'))"
  by (simp add: dial_short [OF assms] case_prod_beta)

theorem unix_dial_behaviour_witness:
  "fst (dial (performDial linux refusing) [47] (fresh, \<lparr>trace = [], os = ()\<rparr>)) =
     Throw (Exception_ctor [Lit ''Could not connect to unix domain socket''])"
  using unix_dial_behaviour [of fresh "[47]" linux refusing "\<lparr>trace = [], os = ()\<rparr>"]
  by (simp add: linux_def isValidHandle_def do_call_def)

text \<open>
  C25. Announcing. On a fresh socket with a valid handle and an address that fits, an announcement
  sets the mode and the address and makes the calls of \<open>announce_calls\<close> in that order. It stops
  after the socket options, the bind or the listen exactly when that call is answered with a
  negative number, with the exception that names it; the answers to the other three calls are not
  looked at. Otherwise it makes all six calls and returns. The outside world it leaves is the one
  these calls leave.
\<close>

theorem unix_announce_behaviour:
  assumes "sc_mode c = UndefinedMode" and "isValidHandle c" and "length a < sun_path_size p"
    and "announce (performAnnounce p k) a (c, w) = (r, s')"
  shows "fst s' = c\<lparr>sc_mode := Listen, sc_address := a\<rparr> \<and>
    (\<exists>(n, r') \<in> set announce_outcomes. r = r' \<and>
      trace (snd s') = trace w @ take n (announce_calls p (fh_handle c) a
        \<lparr>sun_family = AF_UNIX p, sun_path = a @ replicate (sun_path_size p - length a) 0\<rparr>
        (sun_path_offset p + length (c_str a)))) \<and>
    ((\<forall>x o'. 0 \<le> sys_ret (fst (k x o'))) \<longrightarrow> r = Ok ()) \<and>
    (r, snd s') = checked_calls k (zip (announce_calls p (fh_handle c) a
        \<lparr>sun_family = AF_UNIX p, sun_path = a @ replicate (sun_path_size p - length a) 0\<rparr>
        (sun_path_offset p + length (c_str a))) announce_checks) w"
proof -
  note run = perform_mode(2) [OF assms(4,1,2)]
  have "0 \<le> sys_ret (fst (do_call k x v))" if "\<forall>x o'. 0 \<le> sys_ret (fst (k x o'))" for x v
    using that by (simp add: do_call_def split: prod.splits) (metis fst_conv)
  then have "(\<forall>x o'. 0 \<le> sys_ret (fst (k x o'))) \<longrightarrow> r = Ok ()"
    using run setup_short [OF assms(3)] by (auto simp: perform_simps not_less [symmetric])
  then show ?thesis
    using unix.announce_keeps [OF run] performAnnounce_trace [OF _ run]
      performAnnounce_checked [OF _ run] setup_short [OF assms(3)]
    by simp
qed

theorem unix_announce_behaviour_witness:
  "fst (announce (performAnnounce linux unbinding) [47] (fresh, \<lparr>trace = [], os = ()\<rparr>)) =
     Throw (Exception_ctor [Lit ''Could not bind socket!'']) \<and>
   fst (announce (performAnnounce linux willing) [47] (fresh, \<lparr>trace = [], os = ()\<rparr>)) = Ok ()"
proof -
  obtain r s' where e: "announce (performAnnounce linux unbinding) [47] (fresh, \<lparr>trace = [], os = ()\<rparr>) = (r, s')"
    by (cases "announce (performAnnounce linux unbinding) [47] (fresh, \<lparr>trace = [], os = ()\<rparr>)")
  obtain r2 s2 where e2: "announce (performAnnounce linux willing) [47] (fresh, \<lparr>trace = [], os = ()\<rparr>) = (r2, s2)"
    by (cases "announce (performAnnounce linux willing) [47] (fresh, \<lparr>trace = [], os = ()\<rparr>)")
  have l: "length [47 :: byte] < sun_path_size linux" by (simp add: linux_def)
  from unix_announce_behaviour [OF _ _ l e] unix_announce_behaviour [OF _ _ l e2] show ?thesis
    by (simp add: e e2 isValidHandle_def announce_calls_def announce_checks_def do_call_def)
qed

text \<open>
  C24. One chance. Of any sequence of dials and announcements on a fresh socket with a valid handle,
  only the first has an effect, even when it failed: each later one is refused because the mode is
  already set, and changes neither the socket nor the outside world.
\<close>

theorem unix_only_first_attempt:
  assumes "sc_mode c = UndefinedMode" and "isValidHandle c"
    and "try_socket (performDial p k) (performAnnounce p k) a (c, w) = (r, s')"
  shows "attempts (performDial p k) (performAnnounce p k) (a # as) (c, w) =
    (r # replicate (length as) (Throw already_set), s')"
  using unix.attempts_once [of "(c, w)" p k a r s' as] assms by simp

theorem unix_only_first_attempt_witness:
  "\<exists>s'. attempts (performDial linux refusing) (performAnnounce linux refusing) [Dial [47], Dial [47]]
       (fresh, \<lparr>trace = [], os = ()\<rparr>) =
     ([Throw (Exception_ctor [Lit ''Could not connect to unix domain socket'']), Throw already_set], s')"
proof -
  let ?w = "\<lparr>trace = [], os = ()\<rparr> :: unit world"
  have "\<exists>s'. try_socket (performDial linux refusing) (performAnnounce linux refusing) (Dial [47]) (fresh, ?w) =
      (Throw (Exception_ctor [Lit ''Could not connect to unix domain socket'']), s')"
    by (simp add: dial_def perform_simps setup_short linux_def isValidHandle_def do_call_def)
  then obtain s' where e: "try_socket (performDial linux refusing) (performAnnounce linux refusing)
      (Dial [47]) (fresh, ?w) =
      (Throw (Exception_ctor [Lit ''Could not connect to unix domain socket'']), s')" by blast
  from unix_only_first_attempt [OF _ _ e, of "[Dial [47]]"] show ?thesis
    by (simp add: isValidHandle_def)
qed

text \<open>
  C5. The protocol of a socket. In every state a Unix domain socket can come to, by dials,
  announcements, writes and reads in any order and with any outcome, its calls since its creation
  are: the creation, reads and writes of its own handle, and, depending on its mode, nothing
  else, one connect to its address, or a beginning of the announcement of its address that is
  cut only at a call that can fail. So it is never both connected and bound, never connected or
  bound twice, and never listens before it is bound.
\<close>

theorem unix_socket_protocol:
  assumes "socket_reachable p k cap w0 s"
  shows "socket_inv p w0 s"
  using assms by (rule socket_inv_reachable)

theorem unix_socket_protocol_witness:
  "\<exists>s'. socket_reachable linux refusing (\<lambda>n. n) \<lparr>trace = [], os = ()\<rparr> s' \<and>
     sc_mode (fst s') = ConnectTo \<and> socket_inv linux \<lparr>trace = [], os = ()\<rparr> s'"
proof -
  let ?w = "\<lparr>trace = [], os = ()\<rparr> :: unit world"
  let ?s = "UnixDomainSocketConnection_ctor linux refusing ?w"
  obtain r s' where e: "dial (performDial linux refusing) [47] ?s = (r, s')"
    by (cases "dial (performDial linux refusing) [47] ?s")
  then have "r \<noteq> Undef \<and> sc_mode (fst s') = ConnectTo"
    by (auto simp: dial_def perform_simps setup_short linux_def isValidHandle_def do_call_def
        UnixDomainSocketConnection_ctor_def SocketConnection_ctor_def split: if_splits)
  moreover from this e have "socket_reachable linux refusing (\<lambda>n. n) ?w s'"
    by (blast intro: reach_new reach_step step_dial)
  ultimately show ?thesis
    using unix_socket_protocol by blast
qed

text \<open>
  C23. The handle of a socket is closed exactly once, at the end. Over its whole life, ending with
  its destruction, a Unix domain socket closes nothing but its own handle, that only if the
  operating system gave it one, and as its last call.
\<close>

theorem unix_socket_closed_once:
  assumes "socket_reachable p k cap w0 s"
  shows "\<exists>cs. trace (UnixDomainSocketConnection_dtor k (fst s) (snd s)) =
      trace w0 @ cs @ (if 0 \<le> fh_handle (fst s) then [Sys_close (fh_handle (fst s))] else []) \<and>
    (\<forall>h. Sys_close h \<notin> set cs)"
proof -
  from socket_inv_reachable [OF assms] obtain cs where t: "trace (snd s) = trace w0 @ cs"
    and pr: "protocol p (fst s) cs"
    by (auto simp: socket_inv_def)
  from pr have "fh_destroy (fst s)" by (simp add: protocol_def)
  with t have "trace (UnixDomainSocketConnection_dtor k (fst s) (snd s)) =
      trace w0 @ cs @ (if 0 \<le> fh_handle (fst s) then [Sys_close (fh_handle (fst s))] else [])"
    by (simp add: trace_socket_dtor)
  with protocol_no_close [OF pr] show ?thesis by blast
qed

theorem unix_socket_closed_once_witness:
  "\<exists>cs. trace (case UnixDomainSocketConnection_ctor linux willing \<lparr>trace = [], os = ()\<rparr> of
      (c, w) \<Rightarrow> UnixDomainSocketConnection_dtor willing c w) = cs @ [Sys_close 3] \<and> (\<forall>h. Sys_close h \<notin> set cs)"
  using unix_socket_closed_once [OF reach_new [of linux willing "\<lambda>n. n" "\<lparr>trace = [], os = ()\<rparr>"]]
  by (simp add: UnixDomainSocketConnection_ctor_def SocketConnection_ctor_def do_call_def)

text \<open>
  C38. The flags of a socket type. When the flags are bits of their own, a type is recognised as
  non-blocking, or as closed on exec, exactly when it is one of the ten whose name says so.
\<close>

theorem socket_type_flags:
  assumes "separate_flags p"
  shows "(isNonBlocking p t \<longleftrightarrow> t \<in> {NonBlockingStream, NonBlockingStreamCloseOnExec,
      NonBlockingDatagram, NonBlockingDatagramCloseOnExec, NonBlockingSequencedPacket,
      NonBlockingSequencedPacketCloseOnExec, NonBlockingRaw, NonBlockingRawCloseOnExec,
      NonBlockingReliableDatagram, NonBlockingReliableDatagramCloseOnExec}) \<and>
    (isCloseOnExec p t \<longleftrightarrow> t \<in> {StreamCloseOnExec, NonBlockingStreamCloseOnExec,
      DatagramCloseOnExec, NonBlockingDatagramCloseOnExec, SequencedPacketCloseOnExec,
      NonBlockingSequencedPacketCloseOnExec, RawCloseOnExec, NonBlockingRawCloseOnExec,
      ReliableDatagramCloseOnExec, NonBlockingReliableDatagramCloseOnExec})"
  using assms and.commute [of "SOCK_CLOEXEC p" "SOCK_NONBLOCK p"]
  by (cases t) (simp_all add: isNonBlocking_def isCloseOnExec_def separate_flags_def flag_OR)

theorem socket_type_flags_witness:
  "isNonBlocking linux NonBlockingRaw \<and> \<not> isCloseOnExec linux NonBlockingRaw"
  using socket_type_flags [of linux NonBlockingRaw] by (simp add: separate_flags_def linux_def)

end
