(* ===== verification/Client_Session.thy ===== *)
theory Client_Session
  imports Message_Properties Connection_Properties Socket_Properties
begin

text \<open>
  A client at work: the life of a Unix domain socket that is made, dialled, used to send
  interactions and destroyed, composed of the operations of all components. An exception ends the
  session; the socket is destroyed on every way out, as the end of its scope does.

  \<open>script\<close> is the abstract specification: a list of system calls, each with the answers that let
  the caller go on. A session does what its script says, whatever the operating system is.

  \<open>cooperative\<close> is what a client relies on in the operating system to get its messages out, and
  what the manual pages say of calls that succeed: \<^verbatim>\<open>socket\<close> gives a handle, \<^verbatim>\<open>connect\<close>
  gives zero, and \<^verbatim>\<open>write\<close> gives the number of bytes.
\<close>

section \<open>Sending over a connection\<close>

text \<open>Each interaction travels in a stream of its own, as the frames of \<open>Connection\<close> ask for.\<close>

definition send_interaction :: "'w Connection \<Rightarrow> nat \<Rightarrow> 'w SendInteraction" where
  "send_interaction c m i w =
     (case Interaction_encode i (ss_new m) of (r, s) \<Rightarrow>
        (case r of Ok _ \<Rightarrow> Connection_insert c s w | Throw e \<Rightarrow> (Throw e, w) | Undef \<Rightarrow> (Undef, w)))"

section \<open>Sessions\<close>

definition client_session ::
  "platform \<Rightarrow> 'w kernel \<Rightarrow> (nat \<Rightarrow> nat) \<Rightarrow> std_string \<Rightarrow> nat \<Rightarrow> Interaction list \<Rightarrow> ('w world, unit) action" where
  "client_session p k cap address m is w =
     (case UnixDomainSocketConnection_ctor p k w of (c, w1) \<Rightarrow>
      case dial (performDial p k) address (c, w1) of (r, c2, w2) \<Rightarrow>
      case (case r of
              Ok _ \<Rightarrow> seqM (map (send_interaction (FileHandleConnection_upcast k cap c2) m) is) w2
            | Throw e \<Rightarrow> (Throw e, w2)
            | Undef \<Rightarrow> (Undef, w2)) of
        (r', w3) \<Rightarrow> (r', UnixDomainSocketConnection_dtor k c2 w3))"

text \<open>A script stops after the first call whose answer is not among the expected ones.\<close>

primrec script :: "'w kernel \<Rightarrow> (syscall \<times> (int \<Rightarrow> bool)) list \<Rightarrow> 'w world \<Rightarrow> bool \<times> 'w world" where
  "script k [] w = (True, w)"
| "script k (x # xs) w =
     (case do_call k (fst x) w of (v, w') \<Rightarrow>
        if snd x (sys_ret v) then script k xs w' else (False, w'))"

definition connect_call :: "platform \<Rightarrow> int \<Rightarrow> std_string \<Rightarrow> syscall" where
  "connect_call p h a = Sys_connect h
     \<lparr>sun_family = AF_UNIX p, sun_path = a @ replicate (sun_path_size p - length a) 0\<rparr>
     (sun_path_offset p + length (c_str a))"

definition write_call :: "int \<Rightarrow> Interaction \<Rightarrow> syscall" where
  "write_call h i = Sys_write h (frame (wire_Interaction i))"

definition took_all :: "Interaction \<Rightarrow> int \<Rightarrow> bool" where
  "took_all i v \<longleftrightarrow> v mod 2 ^ 64 = int (length (wire_Interaction i)) + 4"

definition session_script ::
  "platform \<Rightarrow> int \<Rightarrow> std_string \<Rightarrow> Interaction list \<Rightarrow> (syscall \<times> (int \<Rightarrow> bool)) list" where
  "session_script p h a is =
     (connect_call p h a, \<lambda>v. v = 0) #
     map (\<lambda>i. (write_call h i, took_all i)) (takeWhile sendable_Interaction is)"

definition cooperative :: "'w kernel \<Rightarrow> int \<Rightarrow> bool" where
  "cooperative k h \<longleftrightarrow> 0 \<le> h \<and>
     (\<forall>d t q o'. sys_ret (fst (k (Sys_socket d t q) o')) = h) \<and>
     (\<forall>sa n o'. sys_ret (fst (k (Sys_connect h sa n) o')) = 0) \<and>
     (\<forall>bs o'. sys_ret (fst (k (Sys_write h bs) o')) = int (length bs))"

section \<open>Lemmas\<close>

text \<open>What can be sent has room in a stream and a length that a frame can hold.\<close>

abbreviation roomy :: "nat \<Rightarrow> Interaction list \<Rightarrow> bool" where
  "roomy m is \<equiv> \<forall>i \<in> set is. sendable_Interaction i \<longrightarrow>
     length (wire_Interaction i) \<le> m \<and> length (wire_Interaction i) + 4 < 2 ^ 32"

lemma ret_do_call: "sys_ret (fst (do_call k x w)) = sys_ret (fst (k x (os w)))"
  by (simp add: do_call_def split: prod.splits)

lemma Connection_insert_write:
  "Connection_insert (FileHandleConnection_upcast k cap c) msg =
     Connection_write (FileHandleConnection_rawWrite k c) msg"
  by (rule ext)
    (simp add: Connection_insert_def FileHandleConnection_upcast_def thenM_def bindM_def
      split: prod.splits result.splits)

lemma unat_ret: "unat (word_of_int z :: 64 word) = n \<longleftrightarrow> z mod 2 ^ 64 = int n"
  by (auto simp: unat_eq_nat_uint uint_word_of_int nat_eq_iff)

lemma write_granted:
  assumes "isValidHandle c" and "length (MessageStream_str s) + 4 < 2 ^ 32"
    and "do_call k (Sys_write (fh_handle c) (frame (MessageStream_str s))) w = (v, w')"
  shows "\<exists>r. Connection_write (FileHandleConnection_rawWrite k c) s w = (r, w') \<and>
    (if sys_ret v mod 2 ^ 64 = int (length (MessageStream_str s)) + 4 then r = Ok () else is_Throw r)"
  using assms unat_ret [of "sys_ret v" "length (MessageStream_str s) + 4"]
  by (simp add: Connection_write_frame FileHandleConnection_rawWrite_def)

lemma encode_new:
  assumes "sendable_Interaction i" and "length (wire_Interaction i) \<le> m" and "2 ^ 20 \<le> m"
  shows "\<exists>s. Interaction_encode i (ss_new m) = (Ok (), s) \<and> MessageStream_str s = wire_Interaction i"
  using interactions.enc_all_new [of "[i]" m] assms
  by (auto simp: thenM_def bindM_Ok_iff MessageStream_str_def reading_def)

lemma send_sendable:
  assumes "sendable_Interaction i" and "roomy m [i]" and "2 ^ 20 \<le> m" and "isValidHandle c"
  shows "case do_call k (write_call (fh_handle c) i) w of (v, w') \<Rightarrow>
    \<exists>r. send_interaction (FileHandleConnection_upcast k cap c) m i w = (r, w') \<and>
      (if took_all i (sys_ret v) then r = Ok () else is_Throw r)"
proof -
  obtain s where s: "Interaction_encode i (ss_new m) = (Ok (), s)" "MessageStream_str s = wire_Interaction i"
    using encode_new [of i m] assms by auto
  then have "send_interaction (FileHandleConnection_upcast k cap c) m i w =
      Connection_write (FileHandleConnection_rawWrite k c) s w"
    by (simp add: send_interaction_def Connection_insert_write)
  with write_granted [of c s k w] assms s(2) show ?thesis
    by (auto simp: write_call_def took_all_def split: prod.split if_splits)
qed

lemma send_unsendable:
  assumes "\<not> sendable_Interaction i" and "2 ^ 20 \<le> m"
  shows "\<exists>e. send_interaction c m i w = (Throw e, w)"
  using interactions.enc_unfit [of i "ss_new m"] assms
  by (auto simp: send_interaction_def ample_new is_Throw_iff split: prod.splits)

lemma sends_script:
  assumes "isValidHandle c" and "2 ^ 20 \<le> m" and "roomy m is"
  shows "case script k (map (\<lambda>i. (write_call (fh_handle c) i, took_all i)) (takeWhile sendable_Interaction is)) w of
    (ok, w') \<Rightarrow> \<exists>r. seqM (map (send_interaction (FileHandleConnection_upcast k cap c) m) is) w = (r, w') \<and>
      (if ok \<and> (\<forall>i \<in> set is. sendable_Interaction i) then r = Ok () else is_Throw r)"
  using assms(3)
proof (induction "is" arbitrary: w)
  case (Cons i "is")
  show ?case
  proof (cases "sendable_Interaction i")
    case True
    obtain v w1 where v: "do_call k (write_call (fh_handle c) i) w = (v, w1)"
      by (cases "do_call k (write_call (fh_handle c) i) w")
    obtain r where r: "send_interaction (FileHandleConnection_upcast k cap c) m i w = (r, w1)"
      "if took_all i (sys_ret v) then r = Ok () else is_Throw r"
      using send_sendable [OF True, where c = c and k = k and w = w and cap = cap and m = m] Cons.prems assms v by auto
    obtain ok w2 where sc: "script k (map (\<lambda>i. (write_call (fh_handle c) i, took_all i))
        (takeWhile sendable_Interaction is)) w1 = (ok, w2)" by fastforce
    obtain r2 where r2: "seqM (map (send_interaction (FileHandleConnection_upcast k cap c) m) is) w1 = (r2, w2)"
      "if ok \<and> (\<forall>i \<in> set is. sendable_Interaction i) then r2 = Ok () else is_Throw r2"
      using Cons.IH [of w1] Cons.prems sc by auto
    show ?thesis
    proof (cases "took_all i (sys_ret v)")
      case took: True
      with r have "seqM (map (send_interaction (FileHandleConnection_upcast k cap c) m) (i # is)) w = (r2, w2)"
        using r2(1) by simp
      with True took v sc r2(2) show ?thesis by simp
    next
      case False
      with r obtain e where "r = Throw e" by (auto simp: is_Throw_iff)
      with r(1) have "seqM (map (send_interaction (FileHandleConnection_upcast k cap c) m) (i # is)) w = (Throw e, w1)"
        by simp
      with False True v show ?thesis by simp
    qed
  next
    case False
    obtain e where "send_interaction (FileHandleConnection_upcast k cap c) m i w = (Throw e, w)"
      using send_unsendable [OF False assms(2), of "FileHandleConnection_upcast k cap c" w] by (elim exE)
    with False show ?thesis by simp
  qed
qed simp

lemma session_runs_script:
  assumes "length a < sun_path_size p" and "2 ^ 20 \<le> m" and "roomy m is"
  shows "case do_call k (Sys_socket (AF_UNIX p) (SOCK_STREAM p) 0) w of (v, w1) \<Rightarrow>
    (case client_session p k cap a m is w of (r, w') \<Rightarrow>
      if sys_ret v < 0 then is_Throw r \<and> w' = w1
      else (case script k (session_script p (sys_ret v) a is) w1 of (ok, w2) \<Rightarrow>
        w' = snd (do_call k (Sys_close (sys_ret v)) w2) \<and>
        (if ok \<and> (\<forall>i \<in> set is. sendable_Interaction i) then r = Ok () else is_Throw r)))"
proof -
  obtain v w1 where v: "do_call k (Sys_socket (AF_UNIX p) (SOCK_STREAM p) 0) w = (v, w1)"
    by (cases "do_call k (Sys_socket (AF_UNIX p) (SOCK_STREAM p) 0) w")
  define c where "c = fst (UnixDomainSocketConnection_ctor p k w)"
  have new: "UnixDomainSocketConnection_ctor p k w = (c, w1)" and
    c: "fh_handle c = sys_ret v" "fh_destroy c" "sc_mode c = UndefinedMode"
    using v by (simp_all add: c_def UnixDomainSocketConnection_ctor_def SocketConnection_ctor_def)
  show ?thesis
  proof (cases "sys_ret v < 0")
    case True
    with v new c show ?thesis
      by (simp add: client_session_def dial_def isValidHandle_def UnixDomainSocketConnection_dtor_def
          SocketConnection_dtor_def FileHandleConnection_dtor_def)
  next
    case False
    define d where "d = c\<lparr>sc_mode := ConnectTo, sc_address := a\<rparr>"
    have d: "isValidHandle d" "fh_handle d = sys_ret v" "fh_destroy d"
      using False c by (simp_all add: d_def isValidHandle_def)
    then have close: "UnixDomainSocketConnection_dtor k d = (\<lambda>x. snd (do_call k (Sys_close (sys_ret v)) x))"
      by (simp add: fun_eq_iff UnixDomainSocketConnection_dtor_def SocketConnection_dtor_def
          FileHandleConnection_dtor_def)
    obtain y w2 where y: "do_call k (connect_call p (sys_ret v) a) w1 = (y, w2)"
      by (cases "do_call k (connect_call p (sys_ret v) a) w1")
    have "dial (performDial p k) a (c, w1) =
        (if sys_ret y = 0 then Ok ()
         else Throw (Exception_ctor [Lit ''Could not connect to unix domain socket'']), d, w2)"
      using dial_short [of c a p k w1] False c assms(1) y by (simp add: d_def connect_call_def isValidHandle_def)
    with sends_script [OF d(1) assms(2,3), where k = k and w = w2 and cap = cap] v new y False d show ?thesis
      by (auto simp: client_session_def session_script_def close split: prod.splits if_splits)
  qed
qed

lemma script_granted:
  assumes "\<forall>(x, good) \<in> set xs. \<forall>o'. good (sys_ret (fst (k x o')))"
  shows "\<exists>w'. script k xs w = (True, w') \<and> trace w' = trace w @ map fst xs"
  using assms
proof (induction xs arbitrary: w)
  case (Cons x xs)
  obtain v w1 where v: "do_call k (fst x) w = (v, w1)" by (cases "do_call k (fst x) w")
  then have "sys_ret v = sys_ret (fst (k (fst x) (os w)))" and "trace w1 = trace w @ [fst x]"
    using ret_do_call [of k "fst x" w] trace_do_call [of k "fst x" w] by simp_all
  with Cons.IH [of w1] Cons.prems v show ?case by (auto simp: case_prod_unfold)
qed simp

section \<open>Properties\<close>

text \<open>
  C8. A session follows its script, whatever the operating system answers. A client's session asks
  for a socket. If it gets none it throws and does nothing else. Otherwise it connects to the
  address, writes the interactions as frames, each in one call, up to the first that cannot be
  sent, and stops after the first call that is not answered as it should be; in every case it ends by
  closing its handle. It returns exactly when every interaction could be sent and every call was
  granted, and throws otherwise. The outside world it leaves is the one this script of calls leaves.
\<close>

theorem client_session_follows_script:
  assumes "length a < sun_path_size p" and "2 ^ 20 \<le> m"
    and "\<forall>i \<in> set is. sendable_Interaction i \<longrightarrow>
      length (wire_Interaction i) \<le> m \<and> length (wire_Interaction i) + 4 < 2 ^ 32"
  shows "case do_call k (Sys_socket (AF_UNIX p) (SOCK_STREAM p) 0) w of (v, w1) \<Rightarrow>
    (case client_session p k cap a m is w of (r, w') \<Rightarrow>
      if sys_ret v < 0 then is_Throw r \<and> w' = w1
      else (case script k (session_script p (sys_ret v) a is) w1 of (ok, w2) \<Rightarrow>
        w' = snd (do_call k (Sys_close (sys_ret v)) w2) \<and>
        (if ok \<and> (\<forall>i \<in> set is. sendable_Interaction i) then r = Ok () else is_Throw r)))"
  using assms by (rule session_runs_script)

theorem client_session_follows_script_witness:
  "is_Throw (fst (client_session linux refusing (\<lambda>n. n) [47] (2 ^ 20)
      [Interaction_Request (emplace_Request 0 Clunk)] \<lparr>trace = [], os = ()\<rparr>)) \<and>
   trace (snd (client_session linux refusing (\<lambda>n. n) [47] (2 ^ 20)
      [Interaction_Request (emplace_Request 0 Clunk)] \<lparr>trace = [], os = ()\<rparr>)) =
     [Sys_socket 1 1 0, connect_call linux 3 [47], Sys_close 3]"
proof -
  let ?i = "Interaction_Request (emplace_Request 0 Clunk)"
  have s: "length [47 :: byte] < sun_path_size linux" "AF_UNIX linux = 1" "SOCK_STREAM linux = 1"
    by (simp_all add: linux_def)
  have "length (wire_Interaction ?i) = 7"
    by (simp add: wire_FidRequest_def wire_header_def)
  then show ?thesis
    using client_session_follows_script [OF s(1), where m = "2 ^ 20" and ?is = "[?i]" and k = refusing
        and w = "\<lparr>trace = [], os = ()\<rparr>" and cap = "\<lambda>n. n"] s
    by (auto simp: do_call_def session_script_def connect_call_def split: prod.splits)
qed

text \<open>
  C6. A client gets its messages out. With an operating system that grants its calls, a session
  with an address that fits and interactions that can be sent returns; its calls are the creation
  of the socket, one connect to the address, one write for each interaction, the frame of its wire
  format, in order, and the close of the socket.
\<close>

theorem client_session_completes:
  assumes "cooperative k h" and "length a < sun_path_size p" and "2 ^ 20 \<le> m"
    and "\<forall>i \<in> set is. sendable_Interaction i \<and> length (wire_Interaction i) \<le> m \<and>
      length (wire_Interaction i) + 4 < 2 ^ 32"
  shows "\<exists>w'. client_session p k cap a m is w = (Ok (), w') \<and>
    trace w' = trace w @
      [Sys_socket (AF_UNIX p) (SOCK_STREAM p) 0,
       Sys_connect h \<lparr>sun_family = AF_UNIX p, sun_path = a @ replicate (sun_path_size p - length a) 0\<rparr>
         (sun_path_offset p + length (c_str a))] @
      map (\<lambda>i. Sys_write h (frame (wire_Interaction i))) is @ [Sys_close h]"
proof -
  obtain v w1 where v: "do_call k (Sys_socket (AF_UNIX p) (SOCK_STREAM p) 0) w = (v, w1)"
    by (cases "do_call k (Sys_socket (AF_UNIX p) (SOCK_STREAM p) 0) w")
  then have h: "sys_ret v = h" "0 \<le> h" and t1: "trace w1 = trace w @ [Sys_socket (AF_UNIX p) (SOCK_STREAM p) 0]"
    using assms(1) ret_do_call [of k "Sys_socket (AF_UNIX p) (SOCK_STREAM p) 0" w]
      trace_do_call [of k "Sys_socket (AF_UNIX p) (SOCK_STREAM p) 0" w]
    by (simp_all add: cooperative_def)
  have all: "takeWhile sendable_Interaction is = is"
    using assms(4) by (simp add: takeWhile_eq_all_conv)
  have "\<forall>(x, good) \<in> set (session_script p h a is). \<forall>o'. good (sys_ret (fst (k x o')))"
    using assms(1,4) by (auto simp: session_script_def all connect_call_def write_call_def took_all_def cooperative_def)
  from script_granted [OF this, of w1] obtain w2 where
    "script k (session_script p h a is) w1 = (True, w2)"
    "trace w2 = trace w1 @ map fst (session_script p h a is)" by blast
  with session_runs_script [OF assms(2,3), where k = k and w = w and cap = cap and ?is = "is"] assms(4) v h t1 show ?thesis
    by (auto simp: session_script_def all connect_call_def write_call_def split: prod.splits)
qed

fun helpful :: "unit kernel" where
  "helpful (Sys_socket d t q) o' = (\<lparr>sys_ret = 3, sys_out = []\<rparr>, o')"
| "helpful (Sys_write h bs) o' = (\<lparr>sys_ret = int (length bs), sys_out = []\<rparr>, o')"
| "helpful _ o' = (\<lparr>sys_ret = 0, sys_out = []\<rparr>, o')"

theorem client_session_completes_witness:
  "\<exists>w'. client_session linux helpful (\<lambda>n. n) [47] (2 ^ 20) [Interaction_Request (emplace_Request 0 Clunk)]
      \<lparr>trace = [], os = ()\<rparr> = (Ok (), w') \<and> last (trace w') = Sys_close 3 \<and> length (trace w') = 4"
proof -
  have "cooperative helpful 3" by (simp add: cooperative_def)
  moreover have "length [47 :: byte] < sun_path_size linux" by (simp add: linux_def)
  moreover have "length (wire_Interaction (Interaction_Request (emplace_Request 0 Clunk))) = 7"
    by (simp add: wire_FidRequest_def wire_header_def)
  ultimately show ?thesis
    using client_session_completes [of helpful 3 "[47]" linux "2 ^ 20"
        "[Interaction_Request (emplace_Request 0 Clunk)]" "\<lambda>n. n" "\<lparr>trace = [], os = ()\<rparr>"]
    by auto
qed

end
