(* ===== verification/Spec2Isabelle.thy ===== *)
theory Spec2Isabelle
  imports Core_Bits Stream_Queue Message_Building Refused_Messages Client_Session
begin

text \<open>
  A verification of \<^verbatim>\<open>libkzr\<close>, a C++17 library for messages of the 9P2000 protocol.

  \<^bold>\<open>The program.\<close> The library has two layers. The message layer turns the objects of the protocol
  into bytes of a \<open>MessageStream\<close> and back (\<^verbatim>\<open>Message.cc\<close>, \<^verbatim>\<open>MessageStream.cc\<close>,
  \<^verbatim>\<open>Operations.cc\<close>) and gathers them in the variants \<open>Request\<close>, \<open>Response\<close> and
  \<open>Interaction\<close>, whose reading operators look at the first byte to choose the alternative
  (\<^verbatim>\<open>Interaction.cc\<close>). The connection layer puts the length in front of the contents of a
  stream and moves them over a file handle (\<^verbatim>\<open>Connection.cc\<close>,
  \<^verbatim>\<open>FileHandleConnection.cc\<close>), which may be a socket that is dialled or announced
  (\<^verbatim>\<open>SocketConnection.cc\<close>, \<^verbatim>\<open>UnixDomainSocketConnection.cc\<close>). Errors are exceptions
  (\<^verbatim>\<open>Exception.cc\<close>).

  \<^bold>\<open>The theories.\<close>
  \<^item> \<open>Kzr_Prelude\<close>: bytes, the reference little-endian numbers, shared lemmas.
  \<^item> \<open>Outcome\<close>: \<^verbatim>\<open>Exception.h\<close>, \<^verbatim>\<open>Exception.cc\<close>; the results of operations
    (a value, an exception, or undefined behaviour) and actions on a state.
  \<^item> \<open>Core_Bits\<close>: \<^verbatim>\<open>Core.h\<close>, bit fields.
  \<^item> \<open>Operations\<close>: \<^verbatim>\<open>Operations.h\<close>, the operation codes, their kinds and classes.
  \<^item> \<open>Message_Stream\<close>: \<^verbatim>\<open>MessageStream.h\<close>, \<^verbatim>\<open>MessageStream.cc\<close>,
    \<^verbatim>\<open>Operations.cc\<close>. The state is the stringstream: bytes, two positions, three state bits
    and the size at which it can grow no more.
  \<^item> \<open>Codec\<close>: wire formats, and the locales \<open>encoder\<close>, \<open>codec\<close>,
    \<open>member_codec\<close> and \<open>vector_codec\<close> with the interpretations for integers, strings and
    vectors. \<open>Stream_Properties\<close>: the properties of streams. \<open>Stream_Queue\<close>: the abstract
    specification of a stream as a queue of bytes, and that the stream implements it.
  \<^item> \<open>Messages\<close>: \<^verbatim>\<open>Message.h\<close>, \<^verbatim>\<open>Message.cc\<close>, one record per class and its
    operations. \<open>Message_Codecs\<close>: the wire format of every class, what fits it, what a decoder
    makes of it, and the interpretation of \<open>member_codec\<close> for every class.
  \<^item> \<open>Interaction\<close>: \<^verbatim>\<open>Interaction.h\<close>, \<^verbatim>\<open>Interaction.cc\<close>, with the locale
    \<open>dispatcher\<close>. \<open>Message_Properties\<close>: the properties of messages and interactions.
  \<^item> \<open>Message_Layout\<close>: the layout of every message as a list of fields, the reference all
    encoders are compared with. \<open>Message_Building\<close>: the messages a program can make by default
    construction and the setters of \<^verbatim>\<open>Message.h\<close>, compared with the codes of the protocol
    written out for each class.
  \<^item> \<open>Wire_Uniqueness\<close>: the locale \<open>prefix_code\<close> and its interpretation for every class
    and for interactions: the bytes of a message tell the message and where it ends.
    \<open>Accepted_Streams\<close>: the locales \<open>exact_codec\<close> and \<open>exact_vector\<close> and their
    interpretations: a decoder that returns and leaves the stream good has taken exactly the wire
    format of a value. \<open>Reading_Properties\<close>: what follows for the reading of interactions.
    \<open>Refused_Messages\<close>: what a reader makes of a stream on which a message was refused.
  \<^item> \<open>Connections\<close>: \<^verbatim>\<open>Connection.h\<close>, \<^verbatim>\<open>Connection.cc\<close>,
    \<^verbatim>\<open>FileHandleConnection.h\<close>, \<^verbatim>\<open>FileHandleConnection.cc\<close>, with the locale
    \<open>raw_connection\<close> for one connection and its extension \<open>raw_connections\<close> for many side
    by side. A \<open>Connection\<close> is the record of its two virtual functions, and a file
    handle is seen as one by \<open>FileHandleConnection_upcast\<close>. \<open>Connection_Properties\<close>: their
    properties.
  \<^item> \<open>Sockets\<close>: \<^verbatim>\<open>SocketConnection.h\<close>, \<^verbatim>\<open>SocketConnection.cc\<close>,
    \<^verbatim>\<open>UnixDomainSocketConnection.h\<close>, \<^verbatim>\<open>UnixDomainSocketConnection.cc\<close>, with the locale
    \<open>socket_impl\<close> and the step relation \<open>socket_step\<close>. \<open>Socket_Properties\<close>: their
    properties.
  \<^item> \<open>Client_Session\<close>: all components at work for a client that dials, sends and is done, with
    the abstract specification \<open>script\<close>.
  \<^item> This theory: the way of a message through both layers.

  \<^bold>\<open>How the code is modelled.\<close> Integers have their width: \<^verbatim>\<open>uint8_t\<close> to \<^verbatim>\<open>uint64_t\<close> and
  \<^verbatim>\<open>size_t\<close> are words. A class is a record, an enumeration a datatype (\<open>Operation\<close>, whose
  values come from the wire and may be no enumerator, is a byte), a \<^verbatim>\<open>std::variant\<close> a datatype
  with a constructor per alternative. A member function that changes its object is an action or
  gives the object back. What the state was changed to before an exception is kept.

  \<^bold>\<open>Parameters.\<close> What the sources leave open is an argument of the definitions that depend on it:
  \<^item> \<open>arg_order\<close>: the order in which a compiler evaluates the two arguments of the
    \<^verbatim>\<open>build\<close> call in \<^verbatim>\<open>decode(uint64_t&)\<close>;
  \<^item> \<open>u\<close>: the value of \<^verbatim>\<open>_msize\<close> in a \<open>VersionMessage\<close> that was never set;
  \<^item> \<open>ss_max\<close>: the size at which a stream can grow no more, for lack of memory or by
    \<^verbatim>\<open>max_size\<close>;
  \<^item> \<open>kernel\<close>: the operating system, any function from calls to answers;
  \<^item> \<open>platform\<close>: the constants of the system headers;
  \<^item> \<open>cap\<close>: the capacity a string of a given size has.

  \<^bold>\<open>What is shown.\<close> Of streams: an invariant of every operation, for \<^verbatim>\<open>str(s)\<close> with the
  condition on the new contents under which it holds, the little-endian form of every integer, the round trip of integers, the behaviour of every operation on short, long and failed
  streams, and that a stream used in any order simulates a queue of bytes. Of messages: every class
  is a codec, every encoder writes what its layout says and stops with the exception of the first
  field that cannot be written, the messages a program can make are those with the operation code of
  their class and, for version messages, the tag \<^verbatim>\<open>notag\<close>, the bytes of a sequence of messages
  tell the messages, what is received is determined by what was sent and is the same but for its
  strings, which are empty, the alternative that is chosen agrees with the operation code, a
  message that was refused is read all the same when its stream is used again, which bytes are
  refused with which exception, exactly which bytes are read without a failure, that a message that is cut off never
  is, and that a stream is read to its end in a bounded number of steps. Of connections: what the
  operating system is handed on each of many handles is exactly the frames meant for it, in order
  and however the writes are interleaved, and they can be told apart; what a write does on every
  branch, the wrap-around of the length field included; a read can never succeed. Of sockets: the calls of every branch and which answers to them end it
  with which exception, that there is one chance only, and the protocol of calls over the life of a
  socket as an invariant of its step relation. Of both layers together: the bytes of an interaction
  that is sent reach the operating system whole, and what is read back from them is the interaction
  without its strings; a client's session follows its script of system calls whatever they are
  answered with, and completes when they are granted.

  \<^bold>\<open>Layers of the proofs.\<close> \<open>emits\<close> (what an encoder writes), \<open>lays\<close> (that it follows a list
  of fields, exceptions included), \<open>reads_only\<close> (a decoder does not disturb), \<open>accepts\<close> (which
  bytes a decoder takes) and \<open>consumes\<close> (at least how many) are predicates on actions with a rule
  for each way of composing them; the rules are collected in \<open>emits_intros\<close>, \<open>lays_intros\<close>,
  \<open>reads_only_intros\<close> and \<open>accepts_intros\<close> and are applied to each class along its definition.
  \<open>holds\<close> and \<open>simulates\<close> carry the refinement of the queue, with one lemma of \<open>exact_codec\<close>
  for all decoders of a fixed size.

  \<^bold>\<open>Bounds.\<close> \<open>ample\<close> is a stream that can hold \<open>2 ^ 20\<close> bytes. The inner stream of a
  \<open>Stat\<close> is bounded by the same memory as the outer one, and the longest inner message that can be
  sent has 65535 bytes, so a mebibyte is more than enough for the encoders to behave alike. The
  theorems on frames ask for contents whose length plus four is below \<open>2 ^ 32\<close>, the range of
  the length field; what happens beyond is stated apart. There is no fuel: every definition is
  total by structural recursion. \<open>receive\<close> reads a given number of interactions; that this
  number is bounded by the bytes of the stream is a theorem (\<open>reading_terminates\<close>).

  \<^bold>\<open>What is not modelled.\<close>
  \<^item> \<^verbatim>\<open>AccessPermissions.h\<close> has no declaration in its name space; \<^verbatim>\<open>Makefile\<close> and
    \<^verbatim>\<open>config.mk\<close> build the library.
  \<^item> The deleted copy and move operations and defaulted destructors have no behaviour at run
    time. The table that binds message types to operations is seen in the types of the
    alternatives of the variants and, read the other way round, in \<open>kind_Request\<close> and
    \<open>kind_Response\<close>; the templates around it compute nothing. Getters are the selectors of the records. The operator
    templates for a message, and the templates \<^verbatim>\<open>encode\<close> and \<^verbatim>\<open>decode\<close> of
    \<open>MessageStream\<close>, only call \<^verbatim>\<open>encode\<close> or \<^verbatim>\<open>decode\<close> of their argument; they have no
    definition of their own, and the code of the messages is modelled with the members they call.
  \<^item> \<^verbatim>\<open>decode(std::string&)\<close> writes through \<^verbatim>\<open>data()\<close> beyond the size of the string,
    into reserved storage. The standard does not define that; the model follows what the
    implementations do, which is that the value of the string does not change there.
  \<^item> An output operation on a stream that is not good writes nothing and sets the fail bit, as
    implementations do; the standard says that the sentry may set it.
  \<^item> A \<open>FileHandleConnection\<close> can be copied implicitly, and each copy would close the handle. There
    are no copies in the library and none in the model; one object has one destructor call.
  \<^item> \<^verbatim>\<open>RecieveInteraction\<close> (\<^verbatim>\<open>Interaction.h\<close>) is the name of a function type that nothing
    in the library uses. \<^verbatim>\<open>SendInteraction\<close> is the type of \<open>send_interaction\<close>.
  \<^item> The calls of \<^verbatim>\<open>reserve\<close>, with a size that may come from the wire, only allocate.
  \<^item> Allocation failure other than in the stream of a message, signals, and threads.
\<close>

section \<open>Through both layers\<close>

lemma set_str_reading: "MessageStream_set_str bs (ss_new m) = reading (ss_new m) [] (bs @ [])"
  by (simp add: MessageStream_set_str_def ss_set_str_def reading_def ss_new_def)

text \<open>
  C2. A message on its way. Take an interaction that can be sent. It is encoded to a new stream
  without an exception; when the operating system takes all bytes, writing that stream to a valid
  handle returns and has handed over one frame, the length and the wire format of the interaction.
  Whoever takes the four bytes of the length off can read an interaction from the rest and uses it
  up. What is read is \<open>received_Interaction\<close> of the one that was sent: the same message with all
  strings empty and, when arguments are evaluated from right to left, with the halves of 64-bit
  numbers exchanged. With evaluation from left to right it is the interaction that was sent exactly
  when all strings of that are empty.
\<close>

theorem interaction_through_connection:
  assumes "sendable_Interaction i" and "wf_Interaction i"
    and "length (wire_Interaction i) \<le> m" and "2 ^ 20 \<le> m" and "length (wire_Interaction i) + 4 < 2 ^ 32"
    and "isValidHandle c"
    and "sys_ret (fst (k (Sys_write (fh_handle c) (frame (wire_Interaction i))) (os w))) =
      int (length (wire_Interaction i)) + 4"
  shows "\<exists>s w' s'. Interaction_encode i (ss_new m) = (Ok (), s) \<and>
    Connection_write (FileHandleConnection_rawWrite k c) s w = (Ok (), w') \<and>
    written (fh_handle c) w' = written (fh_handle c) w @ [frame (wire_Interaction i)] \<and>
    extract_Interaction ord u t
      (MessageStream_set_str (drop 4 (last (written (fh_handle c) w'))) (ss_new m')) =
      (Ok (), received_Interaction ord i, s') \<and> ss_get s' = length (ss_buf s') \<and>
    (ord = LeftFirst \<longrightarrow>
      (received_Interaction ord i = i \<longleftrightarrow> (\<forall>v \<in> set (strings_Interaction i). v = [])))"
proof -
  obtain s where e: "Interaction_encode i (ss_new m) = (Ok (), s)" and b: "MessageStream_str s = wire_Interaction i"
    using encode_new [OF assms(1,3,4)] by blast
  obtain v w' where v: "do_call k (Sys_write (fh_handle c) (frame (wire_Interaction i))) w = (v, w')"
    by (cases "do_call k (Sys_write (fh_handle c) (frame (wire_Interaction i))) w")
  then have "sys_ret v = int (length (wire_Interaction i)) + 4"
    using assms(7) ret_do_call [of k "Sys_write (fh_handle c) (frame (wire_Interaction i))" w] by simp
  then have w: "Connection_write (FileHandleConnection_rawWrite k c) s w = (Ok (), w')"
    using write_granted [of c s k w v w'] assms(5,6) b v by auto
  from file_handles.one.write_Ok [OF w] assms(5) b
  have sent: "written (fh_handle c) w' = written (fh_handle c) w @ [frame (wire_Interaction i)]" by simp
  have "drop 4 (frame (wire_Interaction i)) = wire_Interaction i"
    by (simp add: frame_def)
  with e w sent extract_Interaction_wire [OF assms(1,2) ss_good_new(1), of ord u t m' "[]" "[]"]
  show ?thesis
    using received_eq_iff [of i] by (simp add: set_str_reading)
qed

theorem interaction_through_connection_witness:
  "\<exists>s w' s'. Interaction_encode (Interaction_Request (emplace_Request 0 Clunk)) (ss_new (2 ^ 20)) = (Ok (), s) \<and>
    Connection_write (FileHandleConnection_rawWrite greedy (FileHandleConnection_ctor 3 True)) s
      \<lparr>trace = [], os = ()\<rparr> = (Ok (), w') \<and>
    written 3 w' = [frame (wire_Interaction (Interaction_Request (emplace_Request 0 Clunk)))] \<and>
    extract_Interaction LeftFirst 0 (Interaction_Request (emplace_Request 0 Walk))
      (MessageStream_set_str (drop 4 (last (written 3 w'))) (ss_new 99)) =
      (Ok (), Interaction_Request (emplace_Request 0 Clunk), s') \<and>
    ss_get s' = length (ss_buf s')"
proof -
  let ?i = "Interaction_Request (emplace_Request 0 Clunk)"
  have l: "length (wire_Interaction ?i) = 7"
    by (simp add: wire_FidRequest_def wire_header_def)
  have "sendable_Interaction ?i" and "wf_Interaction ?i"
    by (simp_all add: wf_Request_def)
  from interaction_through_connection [OF this, of "2 ^ 20" "FileHandleConnection_ctor 3 True" greedy
      "\<lparr>trace = [], os = ()\<rparr>" LeftFirst 0 "Interaction_Request (emplace_Request 0 Walk)" 99] l
  show ?thesis
    by (simp add: isValidHandle_def FileHandleConnection_ctor_def written_def)
qed

end
